(* ===== verification/Js_Base.thy ===== *)
theory Js_Base
  imports
    Complex_Main
    "HOL-Library.AList"
    "HOL-Library.Char_ord"
    "HOL-Library.List_Lexorder"
    "HOL-Library.Multiset"
begin

text \<open>
  Prelude of the development: the fragment of JavaScript that the TypeScript sources under
  \<open>src/\<close> use, as plain HOL.

  \<^item> Exceptions are values of \<open>js_error\<close>, one constructor per class the sources throw; a
    function that may throw returns \<open>js_error + 'a\<close> (\<open>Inl\<close> for a throw).
  \<^item> An \<open>async\<close> function is a \<open>('w, 'a) proc\<close>: it takes the state of the world (the services
    it talks to, and the log of what was sent) and returns a result and the next world.
    \<open>pbind\<close> is \<open>await\<close>, \<open>pcatch\<close> is \<open>try/catch\<close>; \<open>wp\<close> is its weakest precondition.
  \<^item> A number that arrives from outside is a \<open>jnum\<close> (finite, NaN or infinite), so that
    \<open>Number.isSafeInteger\<close> is a real test; a \<open>bigint\<close> and the process's own clock are \<open>int\<close>.
  \<^item> A string is a \<open>string\<close>, each \<open>char\<close> one UTF-16 code unit of the range 0 to 255. Lengths and
    comparisons are those of the source on that range.
  \<^item> A JSON value of unknown shape is a \<open>json\<close>; a missing property reads as \<open>JUndef\<close>.
  \<^item> A JavaScript \<open>Map\<close> is an association list in insertion order.
\<close>

named_theorems wp_simps \<open>weakest preconditions of procedures\<close>
named_theorems wp_intros \<open>introduction rules for weakest preconditions\<close>
named_theorems js_defs \<open>small helpers of the JavaScript fragment, unfolded on closed terms\<close>

section \<open>Exceptions\<close>

datatype js_error =
    Err string
  | PaymentQuoteErr nat string
  | PayShProxyErr nat string
  | TopUpRequestErr nat string
  | BundleFundingModeErr nat string
  | RustApiErr nat string
  | PaymentErr string string
  | ApiErr string nat string
  | PayShPaymentNotSentErr
  | AmbiguousPayShPaymentErr
  | AggregateErr "js_error list"
  | OutOfFuel

type_synonym 'a outcome = "js_error + 'a"

fun rbind :: "'a outcome \<Rightarrow> ('a \<Rightarrow> 'b outcome) \<Rightarrow> 'b outcome" where
  "rbind (Inl e) f = Inl e"
| "rbind (Inr a) f = f a"

definition require :: "bool \<Rightarrow> js_error \<Rightarrow> 'a outcome \<Rightarrow> 'a outcome" where
  "require b e k = (if b then k else Inl e)"

definition of_opt :: "js_error \<Rightarrow> 'a option \<Rightarrow> 'a outcome" where
  "of_opt e m = (case m of None \<Rightarrow> Inl e | Some a \<Rightarrow> Inr a)"

definition succeeds :: "'a outcome \<Rightarrow> bool" where
  "succeeds r = (case r of Inl _ \<Rightarrow> False | Inr _ \<Rightarrow> True)"

lemma rbind_Inr_iff: "rbind m f = Inr b \<longleftrightarrow> (\<exists>a. m = Inr a \<and> f a = Inr b)"
  by (cases m) auto

text \<open>\<open>xs.map (f)\<close> where \<open>f\<close> may throw.\<close>

fun rmap :: "('a \<Rightarrow> 'b outcome) \<Rightarrow> 'a list \<Rightarrow> 'b list outcome" where
  "rmap f [] = Inr []"
| "rmap f (x # xs) = rbind (f x) (\<lambda>b. rbind (rmap f xs) (\<lambda>bs. Inr (b # bs)))"

lemma rmap_Inr: "rmap f xs = Inr bs \<Longrightarrow> list_all2 (\<lambda>x b. f x = Inr b) xs bs"
  by (induction xs arbitrary: bs) (auto simp: rbind_Inr_iff)

lemma require_Inr_iff [simp]: "require b e k = Inr a \<longleftrightarrow> b \<and> k = Inr a"
  by (simp add: require_def)

lemma case_option_False: "(case m of None \<Rightarrow> False | Some a \<Rightarrow> P a) \<longleftrightarrow> (\<exists>a. m = Some a \<and> P a)"
  by (cases m) auto

lemma case_option_None: "(case m of None \<Rightarrow> None | Some a \<Rightarrow> f a) = Some b \<longleftrightarrow> (\<exists>a. m = Some a \<and> f a = Some b)"
  by (cases m) auto

lemma require_True [simp]: "require True e k = k"
  by (simp add: require_def)

lemma require_False [simp]: "require False e k = Inl e"
  by (simp add: require_def)

lemma of_opt_Inr_iff [simp]: "of_opt e m = Inr a \<longleftrightarrow> m = Some a"
  by (cases m) (auto simp: of_opt_def)

lemma of_opt_Some [simp]: "of_opt e (Some a) = Inr a"
  by (simp add: of_opt_def)

lemma of_opt_None [simp]: "of_opt e None = Inl e"
  by (simp add: of_opt_def)

lemma succeeds_simps [simp]: "succeeds (Inr a)" "\<not> succeeds (Inl e)"
  by (simp_all add: succeeds_def)

lemma succeeds_require [simp]: "succeeds (require b e k) \<longleftrightarrow> b \<and> succeeds k"
  by (simp add: require_def)

lemma succeeds_iff: "succeeds r \<longleftrightarrow> (\<exists>a. r = Inr a)"
  by (cases r) auto

text \<open>\<open>error.message\<close>, shortened as the errors are.\<close>

fun js_message :: "js_error \<Rightarrow> string" where
  "js_message (Err s) = s"
| "js_message (PayShProxyErr _ s) = s"
| "js_message (TopUpRequestErr _ s) = s"
| "js_message (PaymentQuoteErr _ s) = s"
| "js_message (BundleFundingModeErr _ s) = s"
| "js_message (RustApiErr _ s) = s"
| "js_message (PaymentErr _ s) = s"
| "js_message (ApiErr s _ _) = s"
| "js_message _ = []"

section \<open>Asynchronous procedures\<close>

type_synonym ('w, 'a) proc = "'w \<Rightarrow> 'a outcome \<times> 'w"

definition pret :: "'a \<Rightarrow> ('w, 'a) proc" where
  "pret a w = (Inr a, w)"

definition praise :: "js_error \<Rightarrow> ('w, 'a) proc" where
  "praise e w = (Inl e, w)"

definition pbind :: "('w, 'a) proc \<Rightarrow> ('a \<Rightarrow> ('w, 'b) proc) \<Rightarrow> ('w, 'b) proc" where
  "pbind m f w = (case m w of (Inl e, w') \<Rightarrow> (Inl e, w') | (Inr a, w') \<Rightarrow> f a w')"

definition pcatch :: "('w, 'a) proc \<Rightarrow> (js_error \<Rightarrow> ('w, 'a) proc) \<Rightarrow> ('w, 'a) proc" where
  "pcatch m h w = (case m w of (Inl e, w') \<Rightarrow> h e w' | (Inr a, w') \<Rightarrow> (Inr a, w'))"

text \<open>\<open>try m finally c\<close>: the cleanup always runs, and its own throw replaces the outcome.\<close>

definition pfinally :: "('w, 'a) proc \<Rightarrow> ('w, unit) proc \<Rightarrow> ('w, 'a) proc" where
  "pfinally m c w =
     (case m w of (r, w') \<Rightarrow> (case c w' of (Inl e, w'') \<Rightarrow> (Inl e, w'') | (Inr _, w'') \<Rightarrow> (r, w'')))"

definition plift :: "'a outcome \<Rightarrow> ('w, 'a) proc" where
  "plift r w = (r, w)"

definition pget :: "('w \<Rightarrow> 'a) \<Rightarrow> ('w, 'a) proc" where
  "pget f w = (Inr (f w), w)"

definition pmod :: "('w \<Rightarrow> 'w) \<Rightarrow> ('w, unit) proc" where
  "pmod f w = (Inr (), f w)"

definition prequire :: "bool \<Rightarrow> js_error \<Rightarrow> ('w, unit) proc" where
  "prequire b e w = ((if b then Inr () else Inl e), w)"

text \<open>
  \<open>Promise.all (xs.map f)\<close>. The requests of the concurrent branches are independent, so the
  model runs them in list order; whatever the branches observe in an interleaved run, some world
  answers the same way in this order.
\<close>

fun pmapM :: "('a \<Rightarrow> ('w, 'b) proc) \<Rightarrow> 'a list \<Rightarrow> ('w, 'b list) proc" where
  "pmapM f [] = pret []"
| "pmapM f (x # xs) = pbind (f x) (\<lambda>b. pbind (pmapM f xs) (\<lambda>bs. pret (b # bs)))"

fun pforM :: "'a list \<Rightarrow> ('a \<Rightarrow> ('w, unit) proc) \<Rightarrow> ('w, unit) proc" where
  "pforM [] f = pret ()"
| "pforM (x # xs) f = pbind (f x) (\<lambda>_. pforM xs f)"

definition wp :: "('w, 'a) proc \<Rightarrow> ('a \<Rightarrow> 'w \<Rightarrow> bool) \<Rightarrow> (js_error \<Rightarrow> 'w \<Rightarrow> bool) \<Rightarrow> 'w \<Rightarrow> bool" where
  "wp m Q E w = (case m w of (Inl e, w') \<Rightarrow> E e w' | (Inr a, w') \<Rightarrow> Q a w')"

lemma wp_pret [wp_simps]: "wp (pret a) Q E = Q a"
  by (rule ext) (simp add: wp_def pret_def)

lemma wp_praise [wp_simps]: "wp (praise e) Q E = E e"
  by (rule ext) (simp add: wp_def praise_def)

lemma wp_pbind [wp_simps]: "wp (pbind m f) Q E = wp m (\<lambda>a. wp (f a) Q E) E"
  by (rule ext) (simp add: wp_def pbind_def split: prod.splits sum.splits)

lemma wp_pcatch [wp_simps]: "wp (pcatch m h) Q E = wp m Q (\<lambda>e. wp (h e) Q E)"
  by (rule ext) (simp add: wp_def pcatch_def split: prod.splits sum.splits)

lemma wp_pfinally [wp_simps]:
  "wp (pfinally m c) Q E = wp m (\<lambda>a. wp c (\<lambda>_. Q a) E) (\<lambda>e. wp c (\<lambda>_. E e) E)"
  by (rule ext) (simp add: wp_def pfinally_def split: prod.splits sum.splits)

lemma wp_plift [wp_simps]:
  "wp (plift r) Q E = (\<lambda>w. case r of Inl e \<Rightarrow> E e w | Inr a \<Rightarrow> Q a w)"
  by (rule ext) (simp add: wp_def plift_def split: sum.splits)

lemma wp_pget [wp_simps]: "wp (pget f) Q E = (\<lambda>w. Q (f w) w)"
  by (rule ext) (simp add: wp_def pget_def)

lemma wp_pmod [wp_simps]: "wp (pmod f) Q E = (\<lambda>w. Q () (f w))"
  by (rule ext) (simp add: wp_def pmod_def)

lemma wp_prequire [wp_simps]: "wp (prequire b e) Q E = (\<lambda>w. if b then Q () w else E e w)"
  by (rule ext) (simp add: wp_def prequire_def)

lemma wp_if [wp_simps]:
  "wp (if b then m else n) Q E = (\<lambda>w. if b then wp m Q E w else wp n Q E w)"
  by (rule ext) simp

lemma wp_case_option [wp_simps]:
  "wp (case x of None \<Rightarrow> m | Some a \<Rightarrow> f a) Q E = (\<lambda>w. case x of None \<Rightarrow> wp m Q E w | Some a \<Rightarrow> wp (f a) Q E w)"
  by (rule ext) (simp split: option.splits)

lemma wp_Inr: "m w = (Inr a, w') \<Longrightarrow> wp m Q E w = Q a w'"
  by (simp add: wp_def)

lemma wp_Inl: "m w = (Inl e, w') \<Longrightarrow> wp m Q E w = E e w'"
  by (simp add: wp_def)

lemma wpD: "wp m Q E w \<Longrightarrow> m w = (Inr a, w') \<Longrightarrow> Q a w'"
  by (simp add: wp_def)

lemma wpD_err: "wp m Q E w \<Longrightarrow> m w = (Inl e, w') \<Longrightarrow> E e w'"
  by (simp add: wp_def)

lemma wp_mono:
  "wp m Q E w \<Longrightarrow> (\<And>a w'. Q a w' \<Longrightarrow> Q' a w') \<Longrightarrow> (\<And>e w'. E e w' \<Longrightarrow> E' e w') \<Longrightarrow> wp m Q' E' w"
  by (auto simp: wp_def split: prod.splits sum.splits)

lemma wp_True [simp]: "wp m (\<lambda>_ _. True) (\<lambda>_ _. True) w"
  by (simp add: wp_def split: prod.splits sum.splits)

text \<open>A \<open>Promise.all\<close> whose branches all keep an invariant keeps it.\<close>

lemma wp_pmapM_inv:
  assumes "\<And>x w. x \<in> set xs \<Longrightarrow> I w \<Longrightarrow> wp (f x) (\<lambda>b w'. I w' \<and> R x b) (\<lambda>_. I) w"
    and "I w"
  shows "wp (pmapM f xs) (\<lambda>bs w'. I w' \<and> list_all2 R xs bs) (\<lambda>_. I) w"
  using assms
proof (induction xs arbitrary: w)
  case Nil
  then show ?case by (simp add: wp_simps)
next
  case (Cons x xs)
  have "wp (f x) (\<lambda>b w'. I w' \<and> R x b) (\<lambda>_. I) w"
    using Cons.prems by simp
  then have "wp (f x) (\<lambda>b. wp (pmapM f xs) (\<lambda>bs w'. I w' \<and> list_all2 R (x # xs) (b # bs)) (\<lambda>_. I)) (\<lambda>_. I) w"
  proof (rule wp_mono)
    fix b w' assume b: "I w' \<and> R x b"
    have "wp (pmapM f xs) (\<lambda>bs w'. I w' \<and> list_all2 R xs bs) (\<lambda>_. I) w'"
      using Cons.IH Cons.prems b by simp
    then show "wp (pmapM f xs) (\<lambda>bs w'. I w' \<and> list_all2 R (x # xs) (b # bs)) (\<lambda>_. I) w'"
      by (rule wp_mono) (auto simp: b)
  qed
  then show ?case
    by (simp only: pmapM.simps wp_simps)
qed

text \<open>A \<open>Promise.all\<close> whose branches each add at most \<open>k\<close> to a counter adds at most \<open>k\<close> per branch.\<close>

lemma wp_pmapM_count:
  assumes "\<And>x w. x \<in> set xs \<Longrightarrow> wp (f x) (\<lambda>_ w'. c w' \<le> c w + k) (\<lambda>_ w'. c w' \<le> c w + k) w"
  shows "wp (pmapM f xs) (\<lambda>_ w'. c w' \<le> c w + k * length xs) (\<lambda>_ w'. (c w' :: nat) \<le> c w + k * length xs) w"
  using assms
proof (induction xs arbitrary: w)
  case Nil
  then show ?case by (simp add: wp_simps)
next
  case (Cons x xs)
  have "wp (f x) (\<lambda>b. wp (pmapM f xs) (\<lambda>_ w'. c w' \<le> c w + k * length (x # xs)) (\<lambda>_ w'. c w' \<le> c w + k * length (x # xs)))
      (\<lambda>_ w'. c w' \<le> c w + k * length (x # xs)) w"
  proof (rule wp_mono [OF Cons.prems])
    fix b w' assume b: "c w' \<le> c w + k"
    show "wp (pmapM f xs) (\<lambda>_ w'. c w' \<le> c w + k * length (x # xs)) (\<lambda>_ w'. c w' \<le> c w + k * length (x # xs)) w'"
      by (rule wp_mono [OF Cons.IH]) (use Cons.prems b in auto)
  qed auto
  then show ?case by (simp only: pmapM.simps wp_simps)
qed

text \<open>A \<open>Promise.all\<close> whose branches never throw does not throw.\<close>

lemma wp_pmapM_total:
  assumes "\<And>x w. x \<in> set xs \<Longrightarrow> wp (f x) (\<lambda>b _. R x b) (\<lambda>_ _. False) w"
  shows "wp (pmapM f xs) (\<lambda>bs _. list_all2 R xs bs) (\<lambda>_ _. False) w"
  using assms
proof (induction xs arbitrary: w)
  case (Cons y ys w)
  have "wp (f y) (\<lambda>b. wp (pmapM f ys) (\<lambda>bs _. list_all2 R (y # ys) (b # bs)) (\<lambda>_ _. False)) (\<lambda>_ _. False) w"
  proof (rule wp_mono [OF Cons.prems])
    fix b w' assume b: "R y b"
    show "wp (pmapM f ys) (\<lambda>bs _. list_all2 R (y # ys) (b # bs)) (\<lambda>_ _. False) w'"
      by (rule wp_mono [OF Cons.IH]) (use Cons.prems b in auto)
  qed auto
  then show ?case by (simp only: pmapM.simps wp_simps)
qed (simp add: wp_simps)

lemma pmapM_map: "pmapM f (map g xs) = pmapM (\<lambda>x. f (g x)) xs"
  by (induction xs) simp_all

lemma pmapM_length: "pmapM f xs w = (Inr bs, w') \<Longrightarrow> length bs = length xs"
  by (induction xs arbitrary: w bs)
    (auto simp: pret_def pbind_def split: prod.splits sum.splits)

section \<open>The world as a log of requests\<close>

text \<open>
  The most general environment: what a service answers may depend on everything asked before.
  The world is the list of requests made so far, and \<open>ask env\<close> records one more. Properties
  about the order of effects are stated over this log.
\<close>

definition ask :: "('e list \<Rightarrow> 'e \<Rightarrow> 'r outcome) \<Rightarrow> 'e \<Rightarrow> ('e list, 'r) proc" where
  "ask env ev w = (env w ev, w @ [ev])"

lemma wp_ask [wp_simps]:
  "wp (ask env ev) Q E =
     (\<lambda>w. case env w ev of Inl e \<Rightarrow> E e (w @ [ev]) | Inr r \<Rightarrow> Q r (w @ [ev]))"
  by (rule ext) (simp add: wp_def ask_def split: sum.splits)

text \<open>The same rules as introductions, for procedures with calls that have a lemma of their own.\<close>

lemma wp_pbindI [wp_intros]: "wp m (\<lambda>a. wp (f a) Q E) E w \<Longrightarrow> wp (pbind m f) Q E w"
  by (simp add: wp_simps)

lemma wp_pcatchI [wp_intros]: "wp m Q (\<lambda>e. wp (h e) Q E) w \<Longrightarrow> wp (pcatch m h) Q E w"
  by (simp add: wp_simps)

lemma wp_pretI [wp_intros]: "Q a w \<Longrightarrow> wp (pret a) Q E w"
  by (simp add: wp_simps)

lemma wp_praiseI [wp_intros]: "E e w \<Longrightarrow> wp (praise e) Q E w"
  by (simp add: wp_simps)

lemma wp_pliftI [wp_intros]:
  "(\<And>a. r = Inr a \<Longrightarrow> Q a w) \<Longrightarrow> (\<And>e. r = Inl e \<Longrightarrow> E e w) \<Longrightarrow> wp (plift r) Q E w"
  by (simp add: wp_simps split: sum.splits)

lemma wp_askI [wp_intros]:
  "(\<And>r. env w ev = Inr r \<Longrightarrow> Q r (w @ [ev])) \<Longrightarrow> (\<And>e. env w ev = Inl e \<Longrightarrow> E e (w @ [ev])) \<Longrightarrow>
   wp (ask env ev) Q E w"
  by (simp add: wp_simps split: sum.splits)

lemma wp_ifI [wp_intros]:
  "(b \<Longrightarrow> wp m Q E w) \<Longrightarrow> (\<not> b \<Longrightarrow> wp n Q E w) \<Longrightarrow> wp (if b then m else n) Q E w"
  by simp

lemma wp_optionI [wp_intros]:
  "(x = None \<Longrightarrow> wp m Q E w) \<Longrightarrow> (\<And>a. x = Some a \<Longrightarrow> wp (f a) Q E w) \<Longrightarrow>
   wp (case x of None \<Rightarrow> m | Some a \<Rightarrow> f a) Q E w"
  by (simp split: option.splits)

lemma wp_prodI [wp_intros]:
  "(\<And>a b. x = (a, b) \<Longrightarrow> wp (f a b) Q E w) \<Longrightarrow> wp (case x of (a, b) \<Rightarrow> f a b) Q E w"
  by (cases x) simp

lemma wp_letI [wp_intros]: "wp (f x) Q E w \<Longrightarrow> wp (let y = x in f y) Q E w"
  by simp

text \<open>
  Statements about a log. \<open>log_inv P h\<close>: every event of \<open>h\<close> satisfies \<open>P\<close> together with the events
  before it. \<open>answered env h ev r\<close>: at some point of \<open>h\<close> the request \<open>ev\<close> was made and answered \<open>r\<close>.
\<close>

definition log_inv :: "('e list \<Rightarrow> 'e \<Rightarrow> bool) \<Rightarrow> 'e list \<Rightarrow> bool" where
  "log_inv P h \<longleftrightarrow> (\<forall>i < length h. P (take i h) (h ! i))"

definition answered :: "('e list \<Rightarrow> 'e \<Rightarrow> 'r outcome) \<Rightarrow> 'e list \<Rightarrow> 'e \<Rightarrow> 'r \<Rightarrow> bool" where
  "answered env h ev r \<longleftrightarrow> (\<exists>pre post. h = pre @ ev # post \<and> env pre ev = Inr r)"

lemma log_inv_simps [simp]:
  "log_inv P []" "log_inv P (h @ [ev]) \<longleftrightarrow> log_inv P h \<and> P h ev"
  by (auto simp: log_inv_def less_Suc_eq nth_append)

lemma log_inv_single [simp]: "log_inv P [ev] \<longleftrightarrow> P [] ev"
  by (simp add: log_inv_def)

lemma log_invD: "log_inv P (pre @ ev # post) \<Longrightarrow> P pre ev"
  unfolding log_inv_def by (drule spec [of _ "length pre"]) simp

lemma answered_append: "answered env h ev r \<Longrightarrow> answered env (h @ h') ev r"
  by (auto simp: answered_def) (metis append_Cons append_assoc)

lemma answered_last: "env h ev = Inr r \<Longrightarrow> answered env (h @ [ev]) ev r"
  by (auto simp: answered_def)

text \<open>\<open>extends h h'\<close>: the log \<open>h'\<close> continues \<open>h\<close>. A \<open>Promise.all\<close> or a loop whose steps never throw,
  extend the log, keep an invariant and establish a fact that later requests do not undo,
  establishes the fact for every element.\<close>

definition extends :: "'e list \<Rightarrow> 'e list \<Rightarrow> bool" where
  "extends h h' \<longleftrightarrow> (\<exists>ext. h' = h @ ext)"

lemma extends_refl [simp, intro]: "extends h h"
  by (simp add: extends_def)

lemma extends_append [simp]: "extends h h' \<Longrightarrow> extends h (h' @ ext)"
  by (auto simp: extends_def)

lemma extends_trans: "extends h h' \<Longrightarrow> extends h' h'' \<Longrightarrow> extends h h''"
  by (auto simp: extends_def)

lemma wp_pmapM_extends:
  assumes "\<And>x h. x \<in> set xs \<Longrightarrow> I h \<Longrightarrow> wp (f x) (\<lambda>b h'. I h' \<and> extends h h' \<and> R x b h') (\<lambda>_ _. False) h"
    and mono: "\<And>x b h ext. R x b h \<Longrightarrow> R x b (h @ ext)"
    and "I h"
  shows "wp (pmapM f xs) (\<lambda>bs h'. I h' \<and> extends h h' \<and> list_all2 (\<lambda>x b. R x b h') xs bs) (\<lambda>_ _. False) h"
  using assms(1,3)
proof (induction xs arbitrary: h)
  case (Cons x xs)
  have "wp (f x) (\<lambda>b. wp (pmapM f xs) (\<lambda>bs h'. I h' \<and> extends h h' \<and> list_all2 (\<lambda>x b. R x b h') (x # xs) (b # bs))
      (\<lambda>_ _. False)) (\<lambda>_ _. False) h"
  proof (rule wp_mono [OF Cons.prems(1)])
    fix b h' assume b: "I h' \<and> extends h h' \<and> R x b h'"
    show "wp (pmapM f xs) (\<lambda>bs h'. I h' \<and> extends h h' \<and> list_all2 (\<lambda>x b. R x b h') (x # xs) (b # bs)) (\<lambda>_ _. False) h'"
      by (rule wp_mono [OF Cons.IH]) (use Cons.prems b in \<open>auto simp: extends_def intro: mono\<close>)
  qed (use Cons.prems in auto)
  then show ?case by (simp only: pmapM.simps wp_simps)
qed (simp add: wp_simps)

section \<open>Numbers\<close>

datatype jnum = Fin rat | NaN | PosInf | NegInf

definition Num :: "int \<Rightarrow> jnum" where
  "Num i = Fin (of_int i)"

lemma Num_eq_iff [simp]: "Num i = Num j \<longleftrightarrow> i = j"
  by (simp add: Num_def)

lemma Num_special [simp]: "Num i \<noteq> NaN" "Num i \<noteq> PosInf" "Num i \<noteq> NegInf" "NaN \<noteq> Num i" "PosInf \<noteq> Num i" "NegInf \<noteq> Num i"
  by (simp_all add: Num_def)

definition max_safe_integer :: int where
  "max_safe_integer = 9007199254740991"

fun is_integer :: "jnum \<Rightarrow> bool" where
  "is_integer (Fin r) = (of_int \<lfloor>r\<rfloor> = r)"
| "is_integer _ = False"

fun is_finite :: "jnum \<Rightarrow> bool" where
  "is_finite (Fin r) = True"
| "is_finite _ = False"

definition is_safe_integer :: "jnum \<Rightarrow> bool" where
  "is_safe_integer x =
     (case x of Fin r \<Rightarrow> of_int \<lfloor>r\<rfloor> = r \<and> \<bar>r\<bar> \<le> of_int max_safe_integer | _ \<Rightarrow> False)"

text \<open>\<open>x < y\<close> and \<open>x <= y\<close>: false when an operand is NaN.\<close>

fun jlt :: "jnum \<Rightarrow> jnum \<Rightarrow> bool" where
  "jlt (Fin a) (Fin b) = (a < b)"
| "jlt NegInf (Fin b) = True"
| "jlt NegInf PosInf = True"
| "jlt (Fin a) PosInf = True"
| "jlt _ _ = False"

fun jle :: "jnum \<Rightarrow> jnum \<Rightarrow> bool" where
  "jle NaN _ = False"
| "jle _ NaN = False"
| "jle (Fin a) (Fin b) = (a \<le> b)"
| "jle NegInf _ = True"
| "jle _ PosInf = True"
| "jle _ _ = False"

text \<open>\<open>Math.max (x, y)\<close>\<close>

definition jmax :: "jnum \<Rightarrow> jnum \<Rightarrow> jnum" where
  "jmax x y = (if x = NaN \<or> y = NaN then NaN else if jle x y then y else x)"

definition jint :: "jnum \<Rightarrow> int" where
  "jint x = (case x of Fin r \<Rightarrow> \<lfloor>r\<rfloor> | _ \<Rightarrow> 0)"

lemma is_safe_integer_Num [simp]: "is_safe_integer (Num i) \<longleftrightarrow> \<bar>i\<bar> \<le> max_safe_integer"
  by (simp add: is_safe_integer_def Num_def flip: of_int_abs)

lemma is_safe_integerE:
  assumes "is_safe_integer x"
  obtains i where "x = Num i" "\<bar>i\<bar> \<le> max_safe_integer"
proof (cases x)
  case (Fin r)
  from assms have "of_int \<lfloor>r\<rfloor> = r"
    unfolding is_safe_integer_def Fin by (simp only: jnum.case)
  then have "x = Num \<lfloor>r\<rfloor>"
    by (simp only: Fin Num_def)
  with assms that show ?thesis
    by (metis is_safe_integer_Num)
qed (use assms in \<open>simp_all add: is_safe_integer_def\<close>)

lemma jlt_Num [simp]: "jlt (Num a) (Num b) \<longleftrightarrow> a < b"
  by (simp add: Num_def)

lemma jle_Num [simp]: "jle (Num a) (Num b) \<longleftrightarrow> a \<le> b"
  by (simp add: Num_def)

lemma jint_Num [simp]: "jint (Num a) = a"
  by (simp add: jint_def Num_def)

lemma is_integer_Num [simp]: "is_integer (Num i)"
  by (simp add: Num_def)

lemma is_integerE:
  assumes "is_integer x"
  obtains i where "x = Num i"
  using assms by (cases x) (simp_all add: Num_def, metis)

section \<open>Strings\<close>

definition digit_value :: "char \<Rightarrow> nat" where
  "digit_value c = of_char c - 48"

definition is_digit :: "char \<Rightarrow> bool" where
  "is_digit c \<longleftrightarrow> 48 \<le> (of_char c :: nat) \<and> (of_char c :: nat) \<le> 57"

definition digit_char :: "nat \<Rightarrow> char" where
  "digit_char d = char_of (48 + d)"

fun show_nat :: "nat \<Rightarrow> string" where
  "show_nat n = (if n < 10 then [digit_char n] else show_nat (n div 10) @ [digit_char (n mod 10)])"

declare show_nat.simps [simp del]

definition show_int :: "int \<Rightarrow> string" where
  "show_int i = (if i < 0 then CHR ''-'' # show_nat (nat (- i)) else show_nat (nat i))"

definition dec_value :: "string \<Rightarrow> nat" where
  "dec_value s = foldl (\<lambda>a c. 10 * a + digit_value c) 0 s"

text \<open>The regular expressions \<open>/^[1-9][0-9]*$/\<close>, \<open>/^(0|[1-9][0-9]*)$/\<close>, \<open>/^[0-9]+$/\<close>.\<close>

definition re_positive :: "string \<Rightarrow> bool" where
  "re_positive s = (case s of [] \<Rightarrow> False | c # cs \<Rightarrow> is_digit c \<and> c \<noteq> CHR ''0'' \<and> list_all is_digit cs)"

definition re_decimal :: "string \<Rightarrow> bool" where
  "re_decimal s \<longleftrightarrow> s = ''0'' \<or> re_positive s"

definition re_digits :: "string \<Rightarrow> bool" where
  "re_digits s \<longleftrightarrow> s \<noteq> [] \<and> list_all is_digit s"

definition is_hex :: "char \<Rightarrow> bool" where
  "is_hex c \<longleftrightarrow> is_digit c \<or> (97 \<le> (of_char c :: nat) \<and> (of_char c :: nat) \<le> 102)"

text \<open>\<open>/^[0-9a-f]{64}$/\<close>\<close>

definition re_hex64 :: "string \<Rightarrow> bool" where
  "re_hex64 s \<longleftrightarrow> length s = 64 \<and> list_all is_hex s"

definition is_alnum :: "char \<Rightarrow> bool" where
  "is_alnum c \<longleftrightarrow> is_digit c \<or> (65 \<le> (of_char c :: nat) \<and> (of_char c :: nat) \<le> 90)
     \<or> (97 \<le> (of_char c :: nat) \<and> (of_char c :: nat) \<le> 122)"

definition is_space :: "char \<Rightarrow> bool" where
  "is_space c \<longleftrightarrow> (of_char c :: nat) \<in> {9, 10, 11, 12, 13, 32, 160}"

definition trim :: "string \<Rightarrow> string" where
  "trim s = rev (dropWhile is_space (rev (dropWhile is_space s)))"

text \<open>\<open>BigInt (s)\<close>; \<open>None\<close> is its \<open>SyntaxError\<close>.\<close>

definition radix_digit :: "nat \<Rightarrow> char \<Rightarrow> nat option" where
  "radix_digit r c =
     (let n = (of_char c :: nat);
          d = (if 48 \<le> n \<and> n \<le> 57 then n - 48 else if 97 \<le> n \<and> n \<le> 102 then n - 87
               else if 65 \<le> n \<and> n \<le> 70 then n - 55 else r) in
      if d < r then Some d else None)"

fun radix_value :: "nat \<Rightarrow> nat \<Rightarrow> string \<Rightarrow> nat option" where
  "radix_value r a [] = Some a"
| "radix_value r a (c # cs) = (case radix_digit r c of None \<Rightarrow> None | Some d \<Rightarrow> radix_value r (r * a + d) cs)"

definition prefixed_integer :: "string \<Rightarrow> int option" where
  "prefixed_integer s =
     (case s of
        c # p # d # ds \<Rightarrow>
          if c \<noteq> CHR ''0'' then None
          else if p = CHR ''x'' \<or> p = CHR ''X'' then map_option int (radix_value 16 0 (d # ds))
          else if p = CHR ''o'' \<or> p = CHR ''O'' then map_option int (radix_value 8 0 (d # ds))
          else if p = CHR ''b'' \<or> p = CHR ''B'' then map_option int (radix_value 2 0 (d # ds))
          else None
      | _ \<Rightarrow> None)"

definition bigint_of :: "string \<Rightarrow> int option" where
  "bigint_of s0 =
     (let s = trim s0 in
      if s = [] then Some 0
      else if re_digits s then Some (int (dec_value s))
      else if hd s = CHR ''+'' \<and> re_digits (tl s) then Some (int (dec_value (tl s)))
      else if hd s = CHR ''-'' \<and> re_digits (tl s) then Some (- int (dec_value (tl s)))
      else prefixed_integer s)"

definition starts_with :: "string \<Rightarrow> string \<Rightarrow> bool" where
  "starts_with p s \<longleftrightarrow> take (length p) s = p"

fun str_includes :: "string \<Rightarrow> string \<Rightarrow> bool" where
  "str_includes p [] = (p = [])"
| "str_includes p (c # cs) = (starts_with p (c # cs) \<or> str_includes p cs)"

definition nul :: char where
  "nul = CHR 0x00"

definition to_lower :: "string \<Rightarrow> string" where
  "to_lower s = map (\<lambda>c. let n = (of_char c :: nat) in
     if (65 \<le> n \<and> n \<le> 90) \<or> (192 \<le> n \<and> n \<le> 222 \<and> n \<noteq> 215) then char_of (n + 32) else c) s"

lemma starts_with_append [simp]: "starts_with p (p @ s)"
  by (simp add: starts_with_def)

lemma starts_with_iff: "starts_with p s \<longleftrightarrow> (\<exists>t. s = p @ t)"
  by (metis append_take_drop_id append_eq_conv_conj starts_with_def)

lemma digit_value_char [simp]: "d < 10 \<Longrightarrow> digit_value (digit_char d) = d"
  by (simp add: digit_value_def digit_char_def)

lemma is_digit_char [simp]: "d < 10 \<Longrightarrow> is_digit (digit_char d)"
  by (simp add: is_digit_def digit_char_def)

lemma digit_char_value: "is_digit c \<Longrightarrow> digit_char (digit_value c) = c"
  by (simp add: is_digit_def digit_char_def digit_value_def)

lemma digit_value_less: "is_digit c \<Longrightarrow> digit_value c < 10"
  by (auto simp: is_digit_def digit_value_def)

lemma char_of_48 [simp]: "char_of (48::nat) = CHR ''0''"
  by (simp add: char_of_def bit_0)

lemma digit_char_zero: "d < 10 \<Longrightarrow> digit_char d = CHR ''0'' \<longleftrightarrow> d = 0"
proof -
  assume "d < 10"
  then have "digit_char d = CHR ''0'' \<Longrightarrow> d = 0"
    using digit_value_char [of d] by (simp add: digit_value_def)
  moreover have "digit_char 0 = CHR ''0''"
    by (simp add: digit_char_def)
  ultimately show ?thesis by auto
qed

lemma show_nat_small: "n < 10 \<Longrightarrow> show_nat n = [digit_char n]"
  by (subst show_nat.simps) simp

lemma show_nat_0 [simp]: "show_nat 0 = ''0''"
  by (simp add: show_nat_small digit_char_def)

lemma show_nat_digits: "list_all is_digit (show_nat n)"
proof (induction n rule: show_nat.induct)
  case (1 n)
  then show ?case
    by (subst show_nat.simps) auto
qed

lemma show_nat_nonempty [simp]: "show_nat n \<noteq> []"
  by (subst show_nat.simps) simp

lemma dec_value_snoc: "dec_value (s @ [c]) = 10 * dec_value s + digit_value c"
  by (simp add: dec_value_def)

lemma dec_value_show_nat [simp]: "dec_value (show_nat n) = n"
proof (induction n rule: show_nat.induct)
  case (1 n)
  show ?case
  proof (cases "n < 10")
    case True
    then show ?thesis by (subst show_nat.simps) (simp add: dec_value_def)
  next
    case False
    with "1.IH" show ?thesis
      by (subst show_nat.simps) (simp add: dec_value_snoc)
  qed
qed

lemma show_nat_inj [simp]: "show_nat m = show_nat n \<longleftrightarrow> m = n"
  by (metis dec_value_show_nat)

lemma re_positive_show_nat: "re_positive (show_nat n) \<longleftrightarrow> 0 < n"
proof (induction n rule: show_nat.induct)
  case (1 n)
  show ?case
  proof (cases "n < 10")
    case True
    then show ?thesis
      by (subst show_nat.simps) (simp add: re_positive_def digit_char_zero)
  next
    case False
    with "1.IH" have "re_positive (show_nat (n div 10))" by simp
    with False show ?thesis
      by (subst show_nat.simps) (auto simp: re_positive_def split: list.splits)
  qed
qed

lemma re_decimal_show_nat [simp]: "re_decimal (show_nat n)"
  by (cases "n = 0") (simp_all add: re_decimal_def re_positive_show_nat)

lemma re_positive_snoc:
  "s \<noteq> [] \<Longrightarrow> re_positive (s @ [c]) \<longleftrightarrow> re_positive s \<and> is_digit c"
  by (cases s) (auto simp: re_positive_def)

text \<open>A canonical decimal is the decimal of its own value: parsing and printing are inverse.\<close>

lemma dec_value_positive: "re_positive s \<Longrightarrow> 0 < dec_value s"
proof (induction s rule: rev_induct)
  case Nil
  then show ?case by (simp add: re_positive_def)
next
  case (snoc c s)
  show ?case
  proof (cases "s = []")
    case True
    with snoc.prems have "is_digit c" "c \<noteq> CHR ''0''"
      by (simp_all add: re_positive_def)
    then have "digit_value c \<noteq> 0"
      using digit_char_value [of c] by (metis add_0_right char_of_48 digit_char_def)
    with True show ?thesis by (simp add: dec_value_def)
  next
    case False
    with snoc show ?thesis
      by (simp add: re_positive_snoc dec_value_snoc)
  qed
qed

lemma show_nat_dec_value: "re_positive s \<Longrightarrow> show_nat (dec_value s) = s"
proof (induction s rule: rev_induct)
  case Nil
  then show ?case by (simp add: re_positive_def)
next
  case (snoc c s)
  show ?case
  proof (cases "s = []")
    case True
    with snoc.prems have "is_digit c" by (simp add: re_positive_def)
    with True show ?thesis
      by (subst show_nat.simps) (simp add: dec_value_def digit_value_less digit_char_value)
  next
    case False
    with snoc.prems have s: "re_positive s" and c: "is_digit c"
      by (simp_all add: re_positive_snoc)
    have pos: "0 < dec_value s" by (rule dec_value_positive [OF s])
    have "show_nat (10 * dec_value s + digit_value c) = show_nat (dec_value s) @ [digit_char (digit_value c)]"
      using pos digit_value_less [OF c] by (subst show_nat.simps) auto
    with snoc.IH [OF s] c show ?thesis
      by (simp add: dec_value_snoc digit_char_value)
  qed
qed

lemma show_nat_dec_value_decimal: "re_decimal s \<Longrightarrow> show_nat (dec_value s) = s"
  by (auto simp: re_decimal_def show_nat_dec_value)
    (simp add: dec_value_def digit_value_def)

lemma re_decimal_inj: "re_decimal s \<Longrightarrow> re_decimal t \<Longrightarrow> dec_value s = dec_value t \<longleftrightarrow> s = t"
  by (metis show_nat_dec_value_decimal)

lemma trim_no_space: "list_all (\<lambda>c. \<not> is_space c) s \<Longrightarrow> trim s = s"
proof -
  have d: "dropWhile is_space t = t" if "list_all (\<lambda>c. \<not> is_space c) t" for t
    using that by (cases t) auto
  assume a: "list_all (\<lambda>c. \<not> is_space c) s"
  then show ?thesis by (simp add: trim_def d list_all_iff)
qed

lemma digit_not_space: "is_digit c \<Longrightarrow> \<not> is_space c"
  by (auto simp: is_digit_def is_space_def)

lemma re_digits_show_nat [simp]: "re_digits (show_nat n)"
  by (simp add: re_digits_def show_nat_digits show_nat_nonempty)

lemma trim_digits: "re_digits s \<Longrightarrow> trim s = s"
  by (rule trim_no_space) (auto simp: re_digits_def list_all_iff digit_not_space)

lemma show_nat_no_space: "list_all (\<lambda>c. \<not> is_space c) (show_nat n)"
  using show_nat_digits [of n] by (rule list.pred_mono_strong) (rule digit_not_space)

lemma bigint_of_show_int [simp]: "bigint_of (show_int i) = Some i"
proof (cases "i < 0")
  case True
  have "trim (CHR ''-'' # show_nat n) = CHR ''-'' # show_nat n" for n
    using show_nat_no_space [of n] by (intro trim_no_space) (simp, simp add: is_space_def)
  moreover have "\<not> re_digits (CHR ''-'' # s)" for s
    by (simp add: re_digits_def is_digit_def)
  ultimately show ?thesis using True by (simp add: bigint_of_def show_int_def)
next
  case False
  then show ?thesis
    by (simp add: bigint_of_def show_int_def trim_digits show_nat_nonempty)
qed

lemma nul_notin_show_int: "nul \<notin> set (show_int i)"
proof -
  have "nul \<notin> set (show_nat n)" for n
    using show_nat_digits [of n] by (auto simp: list_all_iff nul_def is_digit_def)
  then show ?thesis by (simp add: show_int_def) (simp add: nul_def)
qed

lemma show_int_inj: "show_int i = show_int j \<longleftrightarrow> i = j"
  by (metis bigint_of_show_int option.inject)

section \<open>JSON values of unknown shape\<close>

datatype json =
    JUndef
  | JNull
  | JBool bool
  | JNum jnum
  | JStr string
  | JArr "json list"
  | JObj "(string \<times> json) list"

text \<open>\<open>o.k\<close> on a value already known to be an object.\<close>

fun prop_of :: "json \<Rightarrow> string \<Rightarrow> json" where
  "prop_of (JObj fs) k = (case map_of fs k of None \<Rightarrow> JUndef | Some v \<Rightarrow> v)"
| "prop_of _ k = JUndef"

fun has_prop :: "json \<Rightarrow> string \<Rightarrow> bool" where
  "has_prop (JObj fs) k = (map_of fs k \<noteq> None)"
| "has_prop _ k = False"

text \<open>\<open>v && typeof v === "object" && !Array.isArray(v)\<close>\<close>

fun is_obj :: "json \<Rightarrow> bool" where
  "is_obj (JObj _) = True"
| "is_obj _ = False"

fun as_str :: "json \<Rightarrow> string option" where
  "as_str (JStr s) = Some s"
| "as_str _ = None"

fun as_arr :: "json \<Rightarrow> json list option" where
  "as_arr (JArr xs) = Some xs"
| "as_arr _ = None"

fun as_num :: "json \<Rightarrow> jnum option" where
  "as_num (JNum x) = Some x"
| "as_num _ = None"

text \<open>\<open>Number.isSafeInteger (v)\<close> on any value, and \<open>xs[i]\<close> on an array.\<close>

fun json_safe_integer :: "json \<Rightarrow> bool" where
  "json_safe_integer (JNum x) = is_safe_integer x"
| "json_safe_integer _ = False"

fun json_int :: "json \<Rightarrow> int" where
  "json_int (JNum x) = jint x"
| "json_int _ = 0"

text \<open>\<open>v ?? d\<close>, and \<open>String (v)\<close>: \<open>None\<close> is the text of a number that is not a plain integer
  numeral, or of an array with a comma; the sources only compare the result with texts
  that are neither.\<close>

definition json_or :: "json \<Rightarrow> json \<Rightarrow> json" where
  "json_or v d = (if v = JUndef \<or> v = JNull then d else v)"

fun js_string :: "json \<Rightarrow> string option" where
  "js_string (JStr s) = Some s"
| "js_string JUndef = Some ''undefined''"
| "js_string JNull = Some ''null''"
| "js_string (JBool b) = Some (if b then ''true'' else ''false'')"
| "js_string (JNum x) =
     (case x of Fin r \<Rightarrow> if is_integer x \<and> \<bar>r\<bar> < 10 ^ 21 then Some (show_int \<lfloor>r\<rfloor>) else None
      | NaN \<Rightarrow> Some ''NaN'' | PosInf \<Rightarrow> Some ''Infinity'' | NegInf \<Rightarrow> Some ''-Infinity'')"
| "js_string (JArr []) = Some []"
| "js_string (JArr [v]) = (if v = JUndef \<or> v = JNull then Some [] else js_string v)"
| "js_string (JArr (v # w # vs)) = None"
| "js_string (JObj fs) = Some ''[object Object]''"

text \<open>\<open>if (v)\<close>\<close>

fun json_truthy :: "json \<Rightarrow> bool" where
  "json_truthy (JBool b) = b"
| "json_truthy (JNum x) = (x \<noteq> NaN \<and> x \<noteq> Num 0)"
| "json_truthy (JStr s) = (s \<noteq> [])"
| "json_truthy v = (v \<noteq> JUndef \<and> v \<noteq> JNull)"

definition elem :: "json list \<Rightarrow> nat \<Rightarrow> json" where
  "elem xs i = (if i < length xs then xs ! i else JUndef)"

lemma as_str_Some [simp]: "as_str v = Some s \<longleftrightarrow> v = JStr s"
  by (cases v) auto

lemma as_arr_Some [simp]: "as_arr v = Some xs \<longleftrightarrow> v = JArr xs"
  by (cases v) auto

text \<open>
  An optional string field: absent (\<open>undefined\<close> or \<open>null\<close>) is \<open>None\<close>. \<open>truthy\<close> is the
  source's \<open>if (field)\<close>, false on the empty string too.
\<close>

definition truthy :: "string option \<Rightarrow> bool" where
  "truthy m = (case m of None \<Rightarrow> False | Some s \<Rightarrow> s \<noteq> [])"

definition str_or :: "string option \<Rightarrow> string \<Rightarrow> string" where
  "str_or m d = (case m of None \<Rightarrow> d | Some s \<Rightarrow> s)"

lemma truthy_iff: "truthy m \<longleftrightarrow> (\<exists>s. m = Some s \<and> s \<noteq> [])"
  by (cases m) (auto simp: truthy_def)

section \<open>Insertion-ordered maps\<close>

lemma map_of_AList_update [simp]: "map_of (AList.update k v m) = (map_of m)(k \<mapsto> v)"
  by (rule ext) (simp add: update_conv)

lemma map_of_AList_delete [simp]: "map_of (AList.delete k m) = (map_of m)(k := None)"
  by (rule ext) (simp add: delete_conv)

text \<open>Keep the entries a predicate accepts, as a loop of \<open>Map.delete\<close> over the rest does.\<close>

definition keep_entries :: "('k \<Rightarrow> 'v \<Rightarrow> bool) \<Rightarrow> ('k \<times> 'v) list \<Rightarrow> ('k \<times> 'v) list" where
  "keep_entries P m = filter (\<lambda>(k, v). P k v) m"

lemma map_of_keep_entries:
  "distinct (map fst m) \<Longrightarrow>
   map_of (keep_entries P m) k = (case map_of m k of Some v \<Rightarrow> if P k v then Some v else None | None \<Rightarrow> None)"
proof (induction m)
  case (Cons kv m)
  obtain k' v' where kv: "kv = (k', v')" by (cases kv)
  have "k' \<notin> set (map fst m)" using Cons.prems kv by simp
  then have "map_of m k' = None" by (simp add: map_of_eq_None_iff)
  with Cons kv show ?case
    by (auto simp: keep_entries_def split: option.splits)
qed (simp add: keep_entries_def)

lemma distinct_keep_entries: "distinct (map fst m) \<Longrightarrow> distinct (map fst (keep_entries P m))"
  by (induction m) (auto simp: keep_entries_def)

text \<open>Two maps kept in step: \<open>I\<close> finds the entry of \<open>A\<close> by a key of its value, and each key
  belongs to one entry.\<close>

definition key_index :: "('v \<Rightarrow> 'k) \<Rightarrow> ('a \<rightharpoonup> 'v) \<Rightarrow> ('k \<rightharpoonup> 'a) \<Rightarrow> bool" where
  "key_index key A I \<longleftrightarrow> (\<forall>k a. I k = Some a \<longleftrightarrow> (\<exists>v. A a = Some v \<and> key v = k))"

lemma key_indexD: "key_index key A I \<Longrightarrow> I k = Some a \<longleftrightarrow> (\<exists>v. A a = Some v \<and> key v = k)"
  by (simp add: key_index_def)

lemma key_index_delete:
  assumes "key_index key A I" "A a = Some v"
  shows "key_index key (A(a := None)) (I(key v := None))"
proof -
  have "(k \<noteq> key v \<and> I k = Some b) \<longleftrightarrow> (b \<noteq> a \<and> (\<exists>u. A b = Some u \<and> key u = k))" for k b
    using key_indexD [OF assms(1), of k b] key_indexD [OF assms(1), of "key v" b]
      key_indexD [OF assms(1), of "key v" a] assms(2) by auto
  then show ?thesis
    by (auto simp: key_index_def)
qed

lemma key_index_insert:
  assumes "key_index key A I" "A a = None" "I k = None" "key v = k"
  shows "key_index key (A(a \<mapsto> v)) (I(k \<mapsto> a))"
proof -
  have "A b = Some u \<Longrightarrow> key u \<noteq> k" for b u
    using key_indexD [OF assms(1), of k b] assms(3) by auto
  then show ?thesis
    using assms key_indexD [OF assms(1)] unfolding key_index_def by auto
qed

section \<open>List lemmas\<close>

lemma sort_eq_iff_mset: "sort xs = sort ys \<longleftrightarrow> mset xs = mset ys"
  by (metis mset_sort properties_for_sort sorted_sort)

lemma list_all2_eq_nth: "list_all2 P xs ys \<Longrightarrow> i < length xs \<Longrightarrow> P (xs ! i) (ys ! i)"
  by (simp add: list_all2_nthD)

end
