(* ===== verification/Js_Bytes.thy ===== *)
theory Js_Bytes
  imports Js_Base "HOL-Library.Word"
begin

text \<open>
  Byte arrays: Node's \<open>Buffer\<close> and \<open>Uint8Array\<close> as lists of 8-bit words. The codecs the sources
  call on them: base64 (Node's lenient decoder and its canonical encoder), UTF-8, and
  little-endian integers. The round trips proved here are what makes the sources' test
  \<open>decoded.toString("base64") === value\<close> an exact one.
\<close>

type_synonym byte = "8 word"
type_synonym bytes = "byte list"

definition byte_of :: "nat \<Rightarrow> byte" where
  "byte_of n = word_of_nat n"

lemma unat_byte_of [simp]: "n < 256 \<Longrightarrow> unat (byte_of n) = n"
  by (simp add: byte_of_def unat_of_nat take_bit_nat_eq_self)

lemma unat_byte_less [simp]: "unat (b :: byte) < 256"
  using unsigned_less [of b, where ?'a = nat] by simp

lemma byte_of_unat [simp]: "byte_of (unat b) = b"
  by (simp add: byte_of_def)

definition is_zero :: "bytes \<Rightarrow> bool" where
  "is_zero bs = list_all (\<lambda>b. b = 0) bs"

lemma is_zero_replicate_iff [simp]: "is_zero (replicate n b) \<longleftrightarrow> n = 0 \<or> b = 0"
  by (auto simp: is_zero_def list_all_iff)

section \<open>Base64\<close>

fun b64_char :: "nat \<Rightarrow> char" where
  "b64_char d =
     (if d < 26 then char_of (65 + d)
      else if d < 52 then char_of (97 + (d - 26))
      else if d < 62 then char_of (48 + (d - 52))
      else if d = 62 then CHR ''+'' else CHR ''/'')"

fun b64_value :: "char \<Rightarrow> nat option" where
  "b64_value c =
     (let n = (of_char c :: nat) in
      if 65 \<le> n \<and> n \<le> 90 then Some (n - 65)
      else if 97 \<le> n \<and> n \<le> 122 then Some (n - 97 + 26)
      else if 48 \<le> n \<and> n \<le> 57 then Some (n - 48 + 52)
      else if n = 43 \<or> n = 45 then Some 62
      else if n = 47 \<or> n = 95 then Some 63
      else None)"

declare b64_char.simps [simp del] b64_value.simps [simp del]

text \<open>\<open>Buffer.from (s, "base64")\<close>: reading stops at the first \<open>=\<close>, characters outside both
  alphabets are skipped, and an incomplete last group gives the bytes it determines.\<close>

fun sextets_bytes :: "nat list \<Rightarrow> bytes" where
  "sextets_bytes (a # b # c # d # ds) =
     byte_of (4 * a + b div 16) # byte_of (16 * (b mod 16) + c div 4) # byte_of (64 * (c mod 4) + d)
       # sextets_bytes ds"
| "sextets_bytes [a, b, c] = [byte_of (4 * a + b div 16), byte_of (16 * (b mod 16) + c div 4)]"
| "sextets_bytes [a, b] = [byte_of (4 * a + b div 16)]"
| "sextets_bytes _ = []"

definition base64_decode :: "string \<Rightarrow> bytes" where
  "base64_decode s = sextets_bytes (List.map_filter b64_value (takeWhile (\<lambda>c. c \<noteq> CHR ''='') s))"

text \<open>\<open>buffer.toString ("base64")\<close>\<close>

fun bytes_sextets :: "bytes \<Rightarrow> nat list" where
  "bytes_sextets (x # y # z # bs) =
     (unat x div 4) # (16 * (unat x mod 4) + unat y div 16) # (4 * (unat y mod 16) + unat z div 64)
       # (unat z mod 64) # bytes_sextets bs"
| "bytes_sextets [x, y] =
     [unat x div 4, 16 * (unat x mod 4) + unat y div 16, 4 * (unat y mod 16)]"
| "bytes_sextets [x] = [unat x div 4, 16 * (unat x mod 4)]"
| "bytes_sextets [] = []"

definition b64_padding :: "nat \<Rightarrow> string" where
  "b64_padding n = replicate ((3 - n mod 3) mod 3) (CHR ''='')"

definition base64_encode :: "bytes \<Rightarrow> string" where
  "base64_encode bs = map b64_char (bytes_sextets bs) @ b64_padding (length bs)"

lemma b64_value_char [simp]: "d < 64 \<Longrightarrow> b64_value (b64_char d) = Some d"
  by (auto simp: b64_char.simps b64_value.simps Let_def)

lemma b64_value_pad: "b64_value (CHR ''='') = None"
  by code_simp

lemma b64_char_not_pad [simp]: "d < 64 \<Longrightarrow> b64_char d \<noteq> CHR ''=''"
  by (metis b64_value_char b64_value_pad option.distinct(1))

lemma byte_parts:
  fixes b :: byte
  shows "unat b div 4 < 64" "unat b div 16 < 16" "unat b div 64 < 4"
  using unat_byte_less [of b] by linarith+

lemma sextet_bounds:
  fixes x y z :: byte
  shows "unat x div 4 < 64" "16 * (unat x mod 4) + unat y div 16 < 64"
    "4 * (unat y mod 16) + unat z div 64 < 64" "16 * (unat x mod 4) < 64" "4 * (unat y mod 16) < 64"
proof -
  have "unat x mod 4 < 4" "unat y mod 16 < 16" by simp_all
  with byte_parts(1) [of x] byte_parts(2) [of y] byte_parts(3) [of z]
  show "unat x div 4 < 64" "16 * (unat x mod 4) + unat y div 16 < 64"
    "4 * (unat y mod 16) + unat z div 64 < 64" "16 * (unat x mod 4) < 64" "4 * (unat y mod 16) < 64"
    by linarith+
qed

lemma bytes_sextets_less: "list_all (\<lambda>d. d < 64) (bytes_sextets bs)"
  by (induction bs rule: bytes_sextets.induct) (simp_all only: bytes_sextets.simps list.pred_inject sextet_bounds, simp_all)

lemma group_div_mod:
  fixes q r k :: nat
  shows "r < k \<Longrightarrow> (k * q + r) div k = q" "r < k \<Longrightarrow> (k * q + r) mod k = r"
  by simp_all

lemma byte_recombine:
  fixes x y z :: byte
  shows "4 * (unat x div 4) + (16 * (unat x mod 4) + unat y div 16) div 16 = unat x"
    "16 * ((16 * (unat x mod 4) + unat y div 16) mod 16) + (4 * (unat y mod 16) + unat z div 64) div 4 = unat y"
    "64 * ((4 * (unat y mod 16) + unat z div 64) mod 4) + unat z mod 64 = unat z"
    "4 * (unat x div 4) + 16 * (unat x mod 4) div 16 = unat x"
    "16 * ((16 * (unat x mod 4) + unat y div 16) mod 16) + 4 * (unat y mod 16) div 4 = unat y"
  by (simp_all only: group_div_mod byte_parts mult_div_mod_eq)
    (simp_all only: nonzero_mult_div_cancel_left mult_div_mod_eq numeral_neq_zero simp_thms)

lemma sextets_bytes_sextets [simp]: "sextets_bytes (bytes_sextets bs) = bs"
  by (induction bs rule: bytes_sextets.induct)
    (simp_all only: bytes_sextets.simps sextets_bytes.simps byte_recombine byte_of_unat)

lemma takeWhile_pad:
  "list_all (\<lambda>d. d < 64) ds \<Longrightarrow>
   takeWhile (\<lambda>c. c \<noteq> CHR ''='') (map b64_char ds @ b64_padding n) = map b64_char ds"
  by (induction ds) (auto simp: b64_padding_def takeWhile_replicate)

lemma map_filter_b64: "list_all (\<lambda>d. d < 64) ds \<Longrightarrow> List.map_filter b64_value (map b64_char ds) = ds"
  by (induction ds) (auto simp: List.map_filter_def)

text \<open>Encoding then decoding is the identity on bytes.\<close>

lemma base64_decode_encode [simp]: "base64_decode (base64_encode bs) = bs"
  by (simp add: base64_decode_def base64_encode_def takeWhile_pad map_filter_b64 bytes_sextets_less)

lemma base64_encode_Nil [simp]: "base64_encode bs = [] \<longleftrightarrow> bs = []"
  by (cases bs rule: bytes_sextets.cases) (simp_all add: base64_encode_def b64_padding_def)

lemma base64_encode_inj: "base64_encode a = base64_encode b \<longleftrightarrow> a = b"
  by (metis base64_decode_encode)

text \<open>A string is a canonical encoding exactly if it is the encoding of what it decodes to.\<close>

definition canonical_base64 :: "string \<Rightarrow> bool" where
  "canonical_base64 s \<longleftrightarrow> base64_encode (base64_decode s) = s"

lemma canonical_base64_encode [simp]: "canonical_base64 (base64_encode bs)"
  by (simp add: canonical_base64_def)

lemma canonical_base64_iff: "canonical_base64 s \<longleftrightarrow> (\<exists>bs. s = base64_encode bs)"
  by (metis base64_decode_encode canonical_base64_def)

lemma canonical_base64_inj:
  "canonical_base64 s \<Longrightarrow> canonical_base64 t \<Longrightarrow> base64_decode s = base64_decode t \<longleftrightarrow> s = t"
  by (metis canonical_base64_def)

section \<open>Little-endian integers\<close>

fun le_value :: "bytes \<Rightarrow> nat" where
  "le_value [] = 0"
| "le_value (b # bs) = unat b + 256 * le_value bs"

fun le_bytes :: "nat \<Rightarrow> nat \<Rightarrow> bytes" where
  "le_bytes 0 v = []"
| "le_bytes (Suc n) v = byte_of (v mod 256) # le_bytes n (v div 256)"

text \<open>\<open>readUInt32LE (off)\<close> and \<open>readBigUInt64LE (off)\<close>; the sources check the length first.\<close>

definition read_u32_le :: "nat \<Rightarrow> bytes \<Rightarrow> nat" where
  "read_u32_le off bs = le_value (take 4 (drop off bs))"

definition read_u64_le :: "nat \<Rightarrow> bytes \<Rightarrow> nat" where
  "read_u64_le off bs = le_value (take 8 (drop off bs))"

lemma length_le_bytes [simp]: "length (le_bytes n v) = n"
  by (induction n arbitrary: v) simp_all

lemma le_value_le_bytes [simp]: "le_value (le_bytes n v) = v mod 256 ^ n"
proof (induction n arbitrary: v)
  case (Suc n)
  show ?case
    using Suc [of "v div 256"] by (simp add: mod_mult2_eq)
qed simp

lemma le_step_less: "r < k \<Longrightarrow> v < p \<Longrightarrow> r + k * v < k * (p :: nat)"
proof -
  assume "r < k" "v < p"
  then have "k * (v + 1) \<le> k * p" by (intro mult_le_mono2) simp
  with \<open>r < k\<close> show ?thesis by simp
qed

lemma le_value_less: "le_value bs < 256 ^ length bs"
  by (induction bs) (simp_all add: le_step_less)

lemma le_bytes_le_value [simp]: "le_bytes (length bs) (le_value bs) = bs"
  by (induction bs) (simp_all add: div_mult_self4)

section \<open>UTF-8\<close>

definition utf8_char :: "char \<Rightarrow> bytes" where
  "utf8_char c =
     (let n = (of_char c :: nat) in
      if n < 128 then [byte_of n] else [byte_of (192 + n div 64), byte_of (128 + n mod 64)])"

definition utf8_encode :: "string \<Rightarrow> bytes" where
  "utf8_encode s = concat (map utf8_char s)"

text \<open>\<open>toString ("utf8")\<close>. \<open>None\<close> is a text that leaves the modelled range, a replacement
  character included; the sources only compare the result with a string of the range.\<close>

fun utf8_decode :: "bytes \<Rightarrow> string option" where
  "utf8_decode [] = Some []"
| "utf8_decode (b # bs) =
     (if unat b < 128 then map_option (Cons (char_of (unat b))) (utf8_decode bs)
      else (case bs of
          [] \<Rightarrow> None
        | b' # bs' \<Rightarrow>
            if (unat b = 194 \<or> unat b = 195) \<and> 128 \<le> unat b' \<and> unat b' < 192
            then map_option (Cons (char_of (64 * (unat b - 192) + (unat b' - 128)))) (utf8_decode bs')
            else None))"

lemma utf8_encode_simps [simp]:
  "utf8_encode [] = []" "utf8_encode (c # s) = utf8_char c @ utf8_encode s"
  "utf8_encode (s @ t) = utf8_encode s @ utf8_encode t"
  by (simp_all add: utf8_encode_def)

lemma utf8_decode_char:
  "utf8_decode (utf8_char c @ bs) = map_option (Cons c) (utf8_decode bs)"
proof -
  let ?n = "of_char c :: nat"
  have n: "?n < 256" by simp
  show ?thesis
  proof (cases "?n < 128")
    case True
    then show ?thesis by (simp add: utf8_char_def)
  next
    case False
    with n have "2 \<le> ?n div 64" "?n div 64 < 4" by linarith+
    then have "?n div 64 = 2 \<or> ?n div 64 = 3" by linarith
    moreover have "64 * (?n div 64) + ?n mod 64 = ?n" by (rule mult_div_mod_eq)
    ultimately consider "?n div 64 = 2" "128 + ?n mod 64 = ?n" | "?n div 64 = 3" "192 + ?n mod 64 = ?n"
      by fastforce
    moreover have "?n mod 64 < 64" by simp
    ultimately show ?thesis
      using False by cases (auto simp: utf8_char_def)
  qed
qed

lemma utf8_decode_last: "utf8_decode (utf8_char c) = Some [c]"
  using utf8_decode_char [of c "[]"] by simp

lemma utf8_decode_encode [simp]: "utf8_decode (utf8_encode s) = Some s"
  by (induction s) (simp_all add: utf8_decode_char)

lemma utf8_encode_inj: "utf8_encode s = utf8_encode t \<longleftrightarrow> s = t"
  by (metis option.inject utf8_decode_encode)

lemma length_utf8_ascii: "list_all (\<lambda>c. (of_char c :: nat) < 128) s \<Longrightarrow> length (utf8_encode s) = length s"
  by (induction s) (simp_all add: utf8_char_def)

section \<open>Percent decoding\<close>

definition hex_digit :: "char \<Rightarrow> nat option" where
  "hex_digit c =
     (let n = (of_char c :: nat) in
      if 48 \<le> n \<and> n \<le> 57 then Some (n - 48)
      else if 65 \<le> n \<and> n \<le> 70 then Some (n - 55)
      else if 97 \<le> n \<and> n \<le> 102 then Some (n - 87)
      else None)"

definition hex_pair :: "char \<Rightarrow> char \<Rightarrow> nat option" where
  "hex_pair a b =
     (case hex_digit a of None \<Rightarrow> None
      | Some x \<Rightarrow> (case hex_digit b of None \<Rightarrow> None | Some y \<Rightarrow> Some (16 * x + y)))"

text \<open>\<open>decodeURIComponent\<close>. \<open>None\<close> is a \<open>URIError\<close>, or an escaped character outside the
  modelled range of strings.\<close>

fun decode_uri :: "string \<Rightarrow> string option" where
  "decode_uri [] = Some []"
| "decode_uri (c # cs) =
     (if c \<noteq> CHR ''%'' then map_option (Cons c) (decode_uri cs)
      else (case cs of
          a # b # rest \<Rightarrow>
            (case hex_pair a b of
              None \<Rightarrow> None
            | Some n \<Rightarrow>
                if n < 128 then map_option (Cons (char_of n)) (decode_uri rest)
                else (case rest of
                    p # a' # b' # rest' \<Rightarrow>
                      (case hex_pair a' b' of
                        None \<Rightarrow> None
                      | Some m \<Rightarrow>
                          if p = CHR ''%'' \<and> (n = 194 \<or> n = 195) \<and> 128 \<le> m \<and> m < 192
                          then map_option (Cons (char_of (64 * (n - 192) + (m - 128)))) (decode_uri rest')
                          else None)
                  | _ \<Rightarrow> None))
        | _ \<Rightarrow> None))"

lemma decode_uri_plain: "CHR ''%'' \<notin> set s \<Longrightarrow> decode_uri s = Some s"
  by (induction s) auto

text \<open>\<open>encodeURIComponent\<close>\<close>

definition uri_unreserved :: "char \<Rightarrow> bool" where
  "uri_unreserved c \<longleftrightarrow> is_alnum c \<or> c \<in> set ''-_.!~*'' \<or> c = CHR 0x27 \<or> c = CHR ''('' \<or> c = CHR '')''"

definition upper_hex :: "nat \<Rightarrow> char" where
  "upper_hex d = (if d < 10 then char_of (48 + d) else char_of (55 + d))"

definition encode_uri :: "string \<Rightarrow> string" where
  "encode_uri s = concat (map (\<lambda>c. if uri_unreserved c then [c]
     else concat (map (\<lambda>b. [CHR ''%'', upper_hex (unat b div 16), upper_hex (unat b mod 16)]) (utf8_char c))) s)"

end
