(* ===== verification/Solana_Lib.thy ===== *)
theory Solana_Lib
  imports Js_Bytes
begin

text \<open>
  The packages the sources call and that are not part of the repository: \<open>@solana/kit\<close>,
  \<open>@solana/web3.js\<close>, \<open>@solana-program/token\<close>, \<open>@scure/base\<close> and the digest of \<open>node:crypto\<close>.
  They are one record of parameters, \<open>svm_lib\<close>, an argument of every definition that uses one.
  A function that may throw returns an option. Keys and addresses are their base58 texts. The
  types are those the packages export; what the development relies on is stated as hypotheses.
\<close>

section \<open>Decoded transactions\<close>

text \<open>An instruction with its accounts resolved to addresses.\<close>

record instruction =
  ix_program :: string
  ix_accounts :: "string list"
  ix_data :: bytes

text \<open>\<open>Transaction\<close> of \<open>@solana/web3.js\<close>, as far as it is read: a signature is \<open>None\<close> where
  the library stores \<open>null\<close>.\<close>

record legacy_tx =
  lt_recentBlockhash :: "string option"
  lt_feePayer :: "string option"
  lt_signatures :: "(string \<times> bytes option) list"
  lt_instructions :: "instruction list"

text \<open>\<open>VersionedTransaction\<close> and its \<open>message\<close>.\<close>

record compiled_ix =
  ci_programIdIndex :: nat
  ci_accountKeyIndexes :: "nat list"
  ci_data :: bytes

record versioned_tx =
  vt_addressTableLookups :: nat
  vt_staticAccountKeys :: "string list"
  vt_numRequiredSignatures :: nat
  vt_recentBlockhash :: string
  vt_signatures :: "bytes list"
  vt_compiledInstructions :: "compiled_ix list"

text \<open>What \<open>getTransactionDecoder ().decode\<close> of \<open>@solana/kit\<close> returns: the signature slots in
  order, each under its signer's address, and the message.\<close>

record decoded_tx =
  dt_signatures :: "(string \<times> bytes option) list"
  dt_messageBytes :: bytes

record svm_lib =
  lib_sha256_hex :: "string \<Rightarrow> string"
  lib_sha256_bytes_hex :: "bytes \<Rightarrow> string"
  lib_base58_decode :: "string \<Rightarrow> bytes option"
  lib_base58_encode :: "bytes \<Rightarrow> string"
  lib_address :: "string \<Rightarrow> bool"
  lib_signature :: "string \<Rightarrow> bool"
  lib_ata :: "string \<Rightarrow> string \<Rightarrow> string \<Rightarrow> string option"
  lib_verify :: "string \<Rightarrow> bytes \<Rightarrow> bytes \<Rightarrow> bool option"
  lib_decode_tx :: "bytes \<Rightarrow> decoded_tx option"
  lib_lifetimeToken :: "bytes \<Rightarrow> string option"
  lib_legacy_from :: "bytes \<Rightarrow> legacy_tx option"
  lib_versioned_from :: "bytes \<Rightarrow> versioned_tx option"

definition lib_messageBytes :: "svm_lib \<Rightarrow> bytes \<Rightarrow> bytes option" where
  "lib_messageBytes lib bs = map_option dt_messageBytes (lib_decode_tx lib bs)"

definition token_program :: string where
  "token_program = ''TokenkegQfeZyiNwAJbNbGKPFXCWuBvf9Ss623VQ5DA''"

definition token_2022_program :: string where
  "token_2022_program = ''TokenzQdBNbLqP5VEhdkAS6EPFLC1PHnBqCXEpPxuEb''"

section \<open>Reading instructions\<close>

definition nth_opt :: "'a list \<Rightarrow> nat \<Rightarrow> 'a option" where
  "nth_opt xs i = (if i < length xs then Some (xs ! i) else None)"

lemma nth_opt_Some [simp]: "nth_opt xs i = Some x \<longleftrightarrow> i < length xs \<and> xs ! i = x"
  by (auto simp: nth_opt_def)

fun index_of :: "'a \<Rightarrow> 'a list \<Rightarrow> nat option" where
  "index_of x [] = None"
| "index_of x (y # ys) = (if x = y then Some 0 else map_option Suc (index_of x ys))"

lemma index_of_Some: "index_of x xs = Some i \<Longrightarrow> i < length xs \<and> xs ! i = x"
  by (induction xs arbitrary: i) (auto split: if_splits)

text \<open>The instructions of a versioned message over its static keys; \<open>None\<close> for an index that
  resolves to no key, where the source throws.\<close>

fun resolve_accounts :: "string list \<Rightarrow> nat list \<Rightarrow> string list option" where
  "resolve_accounts keys [] = Some []"
| "resolve_accounts keys (i # is) =
     (case nth_opt keys i of None \<Rightarrow> None
      | Some k \<Rightarrow> map_option (Cons k) (resolve_accounts keys is))"

definition resolve_ix :: "string list \<Rightarrow> compiled_ix \<Rightarrow> instruction option" where
  "resolve_ix keys ci =
     (case nth_opt keys (ci_programIdIndex ci) of
        None \<Rightarrow> None
      | Some program \<Rightarrow>
          map_option (\<lambda>accounts. \<lparr> ix_program = program, ix_accounts = accounts, ix_data = ci_data ci \<rparr>)
            (resolve_accounts keys (ci_accountKeyIndexes ci)))"

fun resolve_ixs :: "string list \<Rightarrow> compiled_ix list \<Rightarrow> instruction list option" where
  "resolve_ixs keys [] = Some []"
| "resolve_ixs keys (ci # rest) =
     (case resolve_ix keys ci of
        None \<Rightarrow> None
      | Some x \<Rightarrow> map_option (Cons x) (resolve_ixs keys rest))"

text \<open>\<open>item.signature ? new Uint8Array (item.signature) : new Uint8Array (64)\<close>\<close>

definition legacy_signature_bytes :: "bytes option \<Rightarrow> bytes" where
  "legacy_signature_bytes m = (case m of None \<Rightarrow> replicate 64 0 | Some s \<Rightarrow> s)"

text \<open>\<open>!signature || signature.every (byte => byte === 0)\<close>\<close>

definition zero_or_missing :: "bytes option \<Rightarrow> bool" where
  "zero_or_missing m = (case m of None \<Rightarrow> True | Some s \<Rightarrow> is_zero s)"

text \<open>
  A concrete library, for closed instances of the theorems: every byte string is the legacy
  transaction \<open>demo_tx\<close>, signed by the payer \<open>p\<close> and not yet by the fee payer \<open>f\<close>.
\<close>

definition demo_tx :: legacy_tx where
  "demo_tx =
     \<lparr> lt_recentBlockhash = Some ''h'', lt_feePayer = Some ''f'',
       lt_signatures = [(''f'', None), (''p'', Some (replicate 64 1))],
       lt_instructions =
         [\<lparr> ix_program = token_program, ix_accounts = [''p-ata'', ''mint'', ''o-ata'', ''p''],
            ix_data = 12 # le_bytes 8 5 @ [6] \<rparr>,
          \<lparr> ix_program = ''MemoSq4gqABAXKb96qnH8TysNcWxMyWCqXgDLGmfcHr'', ix_accounts = [],
            ix_data = utf8_encode ''openshelf:v1:document:q'' \<rparr>] \<rparr>"

definition demo_prepared :: bytes where
  "demo_prepared = [byte_of 2] @ replicate 64 0 @ replicate 64 1 @ [byte_of 7]"

definition demo_candidate :: bytes where
  "demo_candidate = [byte_of 2] @ replicate 64 (byte_of 2) @ replicate 64 1 @ [byte_of 7]"

definition demo_lib :: svm_lib where
  "demo_lib =
     \<lparr> lib_sha256_hex = (\<lambda>s. replicate 64 (CHR ''a'')), lib_sha256_bytes_hex = (\<lambda>bs. replicate 64 (CHR ''b'')),
       lib_base58_decode = (\<lambda>s. Some (replicate 64 (byte_of 2))),
       lib_base58_encode = (\<lambda>bs. if bs = replicate 64 (byte_of 2) then ''sig2'' else ''sig''),
       lib_address = (\<lambda>s. s \<noteq> []), lib_signature = (\<lambda>s. s \<noteq> []),
       lib_ata = (\<lambda>m w p. Some (w @ ''-ata'')),
       lib_verify = (\<lambda>_ _ _. Some True),
       lib_decode_tx = (\<lambda>bs. Some \<lparr> dt_signatures = [(''f'', None), (''p'', Some (replicate 64 1))], dt_messageBytes = drop 129 bs \<rparr>),
       lib_lifetimeToken = (\<lambda>_. Some ''h''),
       lib_legacy_from = (\<lambda>_. Some demo_tx),
       lib_versioned_from = (\<lambda>_. None) \<rparr>"

end
