(* ===== verification/Interfaces.thy ===== *)
theory Interfaces
  imports Js_Bytes
begin

text \<open>
  The contracts the components rely on, each a locale proved once and interpreted on the code's
  own definitions by the component that provides it.
  \<open>timed_fence\<close>: a store that refuses a key until a deadline.
  \<open>independent_views\<close>: a decision taken from the observations of several independent sources.
\<close>

section \<open>Fences\<close>

text \<open>
  \<open>held s k t\<close>: at time \<open>t\<close> the store \<open>s\<close> refuses the key \<open>k\<close>. \<open>run\<close> performs an operation of
  the store at a time, and \<open>releases\<close> names the operations that may let a key go early.
\<close>

locale timed_fence =
  fixes held :: "'s \<Rightarrow> 'k \<Rightarrow> int \<Rightarrow> bool"
    and run :: "'o \<Rightarrow> int \<Rightarrow> 's \<Rightarrow> 's"
    and releases :: "'o \<Rightarrow> 'k \<Rightarrow> bool"
    and ok :: "'s \<Rightarrow> bool"
  assumes keeps: "ok s \<Longrightarrow> held s k t \<Longrightarrow> now \<le> t \<Longrightarrow> \<not> releases op k \<Longrightarrow> held (run op now s) k t"
    and keeps_ok: "ok s \<Longrightarrow> ok (run op now s)"
begin

text \<open>Operations performed one after the other, each with the time it runs at.\<close>

fun run_all :: "('o \<times> int) list \<Rightarrow> 's \<Rightarrow> 's" where
  "run_all [] s = s"
| "run_all ((op, now) # tr) s = run_all tr (run op now s)"

lemma ok_run_all: "ok s \<Longrightarrow> ok (run_all tr s)"
  by (induction tr arbitrary: s) (auto simp: keeps_ok)

lemma held_run_all:
  assumes "ok s" "held s k t" "\<And>op now. (op, now) \<in> set tr \<Longrightarrow> now \<le> t \<and> \<not> releases op k"
  shows "held (run_all tr s) k t"
  using assms
proof (induction tr arbitrary: s)
  case (Cons x tr)
  obtain op now where x: "x = (op, now)" by (cases x)
  with Cons.prems have "held (run op now s) k t"
    by (intro keeps) auto
  moreover have "ok (run op now s)"
    using Cons.prems by (simp add: keeps_ok)
  ultimately have "held (run_all tr (run op now s)) k t"
    using Cons.prems x by (intro Cons.IH) auto
  with x show ?case by simp
qed simp

end

section \<open>Independent views\<close>

text \<open>
  \<open>settled v\<close> is the view that a payment settled with the signature \<open>v\<close>; \<open>verdict\<close> is the
  signature the client accepts. The law: it accepts exactly what two or more views all report.
\<close>

locale independent_views =
  fixes settled :: "string \<Rightarrow> 'view"
    and verdict :: "'view list \<Rightarrow> string option"
  assumes verdict_iff: "verdict views = Some v \<longleftrightarrow>
      2 \<le> length views \<and> v \<noteq> [] \<and> (\<forall>view \<in> set views. view = settled v)"
    and settled_inj: "inj settled"
begin

text \<open>One dissenting view vetoes, whatever the number of the others.\<close>

lemma dissent_vetoes: "view \<in> set views \<Longrightarrow> (\<And>v. view \<noteq> settled v) \<Longrightarrow> verdict views = None"
  using verdict_iff by (cases "verdict views") auto

lemma disagreement_vetoes:
  "settled v \<in> set views \<Longrightarrow> settled w \<in> set views \<Longrightarrow> v \<noteq> w \<Longrightarrow> verdict views = None"
  using verdict_iff settled_inj by (cases "verdict views") (auto dest: injD)

lemma verdict_order: "set views = set views' \<Longrightarrow> length views = length views' \<Longrightarrow> verdict views = verdict views'"
  using verdict_iff by (cases "verdict views"; cases "verdict views'") (auto, metis+)?

lemma verdict_more_views:
  "verdict (views @ views') = Some v \<Longrightarrow> 2 \<le> length views \<Longrightarrow> verdict views = Some v"
  using verdict_iff by auto

end

end
