(* ===== verification/Transaction_Bytes.thy ===== *)
theory Transaction_Bytes
  imports Solana_Lib Interfaces
begin

text \<open>
  The byte-level view of a serialized transaction that \<open>payment-gateway/src/chain-reconciler.ts\<close>
  takes: a short-vector count of signatures, that many 64-byte slots, the message. The exact
  matcher between a prepared transaction and one found on chain is an interface
  (\<open>prepared_matcher\<close>), since the orchestrator has a matcher of its own; what follows from a
  match is proved once for both.
\<close>

section \<open>Short vectors\<close>

text \<open>The loop over at most three bytes; the seven-bit groups do not overlap, so \<open>|\<close> is \<open>+\<close>.\<close>

fun short_vec_from :: "nat \<Rightarrow> nat \<Rightarrow> bytes \<Rightarrow> (nat \<times> nat) option" where
  "short_vec_from index value [] = None"
| "short_vec_from index value (byte # rest) =
     (if 3 \<le> index then None
      else (let value' = value + (unat byte mod 128) * 2 ^ (7 * index) in
        if unat byte < 128 then Some (value', index + 1)
        else short_vec_from (index + 1) value' rest))"

definition decodeShortVec :: "bytes \<Rightarrow> (nat \<times> nat) option" where
  "decodeShortVec bs = short_vec_from 0 0 bs"

lemma radix_inj:
  fixes v w m m' P :: nat
  assumes "v + m * P = w + m' * P" "v < P" "w < P"
  shows "v = w \<and> m = m'"
proof -
  from assms have "(v + m * P) mod P = (w + m' * P) mod P" "(v + m * P) div P = (w + m' * P) div P"
    by simp_all
  with assms(2,3) show ?thesis by simp
qed

lemma radix_less:
  fixes v m P :: nat
  assumes "v < P" "m < 128"
  shows "v + m * P < 128 * P"
proof -
  have "(m + 1) * P \<le> 128 * P" using assms(2) by (intro mult_le_mono1) simp
  moreover have "v + m * P < (m + 1) * P" using assms(1) by simp
  ultimately show ?thesis by (rule less_le_trans [rotated])
qed

lemma pow_step: "(2::nat) ^ (7 * (i + 1)) = 128 * 2 ^ (7 * i)"
  by (simp add: power_add)

text \<open>A count fits 21 bits, and its prefix lies inside the transaction.\<close>

lemma short_vec_from_bound:
  assumes "short_vec_from i v bs = Some (n, k)" "v < 2 ^ (7 * i)"
  shows "n < 2 ^ (7 * k) \<and> i < k \<and> k \<le> 3 \<and> k \<le> i + length bs"
  using assms
proof (induction i v bs rule: short_vec_from.induct)
  case (2 i v b bs)
  let ?v = "v + unat b mod 128 * 2 ^ (7 * i)"
  have v': "?v < 2 ^ (7 * (i + 1))"
    unfolding pow_step by (rule radix_less) (use "2.prems" in simp_all)
  have i: "\<not> 3 \<le> i" using "2.prems" by (auto split: if_splits)
  show ?case
  proof (cases "unat b < 128")
    case True
    with "2.prems" i v' show ?thesis by (simp add: Let_def)
  next
    case False
    with "2.prems" i have r: "short_vec_from (i + 1) ?v bs = Some (n, k)" by (simp add: Let_def)
    from "2.IH" [OF i refl False r v'] show ?thesis by simp
  qed
qed simp

lemma decodeShortVec_bound:
  assumes "decodeShortVec bs = Some (n, k)"
  shows "n < 2 ^ 21 \<and> 1 \<le> k \<and> k \<le> 3 \<and> k \<le> length bs"
proof -
  have b: "n < 2 ^ (7 * k) \<and> 0 < k \<and> k \<le> 3 \<and> k \<le> 0 + length bs"
    using assms unfolding decodeShortVec_def by (rule short_vec_from_bound) simp
  moreover have "(2::nat) ^ (7 * k) \<le> 2 ^ 21"
    using b by (intro power_increasing) auto
  ultimately show ?thesis by (auto intro: less_le_trans)
qed

text \<open>The count and the prefix length determine the prefix.\<close>

lemma byte_eq_mod:
  fixes b b' :: byte
  assumes "unat b mod 128 = unat b' mod 128" "unat b < 128 \<longleftrightarrow> unat b' < 128"
  shows "b = b'"
proof -
  have "unat b div 128 = (if unat b < 128 then 0 else 1)" for b :: byte
    using unat_byte_less [of b] by (simp add: div_nat_eqI)
  with assms(2) have "unat b div 128 = unat b' div 128" by simp
  with assms(1) have "unat b = unat b'" by (metis mult_div_mod_eq)
  then show ?thesis by (metis byte_of_unat)
qed

lemma short_vec_from_prefix:
  assumes "short_vec_from i v p = Some (n, k)" "short_vec_from i w c = Some (n, k)"
    and "v < 2 ^ (7 * i)" "w < 2 ^ (7 * i)"
  shows "v = w \<and> take (k - i) p = take (k - i) c"
  using assms
proof (induction i v p arbitrary: w c rule: short_vec_from.induct)
  case (2 i v b bs)
  obtain b' cs where c: "c = b' # cs" using "2.prems" by (cases c) auto
  let ?v = "v + unat b mod 128 * 2 ^ (7 * i)" and ?w = "w + unat b' mod 128 * 2 ^ (7 * i)"
  have v': "?v < 2 ^ (7 * (i + 1))" and w': "?w < 2 ^ (7 * (i + 1))"
    unfolding pow_step by (rule radix_less, use "2.prems" in simp_all)+
  have i: "\<not> 3 \<le> i" using "2.prems" by (auto split: if_splits)
  have next_: "Suc i < k" if "short_vec_from (i + 1) u ds = Some (n, k)" "u < 2 ^ (7 * (i + 1))" for u ds
    using short_vec_from_bound [OF that] by simp
  show ?case
  proof (cases "unat b < 128")
    case True
    with "2.prems" i have k: "n = ?v" "k = i + 1" by (simp_all add: Let_def)
    then have t: "unat b' < 128" using "2.prems"(2) i w' c next_ [of ?w cs]
      by (auto simp: Let_def split: if_splits)
    with "2.prems"(2) i c have "n = ?w" by (simp add: Let_def)
    with k have "v = w \<and> unat b mod 128 = unat b' mod 128"
      using "2.prems"(3,4) by (intro radix_inj) simp_all
    with byte_eq_mod True t k c show ?thesis by auto
  next
    case False
    with "2.prems" i have r: "short_vec_from (i + 1) ?v bs = Some (n, k)" by (simp add: Let_def)
    then have k: "Suc i < k" using v' by (rule next_)
    then have f: "\<not> unat b' < 128" using "2.prems"(2) i c by (auto simp: Let_def split: if_splits)
    with "2.prems"(2) i c have r': "short_vec_from (i + 1) ?w cs = Some (n, k)" by (simp add: Let_def)
    from "2.IH" [OF i refl False r r' v' w']
    have e: "?v = ?w" "take (k - (i + 1)) bs = take (k - (i + 1)) cs" by simp_all
    with "2.prems"(3,4) have "v = w \<and> unat b mod 128 = unat b' mod 128"
      by (intro radix_inj) simp_all
    moreover from this have "b = b'" using False f by (intro byte_eq_mod) simp_all
    moreover have "k - i = Suc (k - (i + 1))" using k by simp
    ultimately show ?thesis using e c by simp
  qed
qed simp

lemma decodeShortVec_prefix:
  assumes "decodeShortVec p = Some (n, k)" "decodeShortVec c = Some (n, k)"
  shows "take k p = take k c"
  using short_vec_from_prefix [of 0 0 p n k 0 c] assms by (simp add: decodeShortVec_def)

section \<open>Signature slots\<close>

definition slot :: "nat \<Rightarrow> bytes \<Rightarrow> nat \<Rightarrow> bytes" where
  "slot k bs i = take 64 (drop (k + i * 64) bs)"

definition hasValidTransactionEnvelope :: "bytes \<Rightarrow> bool" where
  "hasValidTransactionEnvelope bs =
     (case decodeShortVec bs of
        None \<Rightarrow> False
      | Some (n, k) \<Rightarrow> 1 \<le> n \<and> n \<le> 64 \<and> k + n * 64 < length bs)"

definition bad_short_vec :: js_error where
  "bad_short_vec = Err ''transaction signature count is not a valid short vector''"

text \<open>\<open>paymentAttemptIdFromSettledTransaction\<close> re-zeroes the first slot and hashes the base64.\<close>

definition paymentAttemptIdFromSettledTransaction :: "svm_lib \<Rightarrow> string \<Rightarrow> string outcome" where
  "paymentAttemptIdFromSettledTransaction lib transactionBase64 =
     (let bs = base64_decode transactionBase64 in
      case decodeShortVec bs of
        None \<Rightarrow> Inl bad_short_vec
      | Some (n, k) \<Rightarrow>
          if n < 1 \<or> length bs \<le> k + n * 64
          then Inl (Err ''finalized transaction has an invalid signature section'')
          else Inr (lib_sha256_hex lib (base64_encode (take k bs @ replicate 64 0 @ drop (k + 64) bs))))"

text \<open>\<open>fullySignedTransactionSignature\<close>: \<open>Inr None\<close> when a slot is empty.\<close>

definition fullySignedTransactionSignature :: "svm_lib \<Rightarrow> bytes \<Rightarrow> string option outcome" where
  "fullySignedTransactionSignature lib bs =
     (case decodeShortVec bs of
        None \<Rightarrow> Inl bad_short_vec
      | Some (n, k) \<Rightarrow>
          if \<exists>i < n. is_zero (slot k bs i) then Inr None
          else Inr (Some (lib_base58_encode lib (slot k bs 0))))"

definition equalPreparedTransaction :: "svm_lib \<Rightarrow> bytes \<Rightarrow> bytes \<Rightarrow> string \<Rightarrow> bool" where
  "equalPreparedTransaction lib prepared candidate rpcSignature =
     (case (decodeShortVec prepared, decodeShortVec candidate) of
        (Some (n, k), Some (n', k')) \<Rightarrow>
          n = n' \<and> k = k' \<and> length prepared = length candidate
          \<and> drop (k + n * 64) prepared = drop (k + n * 64) candidate
          \<and> (\<forall>i < n.
               if is_zero (slot k prepared i) then \<not> is_zero (slot k candidate i)
               else slot k prepared i = slot k candidate i)
          \<and> lib_base58_encode lib (slot k' candidate 0) = rpcSignature
      | _ \<Rightarrow> False)"

section \<open>The exact matcher\<close>

lemma is_zero_replicate: "is_zero bs \<longleftrightarrow> bs = replicate (length bs) 0"
  by (induction bs) (auto simp: is_zero_def)

lemma length_slot: "k + (i + 1) * 64 \<le> length bs \<Longrightarrow> length (slot k bs i) = 64"
  by (simp add: slot_def)

lemma drop_slot: "drop (k + i * 64) bs = slot k bs i @ drop (k + Suc i * 64) bs"
  by (metis (no_types, opaque_lifting) add.assoc add.commute append_take_drop_id drop_drop mult_Suc slot_def)

text \<open>Equal slots from \<open>m\<close> to \<open>n\<close> and equal messages make the transactions equal from slot \<open>m\<close> on.\<close>

lemma drop_slots_eq:
  assumes "m \<le> n" "drop (k + n * 64) p = drop (k + n * 64) c"
    and "\<And>i. m \<le> i \<Longrightarrow> i < n \<Longrightarrow> slot k p i = slot k c i"
  shows "drop (k + m * 64) p = drop (k + m * 64) c"
  using assms
proof (induction n rule: dec_induct)
  case (step n)
  then have "drop (k + n * 64) p = drop (k + n * 64) c"
    by (simp add: drop_slot [of k n])
  with step show ?case by simp
qed

lemma split_first_slot: "p = take k p @ slot k p 0 @ drop (k + 64) p"
  using drop_slot [of k 0 p] by (metis add.right_neutral append_take_drop_id mult_zero_left mult_1 One_nat_def)

locale prepared_matcher =
  fixes matches :: "svm_lib \<Rightarrow> bytes \<Rightarrow> bytes \<Rightarrow> string \<Rightarrow> bool"
  assumes matchesD: "matches lib p c sig \<Longrightarrow>
    \<exists>n k. decodeShortVec p = Some (n, k) \<and> decodeShortVec c = Some (n, k) \<and> length p = length c
      \<and> drop (k + n * 64) p = drop (k + n * 64) c
      \<and> (\<forall>i < n. if is_zero (slot k p i) then \<not> is_zero (slot k c i) else slot k p i = slot k c i)
      \<and> lib_base58_encode lib (slot k c 0) = sig"
begin

lemma matches_header:
  assumes "matches lib p c sig" "decodeShortVec p = Some (n, k)"
  shows "decodeShortVec c = Some (n, k)" "length c = length p" "take k c = take k p"
    "drop (k + n * 64) c = drop (k + n * 64) p" "lib_base58_encode lib (slot k c 0) = sig"
proof -
  from matchesD [OF assms(1)] assms(2)
  show 1: "decodeShortVec c = Some (n, k)" and "length c = length p"
    "drop (k + n * 64) c = drop (k + n * 64) p" "lib_base58_encode lib (slot k c 0) = sig" by auto
  show "take k c = take k p" using 1 assms(2) by (rule decodeShortVec_prefix)
qed

lemma matches_slot:
  assumes "matches lib p c sig" "decodeShortVec p = Some (n, k)" "i < n"
  shows "\<not> is_zero (slot k c i)" "\<not> is_zero (slot k p i) \<Longrightarrow> slot k c i = slot k p i"
  using matchesD [OF assms(1)] assms(2,3) by (auto split: if_splits) (metis+)?

text \<open>A fully signed prepared transaction is matched by itself alone.\<close>

lemma matches_fully_signed:
  assumes "matches lib p c sig" "decodeShortVec p = Some (n, k)" "\<And>i. i < n \<Longrightarrow> \<not> is_zero (slot k p i)"
  shows "c = p"
proof -
  have "drop (k + 0 * 64) c = drop (k + 0 * 64) p"
    by (rule drop_slots_eq [of 0 n]) (use assms matches_header [OF assms(1,2)] matches_slot [OF assms(1,2)] in auto)
  with matches_header(3) [OF assms(1,2)] show ?thesis
    by (metis add.right_neutral append_take_drop_id mult_zero_left)
qed

text \<open>With only the fee payer's slot empty, emptying it again gives back the prepared bytes.\<close>

lemma matches_rezeroed:
  assumes "matches lib p c sig" "decodeShortVec p = Some (n, k)" "1 \<le> n" "k + n * 64 < length p"
    and "is_zero (slot k p 0)" "\<And>i. 0 < i \<Longrightarrow> i < n \<Longrightarrow> \<not> is_zero (slot k p i)"
  shows "take k c @ replicate 64 0 @ drop (k + 64) c = p"
proof -
  have "drop (k + 1 * 64) c = drop (k + 1 * 64) p"
    by (rule drop_slots_eq [of 1 n]) (use assms matches_header [OF assms(1,2)] matches_slot [OF assms(1,2)] in auto)
  moreover have "length (slot k p 0) = 64"
    using assms(3,4) by (intro length_slot) simp
  then have "slot k p 0 = replicate 64 0"
    using assms(5) is_zero_replicate [of "slot k p 0"] by simp
  ultimately show ?thesis
    using matches_header(3) [OF assms(1,2)] split_first_slot [of p k] by simp
qed

lemma matches_attempt_id:
  assumes "matches lib p c sig" "decodeShortVec p = Some (n, k)" "1 \<le> n" "k + n * 64 < length p"
    and "is_zero (slot k p 0)" "\<And>i. 0 < i \<Longrightarrow> i < n \<Longrightarrow> \<not> is_zero (slot k p i)"
  shows "paymentAttemptIdFromSettledTransaction lib (base64_encode c) = Inr (lib_sha256_hex lib (base64_encode p))"
  using matches_rezeroed [OF assms] matches_header(1,2) [OF assms(1,2)] assms(3,4)
  by (simp add: paymentAttemptIdFromSettledTransaction_def)

end

interpretation gateway_match: prepared_matcher equalPreparedTransaction
proof unfold_locales
  fix lib p c sig
  assume "equalPreparedTransaction lib p c sig"
  then show "\<exists>n k. decodeShortVec p = Some (n, k) \<and> decodeShortVec c = Some (n, k) \<and> length p = length c
      \<and> drop (k + n * 64) p = drop (k + n * 64) c
      \<and> (\<forall>i < n. if is_zero (slot k p i) then \<not> is_zero (slot k c i) else slot k p i = slot k c i)
      \<and> lib_base58_encode lib (slot k c 0) = sig"
    unfolding equalPreparedTransaction_def by (auto split: option.splits prod.splits)
qed

end
