(* ===== verification/Payment_Routing.thy ===== *)
theory Payment_Routing
  imports Interfaces
begin

text \<open>
  \<open>payment-gateway/src/payment-routing.ts\<close>: the identity of a paid resource and the paths that
  select it, the memo and the id of a payment attempt, the guards on a quote, and the two
  in-process fences of the gateway. \<open>VerifiedPaymentAttemptTracker\<close> keeps one verified attempt
  per resource; \<open>SettlementReplayGuard\<close> refuses a resource that has settled.
  \<open>new URL (path).pathname\<close> and SHA-256 are parameters.
\<close>

section \<open>Identities and quotes\<close>

datatype payment_route_identity =
    DocumentQuery (pri_queryId: string) (pri_handle: string) (pri_key: string)
  | DocumentQuote (pri_quoteId: string) (pri_key: string)
  | Bundle (pri_quoteId: string) (pri_key: string)
  | OpenCall (pri_quoteId: string) (pri_key: string)
  | TopUp (pri_quoteId: string) (pri_key: string)

fun pri_kind :: "payment_route_identity \<Rightarrow> string" where
  "pri_kind (DocumentQuery _ _ _) = ''document''"
| "pri_kind (DocumentQuote _ _) = ''document''"
| "pri_kind (Bundle _ _) = ''bundle''"
| "pri_kind (OpenCall _ _) = ''open_call''"
| "pri_kind (TopUp _ _) = ''topup''"

record payment_quote_state =
  pqs_expiresAt :: jnum
  pqs_status :: string
  pqs_requiresPayment :: "bool option"

text \<open>The resource kind of an identity and the ids that select it, without the lookup key.\<close>

fun pri_selector :: "payment_route_identity \<Rightarrow> string list" where
  "pri_selector (DocumentQuery q h _) = [''document'', q, h]"
| "pri_selector (DocumentQuote q _) = [''document_quote'', q]"
| "pri_selector (Bundle q _) = [''bundle'', q]"
| "pri_selector (OpenCall q _) = [''open_call'', q]"
| "pri_selector (TopUp q _) = [''topup'', q]"

fun join :: "string \<Rightarrow> string list \<Rightarrow> string" where
  "join sep [] = []"
| "join sep [x] = x"
| "join sep (x # y # xs) = x @ sep @ join sep (y # xs)"

fun split_at :: "char \<Rightarrow> string \<Rightarrow> string list" where
  "split_at c [] = [[]]"
| "split_at c (x # xs) =
     (if x = c then [] # split_at c xs
      else (case split_at c xs of [] \<Rightarrow> [[x]] | s # ss \<Rightarrow> (x # s) # ss))"

section \<open>Paths\<close>

definition decode_segment :: "string \<Rightarrow> string outcome" where
  "decode_segment s = of_opt (Err ''URI malformed'') (decode_uri s)"

text \<open>
  The four patterns of the form \<open>^/api/v1/KIND/([^/]+)$\<close>: the segments between slashes are
  matched, a captured one being nonempty.
\<close>

definition paymentIdentityFromPathname :: "string \<Rightarrow> payment_route_identity outcome" where
  "paymentIdentityFromPathname pathname =
     (case split_at CHR ''/'' pathname of
        [e, api, v1, kind, a, b] \<Rightarrow>
          if e = [] \<and> api = ''api'' \<and> v1 = ''v1'' \<and> kind = ''paid-documents'' \<and> a \<noteq> [] \<and> b \<noteq> [] then
            rbind (decode_segment a) (\<lambda>queryId. rbind (decode_segment b) (\<lambda>handle.
              require (queryId \<noteq> [] \<and> handle \<noteq> []) (Err ''query id and document handle are required'')
                (Inr (DocumentQuery queryId handle (''document'' @ [nul] @ queryId @ [nul] @ handle)))))
          else Inl (Err ''invalid paid resource path'')
      | [e, api, v1, kind, a] \<Rightarrow>
          if e = [] \<and> api = ''api'' \<and> v1 = ''v1'' \<and> a \<noteq> [] then
            (if kind = ''paid-quotes'' then
               rbind (decode_segment a) (\<lambda>quoteId.
                 require (quoteId \<noteq> []) (Err ''document payment quote id is required'')
                   (Inr (DocumentQuote quoteId (''document_quote'' @ [nul] @ quoteId))))
             else if kind = ''paid-bundles'' then
               rbind (decode_segment a) (\<lambda>quoteId.
                 require (quoteId \<noteq> []) (Err ''payment bundle quote id is required'')
                   (Inr (Bundle quoteId (''bundle'' @ [nul] @ quoteId))))
             else if kind = ''funded-open-calls'' then
               rbind (decode_segment a) (\<lambda>quoteId.
                 require (quoteId \<noteq> []) (Err ''open-call funding quote id is required'')
                   (Inr (OpenCall quoteId (''open_call'' @ [nul] @ quoteId))))
             else Inl (Err ''invalid paid resource path''))
          else Inl (Err ''invalid paid resource path'')
      | _ \<Rightarrow> Inl (Err ''invalid paid resource path''))"

definition paymentIdentityFromPath ::
    "(string \<Rightarrow> string option) \<Rightarrow> string \<Rightarrow> payment_route_identity outcome" where
  "paymentIdentityFromPath url_pathname path =
     rbind
       (if starts_with ''http'' path then of_opt (Err ''Invalid URL'') (url_pathname path)
        else Inr (takeWhile (\<lambda>c. c \<noteq> CHR ''?'') path))
       paymentIdentityFromPathname"

section \<open>The attempt id and the memo\<close>

definition paymentAttemptId :: "(string \<Rightarrow> string) \<Rightarrow> json \<Rightarrow> string outcome" where
  "paymentAttemptId sha256_hex payload =
     (case prop_of payload ''transaction'' of
        JStr t \<Rightarrow>
          if t = [] then Inl (Err ''verified SVM payment payload has no transaction'')
          else Inr (sha256_hex t)
      | _ \<Rightarrow> Inl (Err ''verified SVM payment payload has no transaction''))"

definition paymentMemo :: "payment_route_identity \<Rightarrow> string \<Rightarrow> string outcome" where
  "paymentMemo identity quoteId =
     (let memo = ''openshelf:v1:'' @ pri_kind identity @ '':'' @ quoteId in
      if quoteId = [] \<or> 256 < length (utf8_encode memo)
      then Inl (Err ''payment quote id cannot be encoded in the Solana memo'')
      else Inr memo)"

section \<open>Guards on a quote\<close>

definition assertPaymentQuoteUsable :: "jnum \<Rightarrow> int \<Rightarrow> unit outcome" where
  "assertPaymentQuoteUsable expiresAt now =
     (if \<not> is_safe_integer expiresAt \<or> jle expiresAt (Num now)
      then Inl (PaymentQuoteErr 410 ''payment_quote_expired'')
      else Inr ())"

definition assertPaymentQuotePayable :: "payment_quote_state \<Rightarrow> int \<Rightarrow> unit outcome" where
  "assertPaymentQuotePayable quote now =
     (if pqs_status quote \<noteq> ''quoted'' \<or> pqs_requiresPayment quote = Some False
      then Inl (PaymentQuoteErr 409 ''payment_not_payable'')
      else assertPaymentQuoteUsable (pqs_expiresAt quote) now)"

section \<open>The tracker of verified attempts\<close>

definition verified_attempt_retention_ms :: int where
  "verified_attempt_retention_ms = 24 * 60 * 60 * 1000"

record 'q verified_payment_attempt =
  vpa_attemptId :: string
  vpa_identity :: payment_route_identity
  vpa_quote :: 'q
  vpa_retainedUntil :: int

record 'q tracker =
  trk_byAttempt :: "(string \<times> 'q verified_payment_attempt) list"
  trk_attemptByIdentity :: "(string \<times> string) list"

definition tracker_empty :: "'q tracker" where
  "tracker_empty = \<lparr> trk_byAttempt = [], trk_attemptByIdentity = [] \<rparr>"

definition trk_remember ::
    "string \<Rightarrow> payment_route_identity \<Rightarrow> 'q \<Rightarrow> int \<Rightarrow> ('q tracker, unit) proc" where
  "trk_remember attemptId identity quote now s =
     (if map_of (trk_byAttempt s) attemptId \<noteq> None
          \<or> map_of (trk_attemptByIdentity s) (pri_key identity) \<noteq> None
      then (Inl (PaymentQuoteErr 409 ''payment_not_payable''), s)
      else
        (Inr (),
         \<lparr> trk_byAttempt = AList.update attemptId
             \<lparr> vpa_attemptId = attemptId, vpa_identity = identity, vpa_quote = quote,
               vpa_retainedUntil = now + verified_attempt_retention_ms \<rparr> (trk_byAttempt s),
           trk_attemptByIdentity =
             AList.update (pri_key identity) attemptId (trk_attemptByIdentity s) \<rparr>))"

definition trk_forAttempt :: "'q tracker \<Rightarrow> string \<Rightarrow> 'q verified_payment_attempt option" where
  "trk_forAttempt s attemptId = map_of (trk_byAttempt s) attemptId"

definition trk_forIdentity :: "'q tracker \<Rightarrow> string \<Rightarrow> 'q verified_payment_attempt option" where
  "trk_forIdentity s identityKey =
     (let attemptId = map_of (trk_attemptByIdentity s) identityKey in
      if truthy attemptId then map_of (trk_byAttempt s) (the attemptId) else None)"

definition trk_forget :: "string \<Rightarrow> 'q tracker \<Rightarrow> 'q tracker" where
  "trk_forget attemptId s =
     (case map_of (trk_byAttempt s) attemptId of
        None \<Rightarrow> s
      | Some attempt \<Rightarrow>
          \<lparr> trk_byAttempt = AList.delete attemptId (trk_byAttempt s),
            trk_attemptByIdentity =
              (if map_of (trk_attemptByIdentity s) (pri_key (vpa_identity attempt)) = Some attemptId
               then AList.delete (pri_key (vpa_identity attempt)) (trk_attemptByIdentity s)
               else trk_attemptByIdentity s) \<rparr>)"

text \<open>The loop visits the entries in insertion order; \<open>forget\<close> removes the one it is at.\<close>

definition trk_prune :: "int \<Rightarrow> 'q tracker \<Rightarrow> 'q tracker" where
  "trk_prune now s =
     fold (\<lambda>(attemptId, attempt) s. if vpa_retainedUntil attempt \<le> now then trk_forget attemptId s else s)
       (trk_byAttempt s) s"

section \<open>The settlement replay guard\<close>

definition settlement_replay_retention_ms :: int where
  "settlement_replay_retention_ms = 24 * 60 * 60 * 1000"

type_synonym replay_guard = "(string \<times> jnum) list"

definition srg_assertNotSettled :: "string \<Rightarrow> int \<Rightarrow> (replay_guard, unit) proc" where
  "srg_assertNotSettled key now s =
     (case map_of s key of
        None \<Rightarrow> (Inr (), s)
      | Some retainedUntil \<Rightarrow>
          if jle retainedUntil (Num now) then (Inr (), AList.delete key s)
          else (Inl (PaymentQuoteErr 409 ''payment_not_payable''), s))"

definition srg_markSettled :: "string \<Rightarrow> jnum \<Rightarrow> int \<Rightarrow> replay_guard \<Rightarrow> replay_guard" where
  "srg_markSettled key quoteExpiresAt now s =
     AList.update key (jmax quoteExpiresAt (Num (now + settlement_replay_retention_ms))) s"

definition srg_prune :: "int \<Rightarrow> replay_guard \<Rightarrow> replay_guard" where
  "srg_prune now s = keep_entries (\<lambda>_ retainedUntil. \<not> jle retainedUntil (Num now)) s"

section \<open>The tracker\<close>

definition tracker_inv :: "'q tracker \<Rightarrow> bool" where
  "tracker_inv s \<longleftrightarrow>
     distinct (map fst (trk_byAttempt s)) \<and> distinct (map fst (trk_attemptByIdentity s)) \<and>
     key_index (\<lambda>v. pri_key (vpa_identity v)) (map_of (trk_byAttempt s)) (map_of (trk_attemptByIdentity s)) \<and>
     (\<forall>a v. map_of (trk_byAttempt s) a = Some v \<longrightarrow> vpa_attemptId v = a)"

lemma tracker_inv_empty: "tracker_inv tracker_empty"
  by (simp add: tracker_inv_def tracker_empty_def key_index_def)

lemma tracker_inv_remember:
  assumes "tracker_inv s" "trk_remember a i q now s = (r, s')"
  shows "tracker_inv s'"
proof (cases "map_of (trk_byAttempt s) a = None \<and> map_of (trk_attemptByIdentity s) (pri_key i) = None")
  case True
  with assms(2) have s': "s' = \<lparr> trk_byAttempt = AList.update a
             \<lparr> vpa_attemptId = a, vpa_identity = i, vpa_quote = q,
               vpa_retainedUntil = now + verified_attempt_retention_ms \<rparr> (trk_byAttempt s),
           trk_attemptByIdentity = AList.update (pri_key i) a (trk_attemptByIdentity s) \<rparr>"
    by (simp add: trk_remember_def)
  with True assms(1) show ?thesis
    by (auto simp: tracker_inv_def distinct_update intro!: key_index_insert simp del: map_of_eq_Some_iff)
next
  case False
  with assms show ?thesis
    by (simp add: trk_remember_def split: if_splits)
qed

lemma tracker_inv_forget:
  assumes "tracker_inv s"
  shows "tracker_inv (trk_forget a s)"
proof (cases "map_of (trk_byAttempt s) a")
  case None
  with assms show ?thesis by (simp add: trk_forget_def)
next
  case (Some v)
  with assms have "map_of (trk_attemptByIdentity s) (pri_key (vpa_identity v)) = Some a"
    by (auto simp: tracker_inv_def key_index_def)
  with Some have f: "trk_forget a s = \<lparr> trk_byAttempt = AList.delete a (trk_byAttempt s),
      trk_attemptByIdentity = AList.delete (pri_key (vpa_identity v)) (trk_attemptByIdentity s) \<rparr>"
    by (simp add: trk_forget_def)
  have "key_index (\<lambda>v. pri_key (vpa_identity v)) ((map_of (trk_byAttempt s))(a := None))
      ((map_of (trk_attemptByIdentity s))(pri_key (vpa_identity v) := None))"
    using assms Some by (intro key_index_delete) (simp_all add: tracker_inv_def)
  with assms show ?thesis
    unfolding tracker_inv_def f tracker.simps map_of_AList_delete
    by (simp add: distinct_delete del: map_of_eq_Some_iff split: if_splits)
qed

lemma tracker_inv_fold_forget:
  "tracker_inv s \<Longrightarrow> tracker_inv (fold (\<lambda>(a, v) s. if P a v then trk_forget a s else s) xs s)"
  by (induction xs arbitrary: s) (auto simp: tracker_inv_forget)

lemma tracker_inv_prune: "tracker_inv s \<Longrightarrow> tracker_inv (trk_prune now s)"
  by (simp add: trk_prune_def tracker_inv_fold_forget)

lemma map_of_forget:
  "map_of (trk_byAttempt (trk_forget a s)) b = (if a = b then None else map_of (trk_byAttempt s) b)"
  by (auto simp: trk_forget_def split: option.splits)

lemma map_of_fold_forget:
  "map_of (trk_byAttempt (fold (\<lambda>(a, v) s. if P v then trk_forget a s else s) xs s)) b =
     (if \<exists>v. (b, v) \<in> set xs \<and> P v then None else map_of (trk_byAttempt s) b)"
  by (induction xs arbitrary: s) (auto simp: map_of_forget)

text \<open>Pruning removes exactly the attempts whose retention has run out.\<close>

lemma map_of_prune:
  assumes "tracker_inv s"
  shows "map_of (trk_byAttempt (trk_prune now s)) a =
    (case map_of (trk_byAttempt s) a of
       Some v \<Rightarrow> if vpa_retainedUntil v \<le> now then None else Some v | None \<Rightarrow> None)"
proof -
  have d: "distinct (map fst (trk_byAttempt s))"
    using assms by (simp add: tracker_inv_def)
  have "(a, v) \<in> set (trk_byAttempt s) \<longleftrightarrow> map_of (trk_byAttempt s) a = Some v" for v
    using d by simp
  then show ?thesis
    unfolding trk_prune_def map_of_fold_forget by (auto split: option.splits)
qed

text \<open>The states the tracker reaches.\<close>

inductive tracker_step :: "'q tracker \<Rightarrow> 'q tracker \<Rightarrow> bool" where
  remember: "trk_remember a i q now s = (r, s') \<Longrightarrow> tracker_step s s'"
| forget: "tracker_step s (trk_forget a s)"
| prune: "tracker_step s (trk_prune now s)"

inductive tracker_reachable :: "'q tracker \<Rightarrow> bool" where
  start: "tracker_reachable tracker_empty"
| step: "tracker_reachable s \<Longrightarrow> tracker_step s s' \<Longrightarrow> tracker_reachable s'"

inductive_cases tracker_stepE: "tracker_step s s'"

lemma tracker_reachable_inv: "tracker_reachable s \<Longrightarrow> tracker_inv s"
  by (induction rule: tracker_reachable.induct)
    (auto elim!: tracker_stepE
      simp: tracker_inv_empty tracker_inv_forget tracker_inv_prune intro: tracker_inv_remember)

text \<open>The tracker as a fence on resources: a verified attempt holds its resource.\<close>

definition trk_holds :: "'q tracker \<Rightarrow> string \<Rightarrow> int \<Rightarrow> bool" where
  "trk_holds s key t \<longleftrightarrow>
     (\<exists>a v. map_of (trk_byAttempt s) a = Some v \<and> pri_key (vpa_identity v) = key
        \<and> t < vpa_retainedUntil v)"

datatype 'q tracker_op =
    OpRemember string payment_route_identity 'q
  | OpForget string string
  | OpPrune

text \<open>\<open>OpForget a key\<close> runs \<open>forget a\<close> only while \<open>a\<close> is the attempt of the resource \<open>key\<close>.\<close>

fun run_tracker_op :: "'q tracker_op \<Rightarrow> int \<Rightarrow> 'q tracker \<Rightarrow> 'q tracker" where
  "run_tracker_op (OpRemember a i q) now s = snd (trk_remember a i q now s)"
| "run_tracker_op (OpForget a key) now s =
     (if map_of (trk_attemptByIdentity s) key = Some a then trk_forget a s else s)"
| "run_tracker_op OpPrune now s = trk_prune now s"

fun tracker_op_releases :: "'q tracker_op \<Rightarrow> string \<Rightarrow> bool" where
  "tracker_op_releases (OpForget a key') key = (key' = key)"
| "tracker_op_releases _ key = False"

lemma trk_remember_keeps:
  "map_of (trk_byAttempt s) b = Some v \<Longrightarrow> map_of (trk_byAttempt (snd (trk_remember a i q now s))) b = Some v"
  by (auto simp: trk_remember_def)

interpretation tracker_fence: timed_fence trk_holds run_tracker_op tracker_op_releases tracker_inv
proof unfold_locales
  fix s :: "'q tracker" and k t now and op :: "'q tracker_op"
  assume inv: "tracker_inv s" and h: "trk_holds s k t" and now: "now \<le> t"
    and r: "\<not> tracker_op_releases op k"
  from h obtain a v where v: "map_of (trk_byAttempt s) a = Some v"
    "pri_key (vpa_identity v) = k" "t < vpa_retainedUntil v"
    by (auto simp: trk_holds_def)
  have "map_of (trk_byAttempt (run_tracker_op op now s)) a = Some v"
  proof (cases op)
    case (OpForget b key)
    with r v inv have "map_of (trk_attemptByIdentity s) key \<noteq> Some a"
      by (auto simp: tracker_inv_def key_index_def)
    with OpForget v show ?thesis by (auto simp: map_of_forget)
  qed (use v now inv in \<open>auto simp: map_of_prune trk_remember_keeps\<close>)
  with v show "trk_holds (run_tracker_op op now s) k t"
    by (auto simp: trk_holds_def)
next
  fix s :: "'q tracker" and op :: "'q tracker_op" and now
  assume "tracker_inv s"
  then show "tracker_inv (run_tracker_op op now s)"
    by (cases op) (auto simp: tracker_inv_forget tracker_inv_prune intro: tracker_inv_remember prod.collapse [symmetric])
qed

section \<open>The replay guard\<close>

definition srg_holds :: "replay_guard \<Rightarrow> string \<Rightarrow> int \<Rightarrow> bool" where
  "srg_holds s key t \<longleftrightarrow> (\<exists>r. map_of s key = Some r \<and> \<not> jle r (Num t))"

lemma srg_holds_iff: "srg_holds s key t \<longleftrightarrow> \<not> succeeds (fst (srg_assertNotSettled key t s))"
  by (auto simp: srg_holds_def srg_assertNotSettled_def split: option.splits)

datatype replay_op = OpAssert string | OpMark string jnum | OpPruneGuard

fun run_replay_op :: "replay_op \<Rightarrow> int \<Rightarrow> replay_guard \<Rightarrow> replay_guard" where
  "run_replay_op (OpAssert k) now s = snd (srg_assertNotSettled k now s)"
| "run_replay_op (OpMark k e) now s = srg_markSettled k e now s"
| "run_replay_op OpPruneGuard now s = srg_prune now s"

fun replay_op_releases :: "replay_op \<Rightarrow> string \<Rightarrow> bool" where
  "replay_op_releases (OpMark k' e) k = (k' = k)"
| "replay_op_releases _ k = False"

lemma jle_Num_trans: "jle r (Num a) \<Longrightarrow> a \<le> b \<Longrightarrow> jle r (Num b)"
  by (cases r) (auto simp: Num_def intro: order_trans)

lemma jle_jmax: "jle (jmax x (Num a)) (Num b) \<Longrightarrow> a \<le> b"
  by (cases x) (auto simp: jmax_def Num_def split: if_splits)

interpretation replay_fence: timed_fence srg_holds run_replay_op replay_op_releases
  "\<lambda>s. distinct (map fst s)"
proof unfold_locales
  fix s :: replay_guard and k t now op
  assume d: "distinct (map fst s)" and h: "srg_holds s k t" and now: "now \<le> t"
    and r: "\<not> replay_op_releases op k"
  from h obtain r where r': "map_of s k = Some r" "\<not> jle r (Num t)"
    by (auto simp: srg_holds_def)
  with now have "\<not> jle r (Num now)"
    using jle_Num_trans by blast
  with r r' d have "map_of (run_replay_op op now s) k = Some r"
    by (cases op)
      (auto simp: srg_assertNotSettled_def srg_markSettled_def srg_prune_def map_of_keep_entries
        simp del: map_of_eq_Some_iff split: option.splits)
  with r' show "srg_holds (run_replay_op op now s) k t"
    by (simp add: srg_holds_def)
next
  fix s :: replay_guard and op now
  assume "distinct (map fst s)"
  then show "distinct (map fst (run_replay_op op now s))"
    by (cases op)
      (auto simp: srg_assertNotSettled_def srg_markSettled_def srg_prune_def distinct_keep_entries
        distinct_update distinct_delete split: option.splits)
qed

lemma srg_mark_holds:
  "t < now + settlement_replay_retention_ms \<Longrightarrow> srg_holds (srg_markSettled k e now s) k t"
  using jle_jmax [of e "now + settlement_replay_retention_ms" t]
  by (auto simp: srg_holds_def srg_markSettled_def)

text \<open>Marking the same key again rewrites its deadline, but not to one that has passed already.\<close>

lemma srg_kept:
  assumes "distinct (map fst s)" "srg_holds s key t" "now \<le> t" "t < now + settlement_replay_retention_ms"
  shows "srg_holds (run_replay_op op now s) key t"
proof (cases "replay_op_releases op key")
  case True
  then obtain e where "op = OpMark key e" by (cases op) auto
  with assms(4) show ?thesis by (simp add: srg_mark_holds)
next
  case False
  then show ?thesis using replay_fence.keeps [OF assms(1,2,3)] by blast
qed

lemma srg_kept_run:
  assumes "distinct (map fst s)" "srg_holds s key t" "t < t0 + settlement_replay_retention_ms"
    and "\<forall>(op, now) \<in> set tr. t0 \<le> now \<and> now \<le> t"
  shows "srg_holds (replay_fence.run_all tr s) key t"
  using assms
proof (induction tr arbitrary: s)
  case (Cons x tr)
  obtain op now where x: "x = (op, now)" by (cases x)
  from Cons.prems x have "srg_holds (run_replay_op op now s) key t"
    by (intro srg_kept) auto
  moreover have "distinct (map fst (run_replay_op op now s))"
    using Cons.prems(1) by (rule replay_fence.keeps_ok)
  ultimately have "srg_holds (replay_fence.run_all tr (run_replay_op op now s)) key t"
    using Cons.prems(3,4) by (intro Cons.IH) auto
  with x show ?case by simp
qed simp

section \<open>Paths and memos\<close>

lemma decode_segment_Inr [simp]: "decode_segment s = Inr t \<longleftrightarrow> decode_uri s = Some t"
  by (simp add: decode_segment_def)

text \<open>The key of an identity that a path selects, as a function of its ids.\<close>

lemma paymentIdentityFromPathname_key:
  assumes "paymentIdentityFromPathname p = Inr i"
  shows "pri_key i = join [nul] (pri_selector i) \<and> [] \<notin> set (pri_selector i) \<and> (\<forall>q k. i \<noteq> TopUp q k)"
  using assms
  by (auto simp: paymentIdentityFromPathname_def rbind_Inr_iff split: list.splits if_splits)

lemma join_nul_inj:
  assumes "\<forall>x \<in> set xs. nul \<notin> set x" "\<forall>y \<in> set ys. nul \<notin> set y" "xs \<noteq> []" "ys \<noteq> []"
    and "join [nul] xs = join [nul] ys"
  shows "xs = ys"
  using assms
proof (induction "[nul]" xs arbitrary: ys rule: join.induct)
  case (2 x)
  then show ?case
    by (cases ys rule: remdups_adj.cases) auto
next
  case (3 x y xs)
  then obtain z zs where ys: "ys = z # zs" by (cases ys) auto
  with 3 obtain z' zs' where zs: "zs = z' # zs'"
    by (cases zs) (auto simp: in_set_conv_decomp)
  have eq: "x @ nul # join [nul] (y # xs) = z @ nul # join [nul] zs"
    using 3 ys zs by simp
  have "x = takeWhile (\<lambda>c. c \<noteq> nul) (x @ nul # join [nul] (y # xs))"
    using 3 by (subst takeWhile_append2) auto
  also have "\<dots> = z"
    unfolding eq using 3 ys by (subst takeWhile_append2) auto
  finally have "x = z" .
  with eq have "join [nul] (y # xs) = join [nul] zs" by simp
  then have "y # xs = zs"
    using 3 ys zs by (intro "3.hyps") auto
  with \<open>x = z\<close> ys show ?case by simp
qed simp

lemma pri_selector_kind: "i \<noteq> j \<Longrightarrow> pri_key i = pri_key j \<Longrightarrow> pri_selector i \<noteq> pri_selector j"
  by (cases i; cases j) auto

lemma colon_notin_kind: "CHR '':'' \<notin> set (pri_kind i)"
  by (cases i) auto

lemma append_sep_inj:
  "c \<notin> set a \<Longrightarrow> c \<notin> set b \<Longrightarrow> a @ c # s = b @ c # t \<longleftrightarrow> a = b \<and> s = t"
  by (induction a arbitrary: b) (case_tac b; auto)+

section \<open>Properties\<close>

text \<open>In every state the tracker of verified attempts can reach, at most one attempt is
  verified for a resource key, the attempt found through the key is that one, and an attempt is
  stored under its own id.\<close>

theorem tracker_one_attempt_per_resource:
  assumes "tracker_reachable s"
  shows "(\<forall>a b u v. trk_forAttempt s a = Some u \<and> trk_forAttempt s b = Some v \<and>
             pri_key (vpa_identity u) = pri_key (vpa_identity v) \<longrightarrow> a = b)
    \<and> (\<forall>k v. trk_forIdentity s k = Some v \<longrightarrow>
          trk_forAttempt s (vpa_attemptId v) = Some v \<and> pri_key (vpa_identity v) = k)
    \<and> (\<forall>a v. a \<noteq> [] \<and> trk_forAttempt s a = Some v \<longrightarrow>
          trk_forIdentity s (pri_key (vpa_identity v)) = Some v)"
proof -
  have inv: "tracker_inv s" by (rule tracker_reachable_inv [OF assms])
  have key: "map_of (trk_attemptByIdentity s) k = Some a \<longleftrightarrow>
      (\<exists>v. map_of (trk_byAttempt s) a = Some v \<and> pri_key (vpa_identity v) = k)" for k a
    using inv by (auto simp: tracker_inv_def key_index_def simp del: map_of_eq_Some_iff)
  have id: "map_of (trk_byAttempt s) a = Some v \<Longrightarrow> vpa_attemptId v = a" for a v
    using inv by (auto simp: tracker_inv_def simp del: map_of_eq_Some_iff)
  have one: "a = b" if "trk_forAttempt s a = Some u" "trk_forAttempt s b = Some v"
      "pri_key (vpa_identity u) = pri_key (vpa_identity v)" for a b u v
    using that key [of "pri_key (vpa_identity v)" a] key [of "pri_key (vpa_identity v)" b]
    by (auto simp: trk_forAttempt_def simp del: map_of_eq_Some_iff)
  have found: "trk_forAttempt s (vpa_attemptId v) = Some v \<and> pri_key (vpa_identity v) = k"
    if "trk_forIdentity s k = Some v" for k v
  proof -
    from that obtain a where a: "map_of (trk_attemptByIdentity s) k = Some a" "map_of (trk_byAttempt s) a = Some v"
      by (auto simp: trk_forIdentity_def Let_def truthy_iff simp del: map_of_eq_Some_iff split: if_splits)
    with key [of k a] id [of a v] show ?thesis
      by (simp add: trk_forAttempt_def del: map_of_eq_Some_iff)
  qed
  have refind: "trk_forIdentity s (pri_key (vpa_identity v)) = Some v"
    if "a \<noteq> []" "trk_forAttempt s a = Some v" for a v
    using that key [of "pri_key (vpa_identity v)" a]
    by (simp add: trk_forAttempt_def trk_forIdentity_def truthy_def del: map_of_eq_Some_iff)
  show ?thesis
    using one found refind by blast
qed

theorem tracker_one_attempt_per_resource_witness:
  "trk_forIdentity (snd (trk_remember ''a1'' (Bundle ''q'' ''k'') () 5 tracker_empty)) ''k''
     = Some \<lparr> vpa_attemptId = ''a1'', vpa_identity = Bundle ''q'' ''k'', vpa_quote = (),
              vpa_retainedUntil = 86400005 \<rparr>
   \<and> fst (trk_remember ''a2'' (Bundle ''q'' ''k'') () 9 (snd (trk_remember ''a1'' (Bundle ''q'' ''k'') () 5 tracker_empty)))
     = Inl (PaymentQuoteErr 409 ''payment_not_payable'')"
proof -
  let ?s = "snd (trk_remember ''a1'' (Bundle ''q'' ''k'') () 5 tracker_empty)"
  let ?v = "\<lparr> vpa_attemptId = ''a1'', vpa_identity = Bundle ''q'' ''k'', vpa_quote = (),
              vpa_retainedUntil = 86400005 \<rparr>"
  have "tracker_reachable ?s"
    by (rule tracker_reachable.step [OF tracker_reachable.start], rule tracker_step.remember) (rule prod.collapse [symmetric])
  moreover have "trk_forAttempt ?s ''a1'' = Some ?v"
    by (simp add: trk_forAttempt_def trk_remember_def tracker_empty_def verified_attempt_retention_ms_def)
  ultimately have "trk_forIdentity ?s (pri_key (vpa_identity ?v)) = Some ?v"
    using tracker_one_attempt_per_resource [of ?s] by blast
  then show ?thesis
    by (simp add: trk_remember_def tracker_empty_def)
qed

text \<open>C26: Once a resource is marked settled, every later check of its key refuses it for the
  whole retention period, whatever checks, prunes and marks run in between - marks of the same key
  with any quote expiry included.\<close>

theorem settled_resource_stays_fenced:
  assumes "distinct (map fst s)" "t < t0 + settlement_replay_retention_ms"
    and "\<forall>(op, now) \<in> set tr. t0 \<le> now \<and> now \<le> t"
  shows "fst (srg_assertNotSettled key t (replay_fence.run_all tr (srg_markSettled key e t0 s)))
    = Inl (PaymentQuoteErr 409 ''payment_not_payable'')"
proof -
  have "distinct (map fst (srg_markSettled key e t0 s))"
    using assms(1) by (simp add: srg_markSettled_def distinct_update)
  then have "srg_holds (replay_fence.run_all tr (srg_markSettled key e t0 s)) key t"
    using srg_mark_holds [OF assms(2)] assms(2,3) by (rule srg_kept_run)
  then show ?thesis
    by (auto simp: srg_holds_def srg_assertNotSettled_def)
qed

theorem settled_resource_stays_fenced_witness:
  "fst (srg_assertNotSettled ''k'' 5000
     (replay_fence.run_all [(OpPruneGuard, 2000), (OpMark ''k'' (Num 0), 2500), (OpAssert ''k'', 3000)]
       (srg_markSettled ''k'' NaN 1000 [])))
    = Inl (PaymentQuoteErr 409 ''payment_not_payable'')"
  by (rule settled_resource_stays_fenced) (auto simp: settlement_replay_retention_ms_def)

text \<open>A path selects only nonempty ids and never a top-up, and two paths whose ids contain
  no NUL have the same fence key only if they select the same resource.\<close>

theorem path_identity_key_injective:
  assumes "paymentIdentityFromPath url p = Inr i" "paymentIdentityFromPath url p' = Inr j"
    and "\<forall>x \<in> set (pri_selector i). nul \<notin> set x" "\<forall>x \<in> set (pri_selector j). nul \<notin> set x"
  shows "(pri_key i = pri_key j \<longleftrightarrow> i = j) \<and> [] \<notin> set (pri_selector i) \<and> (\<forall>q k. i \<noteq> TopUp q k)"
proof -
  have i: "pri_key i = join [nul] (pri_selector i) \<and> [] \<notin> set (pri_selector i) \<and> (\<forall>q k. i \<noteq> TopUp q k)"
    using assms(1) by (auto simp: paymentIdentityFromPath_def rbind_Inr_iff dest: paymentIdentityFromPathname_key)
  have j: "pri_key j = join [nul] (pri_selector j)"
    using assms(2) by (auto simp: paymentIdentityFromPath_def rbind_Inr_iff dest: paymentIdentityFromPathname_key)
  have "pri_selector i \<noteq> []" "pri_selector j \<noteq> []"
    by (cases i; simp) (cases j; simp)
  with i j assms(3,4) have "pri_key i = pri_key j \<Longrightarrow> i = j"
    using join_nul_inj [of "pri_selector i" "pri_selector j"] pri_selector_kind [of i j] by auto
  with i show ?thesis by auto
qed

theorem path_identity_key_injective_witness:
  "paymentIdentityFromPath (\<lambda>_. None) ''/api/v1/paid-bundles/b%311?x=1'' = Inr (Bundle ''b11'' (''bundle'' @ [nul] @ ''b11''))
   \<and> (pri_key (Bundle ''b11'' (''bundle'' @ [nul] @ ''b11'')) = pri_key (DocumentQuery ''q'' ''h'' (''document'' @ [nul] @ ''q'' @ [nul] @ ''h''))
      \<longleftrightarrow> Bundle ''b11'' (''bundle'' @ [nul] @ ''b11'') = DocumentQuery ''q'' ''h'' (''document'' @ [nul] @ ''q'' @ [nul] @ ''h''))"
proof -
  have b: "paymentIdentityFromPath (\<lambda>_. None) ''/api/v1/paid-bundles/b%311?x=1'' = Inr (Bundle ''b11'' (''bundle'' @ [nul] @ ''b11''))"
    by code_simp
  have d: "paymentIdentityFromPath (\<lambda>_. None) ''/api/v1/paid-documents/q/h''
      = Inr (DocumentQuery ''q'' ''h'' (''document'' @ [nul] @ ''q'' @ [nul] @ ''h''))"
    by code_simp
  show ?thesis
    using path_identity_key_injective [OF b d] b by (simp add: nul_def)
qed

text \<open>A payment memo is at most 256 bytes of UTF-8, names the kind and the quote, and two
  payments share a memo only if they have the same kind and the same quote id.\<close>

theorem payment_memo_injective:
  assumes "paymentMemo i q = Inr m" "paymentMemo j r = Inr n"
  shows "length (utf8_encode m) \<le> 256 \<and> q \<noteq> [] \<and> (m = n \<longleftrightarrow> pri_kind i = pri_kind j \<and> q = r)"
proof -
  have m: "m = ''openshelf:v1:'' @ pri_kind i @ CHR '':'' # q" "length (utf8_encode m) \<le> 256" "q \<noteq> []"
    using assms(1) by (auto simp: paymentMemo_def Let_def split: if_splits)
  have n: "n = ''openshelf:v1:'' @ pri_kind j @ CHR '':'' # r"
    using assms(2) by (auto simp: paymentMemo_def Let_def split: if_splits)
  show ?thesis
    using m n by (simp add: append_sep_inj colon_notin_kind)
qed

theorem payment_memo_injective_witness:
  "length (utf8_encode ''openshelf:v1:bundle:q1'') \<le> 256 \<and> ''q1'' \<noteq> [] \<and>
   (''openshelf:v1:bundle:q1'' = ''openshelf:v1:topup:q1'' \<longleftrightarrow>
      pri_kind (Bundle ''q1'' ''k'') = pri_kind (TopUp ''q1'' ''k'') \<and> ''q1'' = ''q1'')"
  by (rule payment_memo_injective; code_simp)

end
