(* ===== verification/Chain_Reconciler.thy ===== *)
theory Chain_Reconciler
  imports Transaction_Bytes Payment_Routing
begin

text \<open>
  \<open>payment-gateway/src/chain-reconciler.ts\<close>: deciding from finalized chain evidence what became of
  a payment attempt. \<open>scanExactFinalizedChainAttempt\<close> and \<open>verifyExactFinalizedSettlementSignature\<close>
  compare exact bytes, \<open>findFinalizedChainSettlement\<close> scans the recipient's history, and the
  decisions over several RPC views require them to agree. An RPC endpoint is a procedure from a
  method and its parameters; nothing is assumed of what it answers.
\<close>

section \<open>Types\<close>

record reconciliation_attempt =
  ra_settlementKind :: string
  ra_quoteId :: string
  ra_attemptId :: string
  ra_reconcileAfter :: jnum
  ra_createdAt :: jnum
  ra_payTo :: string
  ra_network :: string
  ra_asset :: string
  ra_amountAtomic :: string
  ra_payer :: "string option"
  ra_signedTransactionBase64 :: "string option"
  ra_recentBlockhash :: "string option"
  ra_absenceObservedAt :: "jnum option"

datatype exact_scan =
    ScanSettled (scan_signature: string)
  | ScanFailed (scan_signature: string)
  | ScanAbsent
  | ScanInconclusive

type_synonym 'w solana_rpc = "string \<Rightarrow> json list \<Rightarrow> ('w, json) proc"

record durable_settlement =
  ds_settlementKind :: string
  ds_quoteId :: string
  ds_attemptId :: string
  ds_transactionSignature :: string
  ds_payer :: string
  ds_payTo :: string
  ds_amountAtomic :: string
  ds_network :: string
  ds_rawResponse :: json

record signature_info =
  si_signature :: string
  si_blockTime :: json
  si_err :: json
  si_memo :: "string option"

record parsed_transfer =
  pt_payer :: string
  pt_destination :: string
  pt_mint :: string
  pt_amountAtomic :: string

record parsed_evidence =
  pe_slot :: json
  pe_blockTime :: json
  pe_memo :: string
  pe_transfer :: parsed_transfer

definition memo_program :: string where
  "memo_program = ''MemoSq4gqABAXKb96qnH8TysNcWxMyWCqXgDLGmfcHr''"

definition compute_budget_program :: string where
  "compute_budget_program = ''ComputeBudget111111111111111111111111111111''"

definition max_compute_units :: nat where
  "max_compute_units = 200000"

definition max_microlamports_per_unit :: nat where
  "max_microlamports_per_unit = 10000"

definition signature_page_size :: nat where
  "signature_page_size = 1000"

definition recovery_clock_skew_ms :: int where
  "recovery_clock_skew_ms = 60000"

section \<open>Decisions over several views\<close>

datatype absence_decision = Defer | Observe | Release

definition exactAbsenceDecision ::
    "exact_scan list \<Rightarrow> bool option list \<Rightarrow> jnum option \<Rightarrow> absence_decision" where
  "exactAbsenceDecision scans blockhashViews absenceObservedAt =
     (if length scans < 2
         \<or> list_ex (\<lambda>scan. case scan of ScanSettled _ \<Rightarrow> True | ScanInconclusive \<Rightarrow> True | _ \<Rightarrow> False) scans
         \<or> length blockhashViews \<noteq> length scans
         \<or> list_ex (\<lambda>view. view = None \<or> view = Some True) blockhashViews
      then Defer
      else if absenceObservedAt = None then Observe else Release)"

definition exactSettlementSignature :: "exact_scan list \<Rightarrow> string option" where
  "exactSettlementSignature scans =
     (if length scans < 2 \<or> list_ex (\<lambda>scan. case scan of ScanSettled _ \<Rightarrow> False | _ \<Rightarrow> True) scans then None
      else (case scans ! 0 of
          ScanSettled signature \<Rightarrow>
            if signature \<noteq> [] \<and> list_all (\<lambda>scan. scan = ScanSettled signature) scans
            then Some signature else None
        | _ \<Rightarrow> None))"

section \<open>Checking an attempt\<close>

definition reconciliationIdentity :: "string \<Rightarrow> string \<Rightarrow> payment_route_identity" where
  "reconciliationIdentity settlementKind quoteId =
     (if settlementKind = ''document'' then DocumentQuote quoteId quoteId
      else if settlementKind = ''bundle'' then Bundle quoteId quoteId
      else if settlementKind = ''topup'' then TopUp quoteId quoteId
      else OpenCall quoteId quoteId)"

definition bad_recovery_time :: "jnum \<Rightarrow> int \<Rightarrow> bool" where
  "bad_recovery_time x now \<longleftrightarrow>
     \<not> is_safe_integer x \<or> jle x (Num 0) \<or> jlt (Num (now + recovery_clock_skew_ms)) x"

definition validateAttempt ::
    "svm_lib \<Rightarrow> reconciliation_attempt \<Rightarrow> string \<Rightarrow> int \<Rightarrow> int \<Rightarrow> unit outcome" where
  "validateAttempt lib attempt expectedNetwork maxSignaturePages now =
     require (ra_settlementKind attempt \<in> {''document'', ''bundle'', ''open_call'', ''topup''})
       (Err ''reconciliation settlement kind is invalid'')
    (require (\<not> (ra_quoteId attempt \<noteq> trim (ra_quoteId attempt) \<or> length (ra_quoteId attempt) < 1
         \<or> 160 < length (ra_quoteId attempt)))
       (Err ''reconciliation quote id is invalid'')
    (require (re_hex64 (ra_attemptId attempt))
       (Err ''reconciliation attempt id must be a SHA-256 digest'')
    (require (re_positive (ra_amountAtomic attempt))
       (Err ''reconciliation amount must be a positive integer'')
    (require (ra_network attempt = expectedNetwork)
       (Err ''reconciliation attempt does not match the gateway network'')
    (require (\<not> (bad_recovery_time (ra_createdAt attempt) now
         \<or> bad_recovery_time (ra_reconcileAfter attempt) now
         \<or> (case ra_absenceObservedAt attempt of
              None \<Rightarrow> False
            | Some observed \<Rightarrow> \<not> is_safe_integer observed \<or> jlt observed (ra_createdAt attempt)
                \<or> jlt (Num (now + recovery_clock_skew_ms)) observed)))
       (Err ''reconciliation timestamps must be positive safe integers'')
    (require (is_safe_integer (Num maxSignaturePages) \<and> 1 \<le> maxSignaturePages \<and> maxSignaturePages \<le> 100)
       (Err ''reconciliation signature pages must be between 1 and 100'')
    (require (lib_address lib (ra_asset attempt)) (Err ''invalid address'')
    (require (lib_address lib (ra_payTo attempt)) (Err ''invalid address'')
      (Inr ())))))))))"

section \<open>Reading RPC answers\<close>

definition normalizeSignatureMemo :: "json \<Rightarrow> string option" where
  "normalizeSignatureMemo value =
     (case value of
        JStr s \<Rightarrow> Some
          (case s of
             [] \<Rightarrow> s
           | c # rest \<Rightarrow>
               let digits = takeWhile is_digit rest; tail = dropWhile is_digit rest in
               if c = CHR ''['' \<and> digits \<noteq> [] \<and> tail \<noteq> [] \<and> hd tail = CHR '']''
               then dropWhile is_space (tl tail) else s)
      | _ \<Rightarrow> None)"

definition parseSignatureInfo :: "svm_lib \<Rightarrow> json \<Rightarrow> signature_info outcome" where
  "parseSignatureInfo lib entry =
     require (is_obj entry) (Err ''Solana RPC returned a malformed signature entry'')
     (case prop_of entry ''signature'' of
        JStr signature \<Rightarrow>
          require ((case lib_base58_decode lib signature of None \<Rightarrow> False | Some d \<Rightarrow> length d = 64))
            (Err ''Solana RPC returned a malformed transaction signature'')
         (require (\<not> (prop_of entry ''blockTime'' \<noteq> JNull
              \<and> (\<not> json_safe_integer (prop_of entry ''blockTime'') \<or> json_int (prop_of entry ''blockTime'') \<le> 0)))
            (Err ''Solana RPC returned a malformed signature block time'')
         (require (has_prop entry ''err'') (Err ''Solana RPC returned a signature entry without status'')
           (Inr \<lparr> si_signature = signature, si_blockTime = prop_of entry ''blockTime'',
                  si_err = prop_of entry ''err'',
                  si_memo = normalizeSignatureMemo (prop_of entry ''memo'') \<rparr>)))
      | _ \<Rightarrow> Inl (Err ''Solana RPC returned a signature entry without a signature''))"

definition parseSignatureInfos :: "svm_lib \<Rightarrow> json \<Rightarrow> signature_info list outcome" where
  "parseSignatureInfos lib value =
     (case value of
        JArr items \<Rightarrow> rmap (parseSignatureInfo lib) items
      | _ \<Rightarrow> Inl (Err ''Solana RPC returned invalid signature history''))"

text \<open>\<open>None\<close> is the answer \<open>null\<close>: no such finalized transaction.\<close>

definition parseExactBase64Transaction :: "json \<Rightarrow> (bytes \<times> json) option outcome" where
  "parseExactBase64Transaction value =
     (if value = JNull then Inr None
      else require (is_obj value) (Err ''Solana RPC returned malformed exact transaction evidence'')
        (case prop_of value ''transaction'' of
           JArr parts \<Rightarrow>
             (case elem parts 0 of
                JStr encoded \<Rightarrow>
                  require (elem parts 1 = JStr ''base64'' \<and> is_obj (prop_of value ''meta'')
                      \<and> has_prop (prop_of value ''meta'') ''err'')
                    (Err ''Solana RPC omitted exact transaction bytes or status'')
                 (require (hasValidTransactionEnvelope (base64_decode encoded))
                    (Err ''Solana RPC returned an invalid exact transaction envelope'')
                    (Inr (Some (base64_decode encoded, prop_of (prop_of value ''meta'') ''err''))))
              | _ \<Rightarrow> Inl (Err ''Solana RPC omitted exact transaction bytes or status''))
         | _ \<Rightarrow> Inl (Err ''Solana RPC omitted exact transaction bytes or status'')))"

definition parseBase64Transaction :: "svm_lib \<Rightarrow> json \<Rightarrow> string \<Rightarrow> string option outcome" where
  "parseBase64Transaction lib value expectedSignature =
     (case prop_of value ''transaction'' of
        JArr parts \<Rightarrow>
          if \<not> is_obj value \<or> prop_of (prop_of value ''meta'') ''err'' \<noteq> JNull then Inr None
          else (case elem parts 0 of
              JStr encoded \<Rightarrow>
                if elem parts 1 \<noteq> JStr ''base64'' then Inr None
                else (case decodeShortVec (base64_decode encoded) of
                    None \<Rightarrow> Inl bad_short_vec
                  | Some (n, k) \<Rightarrow>
                      if n < 1 \<or> length (base64_decode encoded) < k + 64 then Inr None
                      else if lib_base58_encode lib (slot k (base64_decode encoded) 0) = expectedSignature
                      then Inr (Some encoded) else Inr None)
            | _ \<Rightarrow> Inr None)
      | _ \<Rightarrow> Inr None)"

definition parsedMemo :: "json \<Rightarrow> string option" where
  "parsedMemo instr =
     (if is_obj instr
         \<and> (prop_of instr ''program'' = JStr ''spl-memo'' \<or> prop_of instr ''programId'' = JStr memo_program)
      then as_str (prop_of instr ''parsed'') else None)"

definition parsedTransfer :: "svm_lib \<Rightarrow> json \<Rightarrow> parsed_transfer option" where
  "parsedTransfer lib instr =
     (let parsed = prop_of instr ''parsed''; info = prop_of parsed ''info'';
          amount = json_or (prop_of (prop_of info ''tokenAmount'') ''amount'') (prop_of info ''amount'') in
      if \<not> is_obj instr \<or> \<not> is_obj parsed
         \<or> js_string (prop_of instr ''program'') \<notin> {Some ''spl-token'', Some ''spl-token-2022''}
      then None
      else if prop_of parsed ''type'' \<noteq> JStr ''transferChecked'' then None
      else (case (prop_of info ''authority'', prop_of info ''destination'', prop_of info ''mint'', amount) of
          (JStr authority, JStr destination, JStr mint, JStr a) \<Rightarrow>
            if lib_address lib authority
            then Some \<lparr> pt_payer = authority, pt_destination = destination, pt_mint = mint, pt_amountAtomic = a \<rparr>
            else None
        | _ \<Rightarrow> None))"

definition arr_or_empty :: "json \<Rightarrow> json list" where
  "arr_or_empty v = (case v of JArr xs \<Rightarrow> xs | _ \<Rightarrow> [])"

definition parseMatchingTransaction ::
    "svm_lib \<Rightarrow> json \<Rightarrow> string \<Rightarrow> reconciliation_attempt \<Rightarrow> string list \<Rightarrow> parsed_evidence option" where
  "parseMatchingTransaction lib result expectedMemo attempt destinations =
     (let meta = prop_of result ''meta'';
          instrs = arr_or_empty (prop_of (prop_of (prop_of result ''transaction'') ''message'') ''instructions'')
            @ concat (map (\<lambda>group. arr_or_empty (prop_of group ''instructions''))
                (arr_or_empty (prop_of meta ''innerInstructions''))) in
      if \<not> is_obj result then None
      else if \<not> json_safe_integer (prop_of result ''slot'') \<or> json_int (prop_of result ''slot'') \<le> 0 then None
      else if prop_of result ''blockTime'' \<noteq> JNull
        \<and> (\<not> json_safe_integer (prop_of result ''blockTime'') \<or> json_int (prop_of result ''blockTime'') \<le> 0) then None
      else if \<not> is_obj meta \<or> prop_of meta ''err'' \<noteq> JNull then None
      else if expectedMemo = [] \<or> \<not> list_ex (\<lambda>i. parsedMemo i = Some expectedMemo) instrs then None
      else map_option
        (\<lambda>transfer. \<lparr> pe_slot = prop_of result ''slot'', pe_blockTime = prop_of result ''blockTime'',
            pe_memo = expectedMemo, pe_transfer = transfer \<rparr>)
        (List.find
          (\<lambda>candidate. pt_destination candidate \<in> set destinations \<and> pt_mint candidate = ra_asset attempt
             \<and> pt_amountAtomic candidate = ra_amountAtomic attempt)
          (List.map_filter (parsedTransfer lib) instrs)))"

section \<open>What a prepared transaction pays\<close>

definition validFeeSponsoredComputeBudget :: "instruction \<Rightarrow> bool" where
  "validFeeSponsoredComputeBudget ix =
     (if length (ix_accounts ix) \<noteq> 0 then False
      else if length (ix_data ix) = 5 \<and> ix_data ix ! 0 = 2
      then read_u32_le 1 (ix_data ix) \<le> max_compute_units
      else if length (ix_data ix) = 9 \<and> ix_data ix ! 0 = 3
      then read_u64_le 1 (ix_data ix) \<le> max_microlamports_per_unit
      else False)"

text \<open>The signers, the signature of each, and the instructions, of a legacy transaction or of a
  versioned one without address tables.\<close>

definition prepared_view :: "svm_lib \<Rightarrow> bytes \<Rightarrow> (string list \<times> bytes list \<times> instruction list) option" where
  "prepared_view lib prepared =
     (case lib_legacy_from lib prepared of
        Some transaction \<Rightarrow>
          Some (map fst (lt_signatures transaction),
                map (\<lambda>item. legacy_signature_bytes (snd item)) (lt_signatures transaction),
                lt_instructions transaction)
      | None \<Rightarrow>
          (case lib_versioned_from lib prepared of
             None \<Rightarrow> None
           | Some transaction \<Rightarrow>
               if vt_addressTableLookups transaction \<noteq> 0 then None
               else map_option
                 (\<lambda>instrs. (take (vt_numRequiredSignatures transaction) (vt_staticAccountKeys transaction),
                    vt_signatures transaction, instrs))
                 (resolve_ixs (vt_staticAccountKeys transaction) (vt_compiledInstructions transaction))))"

definition exact_token_ix :: "reconciliation_attempt \<Rightarrow> string \<Rightarrow> string \<Rightarrow> instruction \<Rightarrow> bool" where
  "exact_token_ix attempt source destination ix \<longleftrightarrow>
     length (ix_accounts ix) = 4 \<and> ix_accounts ix ! 0 = source \<and> ix_accounts ix ! 1 = ra_asset attempt
     \<and> ix_accounts ix ! 2 = destination \<and> Some (ix_accounts ix ! 3) = ra_payer attempt
     \<and> length (ix_data ix) = 10 \<and> ix_data ix ! 0 = 12 \<and> ix_data ix ! 9 = 6
     \<and> show_nat (read_u64_le 1 (ix_data ix)) = ra_amountAtomic attempt"

text \<open>The instruction loop, with the counts of memos and transfers so far; \<open>None\<close> is \<open>return false\<close>.\<close>

fun exact_ix_loop ::
    "reconciliation_attempt \<Rightarrow> string \<Rightarrow> string \<Rightarrow> string \<Rightarrow> instruction list \<Rightarrow> nat \<Rightarrow> nat \<Rightarrow> (nat \<times> nat) option" where
  "exact_ix_loop attempt source destination expectedMemo [] memos transfers = Some (memos, transfers)"
| "exact_ix_loop attempt source destination expectedMemo (ix # rest) memos transfers =
     (if ix_program ix = token_program then
        if exact_token_ix attempt source destination ix
        then exact_ix_loop attempt source destination expectedMemo rest memos (transfers + 1) else None
      else if ix_program ix = memo_program then
        if utf8_decode (ix_data ix) = Some expectedMemo
        then exact_ix_loop attempt source destination expectedMemo rest (memos + 1) transfers else None
      else if ix_program ix = compute_budget_program then
        if validFeeSponsoredComputeBudget ix
        then exact_ix_loop attempt source destination expectedMemo rest memos transfers else None
      else None)"

definition hasExactPreparedPaymentSemantics :: "svm_lib \<Rightarrow> reconciliation_attempt \<Rightarrow> bytes \<Rightarrow> bool" where
  "hasExactPreparedPaymentSemantics lib attempt prepared =
     (case (lib_messageBytes lib prepared, prepared_view lib prepared) of
        (Some messageBytes, Some (signerAddresses, signatures, instrs)) \<Rightarrow>
          (case index_of (str_or (ra_payer attempt) []) signerAddresses of
             None \<Rightarrow> False
           | Some payerIndex \<Rightarrow>
               if zero_or_missing (nth_opt signatures payerIndex) then False
               else if \<not> (\<forall>i < length signerAddresses. zero_or_missing (nth_opt signatures i)
                   \<or> lib_verify lib (signerAddresses ! i) (signatures ! i) messageBytes = Some True)
               then False
               else (case (lib_ata lib (ra_asset attempt) (str_or (ra_payer attempt) []) token_program,
                           lib_ata lib (ra_asset attempt) (ra_payTo attempt) token_program,
                           paymentMemo (reconciliationIdentity (ra_settlementKind attempt) (ra_quoteId attempt))
                             (ra_quoteId attempt)) of
                   (Some source, Some destination, Inr expectedMemo) \<Rightarrow>
                     exact_ix_loop attempt source destination expectedMemo instrs 0 0 = Some (1, 1)
                 | _ \<Rightarrow> False))
      | _ \<Rightarrow> False)"

record prepared_evidence =
  pv_recentBlockhash :: string
  pv_signedAddresses :: "string list"
  pv_missingSignatureIndexes :: "nat list"

definition preparedTransactionEvidence :: "svm_lib \<Rightarrow> bytes \<Rightarrow> prepared_evidence option" where
  "preparedTransactionEvidence lib transaction =
     (case lib_legacy_from lib transaction of
        Some legacy \<Rightarrow>
          if \<not> truthy (lt_recentBlockhash legacy) then None
          else Some \<lparr> pv_recentBlockhash = the (lt_recentBlockhash legacy),
            pv_signedAddresses = map fst (filter (\<lambda>item. \<not> zero_or_missing (snd item)) (lt_signatures legacy)),
            pv_missingSignatureIndexes =
              filter (\<lambda>i. zero_or_missing (snd (lt_signatures legacy ! i))) [0 ..< length (lt_signatures legacy)] \<rparr>
      | None \<Rightarrow>
          (case lib_versioned_from lib transaction of
             None \<Rightarrow> None
           | Some versioned \<Rightarrow>
               let signers = take (vt_numRequiredSignatures versioned) (vt_staticAccountKeys versioned);
                   sigs = vt_signatures versioned in
               if length sigs < length signers then None
               else Some \<lparr> pv_recentBlockhash = vt_recentBlockhash versioned,
                 pv_signedAddresses =
                   map (\<lambda>i. signers ! i) (filter (\<lambda>i. \<not> is_zero (sigs ! i)) [0 ..< length signers]),
                 pv_missingSignatureIndexes = filter (\<lambda>i. is_zero (sigs ! i)) [0 ..< length sigs] \<rparr>))"

section \<open>The exact scan\<close>

definition get_exact_transaction :: "'w solana_rpc \<Rightarrow> string \<Rightarrow> ('w, json) proc" where
  "get_exact_transaction rpc signature =
     rpc ''getTransaction''
       [JStr signature,
        JObj [(''commitment'', JStr ''finalized''), (''encoding'', JStr ''base64''),
              (''maxSupportedTransactionVersion'', JNum (Num 0))]]"

definition get_signatures :: "'w solana_rpc \<Rightarrow> string \<Rightarrow> string option \<Rightarrow> ('w, json) proc" where
  "get_signatures rpc account before =
     rpc ''getSignaturesForAddress''
       [JStr account,
        JObj ([(''commitment'', JStr ''finalized''), (''limit'', JNum (Num (int signature_page_size)))]
          @ (if truthy before then [(''before'', JStr (the before))] else []))]"

definition exact_outcome :: "string \<Rightarrow> json \<Rightarrow> exact_scan" where
  "exact_outcome signature err = (if err = JNull then ScanSettled signature else ScanFailed signature)"

text \<open>The candidates of one page; \<open>None\<close> when none of them is the prepared transaction.\<close>

fun scan_candidates ::
    "svm_lib \<Rightarrow> bytes \<Rightarrow> 'w solana_rpc \<Rightarrow> signature_info list \<Rightarrow> ('w, exact_scan option) proc" where
  "scan_candidates lib prepared rpc [] = pret None"
| "scan_candidates lib prepared rpc (candidate # rest) =
     pbind (get_exact_transaction rpc (si_signature candidate)) (\<lambda>value.
     pbind (plift (parseExactBase64Transaction value)) (\<lambda>transaction.
       case transaction of
         None \<Rightarrow> pret (Some ScanInconclusive)
       | Some (bs, err) \<Rightarrow>
           if equalPreparedTransaction lib prepared bs (si_signature candidate)
           then pret (Some (exact_outcome (si_signature candidate) err))
           else scan_candidates lib prepared rpc rest))"

text \<open>The page loop, with the pages left; each page starts before the last signature seen.\<close>

fun scan_pages ::
    "svm_lib \<Rightarrow> bytes \<Rightarrow> string \<Rightarrow> 'w solana_rpc \<Rightarrow> nat \<Rightarrow> string option \<Rightarrow> ('w, exact_scan) proc" where
  "scan_pages lib prepared payer rpc 0 before = pret ScanInconclusive"
| "scan_pages lib prepared payer rpc (Suc pages) before =
     pbind (get_signatures rpc payer before) (\<lambda>value.
     pbind (plift (parseSignatureInfos lib value)) (\<lambda>sigs.
       if sigs = [] then pret ScanAbsent
       else pbind (scan_candidates lib prepared rpc sigs) (\<lambda>found.
         case found of
           Some r \<Rightarrow> pret r
         | None \<Rightarrow>
             if length sigs < signature_page_size then pret ScanAbsent
             else if si_signature (last sigs) = [] then pret ScanInconclusive
             else scan_pages lib prepared payer rpc pages (Some (si_signature (last sigs))))))"

definition missing_only_first :: "prepared_evidence \<Rightarrow> bool" where
  "missing_only_first evidence \<longleftrightarrow>
     length (pv_missingSignatureIndexes evidence) = 1 \<and> pv_missingSignatureIndexes evidence ! 0 = 0"

definition scanExactFinalizedChainAttempt ::
    "svm_lib \<Rightarrow> reconciliation_attempt \<Rightarrow> 'w solana_rpc \<Rightarrow> int \<Rightarrow> ('w, exact_scan) proc" where
  "scanExactFinalizedChainAttempt lib attempt rpc maxSignaturePages =
     (if \<not> truthy (ra_payer attempt) \<or> \<not> truthy (ra_signedTransactionBase64 attempt)
         \<or> \<not> truthy (ra_recentBlockhash attempt)
      then pret ScanInconclusive
      else if \<not> is_safe_integer (Num maxSignaturePages) \<or> maxSignaturePages < 1 \<or> 20 < maxSignaturePages
      then praise (Err ''exact chain scan pages must be between 1 and 20'')
      else let prepared = base64_decode (the (ra_signedTransactionBase64 attempt)) in
      if \<not> hasValidTransactionEnvelope prepared then pret ScanInconclusive
      else case preparedTransactionEvidence lib prepared of
        None \<Rightarrow> pret ScanInconclusive
      | Some evidence \<Rightarrow>
          if Some (pv_recentBlockhash evidence) \<noteq> ra_recentBlockhash attempt
             \<or> the (ra_payer attempt) \<notin> set (pv_signedAddresses evidence)
             \<or> (length (pv_missingSignatureIndexes evidence) \<noteq> 0 \<and> \<not> missing_only_first evidence)
          then pret ScanInconclusive
          else if \<not> hasExactPreparedPaymentSemantics lib attempt prepared then pret ScanInconclusive
          else pbind (plift (if length (pv_missingSignatureIndexes evidence) = 0
              then fullySignedTransactionSignature lib prepared else Inr None)) (\<lambda>knownSignature.
            if truthy knownSignature then
              pbind (get_exact_transaction rpc (the knownSignature)) (\<lambda>value.
              pbind (plift (parseExactBase64Transaction value)) (\<lambda>transaction.
                case transaction of
                  None \<Rightarrow> pret ScanAbsent
                | Some (bs, err) \<Rightarrow>
                    if \<not> equalPreparedTransaction lib prepared bs (the knownSignature)
                    then pret ScanInconclusive
                    else pret (exact_outcome (the knownSignature) err)))
            else scan_pages lib prepared (the (ra_payer attempt)) rpc (nat maxSignaturePages) None))"

definition verifyExactFinalizedSettlementSignature ::
    "svm_lib \<Rightarrow> reconciliation_attempt \<Rightarrow> string \<Rightarrow> 'w solana_rpc \<Rightarrow> string \<Rightarrow> int \<Rightarrow> ('w, exact_scan) proc" where
  "verifyExactFinalizedSettlementSignature lib attempt candidateSignature rpc expectedNetwork now =
     pcatch
       (pbind (plift (validateAttempt lib attempt expectedNetwork 1 now)) (\<lambda>_.
        if \<not> truthy (ra_payer attempt) \<or> \<not> truthy (ra_signedTransactionBase64 attempt)
           \<or> \<not> truthy (ra_recentBlockhash attempt)
        then pret ScanInconclusive
        else pbind (plift (of_opt (Err ''base58'') (lib_base58_decode lib candidateSignature))) (\<lambda>decodedSignature.
        if length decodedSignature \<noteq> 64 then pret ScanInconclusive
        else let prepared = base64_decode (the (ra_signedTransactionBase64 attempt)) in
        if \<not> hasValidTransactionEnvelope prepared then pret ScanInconclusive
        else case preparedTransactionEvidence lib prepared of
          None \<Rightarrow> pret ScanInconclusive
        | Some evidence \<Rightarrow>
            if Some (pv_recentBlockhash evidence) \<noteq> ra_recentBlockhash attempt
               \<or> the (ra_payer attempt) \<notin> set (pv_signedAddresses evidence)
               \<or> \<not> missing_only_first evidence
               \<or> \<not> hasExactPreparedPaymentSemantics lib attempt prepared
            then pret ScanInconclusive
            else pbind (get_exact_transaction rpc candidateSignature) (\<lambda>value.
              pbind (plift (parseExactBase64Transaction value)) (\<lambda>transaction.
                case transaction of
                  None \<Rightarrow> pret ScanAbsent
                | Some (bs, err) \<Rightarrow>
                    if \<not> equalPreparedTransaction lib prepared bs candidateSignature
                    then pret ScanInconclusive
                    else pret (exact_outcome candidateSignature err))))))
       (\<lambda>_. pret ScanInconclusive)"

section \<open>The history scan\<close>

definition associatedTokenAddresses :: "svm_lib \<Rightarrow> string \<Rightarrow> string \<Rightarrow> string list outcome" where
  "associatedTokenAddresses lib asset payTo =
     require (lib_address lib asset \<and> lib_address lib payTo) (Err ''invalid address'')
       (case (lib_ata lib asset payTo token_program, lib_ata lib asset payTo token_2022_program) of
          (Some a, Some b) \<Rightarrow> Inr (rev (remdups (rev [a, b])))
        | _ \<Rightarrow> Inl (Err ''invalid address''))"

definition recovered_settlement ::
    "reconciliation_attempt \<Rightarrow> string \<Rightarrow> parsed_evidence \<Rightarrow> durable_settlement" where
  "recovered_settlement attempt signature parsed =
     \<lparr> ds_settlementKind = ra_settlementKind attempt, ds_quoteId = ra_quoteId attempt,
       ds_attemptId = ra_attemptId attempt, ds_transactionSignature = signature,
       ds_payer = pt_payer (pe_transfer parsed), ds_payTo = ra_payTo attempt,
       ds_amountAtomic = ra_amountAtomic attempt, ds_network = ra_network attempt,
       ds_rawResponse = JObj
         [(''success'', JBool True), (''transaction'', JStr signature),
          (''payer'', JStr (pt_payer (pe_transfer parsed))), (''network'', JStr (ra_network attempt)),
          (''amount'', JStr (ra_amountAtomic attempt)),
          (''recovery'', JObj
            [(''method'', JStr ''finalized_chain_scan''), (''attemptId'', JStr (ra_attemptId attempt)),
             (''memo'', JStr (pe_memo parsed)), (''slot'', pe_slot parsed),
             (''blockTime'', pe_blockTime parsed)])] \<rparr>"

text \<open>One candidate of the history; \<open>None\<close> is every \<open>continue\<close> after it was marked visited.\<close>

definition find_candidate ::
    "svm_lib \<Rightarrow> reconciliation_attempt \<Rightarrow> string \<Rightarrow> string list \<Rightarrow> 'w solana_rpc \<Rightarrow> signature_info
     \<Rightarrow> ('w, durable_settlement option) proc" where
  "find_candidate lib attempt expectedMemo destinations rpc candidate =
     pbind (pcatch
       (pbind (rpc ''getTransaction''
           [JStr (si_signature candidate),
            JObj [(''commitment'', JStr ''finalized''), (''encoding'', JStr ''jsonParsed''),
                  (''maxSupportedTransactionVersion'', JNum (Num 0))]]) (\<lambda>value.
        case parseMatchingTransaction lib value expectedMemo attempt destinations of
          None \<Rightarrow> pret None
        | Some parsed \<Rightarrow>
            pbind (get_exact_transaction rpc (si_signature candidate)) (\<lambda>value'.
            pbind (plift (parseBase64Transaction lib value' (si_signature candidate))) (\<lambda>encoded.
              pret (map_option (\<lambda>t. (parsed, t)) encoded)))))
       (\<lambda>_. pret None)) (\<lambda>evidence. pret
         (case evidence of
            None \<Rightarrow> None
          | Some (parsed, transactionBase64) \<Rightarrow>
              if transactionBase64 = [] then None
              else (case paymentAttemptIdFromSettledTransaction lib transactionBase64 of
                  Inl _ \<Rightarrow> None
                | Inr reconstructed \<Rightarrow>
                    if reconstructed \<noteq> ra_attemptId attempt then None
                    else Some (recovered_settlement attempt (si_signature candidate) parsed))))"

fun find_candidates ::
    "svm_lib \<Rightarrow> reconciliation_attempt \<Rightarrow> string \<Rightarrow> string list \<Rightarrow> 'w solana_rpc \<Rightarrow> signature_info list
     \<Rightarrow> string list \<Rightarrow> ('w, durable_settlement option \<times> string list) proc" where
  "find_candidates lib attempt expectedMemo destinations rpc [] visited = pret (None, visited)"
| "find_candidates lib attempt expectedMemo destinations rpc (candidate # rest) visited =
     (if si_err candidate \<noteq> JNull \<or> si_memo candidate \<noteq> Some expectedMemo
         \<or> si_signature candidate \<in> set visited
      then find_candidates lib attempt expectedMemo destinations rpc rest visited
      else pbind (find_candidate lib attempt expectedMemo destinations rpc candidate) (\<lambda>found.
        case found of
          Some settlement \<Rightarrow> pret (Some settlement, si_signature candidate # visited)
        | None \<Rightarrow> find_candidates lib attempt expectedMemo destinations rpc rest
            (si_signature candidate # visited)))"

fun find_pages ::
    "svm_lib \<Rightarrow> reconciliation_attempt \<Rightarrow> string \<Rightarrow> string list \<Rightarrow> 'w solana_rpc \<Rightarrow> string \<Rightarrow> nat
     \<Rightarrow> string option \<Rightarrow> string list \<Rightarrow> ('w, durable_settlement option \<times> string list) proc" where
  "find_pages lib attempt expectedMemo destinations rpc destination 0 before visited = pret (None, visited)"
| "find_pages lib attempt expectedMemo destinations rpc destination (Suc pages) before visited =
     pbind (get_signatures rpc destination before) (\<lambda>value.
     pbind (plift (parseSignatureInfos lib value)) (\<lambda>sigs.
       if sigs = [] then pret (None, visited)
       else pbind (find_candidates lib attempt expectedMemo destinations rpc sigs visited) (\<lambda>(found, visited').
         case found of
           Some settlement \<Rightarrow> pret (Some settlement, visited')
         | None \<Rightarrow>
             if length sigs < signature_page_size then pret (None, visited')
             else find_pages lib attempt expectedMemo destinations rpc destination pages
               (Some (si_signature (last sigs))) visited')))"

fun find_destinations ::
    "svm_lib \<Rightarrow> reconciliation_attempt \<Rightarrow> string \<Rightarrow> string list \<Rightarrow> 'w solana_rpc \<Rightarrow> nat \<Rightarrow> string list
     \<Rightarrow> string list \<Rightarrow> ('w, durable_settlement option) proc" where
  "find_destinations lib attempt expectedMemo destinations rpc pages [] visited = pret None"
| "find_destinations lib attempt expectedMemo destinations rpc pages (destination # rest) visited =
     pbind (find_pages lib attempt expectedMemo destinations rpc destination pages None visited)
       (\<lambda>(found, visited').
         case found of
           Some settlement \<Rightarrow> pret (Some settlement)
         | None \<Rightarrow> find_destinations lib attempt expectedMemo destinations rpc pages rest visited')"

definition findFinalizedChainSettlement ::
    "svm_lib \<Rightarrow> reconciliation_attempt \<Rightarrow> 'w solana_rpc \<Rightarrow> string \<Rightarrow> int \<Rightarrow> int
     \<Rightarrow> ('w, durable_settlement option) proc" where
  "findFinalizedChainSettlement lib attempt rpc expectedNetwork maxSignaturePages now =
     pbind (plift (validateAttempt lib attempt expectedNetwork maxSignaturePages now)) (\<lambda>_.
     pbind (plift (paymentMemo (reconciliationIdentity (ra_settlementKind attempt) (ra_quoteId attempt))
       (ra_quoteId attempt))) (\<lambda>expectedMemo.
     pbind (plift (associatedTokenAddresses lib (ra_asset attempt) (ra_payTo attempt))) (\<lambda>destinations.
       find_destinations lib attempt expectedMemo destinations rpc (nat (max 1 maxSignaturePages))
         destinations [])))"

definition findUnanimousFinalizedChainSettlement ::
    "svm_lib \<Rightarrow> reconciliation_attempt \<Rightarrow> 'w solana_rpc list \<Rightarrow> string \<Rightarrow> int \<Rightarrow> int
     \<Rightarrow> ('w, durable_settlement option) proc" where
  "findUnanimousFinalizedChainSettlement lib attempt rpcs expectedNetwork maxSignaturePages now =
     (if length rpcs < 2 then pret None
      else pbind (pmapM (\<lambda>rpc. pcatch
          (findFinalizedChainSettlement lib attempt rpc expectedNetwork maxSignaturePages now)
          (\<lambda>_. pret None)) rpcs) (\<lambda>settlements.
        case settlements ! 0 of
          None \<Rightarrow> pret None
        | Some first \<Rightarrow>
            if list_ex (\<lambda>settlement. case settlement of
                 None \<Rightarrow> True
               | Some other \<Rightarrow> ds_transactionSignature other \<noteq> ds_transactionSignature first
                   \<or> ds_attemptId other \<noteq> ds_attemptId first) settlements
            then pret None else pret (Some first)))"

section \<open>Agreement of independent views\<close>

interpretation gateway_agreement: independent_views ScanSettled exactSettlementSignature
proof unfold_locales
  fix views and v :: string
  show "exactSettlementSignature views = Some v \<longleftrightarrow>
      2 \<le> length views \<and> v \<noteq> [] \<and> (\<forall>view \<in> set views. view = ScanSettled v)"
  proof (cases views)
    case (Cons x xs)
    then show ?thesis
      unfolding exactSettlementSignature_def
      by (auto simp: list_all_iff list_ex_iff Suc_le_eq split: exact_scan.splits if_splits)
  qed (simp add: exactSettlementSignature_def)
qed (simp add: inj_def)

section \<open>Evidence in the request log\<close>

type_synonym rpc_request = "string \<times> json list"

definition logged_rpc :: "(rpc_request list \<Rightarrow> rpc_request \<Rightarrow> json outcome) \<Rightarrow> rpc_request list solana_rpc" where
  "logged_rpc env m ps = ask env (m, ps)"

definition exact_request :: "string \<Rightarrow> rpc_request" where
  "exact_request signature =
     (''getTransaction'',
      [JStr signature,
        JObj [(''commitment'', JStr ''finalized''), (''encoding'', JStr ''base64''),
              (''maxSupportedTransactionVersion'', JNum (Num 0))]])"

lemma get_exact_logged: "get_exact_transaction (logged_rpc env) signature = ask env (exact_request signature)"
  by (rule ext) (simp add: get_exact_transaction_def logged_rpc_def exact_request_def)

text \<open>The last request asked for the finalized transaction of \<open>signature\<close>, and the answer was
  the prepared transaction, with no error.\<close>

definition settled_evidence ::
    "svm_lib \<Rightarrow> (rpc_request list \<Rightarrow> rpc_request \<Rightarrow> json outcome) \<Rightarrow> bytes \<Rightarrow> string \<Rightarrow> rpc_request list \<Rightarrow> bool" where
  "settled_evidence lib env prepared signature hist \<longleftrightarrow>
     (\<exists>pre value bs. hist = pre @ [exact_request signature] \<and> env pre (exact_request signature) = Inr value
        \<and> parseExactBase64Transaction value = Inr (Some (bs, JNull))
        \<and> equalPreparedTransaction lib prepared bs signature)"

definition settled_post ::
    "svm_lib \<Rightarrow> (rpc_request list \<Rightarrow> rpc_request \<Rightarrow> json outcome) \<Rightarrow> bytes \<Rightarrow> exact_scan \<Rightarrow> rpc_request list \<Rightarrow> bool" where
  "settled_post lib env prepared r hist \<longleftrightarrow> (\<forall>sig. r = ScanSettled sig \<longrightarrow> settled_evidence lib env prepared sig hist)"

lemma settled_post_other [simp]:
  "settled_post lib env prepared ScanAbsent hist" "settled_post lib env prepared ScanInconclusive hist"
  by (simp_all add: settled_post_def)

lemma settled_post_exact:
  "env hist (exact_request sig) = Inr value \<Longrightarrow> parseExactBase64Transaction value = Inr (Some (bs, err)) \<Longrightarrow>
   equalPreparedTransaction lib prepared bs sig \<Longrightarrow>
   settled_post lib env prepared (exact_outcome sig err) (hist @ [exact_request sig])"
  by (auto simp: settled_post_def settled_evidence_def exact_outcome_def split: if_splits)

definition page_request :: "string \<Rightarrow> string option \<Rightarrow> rpc_request" where
  "page_request account before =
     (''getSignaturesForAddress'',
      [JStr account,
        JObj ([(''commitment'', JStr ''finalized''), (''limit'', JNum (Num (int signature_page_size)))]
          @ (if truthy before then [(''before'', JStr (the before))] else []))])"

lemma get_signatures_logged: "get_signatures (logged_rpc env) account before = ask env (page_request account before)"
  by (rule ext) (simp add: get_signatures_def logged_rpc_def page_request_def)

lemma wp_scan_candidates:
  "wp (scan_candidates lib prepared (logged_rpc env) cs)
     (\<lambda>r hist. \<forall>x. r = Some x \<longrightarrow> settled_post lib env prepared x hist) (\<lambda>_ _. True) hist"
proof (induction cs arbitrary: hist)
  case (Cons c cs)
  show ?case
    unfolding scan_candidates.simps get_exact_logged
    by (intro wp_intros Cons.IH) (auto intro: settled_post_exact)
qed (simp add: wp_simps)

lemma wp_scan_pages:
  "wp (scan_pages lib prepared payer (logged_rpc env) pages before)
     (settled_post lib env prepared) (\<lambda>_ _. True) hist"
proof (induction pages arbitrary: before hist)
  case (Suc pages)
  show ?case
    unfolding scan_pages.simps get_signatures_logged
    by (intro wp_intros wp_mono [OF wp_scan_candidates] Suc.IH) (auto intro: wp_intros)
qed (simp add: wp_simps)

text \<open>Requests for a page of history.\<close>

definition page_count :: "rpc_request list \<Rightarrow> nat" where
  "page_count hist = length (filter (\<lambda>(m, _). m = ''getSignaturesForAddress'') hist)"

lemma page_count_simps [simp]:
  "page_count (hist @ [exact_request sig]) = page_count hist"
  "page_count (hist @ [page_request a before]) = page_count hist + 1"
  by (simp_all add: page_count_def exact_request_def page_request_def)

lemma wp_scan_candidates_pages:
  "wp (scan_candidates lib prepared (logged_rpc env) cs)
     (\<lambda>_ hist'. page_count hist' = page_count hist) (\<lambda>_ hist'. page_count hist' = page_count hist) hist"
proof (induction cs arbitrary: hist)
  case (Cons c cs)
  have IH: "page_count w = page_count hist \<Longrightarrow> wp (scan_candidates lib prepared (logged_rpc env) cs)
     (\<lambda>_ hist'. page_count hist' = page_count hist) (\<lambda>_ hist'. page_count hist' = page_count hist) w" for w
    using Cons.IH [of w] by simp
  show ?case
    unfolding scan_candidates.simps get_exact_logged
    by (intro wp_intros IH) auto
qed (simp add: wp_simps)

lemma wp_scan_pages_bound:
  "wp (scan_pages lib prepared payer (logged_rpc env) pages before)
     (\<lambda>_ hist'. page_count hist' \<le> page_count hist + pages)
     (\<lambda>_ hist'. page_count hist' \<le> page_count hist + pages) hist"
proof (induction pages arbitrary: before hist)
  case (Suc pages)
  have IH: "page_count w \<le> page_count hist + 1 \<Longrightarrow> wp (scan_pages lib prepared payer (logged_rpc env) pages b)
     (\<lambda>_ hist'. page_count hist' \<le> page_count hist + Suc pages)
     (\<lambda>_ hist'. page_count hist' \<le> page_count hist + Suc pages) w" for w b
    by (rule wp_mono [OF Suc.IH]) auto
  show ?case
    unfolding scan_pages.simps get_signatures_logged
    by (intro wp_intros wp_mono [OF wp_scan_candidates_pages] IH) (auto intro!: wp_intros IH)
qed (simp add: wp_simps)

section \<open>Properties\<close>

lemma scan_prepared_post:
  "wp (scanExactFinalizedChainAttempt lib attempt (logged_rpc env) pages)
     (\<lambda>r hist'. \<forall>sig. r = ScanSettled sig \<longrightarrow>
        settled_evidence lib env (base64_decode (the (ra_signedTransactionBase64 attempt))) sig hist'
        \<and> hasExactPreparedPaymentSemantics lib attempt (base64_decode (the (ra_signedTransactionBase64 attempt))))
     (\<lambda>_ _. True) hist"
  unfolding scanExactFinalizedChainAttempt_def get_exact_logged
  by (intro wp_intros wp_mono [OF wp_scan_pages])
    (auto dest: settled_post_exact simp: settled_post_def simp del: wp_True)

text \<open>C8: When the exact scan reports a payment settled, its last request fetched the finalized
  transaction with that signature, the answer carried no error and is the prepared transaction
  with its empty slots filled, and the prepared transaction pays exactly what the attempt says.\<close>

theorem exact_scan_settled_sound:
  assumes "scanExactFinalizedChainAttempt lib attempt (logged_rpc env) pages hist = (Inr (ScanSettled sig), hist')"
  shows "\<exists>pre value bs.
      hist' = pre @ [exact_request sig] \<and> env pre (exact_request sig) = Inr value
      \<and> parseExactBase64Transaction value = Inr (Some (bs, JNull))
      \<and> equalPreparedTransaction lib (base64_decode (the (ra_signedTransactionBase64 attempt))) bs sig
      \<and> hasExactPreparedPaymentSemantics lib attempt (base64_decode (the (ra_signedTransactionBase64 attempt)))"
  using wpD [OF scan_prepared_post assms] by (auto simp: settled_evidence_def)

definition demo_attempt :: reconciliation_attempt where
  "demo_attempt =
     \<lparr> ra_settlementKind = ''document'', ra_quoteId = ''q'', ra_attemptId = replicate 64 (CHR ''a''),
       ra_reconcileAfter = Num 5, ra_createdAt = Num 5, ra_payTo = ''o'', ra_network = ''net'',
       ra_asset = ''mint'', ra_amountAtomic = ''5'', ra_payer = Some ''p'',
       ra_signedTransactionBase64 = Some (base64_encode demo_prepared), ra_recentBlockhash = Some ''h'',
       ra_absenceObservedAt = None \<rparr>"

definition demo_transaction :: json where
  "demo_transaction =
     JObj [(''transaction'', JArr [JStr (base64_encode demo_candidate), JStr ''base64'']),
           (''meta'', JObj [(''err'', JNull)])]"

definition demo_parsed :: json where
  "demo_parsed =
     JObj [(''slot'', JNum (Num 9)), (''blockTime'', JNull),
       (''meta'', JObj [(''err'', JNull)]),
       (''transaction'', JObj [(''message'', JObj [(''instructions'', JArr
         [JObj [(''program'', JStr ''spl-memo''), (''parsed'', JStr ''openshelf:v1:document:q'')],
          JObj [(''program'', JStr ''spl-token''), (''parsed'', JObj [(''type'', JStr ''transferChecked''),
            (''info'', JObj [(''authority'', JStr ''p''), (''destination'', JStr ''o-ata''),
              (''mint'', JStr ''mint''), (''amount'', JStr ''5'')])])]])])])]"

definition demo_history :: json where
  "demo_history = JArr [JObj [(''signature'', JStr ''sig2''), (''blockTime'', JNull), (''err'', JNull),
     (''memo'', JStr ''[23] openshelf:v1:document:q'')]]"

definition demo_env :: "rpc_request list \<Rightarrow> rpc_request \<Rightarrow> json outcome" where
  "demo_env hist rq =
     (if fst rq = ''getTransaction'' then
        Inr (if prop_of (elem (snd rq) 1) ''encoding'' = JStr ''base64'' then demo_transaction else demo_parsed)
      else Inr demo_history)"

lemma demo_evidence: "preparedTransactionEvidence demo_lib X = Some \<lparr> pv_recentBlockhash = ''h'', pv_signedAddresses = [''p''], pv_missingSignatureIndexes = [0]\<rparr>" 
  by (simp add: preparedTransactionEvidence_def demo_lib_def demo_tx_def truthy_def zero_or_missing_def upt_rec)
lemma demo_memo: "paymentMemo (DocumentQuote ''q'' ''q'') ''q'' = Inr ''openshelf:v1:document:q''" by code_simp
lemma demo_amount: "show_nat (read_u64_le (Suc 0) (12 # le_bytes 8 5 @ [6])) = ''5''" by code_simp
lemma demo_semantics: "hasExactPreparedPaymentSemantics demo_lib demo_attempt X"
  by (simp add: lib_messageBytes_def hasExactPreparedPaymentSemantics_def demo_lib_def demo_attempt_def prepared_view_def demo_tx_def zero_or_missing_def
    legacy_signature_bytes_def reconciliationIdentity_def demo_memo str_or_def nth_opt_def less_Suc_eq exact_token_ix_def demo_amount
    token_program_def memo_program_def nth_append utf8_decode_char utf8_decode_last)
lemma demo_prepared_envelope: "hasValidTransactionEnvelope demo_prepared" by code_simp
lemma demo_candidate_envelope: "hasValidTransactionEnvelope demo_candidate" by code_simp
lemma demo_equal: "equalPreparedTransaction demo_lib demo_prepared demo_candidate ''sig2''" by code_simp
lemma demo_page:
  "parseSignatureInfos demo_lib demo_history =
    Inr [\<lparr> si_signature = ''sig2'', si_blockTime = JNull, si_err = JNull, si_memo = Some ''openshelf:v1:document:q'' \<rparr>]"
  by code_simp

lemma demo_exact: "parseExactBase64Transaction demo_transaction = Inr (Some (demo_candidate, JNull))"
  using demo_candidate_envelope by (simp add: parseExactBase64Transaction_def demo_transaction_def elem_def)

lemma demo_prepared_not_Nil: "demo_prepared \<noteq> []" by (simp add: demo_prepared_def)
lemma demo_scan:
  "scanExactFinalizedChainAttempt demo_lib demo_attempt (logged_rpc demo_env) 5 [] =
    (Inr (ScanSettled ''sig2''), [page_request ''p'' None, exact_request ''sig2''])"
  using demo_prepared_envelope demo_evidence demo_semantics demo_equal demo_page demo_exact
  by (simp add: scanExactFinalizedChainAttempt_def get_exact_logged get_signatures_logged demo_attempt_def
  truthy_def missing_only_first_def plift_def pbind_def ask_def demo_env_def pret_def exact_outcome_def page_request_def exact_request_def eval_nat_numeral max_safe_integer_def demo_prepared_not_Nil elem_def)

theorem exact_scan_settled_sound_witness:
  "\<exists>pre value bs.
      [page_request ''p'' None, exact_request ''sig2''] = pre @ [exact_request ''sig2'']
      \<and> demo_env pre (exact_request ''sig2'') = Inr value
      \<and> parseExactBase64Transaction value = Inr (Some (bs, JNull))
      \<and> equalPreparedTransaction demo_lib (base64_decode (the (ra_signedTransactionBase64 demo_attempt))) bs ''sig2''
      \<and> hasExactPreparedPaymentSemantics demo_lib demo_attempt (base64_decode (the (ra_signedTransactionBase64 demo_attempt)))"
  by (rule exact_scan_settled_sound [OF demo_scan])

lemma scan_bound_post:
  "wp (scanExactFinalizedChainAttempt lib attempt (logged_rpc env) pages)
     (\<lambda>_ hist'. page_count hist' \<le> page_count hist + nat pages \<and> page_count hist' \<le> page_count hist + 20)
     (\<lambda>_ hist'. page_count hist' \<le> page_count hist + nat pages \<and> page_count hist' \<le> page_count hist + 20) hist"
  unfolding scanExactFinalizedChainAttempt_def get_exact_logged
  by (intro wp_intros wp_mono [OF wp_scan_pages_bound]) auto

text \<open>The exact scan asks for at most the configured number of history pages, and never for
  more than twenty, whatever the RPC answers and however it ends.\<close>

theorem exact_scan_page_bound:
  assumes "scanExactFinalizedChainAttempt lib attempt (logged_rpc env) pages hist = (r, hist')"
  shows "page_count hist' \<le> page_count hist + nat pages \<and> page_count hist' \<le> page_count hist + 20"
  using scan_bound_post [of lib attempt env pages hist] assms by (cases r) (auto simp: wp_def)

theorem exact_scan_page_bound_witness:
  "page_count [page_request ''p'' None, exact_request ''sig2''] \<le> page_count [] + nat 5
   \<and> page_count [page_request ''p'' None, exact_request ''sig2''] \<le> page_count [] + 20"
  by (rule exact_scan_page_bound [OF demo_scan])

lemma verify_post:
  "wp (verifyExactFinalizedSettlementSignature lib attempt candidate (logged_rpc env) network now)
     (\<lambda>r hist'. r = ScanSettled sig \<longrightarrow> sig = candidate
        \<and> settled_evidence lib env (base64_decode (the (ra_signedTransactionBase64 attempt))) sig hist'
        \<and> hasExactPreparedPaymentSemantics lib attempt (base64_decode (the (ra_signedTransactionBase64 attempt))))
     (\<lambda>_ _. False) hist"
  unfolding verifyExactFinalizedSettlementSignature_def get_exact_logged
  by (intro wp_intros) (auto simp: exact_outcome_def settled_evidence_def split: if_splits)

text \<open>C24: The response-release check never throws, and it reports settled only the signature it was
  given, with a finalized transaction that is the prepared one and pays exactly the attempt.\<close>

theorem verify_exact_total_and_sound:
  "\<exists>r hist'. verifyExactFinalizedSettlementSignature lib attempt candidate (logged_rpc env) network now hist = (Inr r, hist')
     \<and> (case r of
          ScanSettled sig \<Rightarrow> sig = candidate
            \<and> settled_evidence lib env (base64_decode (the (ra_signedTransactionBase64 attempt))) sig hist'
            \<and> hasExactPreparedPaymentSemantics lib attempt (base64_decode (the (ra_signedTransactionBase64 attempt)))
        | _ \<Rightarrow> True)"
proof -
  obtain r hist' where r: "verifyExactFinalizedSettlementSignature lib attempt candidate (logged_rpc env) network now hist = (r, hist')"
    by (rule prod.exhaust)
  show ?thesis
  proof (cases r)
    case (Inl e)
    with r verify_post [of lib attempt candidate env network now _ hist] show ?thesis by (simp add: wp_def)
  next
    case (Inr x)
    with r verify_post [of lib attempt candidate env network now _ hist] show ?thesis
      by (simp add: wp_def split: exact_scan.split)
  qed
qed

section \<open>What a payment is\<close>

definition exact_ix_ok :: "reconciliation_attempt \<Rightarrow> string \<Rightarrow> string \<Rightarrow> string \<Rightarrow> instruction \<Rightarrow> bool" where
  "exact_ix_ok attempt source destination memo ix \<longleftrightarrow>
     (if ix_program ix = token_program then exact_token_ix attempt source destination ix
      else if ix_program ix = memo_program then utf8_decode (ix_data ix) = Some memo
      else ix_program ix = compute_budget_program \<and> validFeeSponsoredComputeBudget ix)"

lemma programs_distinct: "token_program \<noteq> memo_program"
  by (simp add: token_program_def memo_program_def)

lemma exact_ix_loop_Cons:
  "exact_ix_loop attempt source destination memo (ix # ixs) m t =
     (if exact_ix_ok attempt source destination memo ix
      then exact_ix_loop attempt source destination memo ixs
        (m + (if ix_program ix = memo_program then 1 else 0)) (t + (if ix_program ix = token_program then 1 else 0))
      else None)"
  using programs_distinct by (simp add: exact_ix_ok_def)

lemma exact_ix_loop_Some:
  "exact_ix_loop attempt source destination memo ixs m t = Some (m', t') \<Longrightarrow>
     m' = m + length (filter (\<lambda>ix. ix_program ix = memo_program) ixs)
     \<and> t' = t + length (filter (\<lambda>ix. ix_program ix = token_program) ixs)
     \<and> list_all (exact_ix_ok attempt source destination memo) ixs"
proof (induction ixs arbitrary: m t)
  case (Cons ix ixs)
  then have ok: "exact_ix_ok attempt source destination memo ix"
    and r: "exact_ix_loop attempt source destination memo ixs
        (m + (if ix_program ix = memo_program then 1 else 0)) (t + (if ix_program ix = token_program then 1 else 0)) = Some (m', t')"
    unfolding exact_ix_loop_Cons by (simp_all split: if_splits)
  show ?case
    using Cons.IH [OF r] ok by auto
qed simp

lemma filter_single: "length (filter P xs) = 1 \<Longrightarrow> \<exists>x. filter P xs = [x] \<and> x \<in> set xs \<and> P x"
  by (cases "filter P xs") (auto dest: filter_eq_ConsD)

text \<open>C10: A prepared transaction accepted for an attempt has exactly one token instruction, the
  checked transfer of the quoted amount of the quoted mint from the payer's account to the
  recipient's, exactly one memo, the one that names the quote, and beside them only compute-budget
  instructions within the sponsored limits; the payer is a signer and every signature present
  verifies.\<close>

theorem exact_payment_semantics_sound:
  assumes "hasExactPreparedPaymentSemantics lib attempt prepared"
  shows "\<exists>msg signers sigs ixs payer source destination memo tix mix.
      lib_messageBytes lib prepared = Some msg \<and> prepared_view lib prepared = Some (signers, sigs, ixs)
    \<and> ra_payer attempt = Some payer \<and> payer \<in> set signers
    \<and> (\<forall>i < length signers. zero_or_missing (nth_opt sigs i) \<or> lib_verify lib (signers ! i) (sigs ! i) msg = Some True)
    \<and> lib_ata lib (ra_asset attempt) payer token_program = Some source
    \<and> lib_ata lib (ra_asset attempt) (ra_payTo attempt) token_program = Some destination
    \<and> paymentMemo (reconciliationIdentity (ra_settlementKind attempt) (ra_quoteId attempt)) (ra_quoteId attempt) = Inr memo
    \<and> filter (\<lambda>ix. ix_program ix = token_program) ixs = [tix] \<and> exact_token_ix attempt source destination tix
    \<and> filter (\<lambda>ix. ix_program ix = memo_program) ixs = [mix] \<and> utf8_decode (ix_data mix) = Some memo
    \<and> (\<forall>ix \<in> set ixs. ix_program ix \<in> {token_program, memo_program} \<or>
         (ix_program ix = compute_budget_program \<and> validFeeSponsoredComputeBudget ix))"
proof -
  obtain msg signers sigs ixs where v: "lib_messageBytes lib prepared = Some msg"
      "prepared_view lib prepared = Some (signers, sigs, ixs)"
    using assms unfolding hasExactPreparedPaymentSemantics_def
    by (cases "lib_messageBytes lib prepared"; cases "prepared_view lib prepared") auto
  note body = assms [unfolded hasExactPreparedPaymentSemantics_def v prod.case option.case]
  then obtain i where i: "index_of (str_or (ra_payer attempt) []) signers = Some i"
    by (cases "index_of (str_or (ra_payer attempt) []) signers") auto
  note body' = body [unfolded i option.case]
  then have verified: "\<forall>i < length signers. zero_or_missing (nth_opt sigs i) \<or> lib_verify lib (signers ! i) (sigs ! i) msg = Some True"
    by (metis (lifting))
  from body' obtain source destination memo where
    h: "lib_ata lib (ra_asset attempt) (str_or (ra_payer attempt) []) token_program = Some source"
    "lib_ata lib (ra_asset attempt) (ra_payTo attempt) token_program = Some destination"
    "paymentMemo (reconciliationIdentity (ra_settlementKind attempt) (ra_quoteId attempt)) (ra_quoteId attempt) = Inr memo"
    and loop: "exact_ix_loop attempt source destination memo ixs 0 0 = Some (1, 1)"
    by (cases "lib_ata lib (ra_asset attempt) (str_or (ra_payer attempt) []) token_program";
        cases "lib_ata lib (ra_asset attempt) (ra_payTo attempt) token_program";
        cases "paymentMemo (reconciliationIdentity (ra_settlementKind attempt) (ra_quoteId attempt)) (ra_quoteId attempt)")
      (simp_all split: if_split_asm)
  note l = exact_ix_loop_Some [OF loop]
  have ok: "ix \<in> set ixs \<Longrightarrow> exact_ix_ok attempt source destination memo ix" for ix
    using l by (simp add: list_all_iff)
  have n: "length (filter (\<lambda>ix. ix_program ix = token_program) ixs) = 1"
      "length (filter (\<lambda>ix. ix_program ix = memo_program) ixs) = 1"
    using l by simp_all
  obtain tix where t: "filter (\<lambda>ix. ix_program ix = token_program) ixs = [tix]" "tix \<in> set ixs" "ix_program tix = token_program"
    using filter_single [OF n(1)] by blast
  obtain mix where m: "filter (\<lambda>ix. ix_program ix = memo_program) ixs = [mix]" "mix \<in> set ixs" "ix_program mix = memo_program"
    using filter_single [OF n(2)] by blast
  have t': "exact_token_ix attempt source destination tix"
    using ok [OF t(2)] t(3) by (simp add: exact_ix_ok_def)
  have m': "utf8_decode (ix_data mix) = Some memo"
    using ok [OF m(2)] m(3) programs_distinct by (simp add: exact_ix_ok_def)
  have w: "\<forall>ix \<in> set ixs. ix_program ix \<in> {token_program, memo_program} \<or>
         (ix_program ix = compute_budget_program \<and> validFeeSponsoredComputeBudget ix)"
    using ok by (auto simp: exact_ix_ok_def split: if_splits)
  from t' obtain payer where payer: "ra_payer attempt = Some payer"
    by (metis exact_token_ix_def)
  with i have "payer \<in> set signers"
    using index_of_Some [OF i] by (auto simp: str_or_def)
  moreover have "lib_ata lib (ra_asset attempt) payer token_program = Some source"
    using h(1) payer by (simp add: str_or_def)
  ultimately show ?thesis
    using w by (intro exI conjI) (rule v payer verified h(2,3) t(1) t' m(1) m' | assumption)+
qed

theorem exact_payment_semantics_sound_witness:
  "\<exists>source destination tix. lib_ata demo_lib ''mint'' ''o'' token_program = Some destination
     \<and> exact_token_ix demo_attempt source destination tix"
  using exact_payment_semantics_sound [OF demo_semantics [of demo_prepared]]
  by (auto simp: demo_attempt_def)

section \<open>Recovery from the recipient's history\<close>

definition parsed_request :: "string \<Rightarrow> rpc_request" where
  "parsed_request signature =
     (''getTransaction'',
      [JStr signature,
        JObj [(''commitment'', JStr ''finalized''), (''encoding'', JStr ''jsonParsed''),
              (''maxSupportedTransactionVersion'', JNum (Num 0))]])"

text \<open>The last two requests read the settlement's transaction, parsed and in base64: it carries the
  memo and the exact transfer, and its bytes hash to the attempt.\<close>

definition recovery_evidence ::
    "svm_lib \<Rightarrow> reconciliation_attempt \<Rightarrow> string \<Rightarrow> string list
     \<Rightarrow> (rpc_request list \<Rightarrow> rpc_request \<Rightarrow> json outcome) \<Rightarrow> durable_settlement \<Rightarrow> rpc_request list \<Rightarrow> bool" where
  "recovery_evidence lib attempt memo destinations env settlement hist \<longleftrightarrow>
     (\<exists>sig pre value value' parsed encoded.
        hist = pre @ [parsed_request sig, exact_request sig]
        \<and> env pre (parsed_request sig) = Inr value
        \<and> env (pre @ [parsed_request sig]) (exact_request sig) = Inr value'
        \<and> parseMatchingTransaction lib value memo attempt destinations = Some parsed
        \<and> parseBase64Transaction lib value' sig = Inr (Some encoded)
        \<and> paymentAttemptIdFromSettledTransaction lib encoded = Inr (ra_attemptId attempt)
        \<and> settlement = recovered_settlement attempt sig parsed)"

lemma wp_find_candidate:
  "wp (find_candidate lib attempt memo destinations (logged_rpc env) c)
     (\<lambda>r hist'. \<forall>s. r = Some s \<longrightarrow> recovery_evidence lib attempt memo destinations env s hist')
     (\<lambda>_ _. False) hist"
proof -
  have [simp]: "(\<lambda>ps. logged_rpc env ''getTransaction'' ps) = (\<lambda>ps. ask env (''getTransaction'', ps))"
    by (rule ext) (simp add: logged_rpc_def fun_eq_iff)
  show ?thesis
    unfolding find_candidate_def get_exact_logged
    unfolding logged_rpc_def
    by (intro wp_intros)
      (auto simp: recovery_evidence_def parsed_request_def split: option.splits sum.splits if_splits)
qed

lemma wp_find_candidates:
  "wp (find_candidates lib attempt memo destinations (logged_rpc env) cs visited)
     (\<lambda>(r, v) hist'. \<forall>s. r = Some s \<longrightarrow> recovery_evidence lib attempt memo destinations env s hist')
     (\<lambda>_ _. False) hist"
proof (induction cs arbitrary: visited hist)
  case (Cons c cs)
  show ?case
    unfolding find_candidates.simps
    by (intro wp_intros wp_mono [OF wp_find_candidate] Cons.IH) auto
qed (simp add: wp_simps)

lemma wp_find_pages:
  "wp (find_pages lib attempt memo destinations (logged_rpc env) d pages before visited)
     (\<lambda>(r, v) hist'. \<forall>s. r = Some s \<longrightarrow> recovery_evidence lib attempt memo destinations env s hist')
     (\<lambda>_ _. True) hist"
proof (induction pages arbitrary: before visited hist)
  case (Suc pages)
  show ?case
    unfolding find_pages.simps get_signatures_logged
    by (intro wp_intros wp_mono [OF wp_find_candidates] Suc.IH) auto
qed (simp add: wp_simps)

lemma wp_find_destinations:
  "wp (find_destinations lib attempt memo destinations (logged_rpc env) pages ds visited)
     (\<lambda>r hist'. \<forall>s. r = Some s \<longrightarrow> recovery_evidence lib attempt memo destinations env s hist')
     (\<lambda>_ _. True) hist"
proof (induction ds arbitrary: visited hist)
  case (Cons d ds)
  show ?case
    unfolding find_destinations.simps
    by (intro wp_intros wp_mono [OF wp_find_pages] Cons.IH) auto
qed (simp add: wp_simps)

lemma parseMatching_transfer:
  assumes "parseMatchingTransaction lib value memo attempt destinations = Some parsed"
  shows "pe_memo parsed = memo \<and> pt_mint (pe_transfer parsed) = ra_asset attempt
    \<and> pt_amountAtomic (pe_transfer parsed) = ra_amountAtomic attempt
    \<and> pt_destination (pe_transfer parsed) \<in> set destinations"
  using assms unfolding parseMatchingTransaction_def Let_def
  by (auto simp: find_Some_iff split: if_splits)

text \<open>C11: A settlement recovered from the chain belongs to the attempt: its ids, amount, network and
  recipient are the attempt's, and the transaction it names, read from the chain, carries the
  quote's memo and a transfer of exactly the quoted amount of the quoted mint to one of the
  recipient's token accounts, and with the fee payer's slot emptied it hashes to the attempt id.\<close>

theorem chain_recovery_sound:
  assumes "findFinalizedChainSettlement lib attempt (logged_rpc env) network pages now hist = (Inr (Some s), hist')"
  shows "ds_attemptId s = ra_attemptId attempt \<and> ds_quoteId s = ra_quoteId attempt
    \<and> ds_amountAtomic s = ra_amountAtomic attempt \<and> ds_payTo s = ra_payTo attempt \<and> ds_network s = network
    \<and> (\<exists>memo destinations pre value value' parsed encoded.
         paymentMemo (reconciliationIdentity (ra_settlementKind attempt) (ra_quoteId attempt)) (ra_quoteId attempt) = Inr memo
       \<and> associatedTokenAddresses lib (ra_asset attempt) (ra_payTo attempt) = Inr destinations
       \<and> env pre (parsed_request (ds_transactionSignature s)) = Inr value
       \<and> parseMatchingTransaction lib value memo attempt destinations = Some parsed
       \<and> pt_mint (pe_transfer parsed) = ra_asset attempt
       \<and> pt_amountAtomic (pe_transfer parsed) = ra_amountAtomic attempt
       \<and> pt_destination (pe_transfer parsed) \<in> set destinations
       \<and> pt_payer (pe_transfer parsed) = ds_payer s
       \<and> hist' = pre @ [parsed_request (ds_transactionSignature s), exact_request (ds_transactionSignature s)]
       \<and> env (pre @ [parsed_request (ds_transactionSignature s)]) (exact_request (ds_transactionSignature s)) = Inr value'
       \<and> parseBase64Transaction lib value' (ds_transactionSignature s) = Inr (Some encoded)
       \<and> paymentAttemptIdFromSettledTransaction lib encoded = Inr (ra_attemptId attempt))"
proof -
  let ?memo = "paymentMemo (reconciliationIdentity (ra_settlementKind attempt) (ra_quoteId attempt)) (ra_quoteId attempt)"
  let ?ata = "associatedTokenAddresses lib (ra_asset attempt) (ra_payTo attempt)"
  have "wp (findFinalizedChainSettlement lib attempt (logged_rpc env) network pages now)
     (\<lambda>r hist'. \<forall>s. r = Some s \<longrightarrow> ra_network attempt = network \<and>
        (\<exists>memo ds. ?memo = Inr memo \<and> ?ata = Inr ds \<and> recovery_evidence lib attempt memo ds env s hist'))
     (\<lambda>_ _. True) hist"
    unfolding findFinalizedChainSettlement_def
    by (intro wp_intros wp_mono [OF wp_find_destinations]) (auto simp: validateAttempt_def)
  from wpD [OF this assms] obtain memo ds where m: "?memo = Inr memo" "?ata = Inr ds" "ra_network attempt = network"
    and "recovery_evidence lib attempt memo ds env s hist'" by auto
  then obtain sig pre ans ans' parsed encoded where e:
    "hist' = pre @ [parsed_request sig, exact_request sig]" "env pre (parsed_request sig) = Inr ans"
    "env (pre @ [parsed_request sig]) (exact_request sig) = Inr ans'"
    "parseMatchingTransaction lib ans memo attempt ds = Some parsed"
    "parseBase64Transaction lib ans' sig = Inr (Some encoded)"
    "paymentAttemptIdFromSettledTransaction lib encoded = Inr (ra_attemptId attempt)"
    and s: "s = recovered_settlement attempt sig parsed"
    by (auto simp: recovery_evidence_def)
  have [simp]: "ds_transactionSignature s = sig" "ds_payer s = pt_payer (pe_transfer parsed)"
    using s by (simp_all add: recovered_settlement_def)
  from m e parseMatching_transfer [OF e(4)] have "\<exists>memo destinations pre value value' parsed encoded.
         ?memo = Inr memo \<and> ?ata = Inr destinations
       \<and> env pre (parsed_request sig) = Inr value
       \<and> parseMatchingTransaction lib value memo attempt destinations = Some parsed
       \<and> pt_mint (pe_transfer parsed) = ra_asset attempt
       \<and> pt_amountAtomic (pe_transfer parsed) = ra_amountAtomic attempt
       \<and> pt_destination (pe_transfer parsed) \<in> set destinations
       \<and> pt_payer (pe_transfer parsed) = ds_payer s
       \<and> hist' = pre @ [parsed_request sig, exact_request sig]
       \<and> env (pre @ [parsed_request sig]) (exact_request sig) = Inr value'
       \<and> parseBase64Transaction lib value' sig = Inr (Some encoded)
       \<and> paymentAttemptIdFromSettledTransaction lib encoded = Inr (ra_attemptId attempt)"
    by (intro exI conjI) (rule m e refl | simp)+
  with s m(3) show ?thesis
    by (simp add: recovered_settlement_def)
qed

lemma demo_validate: "validateAttempt demo_lib demo_attempt ''net'' 1 100 = Inr ()"
  by code_simp

lemma demo_destinations: "associatedTokenAddresses demo_lib ''mint'' ''o'' = Inr [''o-ata'']"
  by code_simp

lemma demo_matching:
  "parseMatchingTransaction demo_lib demo_parsed ''openshelf:v1:document:q'' demo_attempt [''o-ata''] =
    Some \<lparr> pe_slot = JNum (Num 9), pe_blockTime = JNull, pe_memo = ''openshelf:v1:document:q'',
      pe_transfer = \<lparr> pt_payer = ''p'', pt_destination = ''o-ata'', pt_mint = ''mint'', pt_amountAtomic = ''5'' \<rparr> \<rparr>"
  by code_simp

lemma demo_slots: "decodeShortVec demo_candidate = Some (2, 1)" "slot 1 demo_candidate 0 = replicate 64 (byte_of 2)"
    "length demo_candidate = 130"
  by code_simp+

lemma demo_encoded: "parseBase64Transaction demo_lib demo_transaction ''sig2'' = Inr (Some (base64_encode demo_candidate))"
  using demo_slots
  by (simp add: parseBase64Transaction_def demo_transaction_def elem_def) (simp add: demo_lib_def)

lemma demo_attempt_id:
  "paymentAttemptIdFromSettledTransaction demo_lib (base64_encode demo_candidate) = Inr (ra_attemptId demo_attempt)"
  using demo_slots by (simp add: paymentAttemptIdFromSettledTransaction_def demo_lib_def demo_attempt_def)

definition demo_settlement :: durable_settlement where
  "demo_settlement = recovered_settlement demo_attempt ''sig2''
     \<lparr> pe_slot = JNum (Num 9), pe_blockTime = JNull, pe_memo = ''openshelf:v1:document:q'',
      pe_transfer = \<lparr> pt_payer = ''p'', pt_destination = ''o-ata'', pt_mint = ''mint'', pt_amountAtomic = ''5'' \<rparr> \<rparr>"

lemma demo_candidate_not_Nil: "demo_candidate \<noteq> []"
  by (simp add: demo_candidate_def)

lemma demo_candidate_found:
  "find_candidate demo_lib demo_attempt ''openshelf:v1:document:q'' [''o-ata''] (logged_rpc demo_env)
     \<lparr> si_signature = ''sig2'', si_blockTime = JNull, si_err = JNull, si_memo = Some ''openshelf:v1:document:q'' \<rparr> hist =
   (Inr (Some demo_settlement), hist @ [parsed_request ''sig2'', exact_request ''sig2''])"
proof -
  have a: "logged_rpc demo_env ''getTransaction'' ps w = (demo_env w (''getTransaction'', ps), w @ [(''getTransaction'', ps)])" for ps w
    by (simp add: logged_rpc_def ask_def)
  show ?thesis
    using demo_matching demo_encoded demo_attempt_id
    by (simp add: find_candidate_def pbind_def pcatch_def plift_def pret_def get_exact_logged a ask_def
        demo_env_def elem_def exact_request_def parsed_request_def demo_settlement_def demo_candidate_not_Nil)
qed

lemma demo_find:
  "findFinalizedChainSettlement demo_lib demo_attempt (logged_rpc demo_env) ''net'' 1 100 [] =
    (Inr (Some demo_settlement),
     [page_request ''o-ata'' None, parsed_request ''sig2'', exact_request ''sig2''])"
proof -
  have m: "paymentMemo (reconciliationIdentity (ra_settlementKind demo_attempt) (ra_quoteId demo_attempt)) (ra_quoteId demo_attempt)
      = Inr ''openshelf:v1:document:q''"
    using demo_memo by (simp add: demo_attempt_def reconciliationIdentity_def)
  have d: "associatedTokenAddresses demo_lib (ra_asset demo_attempt) (ra_payTo demo_attempt) = Inr [''o-ata'']"
    using demo_destinations by (simp add: demo_attempt_def)
  have n: "nat (max 1 1) = Suc 0" by simp
  show ?thesis
    unfolding findFinalizedChainSettlement_def n
    using demo_validate m d demo_page demo_candidate_found
    by (simp add: pbind_def plift_def pret_def get_signatures_logged ask_def demo_env_def page_request_def
        truthy_def)
qed

theorem chain_recovery_sound_witness:
  "ds_attemptId demo_settlement = ra_attemptId demo_attempt \<and> ds_network demo_settlement = ''net''
   \<and> (\<exists>pre value'. demo_env pre (exact_request (ds_transactionSignature demo_settlement)) = Inr value'
      \<and> (\<exists>encoded. parseBase64Transaction demo_lib value' (ds_transactionSignature demo_settlement) = Inr (Some encoded)
         \<and> paymentAttemptIdFromSettledTransaction demo_lib encoded = Inr (ra_attemptId demo_attempt)))"
  using chain_recovery_sound [OF demo_find] by blast

section \<open>Decisions and identities\<close>

text \<open>C25: A payment is released for re-payment only when at least two views exist, none reports it
  settled or is unsure, every view of the blockhash says it has expired, and absence had already
  been observed before.\<close>

theorem exact_absence_release_iff:
  "exactAbsenceDecision scans views observed = Release \<longleftrightarrow>
     2 \<le> length scans \<and> length views = length scans
     \<and> set scans \<subseteq> {ScanAbsent} \<union> range ScanFailed \<and> set views = {Some False} \<and> observed \<noteq> None"
proof -
  have "(case scan of ScanSettled _ \<Rightarrow> True | ScanInconclusive \<Rightarrow> True | _ \<Rightarrow> False)
      = (scan \<notin> {ScanAbsent} \<union> range ScanFailed)" for scan
    by (cases scan) auto
  then have s: "(\<not> list_ex (\<lambda>scan. case scan of ScanSettled _ \<Rightarrow> True | ScanInconclusive \<Rightarrow> True | _ \<Rightarrow> False) scans)
      = (set scans \<subseteq> {ScanAbsent} \<union> range ScanFailed)"
    by (simp only: list_ex_iff) blast
  have "(view = None \<or> view = Some True) = (view \<noteq> Some False)" for view :: "bool option"
    by (cases view) auto
  then have v: "(\<not> list_ex (\<lambda>view. view = None \<or> view = Some True) views) = (set views \<subseteq> {Some False})"
    by (simp only: list_ex_iff) blast
  have n: "2 \<le> length scans \<Longrightarrow> length views = length scans \<Longrightarrow> (set views \<subseteq> {Some False}) = (set views = {Some False})"
    by (cases views) auto
  show ?thesis
    unfolding exactAbsenceDecision_def
    using s v n by (cases observed) (auto simp: not_less)
qed

text \<open>One scan that is not settled, or two that found different signatures, veto the settlement,
  whatever the others say; and the first view, whose signature the code takes, is no different from the
  rest: the views may be permuted.\<close>

lemma exact_settlement_vetoes:
  "r \<in> set scans \<Longrightarrow> r \<in> {ScanAbsent, ScanInconclusive} \<union> range ScanFailed \<Longrightarrow> exactSettlementSignature scans = None"
  "ScanSettled v \<in> set scans \<Longrightarrow> ScanSettled w \<in> set scans \<Longrightarrow> v \<noteq> w \<Longrightarrow> exactSettlementSignature scans = None"
  by (auto intro: gateway_agreement.dissent_vetoes gateway_agreement.disagreement_vetoes)

lemma exact_settlement_order:
  "mset scans = mset scans' \<Longrightarrow> exactSettlementSignature scans = exactSettlementSignature scans'"
  by (rule gateway_agreement.verdict_order) (metis mset_eq_setD mset_eq_length)+

text \<open>C12: A finalized transaction that the matcher accepts for a prepared one differs from it only
  in the fee payer's signature, when that slot alone was empty; the attempt id recovered from the
  chain is then the id the gateway gave the prepared payload.\<close>

theorem settled_transaction_has_attempt_id:
  assumes "equalPreparedTransaction lib p c sig" "hasValidTransactionEnvelope p"
    and "decodeShortVec p = Some (n, k)"
    and "is_zero (slot k p 0)" "\<forall>i. 0 < i \<and> i < n \<longrightarrow> \<not> is_zero (slot k p i)"
  shows "drop (k + 64) c = drop (k + 64) p \<and> take k c = take k p
    \<and> paymentAttemptIdFromSettledTransaction lib (base64_encode c)
        = paymentAttemptId (lib_sha256_hex lib) (JObj [(''transaction'', JStr (base64_encode p))])"
proof -
  have n: "1 \<le> n" "k + n * 64 < length p"
    using assms(2,3) by (auto simp: hasValidTransactionEnvelope_def)
  have r: "take k c @ replicate 64 0 @ drop (k + 64) c = p"
    using assms n by (intro gateway_match.matches_rezeroed) auto
  have len: "length (take k c) = k" "length c = length p"
    using n gateway_match.matches_header [OF assms(1,3)] by auto
  then have "drop (k + 64) p = drop (k + 64) c" "take k p = take k c"
    using arg_cong [OF r, of "drop (k + 64)"] arg_cong [OF r, of "take k"] by simp_all
  moreover have "paymentAttemptIdFromSettledTransaction lib (base64_encode c) = Inr (lib_sha256_hex lib (base64_encode p))"
    using assms n by (intro gateway_match.matches_attempt_id) auto
  moreover have "p \<noteq> []" using n by auto
  ultimately show ?thesis
    by (simp add: paymentAttemptId_def)
qed

theorem settled_transaction_has_attempt_id_witness:
  "paymentAttemptIdFromSettledTransaction demo_lib (base64_encode demo_candidate)
     = paymentAttemptId (lib_sha256_hex demo_lib) (JObj [(''transaction'', JStr (base64_encode demo_prepared))])"
proof -
  have p: "decodeShortVec demo_prepared = Some (2, 1)" "is_zero (slot 1 demo_prepared 0)" "\<not> is_zero (slot 1 demo_prepared 1)"
    by code_simp+
  have "\<forall>i. 0 < i \<and> i < 2 \<longrightarrow> \<not> is_zero (slot 1 demo_prepared i)"
    using p(3) by (auto simp: less_2_cases_iff)
  with settled_transaction_has_attempt_id [OF demo_equal demo_prepared_envelope p(1,2)] show ?thesis by blast
qed

end
