(* ===== verification/Pay_Sh_Finality.thy ===== *)
theory Pay_Sh_Finality
  imports Chain_Reconciler
begin

text \<open>
  \<open>payment-gateway/src/pay-sh-finality.ts\<close>: completing the durable Pay.sh transaction with the
  receipt's signature, and waiting until every independent RPC view reproduces it. The clock and
  the sleep are procedures, as they are options in the source; the RPC views are asked in order.
\<close>

section \<open>Canonical base64 and compact lengths\<close>

definition is_b64 :: "char \<Rightarrow> bool" where
  "is_b64 c \<longleftrightarrow> is_alnum c \<or> c = CHR ''+'' \<or> c = CHR ''/''"

text \<open>\<open>/^[A-Za-z0-9+/]+={0,2}$/\<close>\<close>

definition re_base64 :: "string \<Rightarrow> bool" where
  "re_base64 s \<longleftrightarrow> takeWhile is_b64 s \<noteq> [] \<and> dropWhile is_b64 s \<in> {[], ''='', ''==''}"

definition decodeCanonicalBase64 :: "string \<Rightarrow> bytes outcome" where
  "decodeCanonicalBase64 v =
     (if \<not> re_base64 v \<or> length v mod 4 \<noteq> 0 then Inl (Err ''transaction is not canonical base64'')
      else let decoded = base64_decode v in
        if length decoded = 0 \<or> base64_encode decoded \<noteq> v
        then Inl (Err ''transaction is not canonical base64'')
        else Inr decoded)"

fun compact_bytes :: "nat \<Rightarrow> bytes" where
  "compact_bytes n =
     (let low = n mod 128; remaining = n div 128 in
      if remaining = 0 then [byte_of low] else byte_of (low + 128) # compact_bytes remaining)"

declare compact_bytes.simps [simp del]

definition encodeCompactU16 :: "nat \<Rightarrow> bytes outcome" where
  "encodeCompactU16 n = require (n \<le> 65535) (Err ''signature count is out of range'') (Inr (compact_bytes n))"

section \<open>Completing a receipt\<close>

record receipt_evidence =
  re_transactionSignature :: string
  re_finalizedTransactionBase64 :: string

text \<open>One slot: the receipt's signature goes to slot 0, and may not replace a signature that is there.\<close>

definition complete_slot :: "bytes \<Rightarrow> nat \<Rightarrow> bytes option \<Rightarrow> bytes option" where
  "complete_slot receiptSignature index prepared =
     (case (if index = 0 then Some receiptSignature else prepared) of
        None \<Rightarrow> None
      | Some candidate \<Rightarrow>
          if length candidate \<noteq> 64 \<or> is_zero candidate then None
          else (case prepared of
              Some p \<Rightarrow> if \<not> is_zero p \<and> \<not> (\<forall>i < length p. nth_opt candidate i = Some (p ! i)) then None
                else Some candidate
            | None \<Rightarrow> Some candidate))"

fun complete_slots :: "bytes \<Rightarrow> nat \<Rightarrow> bytes option list \<Rightarrow> bytes list option" where
  "complete_slots receiptSignature index [] = Some []"
| "complete_slots receiptSignature index (prepared # rest) =
     (case complete_slot receiptSignature index prepared of
        None \<Rightarrow> None
      | Some candidate \<Rightarrow> map_option (Cons candidate) (complete_slots receiptSignature (index + 1) rest))"

definition completePayShReceiptTransaction :: "svm_lib \<Rightarrow> string \<Rightarrow> string \<Rightarrow> receipt_evidence option" where
  "completePayShReceiptTransaction lib preparedTransactionBase64 receiptReference =
     (case decodeCanonicalBase64 preparedTransactionBase64 of
        Inl _ \<Rightarrow> None
      | Inr preparedBytes \<Rightarrow>
          (case (lib_decode_tx lib preparedBytes, lib_base58_decode lib receiptReference) of
             (Some decoded, Some receiptSignature) \<Rightarrow>
               if length (dt_signatures decoded) = 0 \<or> length receiptSignature \<noteq> 64 then None
               else (case complete_slots receiptSignature 0 (map snd (dt_signatures decoded)) of
                   None \<Rightarrow> None
                 | Some completed \<Rightarrow>
                     (case encodeCompactU16 (length completed) of
                        Inl _ \<Rightarrow> None
                      | Inr prefix \<Rightarrow>
                          let finalizedBytes = prefix @ concat completed @ dt_messageBytes decoded in
                          (case lib_decode_tx lib finalizedBytes of
                             None \<Rightarrow> None
                           | Some roundTrip \<Rightarrow>
                               if length (dt_signatures roundTrip) \<noteq> length completed
                                  \<or> dt_messageBytes roundTrip \<noteq> dt_messageBytes decoded
                               then None
                               else Some \<lparr> re_transactionSignature = receiptReference,
                                 re_finalizedTransactionBase64 = base64_encode finalizedBytes \<rparr>)))
           | _ \<Rightarrow> None))"

section \<open>Waiting for the independent views\<close>

definition rpcReportsExactFinalizedReceipt :: "receipt_evidence \<Rightarrow> 'w solana_rpc \<Rightarrow> ('w, bool) proc" where
  "rpcReportsExactFinalizedReceipt evidence rpc =
     pbind (get_exact_transaction rpc (re_transactionSignature evidence)) (\<lambda>result.
       if \<not> is_obj result then pret False
       else if \<not> is_obj (prop_of result ''meta'') then pret False
       else if prop_of (prop_of result ''meta'') ''err'' \<noteq> JNull then pret False
       else (case prop_of result ''transaction'' of
           JArr [JStr encoded, JStr encoding] \<Rightarrow>
             if encoding \<noteq> ''base64'' then pret False
             else pbind (plift (decodeCanonicalBase64 encoded)) (\<lambda>actual.
               pbind (plift (decodeCanonicalBase64 (re_finalizedTransactionBase64 evidence))) (\<lambda>expected.
                 pret (actual = expected)))
         | _ \<Rightarrow> pret False))"

record 'w finality_options =
  fo_evidence :: receipt_evidence
  fo_rpcs :: "'w solana_rpc list"
  fo_minimumViews :: int
  fo_timeoutMs :: int
  fo_pollIntervalMs :: int
  fo_nowMs :: "('w, int) proc"
  fo_sleep :: "int \<Rightarrow> ('w, unit) proc"

text \<open>\<open>Math.ceil (timeoutMs / pollIntervalMs) + 1\<close>\<close>

definition max_polls :: "int \<Rightarrow> int \<Rightarrow> nat" where
  "max_polls timeoutMs pollIntervalMs = nat (- ((- timeoutMs) div pollIntervalMs) + 1)"

fun finality_polls :: "'w finality_options \<Rightarrow> int \<Rightarrow> nat \<Rightarrow> ('w, bool) proc" where
  "finality_polls options deadline 0 = pret False"
| "finality_polls options deadline (Suc polls) =
     pbind (pmapM (\<lambda>rpc. pcatch (rpcReportsExactFinalizedReceipt (fo_evidence options) rpc) (\<lambda>_. pret False))
       (fo_rpcs options)) (\<lambda>views.
     if fo_minimumViews options \<le> int (length views) \<and> list_all id views then pret True
     else pbind (fo_nowMs options) (\<lambda>now.
       if deadline \<le> now then pret False
       else pbind (fo_nowMs options) (\<lambda>now'.
         pbind (fo_sleep options (min (fo_pollIntervalMs options) (max 0 (deadline - now')))) (\<lambda>_.
           finality_polls options deadline polls))))"

definition waitForIndependentPayShFinality :: "'w finality_options \<Rightarrow> ('w, bool) proc" where
  "waitForIndependentPayShFinality options =
     (if \<not> is_safe_integer (Num (fo_minimumViews options)) \<or> fo_minimumViews options < 1
         \<or> int (length (fo_rpcs options)) < fo_minimumViews options
         \<or> \<not> is_safe_integer (Num (fo_timeoutMs options)) \<or> fo_timeoutMs options < 1 \<or> 45000 < fo_timeoutMs options
         \<or> \<not> is_safe_integer (Num (fo_pollIntervalMs options)) \<or> fo_pollIntervalMs options < 50
         \<or> 5000 < fo_pollIntervalMs options
      then pret False
      else pbind (fo_nowMs options) (\<lambda>now.
        finality_polls options (now + fo_timeoutMs options)
          (max_polls (fo_timeoutMs options) (fo_pollIntervalMs options))))"

section \<open>Codec lemmas\<close>

lemma is_b64_char: "d < 64 \<Longrightarrow> is_b64 (b64_char d)"
  by (auto simp: is_b64_def is_alnum_def is_digit_def b64_char.simps)

lemma not_b64_pad: "\<not> is_b64 (CHR ''='')"
  by code_simp

lemma b64_padding_step: "b64_padding (Suc (Suc (Suc n))) = b64_padding n"
  by (simp add: b64_padding_def mod_Suc)

lemma length_bytes_sextets:
  "length (bytes_sextets bs) + length (b64_padding (length bs)) = 4 * ((length bs + 2) div 3)"
proof (induction bs rule: bytes_sextets.induct)
  case (1 x y z bs)
  have "(length (x # y # z # bs) + 2) div 3 = (length bs + 2) div 3 + 1"
    using div_add_self2 [of 3 "length bs + 2"] by (simp del: div_add_self2)
  with 1 show ?case by (simp only:) (simp add: b64_padding_step)
qed (simp_all add: b64_padding_def)

lemma takeWhile_b64: "list_all (\<lambda>d. d < 64) ds \<Longrightarrow> takeWhile is_b64 (map b64_char ds @ b64_padding n) = map b64_char ds"
  by (induction ds) (auto simp: b64_padding_def takeWhile_replicate not_b64_pad is_b64_char)

lemma dropWhile_b64: "list_all (\<lambda>d. d < 64) ds \<Longrightarrow> dropWhile is_b64 (map b64_char ds @ b64_padding n) = b64_padding n"
  by (induction ds) (auto simp: b64_padding_def dropWhile_replicate not_b64_pad is_b64_char)

lemma b64_padding_cases: "b64_padding n \<in> {[], ''='', ''==''}"
proof -
  have "n mod 3 < 3" by simp
  then consider "n mod 3 = 0" | "n mod 3 = 1" | "n mod 3 = 2" by linarith
  then show ?thesis by cases (simp_all add: b64_padding_def numeral_2_eq_2)
qed

lemma bytes_sextets_Nil [simp]: "bytes_sextets bs = [] \<longleftrightarrow> bs = []"
  by (cases bs rule: bytes_sextets.cases) simp_all

text \<open>The canonical decoder accepts exactly the encodings of nonempty byte strings.\<close>

lemma decodeCanonicalBase64_iff: "decodeCanonicalBase64 v = Inr bs \<longleftrightarrow> bs \<noteq> [] \<and> v = base64_encode bs"
proof
  assume "decodeCanonicalBase64 v = Inr bs"
  then show "bs \<noteq> [] \<and> v = base64_encode bs"
    by (auto simp: decodeCanonicalBase64_def Let_def split: if_splits)
next
  assume v: "bs \<noteq> [] \<and> v = base64_encode bs"
  then have "re_base64 v"
    unfolding re_base64_def base64_encode_def
    using takeWhile_b64 [OF bytes_sextets_less] dropWhile_b64 [OF bytes_sextets_less] b64_padding_cases by auto
  moreover have "length v = 4 * ((length bs + 2) div 3)"
    using v length_bytes_sextets [of bs] by (simp add: base64_encode_def)
  ultimately show "decodeCanonicalBase64 v = Inr bs"
    using v by (simp add: decodeCanonicalBase64_def)
qed

lemma short_vec_compact:
  "i + length (compact_bytes n) \<le> 3 \<Longrightarrow>
   short_vec_from i v (compact_bytes n @ rest) = Some (v + n * 2 ^ (7 * i), i + length (compact_bytes n))"
proof (induction n arbitrary: i v rule: compact_bytes.induct)
  case (1 n)
  show ?case
  proof (cases "n div 128 = 0")
    case True
    then have "n < 128" by simp
    moreover have "compact_bytes n = [byte_of n]"
      using \<open>n < 128\<close> by (subst compact_bytes.simps) (simp add: Let_def)
    ultimately show ?thesis
      using "1.prems" by (simp add: Let_def)
  next
    case False
    have c: "compact_bytes n = byte_of (n mod 128 + 128) # compact_bytes (n div 128)"
      using False by (subst compact_bytes.simps) (simp add: Let_def)
    have "n mod 128 < 128" by simp
    then have u: "unat (byte_of (n mod 128 + 128)) = n mod 128 + 128"
      by (intro unat_byte_of) linarith
    have radix: "v + r * P + q * (128 * P) = v + (r + 128 * q) * P" for r q P :: nat
      by (simp add: algebra_simps)
    have n: "v + n mod 128 * 2 ^ (7 * i) + n div 128 * 2 ^ (7 * (i + 1)) = v + n * 2 ^ (7 * i)"
      unfolding pow_step radix by simp
    have "short_vec_from (i + 1) (v + n mod 128 * 2 ^ (7 * i)) (compact_bytes (n div 128) @ rest) =
        Some (v + n mod 128 * 2 ^ (7 * i) + n div 128 * 2 ^ (7 * (i + 1)), i + 1 + length (compact_bytes (n div 128)))"
      using "1.prems" c by (intro "1.IH" [OF refl refl False]) simp
    moreover have "i < 3" using "1.prems" c by simp
    ultimately show ?thesis
      unfolding c append_Cons short_vec_from.simps u Let_def n by simp
  qed
qed

lemma length_compact: "n < 2 ^ (7 * Suc k) \<Longrightarrow> length (compact_bytes n) \<le> Suc k"
proof (induction k arbitrary: n)
  case 0
  then show ?case by (subst compact_bytes.simps) (simp add: Let_def)
next
  case (Suc k)
  have "(2::nat) ^ (7 * Suc (Suc k)) = 128 * 2 ^ (7 * Suc k)"
    by (simp add: power_add)
  with Suc.prems have "n div 128 < 2 ^ (7 * Suc k)"
    by (simp only: mult.commute less_mult_imp_div_less)
  with Suc.IH show ?case by (subst compact_bytes.simps) (simp add: Let_def)
qed

lemma decodeShortVec_compact:
  assumes "n \<le> 65535"
  shows "decodeShortVec (compact_bytes n @ rest) = Some (n, length (compact_bytes n))"
proof -
  have "length (compact_bytes n) \<le> Suc 2" by (rule length_compact) (use assms in simp)
  then show ?thesis
    using short_vec_compact [of 0 n 0 rest] by (simp add: decodeShortVec_def)
qed

section \<open>Completed slots\<close>

lemma complete_slot_Some:
  assumes "complete_slot receipt i prepared = Some c"
  shows "length c = 64 \<and> \<not> is_zero c \<and> (i = 0 \<longrightarrow> c = receipt) \<and> (i \<noteq> 0 \<longrightarrow> prepared = Some c)
    \<and> (\<forall>p. prepared = Some p \<longrightarrow> is_zero p \<or> (\<forall>j < length p. nth_opt c j = Some (p ! j)))"
  using assms by (auto simp: complete_slot_def split: option.splits if_splits)

lemma nth_opt_prefix: "\<forall>j < length p. nth_opt c j = Some (p ! j) \<Longrightarrow> take (length p) c = p"
  by (intro nth_equalityI) (auto simp: nth_opt_def min_def not_le split: if_splits dest: spec [of _ "length c"])

lemma complete_slots_Some:
  "complete_slots receipt i ps = Some cs \<Longrightarrow> length cs = length ps \<and>
     (\<forall>j < length ps. complete_slot receipt (i + j) (ps ! j) = Some (cs ! j))"
proof (induction receipt i ps arbitrary: cs rule: complete_slots.induct)
  case (2 receipt i p ps)
  then obtain c cs' where c: "complete_slot receipt i p = Some c" "complete_slots receipt (i + 1) ps = Some cs'" "cs = c # cs'"
    by (auto split: option.splits)
  from "2.IH" [OF c(1) c(2)] c show ?case
    by (auto simp: nth_Cons split: nat.splits)
qed simp

lemma complete_slot_first: "length r = 64 \<Longrightarrow> \<not> is_zero r \<Longrightarrow> complete_slot r 0 None = Some r"
  by (simp add: complete_slot_def)

lemma complete_slot_keep: "length p = 64 \<Longrightarrow> \<not> is_zero p \<Longrightarrow> complete_slot r (Suc i) (Some p) = Some p"
  by (simp add: complete_slot_def)

lemma complete_two_slots:
  "length r = 64 \<Longrightarrow> \<not> is_zero r \<Longrightarrow> length p = 64 \<Longrightarrow> \<not> is_zero p \<Longrightarrow>
   complete_slots r 0 [None, Some p] = Some [r, p]"
  by (simp add: complete_slot_first complete_slot_keep [where i = 0, simplified])

section \<open>The log of a wait\<close>

datatype finality_event = FRpc nat string "json list" | FNow | FSleep int

definition logged_options ::
    "(finality_event list \<Rightarrow> finality_event \<Rightarrow> json outcome) \<Rightarrow> (finality_event list \<Rightarrow> finality_event \<Rightarrow> int outcome)
     \<Rightarrow> nat \<Rightarrow> receipt_evidence \<Rightarrow> int \<Rightarrow> int \<Rightarrow> int \<Rightarrow> finality_event list finality_options" where
  "logged_options env clock n evidence views timeout interval =
     \<lparr> fo_evidence = evidence, fo_rpcs = map (\<lambda>i m ps. ask env (FRpc i m ps)) [0 ..< n],
       fo_minimumViews = views, fo_timeoutMs = timeout, fo_pollIntervalMs = interval,
       fo_nowMs = ask clock FNow, fo_sleep = (\<lambda>d. ask (\<lambda>_ _. Inr ()) (FSleep d)) \<rparr>"

lemma logged_options_sel:
  "fo_evidence (logged_options env clock n evidence views timeout interval) = evidence"
  "fo_rpcs (logged_options env clock n evidence views timeout interval) = map (\<lambda>i m ps. ask env (FRpc i m ps)) [0 ..< n]"
  "fo_minimumViews (logged_options env clock n evidence views timeout interval) = views"
  "fo_timeoutMs (logged_options env clock n evidence views timeout interval) = timeout"
  "fo_pollIntervalMs (logged_options env clock n evidence views timeout interval) = interval"
  "fo_nowMs (logged_options env clock n evidence views timeout interval) = ask clock FNow"
  "fo_sleep (logged_options env clock n evidence views timeout interval) = (\<lambda>d. ask (\<lambda>_ _. Inr ()) (FSleep d))"
  by (simp_all add: logged_options_def)

definition receipt_event :: "receipt_evidence \<Rightarrow> nat \<Rightarrow> finality_event" where
  "receipt_event evidence i = FRpc i (fst (exact_request (re_transactionSignature evidence)))
     (snd (exact_request (re_transactionSignature evidence)))"

text \<open>The answer is a transaction without error whose base64 is, character for character, the
  completed transaction's.\<close>

definition exact_receipt :: "receipt_evidence \<Rightarrow> json \<Rightarrow> bool" where
  "exact_receipt evidence answer \<longleftrightarrow>
     prop_of (prop_of answer ''meta'') ''err'' = JNull
     \<and> prop_of answer ''transaction'' = JArr [JStr (re_finalizedTransactionBase64 evidence), JStr ''base64'']"

definition view_confirmed ::
    "(finality_event list \<Rightarrow> finality_event \<Rightarrow> json outcome) \<Rightarrow> receipt_evidence \<Rightarrow> nat \<Rightarrow> bool" where
  "view_confirmed env evidence i \<longleftrightarrow>
     (\<exists>pre answer. env pre (receipt_event evidence i) = Inr answer \<and> exact_receipt evidence answer)"

definition rpc_count :: "finality_event list \<Rightarrow> nat" where
  "rpc_count hist = length (filter (\<lambda>e. case e of FRpc _ _ _ \<Rightarrow> True | _ \<Rightarrow> False) hist)"

lemma get_exact_event:
  "get_exact_transaction (\<lambda>m ps. ask env (FRpc i m ps)) (re_transactionSignature evidence) = ask env (receipt_event evidence i)"
  by (rule ext) (simp add: get_exact_transaction_def exact_request_def receipt_event_def)

lemma rpc_count_simps [simp]:
  "rpc_count [] = 0" "rpc_count (hist @ hist') = rpc_count hist + rpc_count hist'"
  "rpc_count (receipt_event evidence i # hist) = Suc (rpc_count hist)"
  "rpc_count (FNow # hist) = rpc_count hist" "rpc_count (FSleep d # hist) = rpc_count hist"
  by (simp_all add: rpc_count_def receipt_event_def)

lemma exact_receipt_intro:
  assumes "prop_of answer ''transaction'' = JArr [JStr encoded, JStr ''base64'']"
    "prop_of (prop_of answer ''meta'') ''err'' = JNull"
    "decodeCanonicalBase64 encoded = Inr a" "decodeCanonicalBase64 (re_finalizedTransactionBase64 evidence) = Inr a"
  shows "exact_receipt evidence answer"
  using assms by (simp add: exact_receipt_def decodeCanonicalBase64_iff)

lemma wp_report:
  "wp (pcatch (rpcReportsExactFinalizedReceipt evidence (\<lambda>m ps. ask env (FRpc i m ps))) (\<lambda>_. pret False))
     (\<lambda>b hist'. True \<and> (b \<longrightarrow> view_confirmed env evidence i)) (\<lambda>_ _. False) hist"
proof -
  have v: "view_confirmed env evidence i" if "env w (receipt_event evidence i) = Inr answer"
      "prop_of answer ''transaction'' = JArr [JStr encoded, JStr ''base64'']"
      "prop_of (prop_of answer ''meta'') ''err'' = JNull"
      "decodeCanonicalBase64 encoded = Inr a" "decodeCanonicalBase64 (re_finalizedTransactionBase64 evidence) = Inr a"
    for w answer encoded a
    using that exact_receipt_intro view_confirmed_def by blast
  show ?thesis
    unfolding rpcReportsExactFinalizedReceipt_def get_exact_event
    by (auto simp: wp_simps split: sum.splits json.splits list.splits intro: v)
qed

lemma wp_report_count:
  "wp (pcatch (rpcReportsExactFinalizedReceipt evidence (\<lambda>m ps. ask env (FRpc i m ps))) (\<lambda>_. pret False))
     (\<lambda>_ hist'. rpc_count hist' \<le> rpc_count hist + 1) (\<lambda>_ hist'. rpc_count hist' \<le> rpc_count hist + 1) hist"
  unfolding rpcReportsExactFinalizedReceipt_def get_exact_event
  by (auto simp: wp_simps split: sum.splits json.splits list.splits)

lemma wp_polls:
  "wp (finality_polls (logged_options env clock n evidence views timeout interval) deadline polls)
     (\<lambda>r _. r \<longrightarrow> views \<le> int n \<and> (\<forall>i < n. view_confirmed env evidence i)) (\<lambda>_ _. True) hist"
proof (induction polls arbitrary: hist)
  case (Suc polls)
  have step: "wp (pmapM (\<lambda>i. pcatch (rpcReportsExactFinalizedReceipt evidence (\<lambda>m ps. ask env (FRpc i m ps))) (\<lambda>_. pret False)) [0 ..< n])
      (\<lambda>bs w'. True \<and> list_all2 (\<lambda>i b. b \<longrightarrow> view_confirmed env evidence i) [0 ..< n] bs) (\<lambda>_ _. True) hist"
    by (rule wp_pmapM_inv) (auto intro: wp_mono [OF wp_report])
  have all: "\<forall>i < n. view_confirmed env evidence i"
    if "list_all2 (\<lambda>i b. b \<longrightarrow> view_confirmed env evidence i) [0 ..< n] bs" "list_all id bs" for bs
    using that by (auto simp: list_all2_conv_all_nth list_all_length)
  show ?case
    unfolding finality_polls.simps logged_options_sel pmapM_map
    by (intro wp_intros wp_mono [OF step] Suc.IH) (auto dest: all list_all2_lengthD)
qed (simp add: wp_simps)

lemma wp_polls_count:
  "wp (finality_polls (logged_options env clock n evidence views timeout interval) deadline polls)
     (\<lambda>_ hist'. rpc_count hist' \<le> rpc_count hist + polls * n)
     (\<lambda>_ hist'. rpc_count hist' \<le> rpc_count hist + polls * n) hist"
proof (induction polls arbitrary: hist)
  case (Suc polls)
  let ?c = "\<lambda>_ hist'. rpc_count hist' \<le> rpc_count hist + Suc polls * n"
  have step: "wp (pmapM (\<lambda>i. pcatch (rpcReportsExactFinalizedReceipt evidence (\<lambda>m ps. ask env (FRpc i m ps))) (\<lambda>_. pret False)) [0 ..< n])
      (\<lambda>_ w'. rpc_count w' \<le> rpc_count hist + 1 * length [0 ..< n])
      (\<lambda>_ w'. rpc_count w' \<le> rpc_count hist + 1 * length [0 ..< n]) hist"
    by (rule wp_pmapM_count) (rule wp_report_count)
  have IH: "wp (finality_polls (logged_options env clock n evidence views timeout interval) deadline polls) ?c ?c w"
    if "rpc_count w \<le> rpc_count hist + n" for w
    by (rule wp_mono [OF Suc.IH]) (use that in auto)
  show ?case
    unfolding finality_polls.simps logged_options_sel pmapM_map
    by (intro wp_intros wp_mono [OF step] IH) auto
qed (simp add: wp_simps)

lemma max_polls_bound: "1 \<le> timeout \<Longrightarrow> timeout \<le> 45000 \<Longrightarrow> 50 \<le> interval \<Longrightarrow> max_polls timeout interval \<le> 901"
proof -
  assume "1 \<le> timeout" "timeout \<le> 45000" "50 \<le> (interval :: int)"
  then have "- 900 * interval \<le> - timeout" by linarith
  then have "(- 900 * interval) div interval \<le> (- timeout) div interval"
    using \<open>50 \<le> interval\<close> by (intro zdiv_mono1) auto
  moreover have "(- 900 * interval) div interval = - 900"
    using \<open>50 \<le> interval\<close> by (intro nonzero_mult_div_cancel_right) simp
  ultimately show ?thesis
    unfolding max_polls_def by linarith
qed

section \<open>Properties\<close>

text \<open>The canonical decoder accepts a text exactly if it is the base64 of a nonempty byte
  string, and returns that byte string.\<close>

theorem canonical_base64_exact:
  "decodeCanonicalBase64 v = Inr bs \<longleftrightarrow> bs \<noteq> [] \<and> v = base64_encode bs"
  by (rule decodeCanonicalBase64_iff)

text \<open>The count written before the signatures is read back by the short-vector decoder, takes at
  most three bytes, and every count up to 65535 can be written.\<close>

theorem compact_length_roundtrip:
  assumes "n \<le> 65535"
  shows "\<exists>bs. encodeCompactU16 n = Inr bs \<and> length bs \<le> 3 \<and> decodeShortVec (bs @ rest) = Some (n, length bs)"
  using assms decodeShortVec_compact [OF assms] length_compact [of n 2] by (simp add: encodeCompactU16_def)

theorem compact_length_roundtrip_witness:
  "\<exists>bs. encodeCompactU16 300 = Inr bs \<and> length bs \<le> 3 \<and> decodeShortVec (bs @ [byte_of 9]) = Some (300, length bs)"
  by (rule compact_length_roundtrip) simp

text \<open>Completing a Pay.sh transaction fills the fee payer's slot with the receipt's signature and
  nothing else: that slot was empty, or held the receipt's signature already; the count, every other
  signature and the message are the prepared ones, and no slot is left empty.\<close>

theorem receipt_completion_fills_first_slot:
  assumes "completePayShReceiptTransaction lib prepared reference = Some evidence"
  shows "\<exists>bytes decoded receipt prefix others.
      prepared = base64_encode bytes \<and> lib_decode_tx lib bytes = Some decoded
    \<and> lib_base58_decode lib reference = Some receipt \<and> length receipt = 64 \<and> \<not> is_zero receipt
    \<and> (\<forall>p. snd (hd (dt_signatures decoded)) = Some p \<longrightarrow> is_zero p \<or> take (length p) receipt = p)
    \<and> map snd (tl (dt_signatures decoded)) = map Some others
    \<and> list_all (\<lambda>s. length s = 64 \<and> \<not> is_zero s) others
    \<and> decodeShortVec (prefix @ x) = Some (length (dt_signatures decoded), length prefix)
    \<and> evidence = \<lparr> re_transactionSignature = reference, re_finalizedTransactionBase64 =
        base64_encode (prefix @ receipt @ concat others @ dt_messageBytes decoded) \<rparr>"
proof -
  obtain bytes where b: "decodeCanonicalBase64 prepared = Inr bytes"
    using assms by (cases "decodeCanonicalBase64 prepared") (auto simp: completePayShReceiptTransaction_def)
  obtain decoded receipt where d: "lib_decode_tx lib bytes = Some decoded" "lib_base58_decode lib reference = Some receipt"
    using assms b by (cases "lib_decode_tx lib bytes"; cases "lib_base58_decode lib reference")
      (auto simp: completePayShReceiptTransaction_def)
  note body = assms [unfolded completePayShReceiptTransaction_def b d sum.case option.case prod.case]
  then have l: "dt_signatures decoded \<noteq> []" "length receipt = 64" by (auto split: if_splits)
  obtain cs where cs: "complete_slots receipt 0 (map snd (dt_signatures decoded)) = Some cs"
    using body by (cases "complete_slots receipt 0 (map snd (dt_signatures decoded))") (auto split: if_splits)
  obtain prefix where p: "encodeCompactU16 (length cs) = Inr prefix"
    using body cs by (cases "encodeCompactU16 (length cs)") (auto split: if_splits)
  have e: "evidence = \<lparr> re_transactionSignature = reference, re_finalizedTransactionBase64 =
        base64_encode (prefix @ concat cs @ dt_messageBytes decoded) \<rparr>"
    using body cs p by (auto simp: Let_def split: if_splits option.splits)
  note slots = complete_slots_Some [OF cs]
  have len: "length cs = length (dt_signatures decoded)" using slots by simp
  with l obtain c others where c: "cs = c # others" by (cases cs) auto
  have slot: "complete_slot receipt j (snd (dt_signatures decoded ! j)) = Some (cs ! j)" if "j < length cs" for j
    using slots that by auto
  have first: "c = receipt" "\<not> is_zero receipt"
    using complete_slot_Some [OF slot [of 0]] c by auto
  have kept: "is_zero p \<or> take (length p) receipt = p" if "snd (hd (dt_signatures decoded)) = Some p" for p
  proof -
    have "is_zero p \<or> (\<forall>j < length p. nth_opt receipt j = Some (p ! j))"
      using complete_slot_Some [OF slot [of 0]] c l(1) that by (auto simp: hd_conv_nth)
    then show ?thesis using nth_opt_prefix [of p receipt] by blast
  qed
  have others: "snd (tl (dt_signatures decoded) ! j) = Some (others ! j) \<and> length (others ! j) = 64 \<and> \<not> is_zero (others ! j)"
    if "j < length others" for j
    using complete_slot_Some [OF slot [of "Suc j"]] c len that by (auto simp: nth_tl)
  have "map snd (tl (dt_signatures decoded)) = map Some others"
    using len c others by (intro nth_equalityI) auto
  moreover have "list_all (\<lambda>s. length s = 64 \<and> \<not> is_zero s) others"
    using others by (simp add: list_all_length)
  moreover have "decodeShortVec (prefix @ x) = Some (length (dt_signatures decoded), length prefix)"
    using p len decodeShortVec_compact [of "length cs" x] by (auto simp: encodeCompactU16_def)
  ultimately show ?thesis
    using b d l e first c kept by (intro exI conjI) (auto simp: decodeCanonicalBase64_iff)
qed

definition demo_evidence_receipt :: receipt_evidence where
  "demo_evidence_receipt = \<lparr> re_transactionSignature = ''sig2'', re_finalizedTransactionBase64 = base64_encode demo_candidate \<rparr>"

lemma demo_complete_any:
  "completePayShReceiptTransaction (demo_lib\<lparr> lib_legacy_from := from' \<rparr>) (base64_encode demo_prepared) s =
     Some \<lparr> re_transactionSignature = s, re_finalizedTransactionBase64 = base64_encode demo_candidate \<rparr>"
proof -
  have "decodeCanonicalBase64 (base64_encode demo_prepared) = Inr demo_prepared"
    by (simp add: decodeCanonicalBase64_iff demo_prepared_not_Nil)
  moreover have "complete_slots (replicate 64 (byte_of 2)) 0 [None, Some (replicate 64 1)]
      = Some [replicate 64 (byte_of 2), replicate 64 1]"
    by (rule complete_two_slots) (simp_all only: length_replicate is_zero_replicate_iff, simp_all add: byte_of_def)
  moreover have "encodeCompactU16 (Suc (Suc 0)) = Inr [byte_of 2]"
    by (simp add: encodeCompactU16_def compact_bytes.simps [of 2] numeral_2_eq_2 [symmetric])
  moreover have "drop 129 demo_prepared = [byte_of 7]"
    "drop 129 ([byte_of 2] @ concat [replicate 64 (byte_of 2), replicate 64 1] @ [byte_of 7]) = [byte_of 7]"
    by code_simp+
  ultimately show ?thesis
    by (simp add: completePayShReceiptTransaction_def demo_lib_def demo_candidate_def del: complete_slots.simps)
qed

lemma demo_complete:
  "completePayShReceiptTransaction demo_lib (base64_encode demo_prepared) ''sig2'' = Some demo_evidence_receipt"
  using demo_complete_any [of "lib_legacy_from demo_lib" "''sig2''"]
  by (simp add: demo_evidence_receipt_def)

theorem receipt_completion_fills_first_slot_witness:
  "\<exists>receipt. lib_base58_decode demo_lib ''sig2'' = Some receipt \<and> length receipt = 64 \<and> \<not> is_zero receipt"
  using receipt_completion_fills_first_slot [OF demo_complete, of "[]"] by blast

text \<open>C28: Waiting for finality succeeds only when every configured RPC, at least the required number
  of them, has answered with the completed transaction itself and no error; whatever happens it
  asks at most 901 times the number of endpoints.\<close>

theorem finality_wait_unanimous_and_bounded:
  assumes "waitForIndependentPayShFinality (logged_options env clock n evidence views timeout interval) hist = (r, hist')"
  shows "(r = Inr True \<longrightarrow> 1 \<le> views \<and> views \<le> int n \<and> (\<forall>i < n. view_confirmed env evidence i))
    \<and> rpc_count hist' \<le> rpc_count hist + 901 * n"
proof -
  let ?o = "logged_options env clock n evidence views timeout interval"
  have t: "wp (waitForIndependentPayShFinality ?o)
     (\<lambda>r _. r \<longrightarrow> 1 \<le> views \<and> views \<le> int n \<and> (\<forall>i < n. view_confirmed env evidence i)) (\<lambda>_ _. True) hist"
    unfolding waitForIndependentPayShFinality_def logged_options_sel
    by (intro wp_intros wp_mono [OF wp_polls]) auto
  have b: "max_polls timeout interval * n \<le> 901 * n" if "\<not> timeout < 1" "\<not> 45000 < timeout" "\<not> interval < 50"
    using max_polls_bound [of timeout interval] that by (intro mult_le_mono1) auto
  have "wp (waitForIndependentPayShFinality ?o) (\<lambda>_ hist'. rpc_count hist' \<le> rpc_count hist + 901 * n)
     (\<lambda>_ hist'. rpc_count hist' \<le> rpc_count hist + 901 * n) hist"
    unfolding waitForIndependentPayShFinality_def logged_options_sel
    by (intro wp_intros wp_mono [OF wp_polls_count]) (use b in \<open>auto intro: order_trans\<close>)
  with t assms show ?thesis
    by (cases r) (auto simp: wp_def)
qed

definition demo_receipt_answer :: json where
  "demo_receipt_answer = JObj [(''meta'', JObj [(''err'', JNull)]),
     (''transaction'', JArr [JStr (base64_encode demo_candidate), JStr ''base64''])]"

lemma demo_wait:
  "waitForIndependentPayShFinality (logged_options (\<lambda>_ _. Inr demo_receipt_answer) (\<lambda>_ _. Inr 0) 2 demo_evidence_receipt 2 1000 100) []
    = (Inr True, [FNow, receipt_event demo_evidence_receipt 0, receipt_event demo_evidence_receipt 1])"
proof -
  have r: "rpcReportsExactFinalizedReceipt demo_evidence_receipt (\<lambda>m ps. ask (\<lambda>_ _. Inr demo_receipt_answer) (FRpc i m ps)) w
      = (Inr True, w @ [receipt_event demo_evidence_receipt i])" for i w
  proof -
    have "decodeCanonicalBase64 (base64_encode demo_candidate) = Inr demo_candidate"
      by (simp add: decodeCanonicalBase64_iff demo_candidate_not_Nil)
    then show ?thesis
      unfolding rpcReportsExactFinalizedReceipt_def get_exact_event
      by (simp add: pbind_def ask_def demo_receipt_answer_def demo_evidence_receipt_def plift_def pret_def)
  qed
  have m: "max_polls 1000 100 = Suc 10" by (simp add: max_polls_def)
  show ?thesis
    unfolding waitForIndependentPayShFinality_def logged_options_sel m finality_polls.simps pmapM_map
    by (simp add: pbind_def ask_def pcatch_def r pret_def upt_rec max_safe_integer_def)
qed

theorem finality_wait_unanimous_and_bounded_witness:
  "view_confirmed (\<lambda>_ _. Inr demo_receipt_answer) demo_evidence_receipt 0
   \<and> view_confirmed (\<lambda>_ _. Inr demo_receipt_answer) demo_evidence_receipt 1
   \<and> rpc_count [FNow, receipt_event demo_evidence_receipt 0, receipt_event demo_evidence_receipt 1] \<le> rpc_count [] + 901 * 2"
  using finality_wait_unanimous_and_bounded [OF demo_wait] by simp

end
