(* ===== verification/Settlement_Gate.thy ===== *)
theory Settlement_Gate
  imports Pay_Sh_Finality
begin

text \<open>
  The gate between a facilitator's success and the paid response:
  \<open>payment-gateway/src/facilitator-settlement.ts\<close> (the one money-moving request and the checks on
  its answer), \<open>verified-settlement.ts\<close> (release only on independent finality) and
  \<open>settlement-durability.ts\<close> (hand the settlement to the durable sinks). The transport, the
  clock, the ledger and the queue are procedures.
\<close>

section \<open>Bounded HTTP bodies\<close>

text \<open>A response as far as it is read: the body is the chunks its reader delivers.\<close>

record http_response =
  hr_ok :: bool
  hr_status :: nat
  hr_contentLength :: "string option"
  hr_body :: "bytes list option"

fun read_chunks :: "nat \<Rightarrow> nat \<Rightarrow> bytes list \<Rightarrow> bytes list \<Rightarrow> bytes outcome" where
  "read_chunks limit len acc [] = Inr (concat (rev acc))"
| "read_chunks limit len acc (chunk # rest) =
     (if limit < len + length chunk then Inl (Err ''response exceeded the size limit'')
      else read_chunks limit (len + length chunk) (chunk # acc) rest)"

definition boundedResponseText :: "http_response \<Rightarrow> nat \<Rightarrow> bytes outcome" where
  "boundedResponseText response limit =
     (if truthy (hr_contentLength response)
         \<and> (\<not> re_digits (the (hr_contentLength response)) \<or> limit < dec_value (the (hr_contentLength response)))
      then Inl (Err ''response exceeded the size limit'')
      else (case hr_body response of None \<Rightarrow> Inr [] | Some chunks \<Rightarrow> read_chunks limit 0 [] chunks))"

section \<open>The facilitator's answer\<close>

record settle_response =
  sr_success :: bool
  sr_transaction :: string
  sr_network :: string
  sr_payer :: "string option"
  sr_amount :: "string option"
  sr_errorReason :: "string option"
  sr_errorMessage :: "string option"

definition optionalBoundedString :: "json \<Rightarrow> nat \<Rightarrow> bool" where
  "optionalBoundedString v limit = (v = JUndef \<or> (case v of JStr s \<Rightarrow> length s \<le> limit | _ \<Rightarrow> False))"

definition malformed_fields :: js_error where
  "malformed_fields = Err ''facilitator settlement returned malformed fields''"

text \<open>\<open>json_parse\<close> is \<open>JSON.parse\<close> of the body's text, \<open>None\<close> when it throws.\<close>

definition parseSettlementResponse :: "(bytes \<Rightarrow> json option) \<Rightarrow> bytes \<Rightarrow> settle_response outcome" where
  "parseSettlementResponse json_parse text =
     (case json_parse text of
        None \<Rightarrow> Inl (Err ''facilitator settlement returned invalid JSON'')
      | Some r \<Rightarrow>
          require (is_obj r) (Err ''facilitator settlement returned an invalid response'')
          (case (prop_of r ''success'', prop_of r ''transaction'', prop_of r ''network'') of
             (JBool success, JStr transaction, JStr network) \<Rightarrow>
               require (length transaction \<le> 128 \<and> 3 \<le> length network \<and> length network \<le> 128
                   \<and> optionalBoundedString (prop_of r ''payer'') 128
                   \<and> optionalBoundedString (prop_of r ''amount'') 64
                   \<and> (case prop_of r ''amount'' of JStr a \<Rightarrow> re_positive a | _ \<Rightarrow> True)
                   \<and> optionalBoundedString (prop_of r ''errorReason'') 256
                   \<and> optionalBoundedString (prop_of r ''errorMessage'') 1024
                   \<and> \<not> (success \<and> (length transaction = 0 \<or> as_str (prop_of r ''payer'') = None)))
                 malformed_fields
                 (Inr \<lparr> sr_success = success, sr_transaction = transaction, sr_network = network,
                    sr_payer = as_str (prop_of r ''payer''), sr_amount = as_str (prop_of r ''amount''),
                    sr_errorReason = as_str (prop_of r ''errorReason''),
                    sr_errorMessage = as_str (prop_of r ''errorMessage'') \<rparr>)
           | _ \<Rightarrow> Inl malformed_fields))"

definition max_facilitator_response_bytes :: nat where
  "max_facilitator_response_bytes = 64 * 1024"

definition strip_slashes :: "string \<Rightarrow> string" where
  "strip_slashes url = rev (dropWhile (\<lambda>c. c = CHR ''/'') (rev url))"

text \<open>\<open>post url timeout body\<close> is the one request, with \<open>redirect: "error"\<close> and an abort signal.\<close>

definition boundedFacilitatorSettlement ::
    "(bytes \<Rightarrow> json option) \<Rightarrow> (string \<Rightarrow> int \<Rightarrow> json \<Rightarrow> ('w, http_response) proc)
     \<Rightarrow> string \<Rightarrow> json \<Rightarrow> json \<Rightarrow> int \<Rightarrow> ('w, settle_response) proc" where
  "boundedFacilitatorSettlement json_parse post url paymentPayload paymentRequirements timeoutMs =
     (if \<not> is_safe_integer (Num timeoutMs) \<or> timeoutMs < 100 \<or> 30000 < timeoutMs
      then praise (Err ''facilitator settlement timeout must be between 100 and 30000 ms'')
      else pbind (post (strip_slashes url @ ''/settle'') timeoutMs
          (JObj [(''x402Version'', prop_of paymentPayload ''x402Version''),
                 (''paymentPayload'', paymentPayload), (''paymentRequirements'', paymentRequirements)])) (\<lambda>response.
        pbind (plift (boundedResponseText response max_facilitator_response_bytes)) (\<lambda>text.
          if \<not> hr_ok response then praise (Err ''facilitator settlement returned HTTP'')
          else plift (parseSettlementResponse json_parse text))))"

section \<open>Release on independent finality\<close>

datatype gate_directive = GateSkip settle_response | GateAbort string string

definition pending :: "string \<Rightarrow> gate_directive" where
  "pending detail = GateAbort ''settlement_reconciliation_pending''
     (''Payment response is held: '' @ detail @ ''. Retry this same resource without signing again.'')"

record ('w, 'rpc) gate_dependencies =
  gd_settle :: "('w, settle_response) proc"
  gd_loadAttempt :: "('w, reconciliation_attempt) proc"
  gd_network :: string
  gd_payTo :: string
  gd_asset :: string
  gd_amount :: string
  gd_rpcs :: "'rpc list"
  gd_expectedNetwork :: string
  gd_timeoutMs :: int
  gd_pollIntervalMs :: int
  gd_nowMs :: "('w, int) proc"
  gd_sleep :: "int \<Rightarrow> ('w, unit) proc"
  gd_verifySignature :: "reconciliation_attempt \<Rightarrow> string \<Rightarrow> 'rpc \<Rightarrow> string \<Rightarrow> ('w, exact_scan) proc"

fun gate_polls ::
    "('w, 'rpc) gate_dependencies \<Rightarrow> reconciliation_attempt \<Rightarrow> settle_response \<Rightarrow> int \<Rightarrow> nat
     \<Rightarrow> ('w, gate_directive) proc" where
  "gate_polls dependencies attempt result deadline 0 =
     pret (pending ''independent finalized RPC views did not agree before the response deadline'')"
| "gate_polls dependencies attempt result deadline (Suc polls) =
     pbind (pmapM (\<lambda>rpc. gd_verifySignature dependencies attempt (sr_transaction result) rpc
         (gd_expectedNetwork dependencies)) (gd_rpcs dependencies)) (\<lambda>scans.
     if exactSettlementSignature scans = Some (sr_transaction result) then pret (GateSkip result)
     else pbind (gd_nowMs dependencies) (\<lambda>now.
       if deadline \<le> now
       then pret (pending ''independent finalized RPC views did not agree before the response deadline'')
       else pbind (gd_nowMs dependencies) (\<lambda>now'.
         pbind (gd_sleep dependencies (min (gd_pollIntervalMs dependencies) (max 0 (deadline - now')))) (\<lambda>_.
           gate_polls dependencies attempt result deadline polls))))"

definition requirements_match :: "('w, 'rpc) gate_dependencies \<Rightarrow> reconciliation_attempt \<Rightarrow> bool" where
  "requirements_match dependencies attempt \<longleftrightarrow>
     gd_network dependencies = ra_network attempt \<and> gd_payTo dependencies = ra_payTo attempt
     \<and> gd_asset dependencies = ra_asset attempt \<and> gd_amount dependencies = ra_amountAtomic attempt"

definition response_matches ::
    "('w, 'rpc) gate_dependencies \<Rightarrow> reconciliation_attempt \<Rightarrow> settle_response \<Rightarrow> bool" where
  "response_matches dependencies attempt result \<longleftrightarrow>
     sr_transaction result \<noteq> [] \<and> sr_network result = gd_expectedNetwork dependencies
     \<and> sr_network result = ra_network attempt \<and> truthy (sr_payer result)
     \<and> sr_payer result = ra_payer attempt
     \<and> str_or (sr_amount result) (ra_amountAtomic attempt) = ra_amountAtomic attempt"

definition settleWithIndependentFinality ::
    "('w, 'rpc) gate_dependencies \<Rightarrow> ('w, gate_directive) proc" where
  "settleWithIndependentFinality dependencies =
     pcatch
       (if length (gd_rpcs dependencies) < 2
           \<or> \<not> is_safe_integer (Num (gd_timeoutMs dependencies)) \<or> gd_timeoutMs dependencies < 1
           \<or> 45000 < gd_timeoutMs dependencies
           \<or> \<not> is_safe_integer (Num (gd_pollIntervalMs dependencies)) \<or> gd_pollIntervalMs dependencies < 50
           \<or> 5000 < gd_pollIntervalMs dependencies
        then pret (pending ''independent settlement verification is not safely configured'')
        else pbind (gd_loadAttempt dependencies) (\<lambda>attempt.
          if \<not> requirements_match dependencies attempt
          then pret (pending ''settlement requirements drifted from the durable payment attempt'')
          else pbind (gd_settle dependencies) (\<lambda>result.
            if \<not> sr_success result then pret (GateSkip result)
            else if \<not> response_matches dependencies attempt result
            then pret (pending ''facilitator response does not match the durable payment attempt'')
            else pbind (gd_nowMs dependencies) (\<lambda>now.
              gate_polls dependencies attempt result (now + gd_timeoutMs dependencies)
                (max_polls (gd_timeoutMs dependencies) (gd_pollIntervalMs dependencies))))))
       (\<lambda>_. pret (pending ''settlement outcome is ambiguous and requires durable reconciliation''))"

section \<open>Durable sinks\<close>

record durability_result =
  sd_queued :: bool
  sd_ledgered :: bool
  sd_queueError :: "js_error option"
  sd_ledgerError :: "js_error option"

text \<open>One sink: whether it accepted, and its error. \<open>releaseOnce\<close> runs when it accepted and no
  earlier sink had.\<close>

definition try_sink :: "('w, unit) proc \<Rightarrow> ('w, unit) proc \<Rightarrow> bool \<Rightarrow> ('w, bool \<times> js_error option) proc" where
  "try_sink sink release released =
     pcatch (pbind sink (\<lambda>_.
         if released then pret (True, None)
         else pcatch (pbind release (\<lambda>_. pret (True, None))) (\<lambda>e. pret (True, Some e))))
       (\<lambda>e. pret (False, Some e))"

definition errors_of :: "js_error option list \<Rightarrow> js_error list" where
  "errors_of = List.map_filter id"

definition persistSettlementDurably ::
    "('w, unit) proc option \<Rightarrow> ('w, unit) proc \<Rightarrow> ('w, unit) proc \<Rightarrow> ('w, durability_result) proc" where
  "persistSettlementDurably enqueue record_settlement releaseVolatileCopy =
     pbind (case enqueue of
         None \<Rightarrow> pret (False, None)
       | Some sink \<Rightarrow> try_sink sink releaseVolatileCopy False) (\<lambda>(queued, queueError).
     pbind (try_sink record_settlement releaseVolatileCopy queued) (\<lambda>(ledgered, ledgerError).
       if \<not> queued \<and> \<not> ledgered then praise (AggregateErr (errors_of [queueError, ledgerError]))
       else pret \<lparr> sd_queued = queued, sd_ledgered = ledgered, sd_queueError = queueError,
                   sd_ledgerError = ledgerError \<rparr>))"

text \<open>A release that cannot throw, as the gateway's is: the volatile copy is dropped from a map.\<close>

lemma try_sink_pmod:
  "try_sink sink (pmod release) released =
     pcatch (pbind sink (\<lambda>_. pbind (pmod (if released then id else release)) (\<lambda>_. pret (True, None))))
       (\<lambda>e. pret (False, Some e))"
  by (rule ext) (simp add: try_sink_def pcatch_def pbind_def pmod_def pret_def split: sum.splits prod.splits)

section \<open>The log of a settlement\<close>

datatype gate_event =
    GLoad | GSettle | GNow | GSleep int | GVerify reconciliation_attempt string nat string

record gate_env =
  ge_load :: "gate_event list \<Rightarrow> reconciliation_attempt outcome"
  ge_settle :: "gate_event list \<Rightarrow> settle_response outcome"
  ge_now :: "gate_event list \<Rightarrow> int outcome"
  ge_verify :: "gate_event list \<Rightarrow> gate_event \<Rightarrow> exact_scan outcome"

definition logged_gate ::
    "gate_env \<Rightarrow> string \<Rightarrow> string \<Rightarrow> string \<Rightarrow> string \<Rightarrow> nat \<Rightarrow> string \<Rightarrow> int \<Rightarrow> int
     \<Rightarrow> (gate_event list, nat) gate_dependencies" where
  "logged_gate env network payTo asset amount n expected timeout interval =
     \<lparr> gd_settle = ask (\<lambda>h _. ge_settle env h) GSettle, gd_loadAttempt = ask (\<lambda>h _. ge_load env h) GLoad,
       gd_network = network, gd_payTo = payTo, gd_asset = asset, gd_amount = amount,
       gd_rpcs = [0 ..< n], gd_expectedNetwork = expected, gd_timeoutMs = timeout,
       gd_pollIntervalMs = interval, gd_nowMs = ask (\<lambda>h _. ge_now env h) GNow,
       gd_sleep = (\<lambda>d. ask (\<lambda>_ _. Inr ()) (GSleep d)),
       gd_verifySignature = (\<lambda>attempt sig i net. ask (ge_verify env) (GVerify attempt sig i net)) \<rparr>"

lemma logged_gate_sel:
  fixes env network payTo asset amount n expected timeout interval
  defines "g \<equiv> logged_gate env network payTo asset amount n expected timeout interval"
  shows "gd_settle g = ask (\<lambda>h _. ge_settle env h) GSettle" "gd_loadAttempt g = ask (\<lambda>h _. ge_load env h) GLoad"
    "gd_rpcs g = [0 ..< n]" "gd_expectedNetwork g = expected" "gd_timeoutMs g = timeout" "gd_pollIntervalMs g = interval"
    "gd_nowMs g = ask (\<lambda>h _. ge_now env h) GNow" "gd_sleep g = (\<lambda>d. ask (\<lambda>_ _. Inr ()) (GSleep d))"
    "gd_verifySignature g = (\<lambda>attempt sig i net. ask (ge_verify env) (GVerify attempt sig i net))"
  by (simp_all add: g_def logged_gate_def)

text \<open>No money moves between two points of the log.\<close>

definition quiet :: "gate_event list \<Rightarrow> gate_event list \<Rightarrow> bool" where
  "quiet h h' \<longleftrightarrow> (\<exists>s. h' = h @ s \<and> GSettle \<notin> set s)"

lemma quiet_refl [simp]: "quiet h h"
  by (simp add: quiet_def)

lemma quiet_append: "quiet h h' \<Longrightarrow> GSettle \<notin> set es \<Longrightarrow> quiet h (h' @ es)"
  by (auto simp: quiet_def)

lemma quiet_trans: "quiet h h' \<Longrightarrow> quiet h' h'' \<Longrightarrow> quiet h h''"
  by (auto simp: quiet_def)

definition all_views_settled :: "gate_env \<Rightarrow> reconciliation_attempt \<Rightarrow> string \<Rightarrow> nat \<Rightarrow> string \<Rightarrow> bool" where
  "all_views_settled env attempt sig n net \<longleftrightarrow>
     2 \<le> n \<and> (\<forall>i < n. \<exists>pre. ge_verify env pre (GVerify attempt sig i net) = Inr (ScanSettled sig))"

lemma wp_gate_polls:
  "wp (gate_polls (logged_gate env network payTo asset amount n expected timeout interval) attempt result deadline polls)
     (\<lambda>d h'. quiet h h' \<and> (\<forall>r. d = GateSkip r \<longrightarrow> r = result \<and> all_views_settled env attempt (sr_transaction result) n expected))
     (\<lambda>_ h'. quiet h h') h"
proof (induction polls arbitrary: h)
  case (Suc polls)
  let ?views = "\<lambda>i scan. \<exists>pre. ge_verify env pre (GVerify attempt (sr_transaction result) i expected) = Inr scan"
  have step: "wp (pmapM (\<lambda>i. ask (ge_verify env) (GVerify attempt (sr_transaction result) i expected)) [0 ..< n])
      (\<lambda>bs h'. quiet h h' \<and> list_all2 ?views [0 ..< n] bs) (\<lambda>_ h'. quiet h h') h"
    by (rule wp_pmapM_inv) (auto intro!: wp_intros intro: quiet_append)
  have all: "all_views_settled env attempt (sr_transaction result) n expected"
    if "list_all2 ?views [0 ..< n] scans" "exactSettlementSignature scans = Some (sr_transaction result)" for scans
  proof -
    have "length scans = n" using that(1) by (auto dest: list_all2_lengthD)
    with that show ?thesis
      unfolding all_views_settled_def gateway_agreement.verdict_iff
      by (auto simp: list_all2_conv_all_nth) (metis nth_mem)
  qed
  have IH: "wp (gate_polls (logged_gate env network payTo asset amount n expected timeout interval) attempt result deadline polls)
     (\<lambda>d h'. quiet h h' \<and> (\<forall>r. d = GateSkip r \<longrightarrow> r = result \<and> all_views_settled env attempt (sr_transaction result) n expected))
     (\<lambda>_ h'. quiet h h') w" if "quiet h w" for w
    by (rule wp_mono [OF Suc.IH]) (use that in \<open>auto intro: quiet_trans\<close>)
  show ?case
    unfolding gate_polls.simps logged_gate_sel
    by (intro wp_intros wp_mono [OF step] IH) (auto simp: pending_def intro: quiet_append all)
qed (simp add: wp_simps pending_def)

section \<open>Properties\<close>

text \<open>C27: The settlement gate never throws; it calls the facilitator at most once, and only after it
  has loaded a durable attempt that matches the requirements; and it releases a successful response
  only when the response matches that attempt and every one of at least two views has reported
  exactly its signature settled.\<close>

theorem settlement_gate_sound:
  assumes "settleWithIndependentFinality (logged_gate env network payTo asset amount n expected timeout interval) [] = (r, hist)"
  shows "\<exists>d. r = Inr d \<and>
    (GSettle \<notin> set hist \<or>
      (\<exists>attempt rest. hist = GLoad # GSettle # rest \<and> GSettle \<notin> set rest \<and> ge_load env [] = Inr attempt
        \<and> network = ra_network attempt \<and> payTo = ra_payTo attempt \<and> asset = ra_asset attempt
        \<and> amount = ra_amountAtomic attempt
        \<and> (\<forall>res. d = GateSkip res \<and> sr_success res \<longrightarrow>
             ge_settle env [GLoad] = Inr res \<and> sr_network res = expected \<and> sr_network res = ra_network attempt
             \<and> sr_payer res = ra_payer attempt \<and> str_or (sr_amount res) (ra_amountAtomic attempt) = ra_amountAtomic attempt
             \<and> all_views_settled env attempt (sr_transaction res) n expected)))
    \<and> (\<forall>res. d = GateSkip res \<longrightarrow> GSettle \<in> set hist)"
proof -
  let ?g = "logged_gate env network payTo asset amount n expected timeout interval"
  define post where "post d hist \<longleftrightarrow>
    (GSettle \<notin> set hist \<or>
      (\<exists>attempt rest. hist = GLoad # GSettle # rest \<and> GSettle \<notin> set rest \<and> ge_load env [] = Inr attempt
        \<and> requirements_match ?g attempt
        \<and> (\<forall>res. d = GateSkip res \<and> sr_success res \<longrightarrow>
             ge_settle env [GLoad] = Inr res \<and> response_matches ?g attempt res
             \<and> all_views_settled env attempt (sr_transaction res) n expected)))
    \<and> (\<forall>res. d = GateSkip res \<longrightarrow> GSettle \<in> set hist)" for d hist
  have p: "post (pending m) hist" if "GSettle \<notin> set hist" for m hist
    using that by (simp add: post_def pending_def)
  have q: "post (pending m) h'" if "quiet [GLoad, GSettle] h'" "ge_load env [] = Inr attempt" "requirements_match ?g attempt" for m h' attempt
    using that by (auto simp: post_def quiet_def pending_def)
  have polls: "wp (gate_polls ?g attempt res deadline k) post
      (\<lambda>_. wp (pret (pending m)) post (\<lambda>_ _. False)) [GLoad, GSettle, GNow]"
    if a: "ge_load env [] = Inr attempt" "requirements_match ?g attempt"
      "ge_settle env [GLoad] = Inr res" "response_matches ?g attempt res" for attempt res deadline k m
  proof (rule wp_mono [OF wp_gate_polls])
    fix d h'
    assume "quiet [GLoad, GSettle, GNow] h' \<and> (\<forall>r. d = GateSkip r \<longrightarrow>
        r = res \<and> all_views_settled env attempt (sr_transaction res) n expected)"
    with a show "post d h'" by (auto simp: post_def quiet_def)
  next
    fix e h'
    assume "quiet [GLoad, GSettle, GNow] h'"
    then have "quiet [GLoad, GSettle] h'" by (auto simp: quiet_def)
    with a q show "wp (pret (pending m)) post (\<lambda>_ _. False) h'" by (auto simp: wp_simps)
  qed
  have skip: "post (GateSkip res) [GLoad, GSettle]"
    if "ge_load env [] = Inr attempt" "requirements_match ?g attempt" "\<not> sr_success res" for attempt res
    using that by (auto simp: post_def)
  have qq: "quiet [GLoad, GSettle] [GLoad, GSettle]" "quiet [GLoad, GSettle] [GLoad, GSettle, GNow]"
    by (auto simp: quiet_def)
  have "wp (settleWithIndependentFinality ?g) post (\<lambda>_ _. False) []"
    unfolding settleWithIndependentFinality_def logged_gate_sel append.simps
    by (intro wp_intros; (simp only: append.simps not_not)?; (rule polls p q skip)?;
        (assumption | rule qq | simp)?)
  with assms show ?thesis
    by (cases r) (auto simp: wp_def post_def requirements_match_def response_matches_def logged_gate_def)
qed

definition demo_response :: settle_response where
  "demo_response = \<lparr> sr_success = True, sr_transaction = ''sig2'', sr_network = ''net'', sr_payer = Some ''p'',
     sr_amount = None, sr_errorReason = None, sr_errorMessage = None \<rparr>"

definition demo_gate_env :: gate_env where
  "demo_gate_env = \<lparr> ge_load = (\<lambda>_. Inr demo_attempt), ge_settle = (\<lambda>_. Inr demo_response),
     ge_now = (\<lambda>_. Inr 0), ge_verify = (\<lambda>_ _. Inr (ScanSettled ''sig2'')) \<rparr>"

lemma demo_gate:
  "settleWithIndependentFinality (logged_gate demo_gate_env ''net'' ''o'' ''mint'' ''5'' 2 ''net'' 1000 100) [] =
    (Inr (GateSkip demo_response), [GLoad, GSettle, GNow, GVerify demo_attempt ''sig2'' 0 ''net'', GVerify demo_attempt ''sig2'' 1 ''net''])"
proof -
  let ?g = "logged_gate demo_gate_env ''net'' ''o'' ''mint'' ''5'' 2 ''net'' 1000 100"
  have m: "requirements_match ?g demo_attempt" "response_matches ?g demo_attempt demo_response"
    by (simp_all add: requirements_match_def response_matches_def logged_gate_def demo_attempt_def demo_response_def
        truthy_def str_or_def)
  have p: "max_polls 1000 100 = Suc 10" by (simp add: max_polls_def)
  have r: "sr_success demo_response" "sr_transaction demo_response = ''sig2''" by (simp_all add: demo_response_def)
  have e: "ge_load demo_gate_env h = Inr demo_attempt" "ge_settle demo_gate_env h = Inr demo_response"
    "ge_now demo_gate_env h = Inr 0" "ge_verify demo_gate_env h x = Inr (ScanSettled ''sig2'')" for h x
    by (simp_all add: demo_gate_env_def)
  have x: "exactSettlementSignature [ScanSettled ''sig2'', ScanSettled ''sig2''] = Some ''sig2''"
    by (simp add: exactSettlementSignature_def)
  show ?thesis
    unfolding settleWithIndependentFinality_def logged_gate_sel p gate_polls.simps
    by (simp add: pcatch_def pbind_def ask_def pret_def m r e x upt_rec max_safe_integer_def)
qed

theorem settlement_gate_sound_witness:
  "all_views_settled demo_gate_env demo_attempt ''sig2'' 2 ''net'' \<and> ge_settle demo_gate_env [GLoad] = Inr demo_response"
  using settlement_gate_sound [OF demo_gate]
  by (auto simp: demo_gate_env_def demo_response_def)

text \<open>A settlement is offered to the queue and then to the ledger; the volatile copy is released
  exactly once, right after the first sink that accepted, and never if none did; the call fails
  exactly if none accepted, with the errors of both.\<close>

datatype durability_event = DQueue | DRecord | DRelease

theorem durable_sinks_release_once:
  "persistSettlementDurably (map_option (\<lambda>q. ask (\<lambda>_ _. q) DQueue) queue) (ask (\<lambda>_ _. ledger) DRecord) (pmod (\<lambda>h. h @ [DRelease])) hist =
    (let queued = (queue = Some (Inr ())); ledgered = (ledger = Inr ());
         failure = (\<lambda>r. case r of Inl e \<Rightarrow> Some e | Inr _ \<Rightarrow> None);
         queueError = (case queue of None \<Rightarrow> None | Some q \<Rightarrow> failure q) in
     (if queued \<or> ledgered
      then Inr \<lparr> sd_queued = queued, sd_ledgered = ledgered, sd_queueError = queueError, sd_ledgerError = failure ledger \<rparr>
      else Inl (AggregateErr (List.map_filter id [queueError, failure ledger])),
      hist @ (if queue = None then [] else [DQueue]) @ (if queued then [DRelease] else [])
        @ [DRecord] @ (if ledgered \<and> \<not> queued then [DRelease] else [])))"
  by (cases queue; cases ledger)
    (auto simp: persistSettlementDurably_def try_sink_def pbind_def pcatch_def pret_def praise_def pmod_def ask_def
      errors_of_def split: sum.splits)

lemma read_chunks_Inr:
  "read_chunks limit len acc cs = Inr bs \<Longrightarrow> bs = concat (rev acc) @ concat cs \<and> (len \<le> limit \<longrightarrow> len + length (concat cs) \<le> limit)"
proof (induction cs arbitrary: len acc)
  case (Cons c cs)
  then have "read_chunks limit (len + length c) (c # acc) cs = Inr bs" "len + length c \<le> limit"
    by (auto split: if_splits)
  from Cons.IH [OF this(1)] this(2) show ?case by simp
qed simp

lemma boundedResponseText_bound: "boundedResponseText response limit = Inr bs \<Longrightarrow> length bs \<le> limit"
  by (auto simp: boundedResponseText_def dest!: read_chunks_Inr split: if_splits option.splits)

lemma facilitator_body_bound:
  "boundedResponseText response max_facilitator_response_bytes = Inr bs \<Longrightarrow> length bs \<le> 65536"
  using boundedResponseText_bound [of response max_facilitator_response_bytes bs]
  by (simp add: max_facilitator_response_bytes_def)

text \<open>What the fields of an accepted answer are held to.\<close>

definition settlement_fields_ok :: "settle_response \<Rightarrow> bool" where
  "settlement_fields_ok r \<longleftrightarrow>
     length (sr_transaction r) \<le> 128 \<and> 3 \<le> length (sr_network r) \<and> length (sr_network r) \<le> 128
     \<and> (\<forall>p. sr_payer r = Some p \<longrightarrow> length p \<le> 128)
     \<and> (\<forall>a. sr_amount r = Some a \<longrightarrow> re_positive a \<and> length a \<le> 64)
     \<and> (\<forall>e. sr_errorReason r = Some e \<longrightarrow> length e \<le> 256) \<and> (\<forall>e. sr_errorMessage r = Some e \<longrightarrow> length e \<le> 1024)
     \<and> (sr_success r \<longrightarrow> sr_transaction r \<noteq> [] \<and> sr_payer r \<noteq> None)"

lemma parseSettlementResponse_fields:
  assumes "parseSettlementResponse json_parse text = Inr r"
  shows "settlement_fields_ok r"
  unfolding settlement_fields_ok_def using assms
  by (auto simp: parseSettlementResponse_def optionalBoundedString_def split: option.splits json.splits)

text \<open>The facilitator is asked once, at its settle endpoint, for exactly the payload and requirements
  and with the given timeout, which is between 100 and 30000 ms; an answer is accepted only if the
  response was successful and at most 64 KiB, every field is within its limit, and a success names a
  transaction and a payer.\<close>

theorem facilitator_answer_checked:
  assumes "boundedFacilitatorSettlement json_parse (\<lambda>u t b. ask env (u, t, b)) url payload requirements timeout hist = (Inr r, hist')"
  shows "100 \<le> timeout \<and> timeout \<le> 30000 \<and> settlement_fields_ok r
    \<and> (\<exists>body response text.
        hist' = hist @ [(strip_slashes url @ ''/settle'', timeout, body)]
        \<and> prop_of body ''paymentPayload'' = payload \<and> prop_of body ''paymentRequirements'' = requirements
        \<and> prop_of body ''x402Version'' = prop_of payload ''x402Version''
        \<and> env hist (strip_slashes url @ ''/settle'', timeout, body) = Inr response \<and> hr_ok response
        \<and> boundedResponseText response max_facilitator_response_bytes = Inr text \<and> length text \<le> 65536
        \<and> parseSettlementResponse json_parse text = Inr r)"
proof -
  let ?body = "JObj [(''x402Version'', prop_of payload ''x402Version''), (''paymentPayload'', payload), (''paymentRequirements'', requirements)]"
  have "wp (boundedFacilitatorSettlement json_parse (\<lambda>u t b. ask env (u, t, b)) url payload requirements timeout)
     (\<lambda>r hist'. 100 \<le> timeout \<and> timeout \<le> 30000
    \<and> (\<exists>response text. hist' = hist @ [(strip_slashes url @ ''/settle'', timeout, ?body)]
        \<and> env hist (strip_slashes url @ ''/settle'', timeout, ?body) = Inr response \<and> hr_ok response
        \<and> boundedResponseText response max_facilitator_response_bytes = Inr text
        \<and> parseSettlementResponse json_parse text = Inr r)) (\<lambda>_ _. True) hist"
    unfolding boundedFacilitatorSettlement_def by (intro wp_intros) auto
  from wpD [OF this assms] obtain response answer where f: "100 \<le> timeout" "timeout \<le> 30000"
      "hist' = hist @ [(strip_slashes url @ ''/settle'', timeout, ?body)]"
      "env hist (strip_slashes url @ ''/settle'', timeout, ?body) = Inr response" "hr_ok response"
      "boundedResponseText response max_facilitator_response_bytes = Inr answer" "parseSettlementResponse json_parse answer = Inr r"
    by blast
  have "prop_of ?body ''paymentPayload'' = payload" "prop_of ?body ''paymentRequirements'' = requirements"
    "prop_of ?body ''x402Version'' = prop_of payload ''x402Version''"
    by simp_all
  with f facilitator_body_bound [OF f(6)] parseSettlementResponse_fields [OF f(7)] show ?thesis by blast
qed

theorem facilitator_answer_checked_witness:
  "(\<exists>response text. boundedResponseText response max_facilitator_response_bytes = Inr text \<and> length text \<le> 65536)
   \<and> sr_payer demo_response \<noteq> None"
proof -
  let ?json = "JObj [(''success'', JBool True), (''transaction'', JStr ''sig2''), (''network'', JStr ''net''), (''payer'', JStr ''p'')]"
  let ?resp = "\<lparr> hr_ok = True, hr_status = 200, hr_contentLength = None, hr_body = Some [[1], [2]] \<rparr>"
  have "boundedFacilitatorSettlement (\<lambda>_. Some ?json) (\<lambda>u t b. ask (\<lambda>_ _. Inr ?resp) (u, t, b)) ''https://f/'' JNull JNull 1000 []
    = (Inr demo_response, [(''https://f/settle'', 1000, JObj [(''x402Version'', JUndef), (''paymentPayload'', JNull), (''paymentRequirements'', JNull)])])"
    by (simp add: boundedFacilitatorSettlement_def pbind_def ask_def plift_def strip_slashes_def boundedResponseText_def truthy_def
        max_facilitator_response_bytes_def parseSettlementResponse_def optionalBoundedString_def demo_response_def max_safe_integer_def)
  from facilitator_answer_checked [OF this] show ?thesis
    by (auto simp: demo_response_def)
qed

end
