(* ===== verification/Gateway.thy ===== *)
theory Gateway
  imports Settlement_Gate
begin

text \<open>
  The payment hooks of \<open>payment-gateway/src/main.ts\<close> and what they call: the quote of a route, the
  claim of a verified attempt in the ledger, the settlement behind the gate of \<open>Settlement_Gate\<close>,
  the durable record of a settlement, and the recovery of due attempts from the chain. The world of
  a procedure is the gateway's own state (the module's variables) beside everything outside; the
  ledger (\<open>internalJson\<close>), the queue, the facilitator and the RPC origins are procedures over both,
  because other hooks run while a call is awaited. Console output is left out.
\<close>

section \<open>Quotes and ledger calls\<close>

text \<open>What the three quote types share; \<open>status\<close>, \<open>expiresAt\<close> and \<open>requiresPayment\<close> are the state the
  guards of \<open>Payment_Routing\<close> read.\<close>

record payable_quote =
  pyq_id :: string
  pyq_payTo :: string
  pyq_network :: string
  pyq_asset :: string
  pyq_amountAtomic :: string
  pyq_state :: payment_quote_state

datatype rust_call =
    GetDocumentQuote string string
  | GetX402Quote string
  | GetBundleQuote string
  | GetOpenCallQuote string
  | GetAttempt string
  | GetDueAttempts int
  | PostAttempt (lc_kind: string) (lc_quoteId: string) (lc_attemptId: string) (lc_payer: string)
      (lc_signedTransactionBase64: string) (lc_recentBlockhash: string)
  | PostRelease string string string
  | PostDefer string string string bool
  | PostReconciledRelease string string string
  | PostSettlement durable_settlement

definition settlement_endpoint :: "string \<Rightarrow> string" where
  "settlement_endpoint kind =
     (if kind = ''bundle'' then ''/internal/v1/bundle-chain-settlements''
      else if kind = ''open_call'' then ''/internal/v1/open-call-chain-settlements''
      else ''/internal/v1/chain-settlements'')"

fun call_path :: "rust_call \<Rightarrow> string" where
  "call_path (GetDocumentQuote queryId handle) =
     ''/internal/v1/payment-quotes/'' @ encode_uri queryId @ ''/'' @ encode_uri handle"
| "call_path (GetX402Quote quoteId) = ''/internal/v1/x402-payment-quotes/'' @ encode_uri quoteId"
| "call_path (GetBundleQuote quoteId) = ''/internal/v1/payment-bundles/'' @ encode_uri quoteId"
| "call_path (GetOpenCallQuote quoteId) = ''/internal/v1/open-call-funding-quotes/'' @ encode_uri quoteId"
| "call_path (GetAttempt attemptId) = ''/internal/v1/payment-attempts/'' @ encode_uri attemptId"
| "call_path (GetDueAttempts limit) = ''/internal/v1/payment-attempts/reconciliation?limit='' @ show_int limit"
| "call_path (PostAttempt _ _ _ _ _ _) = ''/internal/v1/payment-attempts''"
| "call_path (PostRelease _ _ _) = ''/internal/v1/payment-attempts/release''"
| "call_path (PostDefer _ _ _ _) = ''/internal/v1/payment-attempts/reconciliation''"
| "call_path (PostReconciledRelease _ _ _) = ''/internal/v1/payment-attempts/reconciliation/release''"
| "call_path (PostSettlement settlement) = settlement_endpoint (ds_settlementKind settlement)"

text \<open>The body of a POST, \<open>None\<close> for a GET.\<close>

fun call_body :: "rust_call \<Rightarrow> json option" where
  "call_body (PostAttempt kind quoteId attemptId payer tx blockhash) = Some (JObj
     [(''settlementKind'', JStr kind), (''quoteId'', JStr quoteId), (''attemptId'', JStr attemptId),
      (''payer'', JStr payer), (''signedTransactionBase64'', JStr tx), (''recentBlockhash'', JStr blockhash)])"
| "call_body (PostRelease kind quoteId attemptId) = Some (JObj
     [(''settlementKind'', JStr kind), (''quoteId'', JStr quoteId), (''attemptId'', JStr attemptId)])"
| "call_body (PostDefer kind quoteId attemptId absenceObserved) = Some (JObj
     [(''settlementKind'', JStr kind), (''quoteId'', JStr quoteId), (''attemptId'', JStr attemptId),
      (''absenceObserved'', JBool absenceObserved)])"
| "call_body (PostReconciledRelease kind quoteId attemptId) = Some (JObj
     [(''settlementKind'', JStr kind), (''quoteId'', JStr quoteId), (''attemptId'', JStr attemptId)])"
| "call_body (PostSettlement s) = Some (JObj
     [(''settlementKind'', JStr (ds_settlementKind s)), (''quoteId'', JStr (ds_quoteId s)),
      (''attemptId'', JStr (ds_attemptId s)), (''transactionSignature'', JStr (ds_transactionSignature s)),
      (''payer'', JStr (ds_payer s)), (''payTo'', JStr (ds_payTo s)), (''amountAtomic'', JStr (ds_amountAtomic s)),
      (''network'', JStr (ds_network s)), (''rawResponse'', ds_rawResponse s)])"
| "call_body _ = None"

text \<open>\<open>internalJson\<close> over a transport \<open>send path body\<close>; \<open>json_parse\<close> is \<open>JSON.parse\<close>.\<close>

definition max_internal_json_response_bytes :: nat where
  "max_internal_json_response_bytes = 1024 * 1024"

definition internal_message :: "nat \<Rightarrow> json option \<Rightarrow> string" where
  "internal_message status payload =
     (let fallback = ''Rust API '' @ show_nat status in
      case payload of
        None \<Rightarrow> fallback
      | Some v \<Rightarrow>
          str_or (js_string (json_or (prop_of (prop_of v ''error'') ''message'') (JStr fallback))) fallback)"

definition internalJson ::
    "(bytes \<Rightarrow> json option) \<Rightarrow> (string \<Rightarrow> json option \<Rightarrow> ('w, http_response) proc) \<Rightarrow> rust_call \<Rightarrow> ('w, json) proc" where
  "internalJson json_parse send call =
     pbind (send (call_path call) (call_body call)) (\<lambda>response.
     pbind (plift (boundedResponseText response max_internal_json_response_bytes)) (\<lambda>body.
       if \<not> hr_ok response
       then praise (RustApiErr (hr_status response) (internal_message (hr_status response) (json_parse body)))
       else plift (of_opt (Err ''invalid JSON'') (json_parse body))))"

section \<open>The gateway\<close>

text \<open>The module's variables: \<open>verifiedPaymentAttempts\<close>, \<open>settlementReplayGuard\<close>, \<open>pendingSettlements\<close>
  and the state of the recovery cycle.\<close>

record gateway_state =
  gs_tracker :: "payable_quote tracker"
  gs_guard :: replay_guard
  gs_pending :: "(string \<times> durable_settlement) list"
  gs_running :: bool
  gs_lastAt :: "int option"
  gs_lastMonotonicAt :: "int option"
  gs_lastError :: "string option"

definition gateway_start :: gateway_state where
  "gateway_start = \<lparr> gs_tracker = tracker_empty, gs_guard = [], gs_pending = [], gs_running = False,
     gs_lastAt = None, gs_lastMonotonicAt = None, gs_lastError = None \<rparr>"

record gateway_config =
  gc_lib :: svm_lib
  gc_url_pathname :: "string \<Rightarrow> string option"
  gc_network :: string
  gc_finalityTimeoutMs :: int
  gc_pollIntervalMs :: int
  gc_signaturePages :: int
  gc_batchSize :: int

text \<open>What a hook is given: the route it runs for, the payment payload and the requirements.\<close>

record hook_context =
  hk_requestPath :: "string option"
  hk_resourceUrl :: "string option"
  hk_payload :: json
  hk_network :: string
  hk_payTo :: string
  hk_asset :: string
  hk_amount :: string

record 'w gateway_services =
  gx_now :: "('w, int) proc"
  gx_monotonic :: "('w, int) proc"
  gx_sleep :: "int \<Rightarrow> ('w, unit) proc"
  gx_quote :: "rust_call \<Rightarrow> ('w, payable_quote) proc"
  gx_attempt :: "rust_call \<Rightarrow> ('w, reconciliation_attempt) proc"
  gx_due :: "rust_call \<Rightarrow> ('w, reconciliation_attempt list) proc"
  gx_post :: "rust_call \<Rightarrow> ('w, unit) proc"
  gx_ready :: "('w, unit) proc"
  gx_enqueue :: "(durable_settlement \<Rightarrow> ('w, unit) proc) option"
  gx_trigger :: "string \<Rightarrow> ('w, http_response) proc"
  gx_facilitator :: "hook_context \<Rightarrow> ('w, settle_response) proc"
  gx_rpcs :: "'w solana_rpc list"

text \<open>An operation on the gateway's own state, and on one of its parts.\<close>

definition inside :: "('s \<Rightarrow> 'a outcome \<times> 's) \<Rightarrow> ('s \<times> 'h, 'a) proc" where
  "inside m w = (case m (fst w) of (r, s) \<Rightarrow> (r, (s, snd w)))"

definition on_tracker :: "(payable_quote tracker, 'a) proc \<Rightarrow> (gateway_state \<times> 'h, 'a) proc" where
  "on_tracker m = inside (\<lambda>s. case m (gs_tracker s) of (r, t) \<Rightarrow> (r, s\<lparr> gs_tracker := t \<rparr>))"

definition on_guard :: "(replay_guard, 'a) proc \<Rightarrow> (gateway_state \<times> 'h, 'a) proc" where
  "on_guard m = inside (\<lambda>s. case m (gs_guard s) of (r, g) \<Rightarrow> (r, s\<lparr> gs_guard := g \<rparr>))"

definition set_pending :: "durable_settlement \<Rightarrow> gateway_state \<times> 'h \<Rightarrow> gateway_state \<times> 'h" where
  "set_pending settlement w =
     ((fst w)\<lparr> gs_pending := AList.update (ds_transactionSignature settlement) settlement (gs_pending (fst w)) \<rparr>, snd w)"

definition drop_pending :: "string \<Rightarrow> gateway_state \<times> 'h \<Rightarrow> gateway_state \<times> 'h" where
  "drop_pending signature w = ((fst w)\<lparr> gs_pending := AList.delete signature (gs_pending (fst w)) \<rparr>, snd w)"

definition forget_attempt :: "string \<Rightarrow> (gateway_state \<times> 'h, unit) proc" where
  "forget_attempt attemptId = on_tracker (pmod (trk_forget attemptId))"

section \<open>The quote of a route\<close>

fun quote_call :: "payment_route_identity \<Rightarrow> rust_call" where
  "quote_call (DocumentQuote quoteId _) = GetX402Quote quoteId"
| "quote_call (DocumentQuery queryId handle _) = GetDocumentQuote queryId handle"
| "quote_call (Bundle quoteId _) = GetBundleQuote quoteId"
| "quote_call (OpenCall quoteId _) = GetOpenCallQuote quoteId"
| "quote_call (TopUp quoteId _) = GetOpenCallQuote quoteId"

definition loadQuote ::
    "gateway_config \<Rightarrow> (gateway_state \<times> 'h) gateway_services \<Rightarrow> payment_route_identity
     \<Rightarrow> (gateway_state \<times> 'h, payable_quote) proc" where
  "loadQuote cfg d identity =
     pbind (gx_quote d (quote_call identity)) (\<lambda>quote.
       if pyq_network quote \<noteq> gc_network cfg then praise (Err ''quote network does not match gateway network'')
       else pret quote)"

definition getQuote ::
    "gateway_config \<Rightarrow> (gateway_state \<times> 'h) gateway_services \<Rightarrow> payment_route_identity
     \<Rightarrow> (gateway_state \<times> 'h, payable_quote) proc" where
  "getQuote cfg d identity =
     pbind (gx_now d) (\<lambda>now.
     pbind (on_guard (srg_assertNotSettled (pri_key identity) now)) (\<lambda>_.
     pbind (loadQuote cfg d identity) (\<lambda>quote.
     pbind (gx_now d) (\<lambda>now'.
     pbind (plift (assertPaymentQuotePayable (pyq_state quote) now')) (\<lambda>_.
     pbind (if pri_kind identity = ''bundle'' then gx_ready d else pret ()) (\<lambda>_. pret quote))))))"

definition identityFromPaymentHook :: "gateway_config \<Rightarrow> hook_context \<Rightarrow> payment_route_identity outcome" where
  "identityFromPaymentHook cfg context =
     paymentIdentityFromPath (gc_url_pathname cfg) (str_or (hk_requestPath context) (str_or (hk_resourceUrl context) []))"

definition attempt_id :: "gateway_config \<Rightarrow> hook_context \<Rightarrow> string outcome" where
  "attempt_id cfg context = paymentAttemptId (lib_sha256_hex (gc_lib cfg)) (hk_payload context)"

definition quoteForProtectedHandler :: "payment_route_identity \<Rightarrow> (gateway_state \<times> 'h, payable_quote) proc" where
  "quoteForProtectedHandler identity =
     pbind (pget (\<lambda>w. trk_forIdentity (gs_tracker (fst w)) (pri_key identity))) (\<lambda>attempt.
       case attempt of
         None \<Rightarrow> praise (PaymentQuoteErr 409 ''payment_not_payable'')
       | Some a \<Rightarrow> pret (vpa_quote a))"

section \<open>Claiming a verified attempt\<close>

definition recentBlockhashFromTransaction :: "svm_lib \<Rightarrow> string \<Rightarrow> string outcome" where
  "recentBlockhashFromTransaction lib transactionBase64 =
     (let bs = base64_decode transactionBase64;
          legacy = (case lib_legacy_from lib bs of None \<Rightarrow> None | Some t \<Rightarrow> lt_recentBlockhash t) in
      if truthy legacy then Inr (the legacy)
      else rbind (of_opt (Err ''not a transaction'') (lib_versioned_from lib bs)) (\<lambda>t.
        if vt_recentBlockhash t = [] then Inl (Err ''verified x402 transaction omitted its recent blockhash'')
        else Inr (vt_recentBlockhash t)))"

definition signed_transaction :: "hook_context \<Rightarrow> string" where
  "signed_transaction context =
     str_or (js_string (json_or (prop_of (hk_payload context) ''transaction'') (JStr []))) []"

definition attempt_evidence ::
    "payment_route_identity \<Rightarrow> payable_quote \<Rightarrow> string \<Rightarrow> string \<Rightarrow> string \<Rightarrow> string \<Rightarrow> int \<Rightarrow> int \<Rightarrow> reconciliation_attempt" where
  "attempt_evidence identity quote attemptId payer tx blockhash reconcileAfter createdAt =
     \<lparr> ra_settlementKind = pri_kind identity, ra_quoteId = pyq_id quote, ra_attemptId = attemptId,
       ra_reconcileAfter = Num reconcileAfter, ra_createdAt = Num createdAt, ra_payTo = pyq_payTo quote,
       ra_network = pyq_network quote, ra_asset = pyq_asset quote, ra_amountAtomic = pyq_amountAtomic quote,
       ra_payer = Some payer, ra_signedTransactionBase64 = Some tx, ra_recentBlockhash = Some blockhash,
       ra_absenceObservedAt = None \<rparr>"

definition claimPaymentAttempt ::
    "gateway_config \<Rightarrow> 'w gateway_services \<Rightarrow> string \<Rightarrow> payment_route_identity \<Rightarrow> payable_quote \<Rightarrow> string \<Rightarrow> string
     \<Rightarrow> ('w, unit) proc" where
  "claimPaymentAttempt cfg d attemptId identity quote payer tx =
     pbind (plift (recentBlockhashFromTransaction (gc_lib cfg) tx)) (\<lambda>blockhash.
       gx_post d (PostAttempt (pri_kind identity) (pyq_id quote) attemptId payer tx blockhash))"

definition releasePaymentAttempt ::
    "'w gateway_services \<Rightarrow> string \<Rightarrow> payment_route_identity \<Rightarrow> payable_quote \<Rightarrow> ('w, unit) proc" where
  "releasePaymentAttempt d attemptId identity quote =
     gx_post d (PostRelease (pri_kind identity) (pyq_id quote) attemptId)"

definition remember_claimed ::
    "(gateway_state \<times> 'h) gateway_services \<Rightarrow> string \<Rightarrow> payment_route_identity \<Rightarrow> payable_quote \<Rightarrow> (gateway_state \<times> 'h, unit) proc" where
  "remember_claimed d attemptId identity quote =
     pbind (gx_now d) (\<lambda>now.
     pcatch (on_tracker (trk_remember attemptId identity quote now))
       (\<lambda>e. pbind (releasePaymentAttempt d attemptId identity quote) (\<lambda>_. praise e)))"

definition claim_verified ::
    "gateway_config \<Rightarrow> (gateway_state \<times> 'h) gateway_services \<Rightarrow> hook_context \<Rightarrow> string \<Rightarrow> (gateway_state \<times> 'h, unit) proc" where
  "claim_verified cfg d context payer =
     pbind (plift (attempt_id cfg context)) (\<lambda>attemptId.
     pbind (plift (identityFromPaymentHook cfg context)) (\<lambda>identity.
     pbind (getQuote cfg d identity) (\<lambda>quote.
     pbind (gx_now d) (\<lambda>reconcileAfter.
     pbind (gx_now d) (\<lambda>createdAt.
     pbind (plift (recentBlockhashFromTransaction (gc_lib cfg) (signed_transaction context))) (\<lambda>blockhash.
       let tx = signed_transaction context;
           evidence = attempt_evidence identity quote attemptId payer tx blockhash reconcileAfter createdAt in
       if \<not> hasExactPreparedPaymentSemantics (gc_lib cfg) evidence (base64_decode tx)
       then praise (PaymentQuoteErr 409 ''payment_not_payable'')
       else pbind (claimPaymentAttempt cfg d attemptId identity quote payer tx) (\<lambda>_.
         remember_claimed d attemptId identity quote)))))))"

text \<open>The hook's abort directive is its reason; \<open>None\<close> lets the payment go on.\<close>

fun abort_reason :: "js_error \<Rightarrow> string" where
  "abort_reason (PaymentQuoteErr _ code) = code"
| "abort_reason _ = ''payment_attempt_unavailable''"

definition onAfterVerify ::
    "gateway_config \<Rightarrow> (gateway_state \<times> 'h) gateway_services \<Rightarrow> hook_context \<Rightarrow> string option
     \<Rightarrow> (gateway_state \<times> 'h, string option) proc" where
  "onAfterVerify cfg d context payer =
     (if \<not> truthy payer then pret (Some ''payer_missing'')
      else if payer = Some (hk_payTo context) then pret (Some ''self_payment_not_allowed'')
      else pcatch (pbind (claim_verified cfg d context (the payer)) (\<lambda>_. pret None))
        (\<lambda>e. pret (Some (abort_reason e))))"

definition releaseVerifiedPaymentAttempt ::
    "gateway_config \<Rightarrow> (gateway_state \<times> 'h) gateway_services \<Rightarrow> hook_context \<Rightarrow> (gateway_state \<times> 'h, unit) proc" where
  "releaseVerifiedPaymentAttempt cfg d context =
     pbind (plift (attempt_id cfg context)) (\<lambda>attemptId.
     pbind (pget (\<lambda>w. trk_forAttempt (gs_tracker (fst w)) attemptId)) (\<lambda>attempt.
       case attempt of
         None \<Rightarrow> pret ()
       | Some a \<Rightarrow> pfinally (releasePaymentAttempt d attemptId (vpa_identity a) (vpa_quote a)) (forget_attempt attemptId)))"

definition onVerifiedPaymentCanceled ::
    "gateway_config \<Rightarrow> (gateway_state \<times> 'h) gateway_services \<Rightarrow> hook_context \<Rightarrow> (gateway_state \<times> 'h, unit) proc" where
  "onVerifiedPaymentCanceled cfg d context = pcatch (releaseVerifiedPaymentAttempt cfg d context) (\<lambda>_. pret ())"

section \<open>Settling\<close>

definition local_quote :: "payment_route_identity \<Rightarrow> payable_quote verified_payment_attempt option \<Rightarrow> payable_quote option" where
  "local_quote identity attempt =
     (case attempt of
        None \<Rightarrow> None
      | Some a \<Rightarrow> if pri_key (vpa_identity a) = pri_key identity then Some (vpa_quote a) else None)"

definition paymentAttemptForSettlement ::
    "gateway_config \<Rightarrow> (gateway_state \<times> 'h) gateway_services \<Rightarrow> hook_context \<Rightarrow> string
     \<Rightarrow> (gateway_state \<times> 'h, payment_route_identity \<times> payable_quote \<times> reconciliation_attempt) proc" where
  "paymentAttemptForSettlement cfg d context attemptId =
     pbind (pget (\<lambda>w. trk_forAttempt (gs_tracker (fst w)) attemptId)) (\<lambda>attempt.
     pbind (gx_attempt d (GetAttempt attemptId)) (\<lambda>durable.
     pbind (plift (identityFromPaymentHook cfg context)) (\<lambda>identity.
       if ra_attemptId durable \<noteq> attemptId \<or> ra_settlementKind durable \<noteq> pri_kind identity
       then praise (Err ''durable payment attempt does not match its settlement route'')
       else pbind (case local_quote identity attempt of None \<Rightarrow> loadQuote cfg d identity | Some q \<Rightarrow> pret q) (\<lambda>quote.
         if pyq_id quote \<noteq> ra_quoteId durable
         then praise (Err ''durable payment attempt does not match its quote'')
         else pret (identity, quote, durable)))))"

definition onBeforeSettle ::
    "gateway_config \<Rightarrow> (gateway_state \<times> 'h) gateway_services \<Rightarrow> hook_context \<Rightarrow> (gateway_state \<times> 'h, gate_directive) proc" where
  "onBeforeSettle cfg d context = settleWithIndependentFinality
     \<lparr> gd_settle = gx_facilitator d context,
       gd_loadAttempt = pbind (plift (attempt_id cfg context)) (\<lambda>attemptId.
         pbind (paymentAttemptForSettlement cfg d context attemptId) (\<lambda>(_, _, evidence). pret evidence)),
       gd_network = hk_network context, gd_payTo = hk_payTo context, gd_asset = hk_asset context,
       gd_amount = hk_amount context, gd_rpcs = gx_rpcs d, gd_expectedNetwork = gc_network cfg,
       gd_timeoutMs = gc_finalityTimeoutMs cfg, gd_pollIntervalMs = gc_pollIntervalMs cfg,
       gd_nowMs = gx_monotonic d, gd_sleep = gx_sleep d,
       gd_verifySignature = (\<lambda>attempt signature rpc expectedNetwork. pbind (gx_now d) (\<lambda>now.
         verifyExactFinalizedSettlementSignature (gc_lib cfg) attempt signature rpc expectedNetwork now)) \<rparr>"

section \<open>Recording a settlement\<close>

definition max_trigger_response_bytes :: nat where
  "max_trigger_response_bytes = 64 * 1024"

definition triggerResearchJob :: "'w gateway_services \<Rightarrow> string \<Rightarrow> ('w, unit) proc" where
  "triggerResearchJob d jobId =
     pcatch (pbind (gx_trigger d jobId) (\<lambda>response.
       pbind (plift (boundedResponseText response max_trigger_response_bytes)) (\<lambda>body.
         if \<not> hr_ok response \<and> hr_status response \<noteq> 202 \<and> hr_status response \<noteq> 409
         then praise (Err ''orchestrator returned an error'') else pret ())))
       (\<lambda>_. pret ())"

text \<open>The trigger is not awaited and never throws: the volatile copy is dropped before it answers.\<close>

definition recordSettlement ::
    "(gateway_state \<times> 'h) gateway_services \<Rightarrow> durable_settlement \<Rightarrow> (gateway_state \<times> 'h, unit) proc" where
  "recordSettlement d settlement =
     pbind (gx_post d (PostSettlement settlement)) (\<lambda>_.
     pbind (pmod (drop_pending (ds_transactionSignature settlement))) (\<lambda>_.
       if ds_settlementKind settlement = ''bundle'' then triggerResearchJob d (ds_quoteId settlement) else pret ()))"

definition reconcileSettlement ::
    "(gateway_state \<times> 'h) gateway_services \<Rightarrow> durable_settlement \<Rightarrow> (gateway_state \<times> 'h, unit) proc" where
  "reconcileSettlement d settlement =
     pbind (persistSettlementDurably (map_option (\<lambda>enqueue. enqueue settlement) (gx_enqueue d))
       (recordSettlement d settlement) (pmod (drop_pending (ds_transactionSignature settlement)))) (\<lambda>_. pret ())"

definition settlement_of ::
    "hook_context \<Rightarrow> payment_route_identity \<Rightarrow> payable_quote \<Rightarrow> string \<Rightarrow> settle_response \<Rightarrow> json \<Rightarrow> durable_settlement" where
  "settlement_of context identity quote attemptId result raw =
     \<lparr> ds_settlementKind = pri_kind identity, ds_quoteId = pyq_id quote, ds_attemptId = attemptId,
       ds_transactionSignature = sr_transaction result, ds_payer = str_or (sr_payer result) [],
       ds_payTo = hk_payTo context, ds_amountAtomic = str_or (sr_amount result) (hk_amount context),
       ds_network = sr_network result, ds_rawResponse = raw \<rparr>"

text \<open>A settlement is kept in memory first, handed to the durable sinks, and its attempt forgotten.\<close>

definition hand_over ::
    "(gateway_state \<times> 'h) gateway_services \<Rightarrow> durable_settlement \<Rightarrow> (gateway_state \<times> 'h, unit) proc" where
  "hand_over d settlement =
     pbind (pmod (set_pending settlement)) (\<lambda>_.
     pbind (reconcileSettlement d settlement) (\<lambda>_. forget_attempt (ds_attemptId settlement)))"

text \<open>\<open>raw\<close> is \<open>context.result\<close> as it is.\<close>

definition onAfterSettle ::
    "gateway_config \<Rightarrow> (gateway_state \<times> 'h) gateway_services \<Rightarrow> hook_context \<Rightarrow> settle_response \<Rightarrow> json
     \<Rightarrow> (gateway_state \<times> 'h, unit) proc" where
  "onAfterSettle cfg d context result raw =
     (if \<not> sr_success result \<or> \<not> truthy (sr_payer result) then pret ()
      else pbind (pcatch (pbind (plift (attempt_id cfg context)) (\<lambda>attemptId.
            pbind (paymentAttemptForSettlement cfg d context attemptId) (\<lambda>(identity, quote, _).
              pret (Some (attemptId, identity, quote)))))
          (\<lambda>_. pret None)) (\<lambda>attempt.
        case attempt of
          None \<Rightarrow> pret ()
        | Some (attemptId, identity, quote) \<Rightarrow>
            pbind (gx_now d) (\<lambda>now.
            pbind (on_guard (pmod (srg_markSettled (pri_key identity) (pqs_expiresAt (pyq_state quote)) now))) (\<lambda>_.
              pcatch (hand_over d (settlement_of context identity quote attemptId result raw)) (\<lambda>_. pret ())))))"

text \<open>The loop over the settlements in memory; an entry removed meanwhile is skipped. Entries added
  meanwhile are left to the next run, five seconds later.\<close>

definition retry_settlement ::
    "(gateway_state \<times> 'h) gateway_services \<Rightarrow> string \<Rightarrow> (gateway_state \<times> 'h, unit) proc" where
  "retry_settlement d signature =
     pbind (pget (\<lambda>w. map_of (gs_pending (fst w)) signature)) (\<lambda>pending'.
       case pending' of
         None \<Rightarrow> pret ()
       | Some settlement \<Rightarrow>
           pcatch (pbind (reconcileSettlement d settlement) (\<lambda>_. forget_attempt (ds_attemptId settlement)))
             (\<lambda>_. pret ()))"

definition retryPendingSettlements ::
    "(gateway_state \<times> 'h) gateway_services \<Rightarrow> (gateway_state \<times> 'h, unit) proc" where
  "retryPendingSettlements d =
     pbind (pget (\<lambda>w. map fst (gs_pending (fst w)))) (\<lambda>signatures. pforM signatures (retry_settlement d))"

section \<open>Recovery from the chain\<close>

definition deferPaymentAttemptReconciliation ::
    "'w gateway_services \<Rightarrow> reconciliation_attempt \<Rightarrow> bool \<Rightarrow> ('w, unit) proc" where
  "deferPaymentAttemptReconciliation d attempt absenceObserved =
     pcatch (gx_post d (PostDefer (ra_settlementKind attempt) (ra_quoteId attempt) (ra_attemptId attempt) absenceObserved))
       (\<lambda>e. case e of RustApiErr status _ \<Rightarrow> if status = 404 then pret () else praise e | _ \<Rightarrow> praise e)"

definition releaseReconciledPaymentAttempt :: "'w gateway_services \<Rightarrow> reconciliation_attempt \<Rightarrow> ('w, unit) proc" where
  "releaseReconciledPaymentAttempt d attempt =
     gx_post d (PostReconciledRelease (ra_settlementKind attempt) (ra_quoteId attempt) (ra_attemptId attempt))"

definition exact_recovery :: "reconciliation_attempt \<Rightarrow> string \<Rightarrow> durable_settlement" where
  "exact_recovery attempt signature =
     \<lparr> ds_settlementKind = ra_settlementKind attempt, ds_quoteId = ra_quoteId attempt,
       ds_attemptId = ra_attemptId attempt, ds_transactionSignature = signature,
       ds_payer = str_or (ra_payer attempt) [], ds_payTo = ra_payTo attempt,
       ds_amountAtomic = ra_amountAtomic attempt, ds_network = ra_network attempt,
       ds_rawResponse = JObj
         [(''success'', JBool True), (''transaction'', JStr signature), (''payer'', JStr (str_or (ra_payer attempt) [])),
          (''network'', JStr (ra_network attempt)), (''amount'', JStr (ra_amountAtomic attempt)),
          (''recovery'', JObj [(''method'', JStr ''exact_finalized_transaction'')])] \<rparr>"

definition exact_view :: "gateway_config \<Rightarrow> reconciliation_attempt \<Rightarrow> 'w solana_rpc \<Rightarrow> ('w, exact_scan) proc" where
  "exact_view cfg attempt rpc =
     pcatch (scanExactFinalizedChainAttempt (gc_lib cfg) attempt rpc (gc_signaturePages cfg)) (\<lambda>_. pret ScanInconclusive)"

definition chain_blockhash_view :: "reconciliation_attempt \<Rightarrow> 'w solana_rpc \<Rightarrow> ('w, bool option) proc" where
  "chain_blockhash_view attempt rpc =
     pcatch (pbind (rpc ''isBlockhashValid''
         [JStr (str_or (ra_recentBlockhash attempt) []), JObj [(''commitment'', JStr ''finalized'')]]) (\<lambda>result.
       pret (case prop_of result ''value'' of JBool b \<Rightarrow> Some b | _ \<Rightarrow> None)))
       (\<lambda>_. pret None)"

text \<open>\<open>cycleError ??= kind:quoteId: text\<close>\<close>

definition cycle_issue :: "reconciliation_attempt \<Rightarrow> string \<Rightarrow> string option \<Rightarrow> string option" where
  "cycle_issue attempt text cycleError =
     (case cycleError of
        Some e \<Rightarrow> Some e
      | None \<Rightarrow> Some (ra_settlementKind attempt @ '':'' @ ra_quoteId attempt @ '': '' @ text))"

text \<open>The steps of one attempt return the cycle's error so far and what was thrown, because an
  assignment to \<open>cycleError\<close> stays when a later call throws.\<close>

definition noting :: "string option \<Rightarrow> ('w, unit) proc \<Rightarrow> ('w, string option \<times> js_error option) proc" where
  "noting cycleError m = pcatch (pbind m (\<lambda>_. pret (cycleError, None))) (\<lambda>e. pret (cycleError, Some e))"

definition reconcile_absent ::
    "gateway_config \<Rightarrow> (gateway_state \<times> 'h) gateway_services \<Rightarrow> reconciliation_attempt \<Rightarrow> exact_scan list
     \<Rightarrow> string option \<Rightarrow> (gateway_state \<times> 'h, string option \<times> js_error option) proc" where
  "reconcile_absent cfg d attempt scans cycleError =
     pbind (pmapM (chain_blockhash_view attempt) (gx_rpcs d)) (\<lambda>blockhashViews.
       noting (if None \<in> set blockhashViews
           then cycle_issue attempt ''an independent RPC could not return finalized blockhash state'' cycleError
           else cycleError)
         (case exactAbsenceDecision scans blockhashViews (ra_absenceObservedAt attempt) of
           Defer \<Rightarrow> deferPaymentAttemptReconciliation d attempt False
         | Observe \<Rightarrow> deferPaymentAttemptReconciliation d attempt True
         | Release \<Rightarrow> releaseReconciledPaymentAttempt d attempt))"

definition reconcile_exact ::
    "gateway_config \<Rightarrow> (gateway_state \<times> 'h) gateway_services \<Rightarrow> reconciliation_attempt
     \<Rightarrow> string option \<Rightarrow> (gateway_state \<times> 'h, string option \<times> js_error option) proc" where
  "reconcile_exact cfg d attempt cycleError =
     pbind (pmapM (exact_view cfg attempt) (gx_rpcs d)) (\<lambda>scans.
       case exactSettlementSignature scans of
         Some signature \<Rightarrow> noting cycleError (hand_over d (exact_recovery attempt signature))
       | None \<Rightarrow>
           if list_ex (\<lambda>scan. case scan of ScanSettled _ \<Rightarrow> True | ScanInconclusive \<Rightarrow> True | _ \<Rightarrow> False) scans
           then noting (cycle_issue attempt ''independent RPC scans did not return complete exact evidence'' cycleError)
             (deferPaymentAttemptReconciliation d attempt False)
           else reconcile_absent cfg d attempt scans cycleError)"

definition reconcile_legacy ::
    "gateway_config \<Rightarrow> (gateway_state \<times> 'h) gateway_services \<Rightarrow> reconciliation_attempt
     \<Rightarrow> string option \<Rightarrow> (gateway_state \<times> 'h, string option \<times> js_error option) proc" where
  "reconcile_legacy cfg d attempt cycleError =
     pbind (gx_now d) (\<lambda>now.
     pbind (findUnanimousFinalizedChainSettlement (gc_lib cfg) attempt (gx_rpcs d) (gc_network cfg) (gc_signaturePages cfg) now) (\<lambda>found.
       case found of
         None \<Rightarrow> noting (cycle_issue attempt ''legacy recovery did not obtain unanimous finalized evidence'' cycleError)
           (deferPaymentAttemptReconciliation d attempt False)
       | Some settlement \<Rightarrow> noting cycleError (hand_over d settlement)))"

definition defer_failed ::
    "'w gateway_services \<Rightarrow> reconciliation_attempt \<Rightarrow> string option \<Rightarrow> js_error \<Rightarrow> ('w, string option) proc" where
  "defer_failed d attempt cycleError e =
     pcatch (pbind (deferPaymentAttemptReconciliation d attempt False) (\<lambda>_.
         pret (cycle_issue attempt (js_message e) cycleError)))
       (\<lambda>deferError. pret (cycle_issue attempt (''reconciliation failed ('' @ js_message e @ ''); defer failed ('' @
         js_message deferError @ '')'') None))"

definition reconcile_due ::
    "gateway_config \<Rightarrow> (gateway_state \<times> 'h) gateway_services \<Rightarrow> reconciliation_attempt
     \<Rightarrow> string option \<Rightarrow> (gateway_state \<times> 'h, string option) proc" where
  "reconcile_due cfg d attempt cycleError =
     pbind (pcatch (if truthy (ra_payer attempt) \<and> truthy (ra_signedTransactionBase64 attempt) \<and> truthy (ra_recentBlockhash attempt)
         then reconcile_exact cfg d attempt cycleError else reconcile_legacy cfg d attempt cycleError)
       (\<lambda>e. pret (cycleError, Some e))) (\<lambda>(cycleError', failed).
       case failed of None \<Rightarrow> pret cycleError' | Some e \<Rightarrow> defer_failed d attempt cycleError' e)"

fun reconcile_all ::
    "gateway_config \<Rightarrow> (gateway_state \<times> 'h) gateway_services \<Rightarrow> reconciliation_attempt list
     \<Rightarrow> string option \<Rightarrow> (gateway_state \<times> 'h, string option) proc" where
  "reconcile_all cfg d [] cycleError = pret cycleError"
| "reconcile_all cfg d (attempt # rest) cycleError =
     pbind (reconcile_due cfg d attempt cycleError) (\<lambda>cycleError'. reconcile_all cfg d rest cycleError')"

definition in_gateway :: "(gateway_state \<Rightarrow> gateway_state) \<Rightarrow> (gateway_state \<times> 'h, unit) proc" where
  "in_gateway f = pmod (\<lambda>w. (f (fst w), snd w))"

definition reconcile_cycle ::
    "gateway_config \<Rightarrow> (gateway_state \<times> 'h) gateway_services \<Rightarrow> (gateway_state \<times> 'h, unit) proc" where
  "reconcile_cycle cfg d =
     pcatch (pbind (gx_due d (GetDueAttempts (gc_batchSize cfg))) (\<lambda>attempts.
         pbind (reconcile_all cfg d attempts None) (\<lambda>cycleError.
         pbind (gx_now d) (\<lambda>now.
         pbind (gx_monotonic d) (\<lambda>monotonic.
           in_gateway (\<lambda>s. s\<lparr> gs_lastAt := Some now, gs_lastMonotonicAt := Some monotonic, gs_lastError := cycleError \<rparr>))))))
       (\<lambda>e. in_gateway (\<lambda>s. s\<lparr> gs_lastError := Some (js_message e) \<rparr>))"

definition reconcileDueChainAttempts ::
    "gateway_config \<Rightarrow> (gateway_state \<times> 'h) gateway_services \<Rightarrow> (gateway_state \<times> 'h, unit) proc" where
  "reconcileDueChainAttempts cfg d =
     pbind (pget (\<lambda>w. gs_running (fst w))) (\<lambda>running.
       if running then pret ()
       else pbind (in_gateway (\<lambda>s. s\<lparr> gs_running := True \<rparr>)) (\<lambda>_.
         pfinally (reconcile_cycle cfg d) (in_gateway (\<lambda>s. s\<lparr> gs_running := False \<rparr>))))"

text \<open>The pruning timer.\<close>

definition prune_gateway :: "(gateway_state \<times> 'h) gateway_services \<Rightarrow> (gateway_state \<times> 'h, unit) proc" where
  "prune_gateway d =
     pbind (gx_now d) (\<lambda>now. pbind (on_guard (pmod (srg_prune now))) (\<lambda>_.
     pbind (gx_now d) (\<lambda>now'. on_tracker (pmod (trk_prune now')))))"

end
