(* ===== verification/Top_Up.thy ===== *)
theory Top_Up
  imports Interfaces
begin

text \<open>
  The prepaid top-up of \<open>payment-gateway/src/prepaid-top-up.ts\<close>: the requested amount, the store of
  quotes and the deposit request made from a settled quote. Times are the integers of
  \<open>Date.now\<close>; the id of a quote, which the code draws with \<open>randomUUID\<close>, is an argument.
\<close>

section \<open>Amounts\<close>

definition usdc_atomic_multiplier :: int where
  "usdc_atomic_multiplier = 1000000"

definition max_top_up_usdc :: int where
  "max_top_up_usdc = 1000"

definition default_top_up_ttl_ms :: int where
  "default_top_up_ttl_ms = 5 * 60000"

text \<open>\<open>Number (s)\<close> of a string of digits. It overflows to \<open>Infinity\<close>; below that it is an integer,
  whose rounding above \<open>2\<^sup>5\<^sup>3\<close> no caller can see, as it is compared with 1 and 1000 only.\<close>

definition digits_number :: "string \<Rightarrow> jnum" where
  "digits_number s = (if 2 ^ 1024 - 2 ^ 970 \<le> dec_value s then PosInf else Num (int (dec_value s)))"

definition parseTopUpAmountUsdc :: "json \<Rightarrow> int outcome" where
  "parseTopUpAmountUsdc value =
     (let amount = (case value of
          JNum x \<Rightarrow> x
        | JStr s \<Rightarrow> if re_digits (trim s) then digits_number (trim s) else NaN
        | _ \<Rightarrow> NaN) in
      if \<not> is_integer amount \<or> jlt amount (Num 1)
      then Inl (TopUpRequestErr 400 ''invalid_top_up_amount'')
      else if jlt (Num max_top_up_usdc) amount
      then Inl (TopUpRequestErr 400 ''top_up_exceeds_cap'')
      else Inr (jint amount))"

definition topUpAmountAtomic :: "jnum \<Rightarrow> string outcome" where
  "topUpAmountAtomic amountUsdc =
     rbind (parseTopUpAmountUsdc (JNum amountUsdc)) (\<lambda>amount.
       Inr (show_int (amount * usdc_atomic_multiplier)))"

section \<open>The store of quotes\<close>

text \<open>\<open>status\<close> and \<open>requiresPayment\<close> have one value each, \<open>"quoted"\<close> and \<open>true\<close>.\<close>

record top_up_quote =
  tuq_id :: string
  tuq_payTo :: string
  tuq_network :: string
  tuq_asset :: string
  tuq_amountUsdc :: int
  tuq_amountAtomic :: string
  tuq_expiresAt :: int
  tuq_resourcePath :: string

type_synonym top_up_store = "(string \<times> top_up_quote) list"

definition tus_create ::
    "jnum \<Rightarrow> string \<Rightarrow> string \<Rightarrow> string \<Rightarrow> int option \<Rightarrow> int \<Rightarrow> string
     \<Rightarrow> (top_up_store, top_up_quote) proc" where
  "tus_create amountUsdc0 payTo0 network0 asset0 ttlMs now id' =
     pbind (plift (parseTopUpAmountUsdc (JNum amountUsdc0))) (\<lambda>amountUsdc.
       let payTo = trim payTo0; network = trim network0; asset = trim asset0 in
       if payTo = [] \<or> network = [] \<or> asset = [] then praise (TopUpRequestErr 503 ''top_up_unavailable'')
       else
         pbind (plift (topUpAmountAtomic (Num amountUsdc))) (\<lambda>amountAtomic.
           let quote = \<lparr> tuq_id = id', tuq_payTo = payTo, tuq_network = network, tuq_asset = asset,
             tuq_amountUsdc = amountUsdc, tuq_amountAtomic = amountAtomic,
             tuq_expiresAt = now + (case ttlMs of None \<Rightarrow> default_top_up_ttl_ms | Some t \<Rightarrow> t),
             tuq_resourcePath = ''/api/v1/paid-top-ups/'' @ id' \<rparr> in
           pbind (pmod (AList.update id' quote)) (\<lambda>_. pret quote)))"

definition tus_get :: "string \<Rightarrow> top_up_store \<Rightarrow> top_up_quote option" where
  "tus_get id' s = map_of s id'"

definition tus_delete :: "string \<Rightarrow> top_up_store \<Rightarrow> top_up_store" where
  "tus_delete id' s = AList.delete id' s"

definition tus_prune :: "int \<Rightarrow> top_up_store \<Rightarrow> top_up_store" where
  "tus_prune now s = keep_entries (\<lambda>_ q. \<not> tuq_expiresAt q \<le> now) s"

section \<open>The deposit\<close>

record prepaid_deposit =
  pd_transactionSignature :: string
  pd_payer :: string
  pd_payTo :: string
  pd_network :: string
  pd_asset :: string
  pd_amountAtomic :: string

record top_up_settlement =
  ts_success :: "bool option"
  ts_transaction :: "string option"
  ts_payer :: "string option"
  ts_network :: "string option"
  ts_amount :: "string option"

definition topUpDepositFromSettlement :: "top_up_quote \<Rightarrow> top_up_settlement \<Rightarrow> prepaid_deposit outcome" where
  "topUpDepositFromSettlement quote settlement =
     (if ts_success settlement = Some False then Inl (TopUpRequestErr 409 ''top_up_not_settled'')
      else
        let transactionSignature = trim (str_or (ts_transaction settlement) []);
            payer = trim (str_or (ts_payer settlement) []) in
        if transactionSignature = [] then Inl (TopUpRequestErr 409 ''top_up_missing_signature'')
        else if payer = [] then Inl (TopUpRequestErr 409 ''top_up_missing_payer'')
        else if payer = tuq_payTo quote then Inl (TopUpRequestErr 409 ''top_up_self_payment'')
        else if truthy (ts_network settlement) \<and> ts_network settlement \<noteq> Some (tuq_network quote)
        then Inl (TopUpRequestErr 409 ''top_up_network_drift'')
        else if trim (str_or (ts_amount settlement) (tuq_amountAtomic quote)) \<noteq> tuq_amountAtomic quote
        then Inl (TopUpRequestErr 409 ''top_up_amount_drift'')
        else Inr \<lparr> pd_transactionSignature = transactionSignature, pd_payer = payer,
          pd_payTo = tuq_payTo quote, pd_network = tuq_network quote, pd_asset = tuq_asset quote,
          pd_amountAtomic = tuq_amountAtomic quote \<rparr>)"

section \<open>Lemmas\<close>

lemma parse_top_up_Num: "parseTopUpAmountUsdc (JNum (Num i)) =
    (if i < 1 then Inl (TopUpRequestErr 400 ''invalid_top_up_amount'')
     else if max_top_up_usdc < i then Inl (TopUpRequestErr 400 ''top_up_exceeds_cap'') else Inr i)"
  by (simp add: parseTopUpAmountUsdc_def)

lemma parse_top_up_Inr: "parseTopUpAmountUsdc v = Inr i \<Longrightarrow> 1 \<le> i \<and> i \<le> max_top_up_usdc"
  by (auto simp: parseTopUpAmountUsdc_def Let_def not_less split: if_splits elim!: is_integerE)

lemma atomic_amount: "1 \<le> i \<Longrightarrow> i \<le> max_top_up_usdc \<Longrightarrow> topUpAmountAtomic (Num i) = Inr (show_nat (nat (i * 1000000)))"
  by (simp add: topUpAmountAtomic_def parse_top_up_Num show_int_def usdc_atomic_multiplier_def)

lemma tus_create_Inr:
  assumes "tus_create a p n c ttl now id' s = (Inr q, s')"
  obtains i where "parseTopUpAmountUsdc (JNum a) = Inr i"
    "q = \<lparr> tuq_id = id', tuq_payTo = trim p, tuq_network = trim n, tuq_asset = trim c, tuq_amountUsdc = i,
       tuq_amountAtomic = show_nat (nat (i * 1000000)),
       tuq_expiresAt = now + (case ttl of None \<Rightarrow> default_top_up_ttl_ms | Some t \<Rightarrow> t),
       tuq_resourcePath = ''/api/v1/paid-top-ups/'' @ id' \<rparr>"
    "trim p \<noteq> []" "trim n \<noteq> []" "trim c \<noteq> []" "s' = AList.update id' q s"
proof (cases "parseTopUpAmountUsdc (JNum a)")
  case (Inr i)
  note b = parse_top_up_Inr [OF Inr]
  with assms that Inr show ?thesis
    by (auto simp: tus_create_def pbind_def plift_def praise_def pmod_def pret_def Let_def atomic_amount split: if_splits)
qed (use assms in \<open>auto simp: tus_create_def pbind_def plift_def\<close>)

text \<open>The store as a fence: a quote stays payable until it expires.\<close>

definition tus_holds :: "top_up_quote \<Rightarrow> top_up_store \<Rightarrow> string \<Rightarrow> int \<Rightarrow> bool" where
  "tus_holds q s id' t \<longleftrightarrow> tus_get id' s = Some q \<and> t < tuq_expiresAt q"

datatype top_up_op =
    OpCreate jnum string string string "int option" string
  | OpDelete string
  | OpPruneQuotes

fun run_top_up_op :: "top_up_op \<Rightarrow> int \<Rightarrow> top_up_store \<Rightarrow> top_up_store" where
  "run_top_up_op (OpCreate a p n c ttl id') now s = snd (tus_create a p n c ttl now id' s)"
| "run_top_up_op (OpDelete id') now s = tus_delete id' s"
| "run_top_up_op OpPruneQuotes now s = tus_prune now s"

fun top_up_op_releases :: "top_up_op \<Rightarrow> string \<Rightarrow> bool" where
  "top_up_op_releases (OpCreate a p n c ttl id') k = (id' = k)"
| "top_up_op_releases (OpDelete id') k = (id' = k)"
| "top_up_op_releases OpPruneQuotes k = False"

lemma tus_create_store:
  "snd (tus_create a p n c ttl now id' s) = s \<or> (\<exists>q. snd (tus_create a p n c ttl now id' s) = AList.update id' q s)"
proof (cases "fst (tus_create a p n c ttl now id' s)")
  case (Inl e)
  then show ?thesis
    by (cases "parseTopUpAmountUsdc (JNum a)"; cases "topUpAmountAtomic (Num (projr (parseTopUpAmountUsdc (JNum a))))")
      (auto simp: tus_create_def pbind_def plift_def praise_def pmod_def pret_def Let_def)
next
  case (Inr q)
  then have "tus_create a p n c ttl now id' s = (Inr q, snd (tus_create a p n c ttl now id' s))"
    by (metis prod.collapse)
  then show ?thesis by (elim tus_create_Inr) blast
qed

interpretation top_up_fence: timed_fence "tus_holds q" run_top_up_op top_up_op_releases "\<lambda>s. distinct (map fst s)" for q
proof unfold_locales
  fix s k t now op
  assume d: "distinct (map fst s)" and h: "tus_holds q s k t" and now: "now \<le> t" and r: "\<not> top_up_op_releases op k"
  from h have q: "map_of s k = Some q" "t < tuq_expiresAt q"
    by (auto simp: tus_holds_def tus_get_def)
  have "map_of (run_top_up_op op now s) k = Some q"
  proof (cases op)
    case (OpCreate a p n c ttl id')
    with q r show ?thesis
      using tus_create_store [of a p n c ttl now id' s] by (auto simp del: map_of_eq_Some_iff)
  qed (use q now r d in \<open>auto simp: tus_delete_def tus_prune_def map_of_keep_entries simp del: map_of_eq_Some_iff\<close>)
  with q show "tus_holds q (run_top_up_op op now s) k t"
    by (auto simp: tus_holds_def tus_get_def)
next
  fix s op now
  assume d: "distinct (map fst (s :: top_up_store))"
  show "distinct (map fst (run_top_up_op op now s))"
  proof (cases op)
    case (OpCreate a p n c ttl id')
    with d show ?thesis
      using tus_create_store [of a p n c ttl now id' s] by (auto simp: distinct_update)
  qed (use d in \<open>auto simp: tus_delete_def tus_prune_def distinct_keep_entries distinct_delete\<close>)
qed

section \<open>Properties\<close>

text \<open>C30: A quote is created only for a whole number of USDC from 1 to 1000 and a configured recipient;
  its atomic amount is that number times a million and it lives for the given time. Until it expires
  exactly this quote is returned under its id, whatever quotes are created under other ids, pruned or
  deleted in the meantime.\<close>

theorem top_up_quote_kept_until_expiry:
  assumes "tus_create a p n c ttl now id' s = (Inr q, s')" "distinct (map fst s)"
    and "\<And>op u. (op, u) \<in> set tr \<Longrightarrow> u \<le> t \<and> \<not> top_up_op_releases op id'" "t < tuq_expiresAt q"
  shows "1 \<le> tuq_amountUsdc q \<and> tuq_amountUsdc q \<le> 1000 \<and> a = Num (tuq_amountUsdc q)
    \<and> int (dec_value (tuq_amountAtomic q)) = 1000000 * tuq_amountUsdc q
    \<and> tuq_payTo q = trim p \<and> trim p \<noteq> [] \<and> tuq_network q = trim n \<and> tuq_asset q = trim c \<and> tuq_id q = id'
    \<and> tuq_expiresAt q = now + (case ttl of None \<Rightarrow> 5 * 60000 | Some ms \<Rightarrow> ms)
    \<and> tus_get id' s' = Some q
    \<and> tus_get id' (top_up_fence.run_all tr s') = Some q"
proof -
  obtain i where i: "parseTopUpAmountUsdc (JNum a) = Inr i" "tuq_amountUsdc q = i"
    "tuq_amountAtomic q = show_nat (nat (i * 1000000))" "s' = AList.update id' q s" "tuq_payTo q = trim p" "trim p \<noteq> []" "tuq_network q = trim n" "tuq_asset q = trim c"
    "tuq_id q = id'" "tuq_expiresAt q = now + (case ttl of None \<Rightarrow> 5 * 60000 | Some ms \<Rightarrow> ms)"
    by (rule tus_create_Inr [OF assms(1)], rule that, assumption) (simp_all add: default_top_up_ttl_ms_def split: option.split)
  have b: "1 \<le> i" "i \<le> 1000" using parse_top_up_Inr [OF i(1)] by (simp_all add: max_top_up_usdc_def)
  have a: "a = Num i"
    using i(1) by (auto simp: parseTopUpAmountUsdc_def split: if_splits elim!: is_integerE)
  have g: "tus_get id' s' = Some q" using i(4) by (simp add: tus_get_def)
  with assms(4) have "tus_holds q s' id' t" by (simp add: tus_holds_def)
  moreover have "distinct (map fst s')" using assms(2) i(4) by (simp add: distinct_update)
  ultimately have "tus_holds q (top_up_fence.run_all tr s') id' t"
    using assms(3) by (intro top_up_fence.held_run_all) auto
  with a b g i show ?thesis by (auto simp: tus_holds_def)
qed

definition demo_top_up :: top_up_quote where
  "demo_top_up = \<lparr> tuq_id = ''t1'', tuq_payTo = ''recv'', tuq_network = ''net'', tuq_asset = ''usdc'',
     tuq_amountUsdc = 5, tuq_amountAtomic = ''5000000'', tuq_expiresAt = 301000,
     tuq_resourcePath = ''/api/v1/paid-top-ups/t1'' \<rparr>"

lemma demo_quote:
  "tus_create (Num 5) ''recv'' '' net'' ''usdc'' None 1000 ''t1'' [] = (Inr demo_top_up, [(''t1'', demo_top_up)])"
proof -
  have "dec_value ''5000000'' = 5000000" by (simp add: dec_value_def digit_value_def)
  moreover have "re_positive ''5000000''" by code_simp
  ultimately have "show_int 5000000 = ''5000000''"
    using show_nat_dec_value [of "''5000000''"] by (simp add: show_int_def)
  moreover have "trim ''recv'' = ''recv''" "trim '' net'' = ''net''" "trim ''usdc'' = ''usdc''" by code_simp+
  ultimately show ?thesis
    by (simp add: tus_create_def pbind_def plift_def parse_top_up_Num topUpAmountAtomic_def max_top_up_usdc_def
        usdc_atomic_multiplier_def pmod_def pret_def default_top_up_ttl_ms_def Let_def demo_top_up_def)
qed

theorem top_up_quote_kept_until_expiry_witness:
  "tus_get ''t1'' (top_up_fence.run_all [(OpCreate (Num 7) ''r'' ''n'' ''u'' None ''t2'', 2000), (OpPruneQuotes, 300999)]
     [(''t1'', demo_top_up)]) = Some demo_top_up"
proof -
  let ?tr = "[(OpCreate (Num 7) ''r'' ''n'' ''u'' None ''t2'', 2000), (OpPruneQuotes, 300999 :: int)]"
  have p: "\<And>op u. (op, u) \<in> set ?tr \<Longrightarrow> u \<le> 300999 \<and> \<not> top_up_op_releases op ''t1''"
    by auto
  have e: "300999 < tuq_expiresAt demo_top_up" by (simp add: demo_top_up_def)
  from top_up_quote_kept_until_expiry [where tr = ?tr, OF demo_quote _ p e] show ?thesis
    by (simp del: top_up_fence.run_all.simps)
qed

text \<open>A deposit is recorded exactly when the settlement is not a failure, names a transaction and a
  payer other than the recipient, and does not drift from the quote in network or amount; it then
  carries the quote's recipient, network, asset and amount and the settlement's transaction.\<close>

theorem top_up_deposit_matches_quote:
  "topUpDepositFromSettlement q st = Inr d \<longleftrightarrow>
     ts_success st \<noteq> Some False
     \<and> pd_transactionSignature d = trim (str_or (ts_transaction st) []) \<and> pd_transactionSignature d \<noteq> []
     \<and> pd_payer d = trim (str_or (ts_payer st) []) \<and> pd_payer d \<notin> {[], tuq_payTo q}
     \<and> ts_network st \<in> {None, Some [], Some (tuq_network q)}
     \<and> trim (str_or (ts_amount st) (tuq_amountAtomic q)) = tuq_amountAtomic q
     \<and> pd_payTo d = tuq_payTo q \<and> pd_network d = tuq_network q \<and> pd_asset d = tuq_asset q
     \<and> pd_amountAtomic d = tuq_amountAtomic q"
  by (cases d; cases "ts_network st") (auto simp: topUpDepositFromSettlement_def Let_def truthy_def)

end
