(* ===== verification/Gateway_Top_Up.thy ===== *)
theory Gateway_Top_Up
  imports Gateway Top_Up
begin

text \<open>
  The standalone prepaid top-up of \<open>payment-gateway/src/main.ts\<close>: its own x402 hooks over its own
  quotes, fence, tracker and pending deposits, and the two routes around them. A top-up has no attempt
  in the ledger: after the transfer is final it is credited by one deposit request. The world of a
  procedure is the top-up's state beside everything outside, as in \<open>Gateway\<close>.
\<close>

section \<open>State and services\<close>

text \<open>\<open>topUpQuotes\<close>, \<open>topUpReplayGuard\<close>, \<open>topUpVerifiedAttempts\<close>, \<open>topUpAttemptPayers\<close> and
  \<open>pendingTopUpDeposits\<close>.\<close>

record top_up_state =
  tu_quotes :: top_up_store
  tu_guard :: replay_guard
  tu_tracker :: "top_up_quote tracker"
  tu_payers :: "(string \<times> string) list"
  tu_pending :: "(string \<times> prepaid_deposit) list"

definition top_up_start :: top_up_state where
  "top_up_start = \<lparr> tu_quotes = [], tu_guard = [], tu_tracker = tracker_empty, tu_payers = [], tu_pending = [] \<rparr>"

text \<open>\<open>tx_deposit\<close> posts to \<open>/api/v1/prepaid/deposits\<close> through \<open>internalJson\<close>.\<close>

record 'w top_up_services =
  tx_now :: "('w, int) proc"
  tx_monotonic :: "('w, int) proc"
  tx_sleep :: "int \<Rightarrow> ('w, unit) proc"
  tx_deposit :: "prepaid_deposit \<Rightarrow> ('w, unit) proc"
  tx_facilitator :: "hook_context \<Rightarrow> ('w, settle_response) proc"
  tx_rpcs :: "'w solana_rpc list"

definition in_top_up :: "(top_up_state \<Rightarrow> top_up_state) \<Rightarrow> (top_up_state \<times> 'h, unit) proc" where
  "in_top_up f = pmod (\<lambda>w. (f (fst w), snd w))"

definition top_up_guard :: "(replay_guard, 'a) proc \<Rightarrow> (top_up_state \<times> 'h, 'a) proc" where
  "top_up_guard m = inside (\<lambda>s. case m (tu_guard s) of (r, g) \<Rightarrow> (r, s\<lparr> tu_guard := g \<rparr>))"

definition top_up_tracker :: "(top_up_quote tracker, 'a) proc \<Rightarrow> (top_up_state \<times> 'h, 'a) proc" where
  "top_up_tracker m = inside (\<lambda>s. case m (tu_tracker s) of (r, t) \<Rightarrow> (r, s\<lparr> tu_tracker := t \<rparr>))"

section \<open>Routes\<close>

definition topUpIdentityFromPath :: "(string \<Rightarrow> string option) \<Rightarrow> string \<Rightarrow> payment_route_identity outcome" where
  "topUpIdentityFromPath url_pathname path =
     rbind
       (if starts_with ''http'' path then of_opt (Err ''Invalid URL'') (url_pathname path)
        else Inr (takeWhile (\<lambda>c. c \<noteq> CHR ''?'') path)) (\<lambda>pathname.
       case split_at CHR ''/'' pathname of
         [e, api, v1, kind, a] \<Rightarrow>
           if e = [] \<and> api = ''api'' \<and> v1 = ''v1'' \<and> kind = ''paid-top-ups'' \<and> a \<noteq> [] then
             rbind (decode_segment a) (\<lambda>quoteId.
               require (quoteId \<noteq> []) (Err ''prepaid top-up quote id is required'')
                 (Inr (TopUp quoteId (''topup'' @ [nul] @ quoteId))))
           else Inl (Err ''invalid prepaid top-up resource path'')
       | _ \<Rightarrow> Inl (Err ''invalid prepaid top-up resource path''))"

definition topUpIdentityFromPaymentHook :: "gateway_config \<Rightarrow> hook_context \<Rightarrow> payment_route_identity outcome" where
  "topUpIdentityFromPaymentHook cfg context =
     topUpIdentityFromPath (gc_url_pathname cfg) (str_or (hk_requestPath context) (str_or (hk_resourceUrl context) []))"

text \<open>The route that prepares a quote; \<open>amount\<close> is \<open>body?.amountUsdc\<close>, and the answer of a failure is
  its status and code.\<close>

definition prepareTopUp ::
    "gateway_config \<Rightarrow> string \<Rightarrow> string \<Rightarrow> int \<Rightarrow> json \<Rightarrow> int \<Rightarrow> string
     \<Rightarrow> top_up_store \<Rightarrow> (nat \<times> string + top_up_quote) \<times> top_up_store" where
  "prepareTopUp cfg bundleReceiver topUpAsset topUpQuoteTtlMs amount now id' s =
     (if bundleReceiver = [] then (Inl (503, ''top_up_unavailable''), s)
      else case pbind (plift (parseTopUpAmountUsdc amount)) (\<lambda>amountUsdc.
          tus_create (Num amountUsdc) bundleReceiver (gc_network cfg) topUpAsset (Some topUpQuoteTtlMs) now id') s of
        (Inr quote, s') \<Rightarrow> (Inr quote, s')
      | (Inl (TopUpRequestErr status code), s') \<Rightarrow> (Inl (status, code), s')
      | (Inl _, s') \<Rightarrow> (Inl (502, ''gateway_error''), s'))"

section \<open>The quote of a top-up\<close>

definition top_up_payment_state :: "top_up_quote \<Rightarrow> payment_quote_state" where
  "top_up_payment_state quote =
     \<lparr> pqs_expiresAt = Num (tuq_expiresAt quote), pqs_status = ''quoted'', pqs_requiresPayment = Some True \<rparr>"

definition getTopUpQuoteForIdentity ::
    "(top_up_state \<times> 'h) top_up_services \<Rightarrow> payment_route_identity \<Rightarrow> (top_up_state \<times> 'h, top_up_quote) proc" where
  "getTopUpQuoteForIdentity d identity =
     pbind (tx_now d) (\<lambda>now.
     pbind (top_up_guard (srg_assertNotSettled (pri_key identity) now)) (\<lambda>_.
     pbind (pget (\<lambda>w. tus_get (pri_quoteId identity) (tu_quotes (fst w)))) (\<lambda>found.
       case found of
         None \<Rightarrow> praise (PaymentQuoteErr 409 ''payment_not_payable'')
       | Some quote \<Rightarrow>
           pbind (tx_now d) (\<lambda>now'.
           pbind (plift (assertPaymentQuotePayable (top_up_payment_state quote) now')) (\<lambda>_. pret quote)))))"

text \<open>The handler behind the middleware: the quote of the verified attempt of the route.\<close>

definition topUpStatus ::
    "gateway_config \<Rightarrow> string \<Rightarrow> (top_up_state \<times> 'h, top_up_quote) proc" where
  "topUpStatus cfg id' =
     pbind (plift (topUpIdentityFromPath (gc_url_pathname cfg) (''/api/v1/paid-top-ups/'' @ id'))) (\<lambda>identity.
     pbind (pget (\<lambda>w. trk_forIdentity (tu_tracker (fst w)) (pri_key identity))) (\<lambda>attempt.
       case attempt of
         None \<Rightarrow> praise (PaymentQuoteErr 409 ''payment_not_payable'')
       | Some a \<Rightarrow> pret (vpa_quote a)))"

section \<open>Crediting\<close>

fun permanent :: "js_error \<Rightarrow> bool" where
  "permanent (RustApiErr status _) \<longleftrightarrow> 400 \<le> status \<and> status < 500"
| "permanent _ \<longleftrightarrow> False"

definition drop_deposit :: "string \<Rightarrow> (top_up_state \<times> 'h, unit) proc" where
  "drop_deposit signature = in_top_up (\<lambda>s. s\<lparr> tu_pending := AList.delete signature (tu_pending s) \<rparr>)"

definition keep_deposit :: "prepaid_deposit \<Rightarrow> (top_up_state \<times> 'h, unit) proc" where
  "keep_deposit deposit =
     in_top_up (\<lambda>s. s\<lparr> tu_pending := AList.update (pd_transactionSignature deposit) deposit (tu_pending s) \<rparr>)"

definition creditPrepaidTopUp ::
    "(top_up_state \<times> 'h) top_up_services \<Rightarrow> prepaid_deposit \<Rightarrow> (top_up_state \<times> 'h, unit) proc" where
  "creditPrepaidTopUp d deposit =
     pcatch (pbind (tx_deposit d deposit) (\<lambda>_. drop_deposit (pd_transactionSignature deposit)))
       (\<lambda>e. pbind (if permanent e then drop_deposit (pd_transactionSignature deposit) else keep_deposit deposit)
         (\<lambda>_. praise e))"

definition retry_deposit ::
    "(top_up_state \<times> 'h) top_up_services \<Rightarrow> string \<Rightarrow> (top_up_state \<times> 'h, unit) proc" where
  "retry_deposit d signature =
     pbind (pget (\<lambda>w. map_of (tu_pending (fst w)) signature)) (\<lambda>pending'.
       case pending' of
         None \<Rightarrow> pret ()
       | Some deposit \<Rightarrow>
           pcatch (pbind (tx_deposit d deposit) (\<lambda>_. drop_deposit signature))
             (\<lambda>e. if permanent e then drop_deposit signature else pret ()))"

definition retryPendingTopUpDeposits ::
    "(top_up_state \<times> 'h) top_up_services \<Rightarrow> (top_up_state \<times> 'h, unit) proc" where
  "retryPendingTopUpDeposits d =
     pbind (pget (\<lambda>w. map fst (tu_pending (fst w)))) (\<lambda>signatures. pforM signatures (retry_deposit d))"

section \<open>The hooks\<close>

definition top_up_evidence :: "top_up_quote \<Rightarrow> string \<Rightarrow> string \<Rightarrow> string \<Rightarrow> string \<Rightarrow> int \<Rightarrow> int \<Rightarrow> reconciliation_attempt" where
  "top_up_evidence quote attemptId payer tx blockhash reconcileAfter createdAt =
     \<lparr> ra_settlementKind = ''topup'', ra_quoteId = tuq_id quote, ra_attemptId = attemptId,
       ra_reconcileAfter = Num reconcileAfter, ra_createdAt = Num createdAt, ra_payTo = tuq_payTo quote,
       ra_network = tuq_network quote, ra_asset = tuq_asset quote, ra_amountAtomic = tuq_amountAtomic quote,
       ra_payer = Some payer, ra_signedTransactionBase64 = Some tx, ra_recentBlockhash = Some blockhash,
       ra_absenceObservedAt = None \<rparr>"

definition remember_top_up ::
    "(top_up_state \<times> 'h) top_up_services \<Rightarrow> string \<Rightarrow> payment_route_identity \<Rightarrow> top_up_quote \<Rightarrow> string
     \<Rightarrow> (top_up_state \<times> 'h, unit) proc" where
  "remember_top_up d attemptId identity quote payer =
     pbind (tx_now d) (\<lambda>now.
     pbind (top_up_tracker (trk_remember attemptId identity quote now)) (\<lambda>_.
       in_top_up (\<lambda>s. s\<lparr> tu_payers := AList.update attemptId payer (tu_payers s) \<rparr>)))"

definition verify_top_up ::
    "gateway_config \<Rightarrow> (top_up_state \<times> 'h) top_up_services \<Rightarrow> hook_context \<Rightarrow> string \<Rightarrow> (top_up_state \<times> 'h, unit) proc" where
  "verify_top_up cfg d context payer =
     pbind (plift (attempt_id cfg context)) (\<lambda>attemptId.
     pbind (plift (topUpIdentityFromPaymentHook cfg context)) (\<lambda>identity.
     pbind (getTopUpQuoteForIdentity d identity) (\<lambda>quote.
     pbind (tx_now d) (\<lambda>reconcileAfter.
     pbind (tx_now d) (\<lambda>createdAt.
     pbind (plift (recentBlockhashFromTransaction (gc_lib cfg) (signed_transaction context))) (\<lambda>blockhash.
       let tx = signed_transaction context in
       if \<not> hasExactPreparedPaymentSemantics (gc_lib cfg)
           (top_up_evidence quote attemptId payer tx blockhash reconcileAfter createdAt) (base64_decode tx)
       then praise (PaymentQuoteErr 409 ''payment_not_payable'')
       else remember_top_up d attemptId identity quote payer))))))"

definition topUpOnAfterVerify ::
    "gateway_config \<Rightarrow> (top_up_state \<times> 'h) top_up_services \<Rightarrow> hook_context \<Rightarrow> string option
     \<Rightarrow> (top_up_state \<times> 'h, string option) proc" where
  "topUpOnAfterVerify cfg d context payer =
     (if \<not> truthy payer then pret (Some ''payer_missing'')
      else if payer = Some (hk_payTo context) then pret (Some ''self_payment_not_allowed'')
      else pcatch (pbind (verify_top_up cfg d context (the payer)) (\<lambda>_. pret None))
        (\<lambda>e. pret (Some (abort_reason e))))"

definition forget_top_up :: "string \<Rightarrow> (top_up_state \<times> 'h, unit) proc" where
  "forget_top_up attemptId =
     in_top_up (\<lambda>s. s\<lparr> tu_tracker := trk_forget attemptId (tu_tracker s), tu_payers := AList.delete attemptId (tu_payers s) \<rparr>)"

definition topUpOnVerifiedPaymentCanceled ::
    "gateway_config \<Rightarrow> hook_context \<Rightarrow> (top_up_state \<times> 'h, unit) proc" where
  "topUpOnVerifiedPaymentCanceled cfg context =
     pbind (plift (attempt_id cfg context)) (\<lambda>attemptId. forget_top_up attemptId)"

definition load_top_up ::
    "gateway_config \<Rightarrow> (top_up_state \<times> 'h) top_up_services \<Rightarrow> hook_context
     \<Rightarrow> (top_up_state \<times> 'h, reconciliation_attempt) proc" where
  "load_top_up cfg d context =
     pbind (plift (attempt_id cfg context)) (\<lambda>attemptId.
     pbind (pget (\<lambda>w. (trk_forAttempt (tu_tracker (fst w)) attemptId, map_of (tu_payers (fst w)) attemptId)))
       (\<lambda>(remembered, payer).
       if remembered = None \<or> \<not> truthy payer then praise (Err ''verified top-up attempt is unavailable'')
       else
         pbind (tx_now d) (\<lambda>reconcileAfter.
         pbind (tx_now d) (\<lambda>createdAt.
         pbind (plift (recentBlockhashFromTransaction (gc_lib cfg) (signed_transaction context))) (\<lambda>blockhash.
           pret (top_up_evidence (vpa_quote (the remembered)) attemptId (the payer) (signed_transaction context)
             blockhash reconcileAfter createdAt))))))"

definition topUpOnBeforeSettle ::
    "gateway_config \<Rightarrow> (top_up_state \<times> 'h) top_up_services \<Rightarrow> hook_context \<Rightarrow> (top_up_state \<times> 'h, gate_directive) proc" where
  "topUpOnBeforeSettle cfg d context = settleWithIndependentFinality
     \<lparr> gd_settle = tx_facilitator d context, gd_loadAttempt = load_top_up cfg d context,
       gd_network = hk_network context, gd_payTo = hk_payTo context, gd_asset = hk_asset context,
       gd_amount = hk_amount context, gd_rpcs = tx_rpcs d, gd_expectedNetwork = gc_network cfg,
       gd_timeoutMs = gc_finalityTimeoutMs cfg, gd_pollIntervalMs = gc_pollIntervalMs cfg,
       gd_nowMs = tx_monotonic d, gd_sleep = tx_sleep d,
       gd_verifySignature = (\<lambda>attempt signature rpc expectedNetwork. pbind (tx_now d) (\<lambda>now.
         verifyExactFinalizedSettlementSignature (gc_lib cfg) attempt signature rpc expectedNetwork now)) \<rparr>"

definition top_up_result :: "settle_response \<Rightarrow> top_up_settlement" where
  "top_up_result result =
     \<lparr> ts_success = Some (sr_success result), ts_transaction = Some (sr_transaction result), ts_payer = sr_payer result,
       ts_network = Some (sr_network result), ts_amount = sr_amount result \<rparr>"

fun is_top_up :: "payment_route_identity \<Rightarrow> bool" where
  "is_top_up (TopUp _ _) = True"
| "is_top_up _ = False"

text \<open>The inner \<open>try\<close> never throws, so its \<open>finally\<close> comes next.\<close>

definition topUpOnAfterSettle ::
    "gateway_config \<Rightarrow> (top_up_state \<times> 'h) top_up_services \<Rightarrow> hook_context \<Rightarrow> settle_response
     \<Rightarrow> (top_up_state \<times> 'h, unit) proc" where
  "topUpOnAfterSettle cfg d context result =
     (if \<not> sr_success result \<or> \<not> truthy (sr_payer result) then pret ()
      else pbind (plift (attempt_id cfg context)) (\<lambda>attemptId.
        pbind (pget (\<lambda>w. trk_forAttempt (tu_tracker (fst w)) attemptId)) (\<lambda>attempt.
        case attempt of
          None \<Rightarrow> pret ()
        | Some a \<Rightarrow>
            if \<not> is_top_up (vpa_identity a) then pret ()
            else
              pbind (tx_now d) (\<lambda>now.
              pbind (top_up_guard (pmod (srg_markSettled (pri_key (vpa_identity a)) (Num (tuq_expiresAt (vpa_quote a))) now))) (\<lambda>_.
              pbind (pcatch (pbind (plift (topUpDepositFromSettlement (vpa_quote a) (top_up_result result)))
                  (\<lambda>deposit. creditPrepaidTopUp d deposit)) (\<lambda>_. pret ())) (\<lambda>_.
              pbind (forget_top_up attemptId) (\<lambda>_.
                in_top_up (\<lambda>s. s\<lparr> tu_quotes := tus_delete (tuq_id (vpa_quote a)) (tu_quotes s) \<rparr>))))))))"

text \<open>The pruning timer.\<close>

definition prune_top_up :: "(top_up_state \<times> 'h) top_up_services \<Rightarrow> (top_up_state \<times> 'h, unit) proc" where
  "prune_top_up d =
     pbind (tx_now d) (\<lambda>now. pbind (top_up_guard (pmod (srg_prune now))) (\<lambda>_.
     pbind (tx_now d) (\<lambda>now'. pbind (top_up_tracker (pmod (trk_prune now'))) (\<lambda>_.
     pbind (tx_now d) (\<lambda>now''. in_top_up (\<lambda>s. s\<lparr> tu_quotes := tus_prune now'' (tu_quotes s) \<rparr>))))))"

end
