(* ===== verification/Browser_Policy.thy ===== *)
theory Browser_Policy
  imports Gateway_Top_Up "HOL-Library.Countable"
begin

text \<open>
  What the browser checks before its wallet signs: \<open>src/lib/exactPaymentPolicy.ts\<close> (the quotes it
  accepts and the requirements it lets the x402 client pay), \<open>src/lib/svmComputeBudget.ts\<close> (the
  compute budget it raises before signing), \<open>src/lib/browserPaymentConfig.ts\<close> and
  \<open>src/lib/agentActionPolicy.ts\<close>; and the terms the gateway's routes offer. A quote is the parsed
  JSON of a response.
\<close>

section \<open>The quote of a research bundle\<close>

text \<open>\<open>===\<close> between values of two different responses: two objects are never the same.\<close>

definition strictly_equal :: "json \<Rightarrow> json \<Rightarrow> bool" where
  "strictly_equal v w =
     (case v of JArr _ \<Rightarrow> False | JObj _ \<Rightarrow> False | JNum x \<Rightarrow> x \<noteq> NaN \<and> w = JNum x | _ \<Rightarrow> v = w)"

definition bundle_scalar_fields :: "string list" where
  "bundle_scalar_fields = [''id'', ''queryId'', ''payTo'', ''network'', ''asset'', ''amountAtomic'', ''budgetAtomic'',
     ''minimumDepositAtomic'', ''totalPriceKrw'', ''krwPerUsdc'', ''expiresAt'', ''resourcePath'', ''bundleHash'']"

definition canonicalAtomic :: "json \<Rightarrow> bool \<Rightarrow> int option" where
  "canonicalAtomic v positive =
     (case v of
        JStr s \<Rightarrow>
          if \<not> re_decimal s then None
          else if positive \<and> dec_value s = 0 then None else Some (int (dec_value s))
      | _ \<Rightarrow> None)"

text \<open>An array of strings as a list; \<open>JSON.stringify\<close> distinguishes two such lists.\<close>

definition string_items :: "json \<Rightarrow> string list option" where
  "string_items v =
     (case v of JArr vs \<Rightarrow> if list_all (\<lambda>v. as_str v \<noteq> None) vs then Some (map (the \<circ> as_str) vs) else None | _ \<Rightarrow> None)"

definition nonempty_string :: "json \<Rightarrow> bool" where
  "nonempty_string v = (case v of JStr s \<Rightarrow> s \<noteq> [] | _ \<Rightarrow> False)"

definition json_less :: "json \<Rightarrow> jnum \<Rightarrow> bool" where
  "json_less v n = (case v of JNum x \<Rightarrow> jlt x n | _ \<Rightarrow> False)"

definition json_at_most :: "json \<Rightarrow> jnum \<Rightarrow> bool" where
  "json_at_most v n = (case v of JNum x \<Rightarrow> jle x n | _ \<Rightarrow> False)"

definition non_payable_states :: "string list" where
  "non_payable_states = [''settling'', ''funded'', ''processing'', ''payment_in_progress'', ''payment_reconciliation'',
     ''completed'', ''refund_pending'', ''balance_refunded'']"

definition same_documents :: "json \<Rightarrow> json \<Rightarrow> string \<Rightarrow> string list \<Rightarrow> bool" where
  "same_documents gateway canonical queryId documentHandles \<longleftrightarrow>
     string_items (prop_of gateway ''documentHandles'') = Some documentHandles
     \<and> string_items (prop_of canonical ''documentHandles'') = Some documentHandles
     \<and> prop_of canonical ''queryId'' = JStr queryId"

definition canonical_well_formed :: "json \<Rightarrow> bool" where
  "canonical_well_formed canonical \<longleftrightarrow>
     canonicalAtomic (prop_of canonical ''amountAtomic'') False \<noteq> None
     \<and> canonicalAtomic (prop_of canonical ''budgetAtomic'') True \<noteq> None
     \<and> canonicalAtomic (prop_of canonical ''minimumDepositAtomic'') False \<noteq> None
     \<and> canonicalAtomic (prop_of canonical ''availableBalanceAtomic'') False \<noteq> None
     \<and> nonempty_string (prop_of canonical ''id'') \<and> nonempty_string (prop_of canonical ''payTo'')
     \<and> nonempty_string (prop_of canonical ''network'') \<and> nonempty_string (prop_of canonical ''asset'')
     \<and> nonempty_string (prop_of canonical ''bundleHash'')
     \<and> json_safe_integer (prop_of canonical ''totalPriceKrw'') \<and> \<not> json_less (prop_of canonical ''totalPriceKrw'') (Num 0)
     \<and> json_safe_integer (prop_of canonical ''krwPerUsdc'') \<and> \<not> json_at_most (prop_of canonical ''krwPerUsdc'') (Num 0)
     \<and> json_safe_integer (prop_of canonical ''expiresAt'')
     \<and> prop_of canonical ''resourcePath'' = JStr (''/api/v1/paid-bundles/'' @ str_or (as_str (prop_of canonical ''id'')) [])"

definition exactResearchBundleQuote :: "json \<Rightarrow> json \<Rightarrow> string \<Rightarrow> string list \<Rightarrow> string \<Rightarrow> int \<Rightarrow> json outcome" where
  "exactResearchBundleQuote gateway canonical queryId documentHandles preferredTopUpAtomic nowMs =
     (case canonicalAtomic (JStr preferredTopUpAtomic) False of
        None \<Rightarrow> Inl (Err ''The research payment quote is malformed.'')
      | Some preferredTopUp \<Rightarrow>
          if \<not> json_truthy gateway \<or> \<not> json_truthy canonical \<or> preferredTopUp = 0
          then Inl (Err ''The research payment quote is malformed.'')
          else if \<not> list_all (\<lambda>field. strictly_equal (prop_of gateway field) (prop_of canonical field)) bundle_scalar_fields
          then Inl (Err ''The payment gateway quote does not match the canonical ledger quote.'')
          else if \<not> same_documents gateway canonical queryId documentHandles
          then Inl (Err ''The research payment quote does not match the requested documents.'')
          else if \<not> canonical_well_formed canonical
          then Inl (Err ''The canonical research payment quote is malformed.'')
          else
            let amount = the (canonicalAtomic (prop_of canonical ''amountAtomic'') False);
                minimumDeposit = the (canonicalAtomic (prop_of canonical ''minimumDepositAtomic'') False);
                permittedTopUp = (if minimumDeposit < preferredTopUp then preferredTopUp else minimumDeposit) in
            if prop_of canonical ''requiresPayment'' = JBool True then
              if prop_of canonical ''status'' \<noteq> JStr ''quoted'' \<or> amount = 0 \<or> minimumDeposit = 0
                 \<or> amount \<noteq> permittedTopUp \<or> json_at_most (prop_of canonical ''expiresAt'') (Num nowMs)
              then Inl (Err ''The canonical research refill exceeds the requested funding contract.'')
              else Inr canonical
            else if js_string (prop_of canonical ''status'') \<notin> Some ` set non_payable_states
            then Inl (Err ''A non-payable research quote has inconsistent funding state.'')
            else Inr canonical)"

section \<open>The quote of a top-up\<close>

record exact_browser_quote =
  ebq_id :: string
  ebq_network :: string
  ebq_asset :: string
  ebq_amountAtomic :: string
  ebq_payTo :: string

record exact_top_up_quote = exact_browser_quote +
  etq_expiresAt :: int
  etq_status :: string
  etq_resourcePath :: string

definition exactTopUpQuote :: "json \<Rightarrow> int \<Rightarrow> exact_top_up_quote outcome" where
  "exactTopUpQuote quote now =
     (case (prop_of quote ''id'', prop_of quote ''payTo'', prop_of quote ''network'', prop_of quote ''asset'',
            prop_of quote ''amountAtomic'', prop_of quote ''resourcePath'') of
        (JStr id', JStr payTo, JStr network, JStr asset, JStr amountAtomic, JStr resourcePath) \<Rightarrow>
          if id' = [] \<or> payTo = [] \<or> network = [] \<or> asset = [] \<or> \<not> re_positive amountAtomic
             \<or> resourcePath \<noteq> ''/api/v1/paid-top-ups/'' @ id' \<or> prop_of quote ''status'' \<noteq> JStr ''quoted''
             \<or> \<not> json_safe_integer (prop_of quote ''expiresAt'') \<or> json_at_most (prop_of quote ''expiresAt'') (Num now)
          then Inl (Err ''The prepaid top-up quote is malformed.'')
          else Inr \<lparr> ebq_id = id', ebq_network = network, ebq_asset = asset, ebq_amountAtomic = amountAtomic,
            ebq_payTo = payTo, etq_expiresAt = json_int (prop_of quote ''expiresAt''), etq_status = ''quoted'',
            etq_resourcePath = resourcePath \<rparr>
      | _ \<Rightarrow> Inl (Err ''The prepaid top-up quote is malformed.''))"

section \<open>The requirements a wallet may pay\<close>

definition payable_requirement :: "string \<Rightarrow> 'q exact_browser_quote_scheme \<Rightarrow> json \<Rightarrow> bool" where
  "payable_requirement memo quote requirement \<longleftrightarrow>
     prop_of requirement ''scheme'' = JStr ''exact''
     \<and> prop_of requirement ''network'' = JStr (ebq_network quote)
     \<and> prop_of requirement ''asset'' = JStr (ebq_asset quote)
     \<and> prop_of requirement ''amount'' = JStr (ebq_amountAtomic quote)
     \<and> prop_of requirement ''payTo'' = JStr (ebq_payTo quote)
     \<and> json_safe_integer (prop_of requirement ''maxTimeoutSeconds'')
     \<and> \<not> json_at_most (prop_of requirement ''maxTimeoutSeconds'') (Num 0)
     \<and> json_at_most (prop_of requirement ''maxTimeoutSeconds'') (Num 60)
     \<and> prop_of (prop_of requirement ''extra'') ''memo'' = JStr memo"

text \<open>The policy as a function; reading a property of \<open>null\<close> throws.\<close>

definition exactQuotePaymentPolicy ::
    "string \<Rightarrow> 'q exact_browser_quote_scheme \<Rightarrow> (json list \<Rightarrow> json list outcome) outcome" where
  "exactQuotePaymentPolicy kind quote =
     (if ebq_id quote = [] \<or> \<not> re_positive (ebq_amountAtomic quote) \<or> ebq_network quote = [] \<or> ebq_asset quote = []
         \<or> ebq_payTo quote = []
      then Inl (Err ''The durable quote is not safe for wallet approval.'')
      else
        let memo = ''openshelf:v1:'' @ kind @ '':'' @ ebq_id quote in
        Inr (\<lambda>requirements.
          if JNull \<in> set requirements \<or> JUndef \<in> set requirements then Inl (Err ''Cannot read properties of null'')
          else Inr (filter (payable_requirement memo quote) requirements)))"

section \<open>The terms the gateway offers\<close>

text \<open>What the configuration of a paid route tells the x402 middleware, which puts it in the
  requirements of its 402 response: \<open>carries_terms\<close>.\<close>

record paid_terms =
  pt_scheme :: string
  pt_network :: string
  pt_payTo :: string
  pt_asset :: string
  pt_amount :: string
  pt_memo :: string
  pt_maxTimeoutSeconds :: int

definition carries_terms :: "json \<Rightarrow> paid_terms \<Rightarrow> bool" where
  "carries_terms requirement terms \<longleftrightarrow>
     prop_of requirement ''scheme'' = JStr (pt_scheme terms)
     \<and> prop_of requirement ''network'' = JStr (pt_network terms)
     \<and> prop_of requirement ''payTo'' = JStr (pt_payTo terms)
     \<and> prop_of requirement ''asset'' = JStr (pt_asset terms)
     \<and> prop_of requirement ''amount'' = JStr (pt_amount terms)
     \<and> prop_of requirement ''maxTimeoutSeconds'' = JNum (Num (pt_maxTimeoutSeconds terms))
     \<and> prop_of (prop_of requirement ''extra'') ''memo'' = JStr (pt_memo terms)"

definition topUpTerms ::
    "gateway_config \<Rightarrow> (top_up_state \<times> 'h) top_up_services \<Rightarrow> string \<Rightarrow> (top_up_state \<times> 'h, paid_terms) proc" where
  "topUpTerms cfg d path =
     pbind (pbind (plift (topUpIdentityFromPath (gc_url_pathname cfg) path)) (getTopUpQuoteForIdentity d)) (\<lambda>payToQuote.
     pbind (plift (topUpIdentityFromPath (gc_url_pathname cfg) path)) (\<lambda>identity.
     pbind (getTopUpQuoteForIdentity d identity) (\<lambda>quote.
     pbind (plift (paymentMemo identity (tuq_id quote))) (\<lambda>memo.
       pret \<lparr> pt_scheme = ''exact'', pt_network = gc_network cfg, pt_payTo = tuq_payTo payToQuote,
         pt_asset = tuq_asset quote, pt_amount = tuq_amountAtomic quote, pt_memo = memo, pt_maxTimeoutSeconds = 60 \<rparr>))))"

text \<open>The routes of documents, quotes, bundles and open calls; the two callbacks load the quote one
  after the other.\<close>

definition paidTerms ::
    "gateway_config \<Rightarrow> (gateway_state \<times> 'h) gateway_services \<Rightarrow> string \<Rightarrow> (gateway_state \<times> 'h, paid_terms) proc" where
  "paidTerms cfg d path =
     pbind (pbind (plift (paymentIdentityFromPath (gc_url_pathname cfg) path)) (getQuote cfg d)) (\<lambda>payToQuote.
     pbind (plift (paymentIdentityFromPath (gc_url_pathname cfg) path)) (\<lambda>identity.
     pbind (getQuote cfg d identity) (\<lambda>quote.
     pbind (plift (paymentMemo identity (pyq_id quote))) (\<lambda>memo.
       pret \<lparr> pt_scheme = ''exact'', pt_network = gc_network cfg, pt_payTo = pyq_payTo payToQuote,
         pt_asset = pyq_asset quote, pt_amount = pyq_amountAtomic quote, pt_memo = memo, pt_maxTimeoutSeconds = 60 \<rparr>))))"

text \<open>The quote as \<open>response.json\<close> writes it.\<close>

definition top_up_quote_json :: "top_up_quote \<Rightarrow> json" where
  "top_up_quote_json quote =
     JObj [(''id'', JStr (tuq_id quote)), (''payTo'', JStr (tuq_payTo quote)), (''network'', JStr (tuq_network quote)),
       (''asset'', JStr (tuq_asset quote)), (''amountUsdc'', JNum (Num (tuq_amountUsdc quote))),
       (''amountAtomic'', JStr (tuq_amountAtomic quote)), (''expiresAt'', JNum (Num (tuq_expiresAt quote))),
       (''status'', JStr ''quoted''), (''requiresPayment'', JBool True), (''resourcePath'', JStr (tuq_resourcePath quote))]"

section \<open>The compute budget\<close>

text \<open>A compiled message and a transaction of \<open>@solana/kit\<close>, with the fields that are only passed on
  left open; the decoder and the encoder are parameters, the decoder's failure is its exception.\<close>

record compiled_instruction =
  ci_programAddressIndex :: nat
  ci_accountIndices :: "nat list"
  ci_data :: "bytes option"

record compiled_message =
  cm_staticAccounts :: "string list"
  cm_instructions :: "compiled_instruction list"

record kit_transaction =
  kt_messageBytes :: bytes
  kt_signatures :: "(string \<times> bytes option) list"

record 'm message_codec =
  mc_decode :: "bytes \<Rightarrow> 'm compiled_message_scheme option"
  mc_encode :: "'m compiled_message_scheme \<Rightarrow> bytes"

definition x402_compute_unit_limit :: int where
  "x402_compute_unit_limit = 50000"

definition is_unit_limit :: "nat \<Rightarrow> compiled_instruction \<Rightarrow> bool" where
  "is_unit_limit programIndex ci \<longleftrightarrow>
     ci_programAddressIndex ci = programIndex \<and> (\<exists>data. ci_data ci = Some data \<and> length data = 5 \<and> data ! 0 = 2)"

definition current_units :: "compiled_instruction \<Rightarrow> nat" where
  "current_units ci = read_u32_le 1 (the (ci_data ci))"

definition raise_instruction :: "nat \<Rightarrow> nat \<Rightarrow> compiled_instruction \<Rightarrow> compiled_instruction" where
  "raise_instruction programIndex minimumUnits ci =
     (if \<not> is_unit_limit programIndex ci \<or> minimumUnits \<le> current_units ci then ci
      else ci\<lparr> ci_data := Some (take 1 (the (ci_data ci)) @ le_bytes 4 minimumUnits) \<rparr>)"

definition raiseSvmComputeUnitLimit ::
    "'m message_codec \<Rightarrow> 't kit_transaction_scheme \<Rightarrow> jnum \<Rightarrow> 't kit_transaction_scheme outcome" where
  "raiseSvmComputeUnitLimit codec transaction minimumUnits =
     require (is_safe_integer minimumUnits \<and> \<not> jle minimumUnits (Num 0) \<and> \<not> jlt (Num 200000) minimumUnits)
       (Err ''x402 compute-unit limit must be between 1 and 200,000'')
     (require (list_all (\<lambda>(_, signature). signature = None) (kt_signatures transaction))
       (Err ''x402 compute-unit limit must be adjusted before signing'')
     (rbind (of_opt (Err ''invalid message'') (mc_decode codec (kt_messageBytes transaction))) (\<lambda>message.
      rbind (of_opt (Err ''x402 transaction omitted the compute-budget program'')
         (index_of compute_budget_program (cm_staticAccounts message))) (\<lambda>programIndex.
        let limits = filter (is_unit_limit programIndex) (cm_instructions message);
            minimum = nat (jint minimumUnits) in
        if length limits \<noteq> 1 then Inl (Err ''x402 transaction must contain exactly one compute-unit limit'')
        else if list_all (\<lambda>ci. minimum \<le> current_units ci) limits then Inr transaction
        else Inr (transaction\<lparr> kt_messageBytes := mc_encode codec
          (message\<lparr> cm_instructions := map (raise_instruction programIndex minimum) (cm_instructions message) \<rparr>) \<rparr>)))))"

datatype ('w, 't) svm_signer =
    ModifyingSigner "'t kit_transaction_scheme list \<Rightarrow> ('w, 't kit_transaction_scheme list) proc"
  | PartialSigner "'t kit_transaction_scheme list \<Rightarrow> ('w, (string \<times> bytes option) list list) proc"
  | OtherSigner

definition merge_signatures :: "(string \<times> bytes option) list list \<Rightarrow> nat \<Rightarrow> 't kit_transaction_scheme \<Rightarrow> 't kit_transaction_scheme" where
  "merge_signatures signatures i transaction =
     transaction\<lparr> kt_signatures := fold (\<lambda>(k, v). AList.update k v)
       (case nth_opt signatures i of None \<Rightarrow> [] | Some s \<Rightarrow> s) (kt_signatures transaction) \<rparr>"

definition withSufficientSvmComputeBudget ::
    "'m message_codec \<Rightarrow> ('w, 't) svm_signer \<Rightarrow> jnum \<Rightarrow> 't kit_transaction_scheme list
     \<Rightarrow> ('w, 't kit_transaction_scheme list) proc" where
  "withSufficientSvmComputeBudget codec signer minimumUnits transactions =
     pbind (plift (rmap (\<lambda>transaction. raiseSvmComputeUnitLimit codec transaction minimumUnits) transactions)) (\<lambda>adjusted.
       case signer of
         ModifyingSigner sign \<Rightarrow> sign adjusted
       | PartialSigner sign \<Rightarrow> pbind (sign adjusted) (\<lambda>signatures.
           pret (map (\<lambda>(i, transaction). merge_signatures signatures i transaction) (zip [0..<length adjusted] adjusted)))
       | OtherSigner \<Rightarrow> praise (Err ''SVM signer cannot sign an adjusted x402 transaction''))"

section \<open>Configuration and the agent's proposal\<close>

text \<open>\<open>/^(?:0|[1-9][0-9]*)(?:\.[0-9]{1,6})?$/\<close>, split at the point.\<close>

definition decimal_parts :: "string \<Rightarrow> (string \<times> string) option" where
  "decimal_parts raw =
     (let whole = takeWhile (\<lambda>c. c \<noteq> CHR ''.'') raw; rest = dropWhile (\<lambda>c. c \<noteq> CHR ''.'') raw in
      if \<not> re_decimal whole then None
      else if rest = [] then Some (whole, [])
      else if re_digits (tl rest) \<and> length (tl rest) \<le> 6 then Some (whole, tl rest)
      else None)"

definition pad_end :: "nat \<Rightarrow> char \<Rightarrow> string \<Rightarrow> string" where
  "pad_end n c s = s @ replicate (n - length s) c"

definition prepaidTopUpAtomic :: "string option \<Rightarrow> int outcome" where
  "prepaidTopUpAtomic value =
     (case decimal_parts (trim (str_or value ''5'')) of
        None \<Rightarrow> Inl (Err ''VITE_PREPAID_TOPUP_USDC must be a decimal with at most six places.'')
      | Some (whole, fraction) \<Rightarrow>
          let atomic = int (dec_value whole) * 1000000 + int (dec_value (pad_end 6 (CHR ''0'') fraction)) in
          if atomic < 100000 \<or> 1000000000 < atomic
          then Inl (Err ''VITE_PREPAID_TOPUP_USDC must be between 0.1 and 1000 USDC.'')
          else Inr atomic)"

definition krwPerUsdc :: "string option \<Rightarrow> bool \<Rightarrow> int outcome" where
  "krwPerUsdc value managed =
     (let raw = trim (str_or value ''1350'') in
      if \<not> re_positive raw then Inl (Err ''VITE_KRW_PER_USDC must be a positive base-10 integer.'')
      else if 1000000000 < dec_value raw then Inl (Err ''VITE_KRW_PER_USDC is outside the supported range.'')
      else if managed \<and> dec_value raw \<noteq> 1350
      then Inl (Err ''Production VITE_KRW_PER_USDC must match the Rust/Pay.sh rate of 1350.'')
      else Inr (int (dec_value raw)))"

datatype agent_action =
    SearchHumanEvidence
  | RankEvidenceBundle
  | ProposeEvidencePurchase
  | ProposeHybridResearch
  | ProposeOpenCall
  | GenerateGeneralBaseline
  | FinishWithoutPurchase

datatype research_phase = Confirm | Baseline | AskOrder | Declined

record research_branch =
  rb_phase :: research_phase
  rb_generateBaseline :: bool

text \<open>\<open>hit\<close> is \<open>decision === 'hit'\<close>.\<close>

definition branchForAgentAction :: "bool \<Rightarrow> bool \<Rightarrow> agent_action option \<Rightarrow> research_branch" where
  "branchForAgentAction hit aiBaselineEligible nextAction =
     (if hit then
        if nextAction = Some FinishWithoutPurchase then \<lparr> rb_phase = Declined, rb_generateBaseline = False \<rparr>
        else \<lparr> rb_phase = Confirm, rb_generateBaseline = False \<rparr>
      else if nextAction = Some FinishWithoutPurchase then \<lparr> rb_phase = Declined, rb_generateBaseline = False \<rparr>
      else if nextAction = Some GenerateGeneralBaseline then \<lparr> rb_phase = Baseline, rb_generateBaseline = aiBaselineEligible \<rparr>
      else if nextAction = None \<and> aiBaselineEligible then \<lparr> rb_phase = Baseline, rb_generateBaseline = True \<rparr>
      else \<lparr> rb_phase = AskOrder, rb_generateBaseline = aiBaselineEligible \<rparr>)"

section \<open>The gateway's top-up as the browser sees it\<close>

lemma prepareTopUp_Inr:
  assumes "prepareTopUp cfg receiver asset ttl amount now id' s = (Inr quote, s')"
  obtains i where "1 \<le> i" "tuq_id quote = id'" "tuq_payTo quote \<noteq> []" "tuq_network quote = trim (gc_network cfg)"
    "tuq_network quote \<noteq> []" "tuq_asset quote \<noteq> []" "tuq_amountAtomic quote = show_nat (nat (i * 1000000))"
    "tuq_resourcePath quote = ''/api/v1/paid-top-ups/'' @ id'" "tus_get id' s' = Some quote"
proof -
  from assms obtain a where a: "parseTopUpAmountUsdc amount = Inr a"
      "tus_create (Num a) receiver (gc_network cfg) asset (Some ttl) now id' s = (Inr quote, s')"
    by (cases "parseTopUpAmountUsdc amount")
      (auto simp: prepareTopUp_def pbind_def plift_def split: if_splits prod.splits sum.splits js_error.splits)
  from a(2) obtain i where i: "parseTopUpAmountUsdc (JNum (Num a)) = Inr i"
      "quote = \<lparr> tuq_id = id', tuq_payTo = trim receiver, tuq_network = trim (gc_network cfg), tuq_asset = trim asset,
         tuq_amountUsdc = i, tuq_amountAtomic = show_nat (nat (i * 1000000)), tuq_expiresAt = now + ttl,
         tuq_resourcePath = ''/api/v1/paid-top-ups/'' @ id' \<rparr>"
      "trim receiver \<noteq> []" "trim (gc_network cfg) \<noteq> []" "trim asset \<noteq> []" "s' = AList.update id' quote s"
    by (elim tus_create_Inr) simp
  with parse_top_up_Inr [OF i(1)] show ?thesis by (intro that [of i]) (simp_all add: tus_get_def)
qed

lemma top_up_json_accepted:
  assumes "tuq_id quote \<noteq> []" "tuq_payTo quote \<noteq> []" "tuq_network quote \<noteq> []" "tuq_asset quote \<noteq> []"
    and "re_positive (tuq_amountAtomic quote)" "tuq_resourcePath quote = ''/api/v1/paid-top-ups/'' @ tuq_id quote"
    and "now < tuq_expiresAt quote" "\<bar>tuq_expiresAt quote\<bar> \<le> max_safe_integer"
  shows "exactTopUpQuote (top_up_quote_json quote) now =
    Inr \<lparr> ebq_id = tuq_id quote, ebq_network = tuq_network quote, ebq_asset = tuq_asset quote,
      ebq_amountAtomic = tuq_amountAtomic quote, ebq_payTo = tuq_payTo quote, etq_expiresAt = tuq_expiresAt quote,
      etq_status = ''quoted'', etq_resourcePath = tuq_resourcePath quote \<rparr>"
  using assms by (simp add: exactTopUpQuote_def top_up_quote_json_def json_at_most_def)

text \<open>A timeout a wallet accepts is a number from 1 to 60.\<close>

lemma timeout_in_bounds:
  "json_safe_integer v \<and> \<not> json_at_most v (Num 0) \<and> json_at_most v (Num 60) \<longleftrightarrow> (\<exists>t. v = JNum (Num t) \<and> 0 < t \<and> t \<le> 60)"
  by (cases v) (auto simp: json_at_most_def max_safe_integer_def elim!: is_safe_integerE)

lemma payable_requirement_iff:
  "payable_requirement memo quote r \<longleftrightarrow>
     (\<exists>t. 0 < t \<and> t \<le> 60 \<and> carries_terms r
       \<lparr> pt_scheme = ''exact'', pt_network = ebq_network quote, pt_payTo = ebq_payTo quote, pt_asset = ebq_asset quote,
         pt_amount = ebq_amountAtomic quote, pt_memo = memo, pt_maxTimeoutSeconds = t \<rparr>)"
  using timeout_in_bounds [of "prop_of r ''maxTimeoutSeconds''"]
  by (auto simp: payable_requirement_def carries_terms_def)

lemma policy_keeps:
  assumes "exactQuotePaymentPolicy kind quote = Inr policy" "policy rs = Inr kept"
  shows "kept = filter (payable_requirement (''openshelf:v1:'' @ kind @ '':'' @ ebq_id quote) quote) rs"
  using assms by (auto simp: exactQuotePaymentPolicy_def Let_def split: if_splits)

lemma top_up_guard_quotes: "top_up_guard m w = (r, w') \<Longrightarrow> tu_quotes (fst w') = tu_quotes (fst w)"
  by (auto simp: top_up_guard_def inside_def split: prod.splits)

lemma getTopUpQuote_stored:
  assumes clock: "\<And>w r w'. tx_now d w = (r, w') \<Longrightarrow> tus_get k (tu_quotes (fst w')) = tus_get k (tu_quotes (fst w))"
    and "pri_quoteId identity = k" "tus_get k (tu_quotes (fst w)) = Some quote"
    and run: "getTopUpQuoteForIdentity d identity w = (Inr q, w')"
  shows "q = quote \<and> tus_get k (tu_quotes (fst w')) = Some quote"
proof -
  from run obtain now w1 u w2 now' w3 where
      steps: "tx_now d w = (Inr now, w1)" "top_up_guard (srg_assertNotSettled (pri_key identity) now) w1 = (Inr u, w2)"
        "tus_get k (tu_quotes (fst w2)) = Some q" "tx_now d w2 = (Inr now', w3)" "w' = w3"
    using assms(2)
    by (auto simp: getTopUpQuoteForIdentity_def pbind_def pget_def plift_def pret_def praise_def
        split: prod.splits sum.splits option.splits)
  with clock [OF steps(1)] clock [OF steps(4)] top_up_guard_quotes [OF steps(2)] assms(3) show ?thesis by simp
qed

text \<open>C29: The quote the gateway prepares for a top-up passes the browser's check until it expires, and of
  the requirements of a 402 response the browser lets the wallet pay exactly those with the terms the
  gateway's route offers for that quote: its network, mint, amount, recipient and memo, with a timeout
  of at most a minute.\<close>

theorem browser_pays_gateway_top_up:
  assumes "prepareTopUp cfg receiver asset ttl amount now id' s = (Inr quote, s')" "id' \<noteq> []"
    and "trim (gc_network cfg) = gc_network cfg"
    and "seen < tuq_expiresAt quote" "\<bar>tuq_expiresAt quote\<bar> \<le> max_safe_integer"
    and clock: "\<And>w r w'. tx_now d w = (r, w') \<Longrightarrow> tus_get id' (tu_quotes (fst w')) = tus_get id' (tu_quotes (fst w))"
    and path: "topUpIdentityFromPath (gc_url_pathname cfg) path = Inr (TopUp id' key)"
    and run: "topUpTerms cfg d path w = (Inr terms, w')" "tu_quotes (fst w) = s'"
  shows "\<exists>bq policy. exactTopUpQuote (top_up_quote_json quote) seen = Inr bq \<and> etq_resourcePath bq = ''/api/v1/paid-top-ups/'' @ id'
    \<and> exactQuotePaymentPolicy ''topup'' bq = Inr policy
    \<and> (\<forall>rs. JNull \<notin> set rs \<and> JUndef \<notin> set rs \<longrightarrow>
         policy rs = Inr (filter (\<lambda>r. \<exists>t. 0 < t \<and> t \<le> 60 \<and> carries_terms r (terms\<lparr> pt_maxTimeoutSeconds := t \<rparr>)) rs))
    \<and> pt_maxTimeoutSeconds terms = 60"
proof -
  from assms(1) obtain i where q: "1 \<le> i" "tuq_id quote = id'" "tuq_payTo quote \<noteq> []" "tuq_network quote = gc_network cfg"
      "tuq_network quote \<noteq> []" "tuq_asset quote \<noteq> []" "tuq_amountAtomic quote = show_nat (nat (i * 1000000))"
      "tuq_resourcePath quote = ''/api/v1/paid-top-ups/'' @ id'" "tus_get id' s' = Some quote"
    by (rule prepareTopUp_Inr) (use assms(3) in simp)
  have amount: "re_positive (tuq_amountAtomic quote)" using q(1,7) by (simp add: re_positive_show_nat)
  obtain q1 w1 q2 w2 memo where steps: "getTopUpQuoteForIdentity d (TopUp id' key) w = (Inr q1, w1)"
      "getTopUpQuoteForIdentity d (TopUp id' key) w1 = (Inr q2, w2)" "paymentMemo (TopUp id' key) (tuq_id q2) = Inr memo"
      "terms = \<lparr> pt_scheme = ''exact'', pt_network = gc_network cfg, pt_payTo = tuq_payTo q1, pt_asset = tuq_asset q2,
         pt_amount = tuq_amountAtomic q2, pt_memo = memo, pt_maxTimeoutSeconds = 60 \<rparr>"
    using run(1) path
    by (auto simp: topUpTerms_def pbind_def plift_def pret_def split: prod.splits sum.splits)
  have 1: "q1 = quote \<and> tus_get id' (tu_quotes (fst w1)) = Some quote"
    by (rule getTopUpQuote_stored [where k = id', OF _ _ _ steps(1)]) (use clock q(9) run(2) in auto)
  have 2: "q2 = quote"
    using getTopUpQuote_stored [where k = id' and quote = quote, OF _ _ _ steps(2)] clock 1 by auto
  have memo: "memo = ''openshelf:v1:topup:'' @ id'"
    using steps(3) 2 q(2) by (auto simp: paymentMemo_def Let_def split: if_splits)
  let ?bq = "\<lparr> ebq_id = id', ebq_network = gc_network cfg, ebq_asset = tuq_asset quote, ebq_amountAtomic = tuq_amountAtomic quote,
    ebq_payTo = tuq_payTo quote, etq_expiresAt = tuq_expiresAt quote, etq_status = ''quoted'', etq_resourcePath = tuq_resourcePath quote \<rparr>"
  have bq: "exactTopUpQuote (top_up_quote_json quote) seen = Inr ?bq"
    using top_up_json_accepted [of quote seen] q assms(2,4,5) amount by simp
  have kept: "payable_requirement memo ?bq = (\<lambda>r. \<exists>t. 0 < t \<and> t \<le> 60 \<and> carries_terms r (terms\<lparr> pt_maxTimeoutSeconds := t \<rparr>))"
    by (rule ext) (simp add: payable_requirement_iff steps(4) 1 2)
  have policy: "exactQuotePaymentPolicy ''topup'' ?bq = Inr (\<lambda>rs. if JNull \<in> set rs \<or> JUndef \<in> set rs
      then Inl (Err ''Cannot read properties of null'') else Inr (filter (payable_requirement memo ?bq) rs))"
    unfolding memo using q(1-6) amount assms(2) by (simp add: exactQuotePaymentPolicy_def cong: if_cong)
  show ?thesis
    by (intro exI conjI) (rule bq, simp add: q(8), rule policy, simp add: kept, simp add: steps(4))
qed

section \<open>The compute budget that is signed\<close>

text \<open>The instruction as the gateway decodes it.\<close>

definition decompiled :: "'m compiled_message_scheme \<Rightarrow> compiled_instruction \<Rightarrow> instruction" where
  "decompiled message ci =
     \<lparr> ix_program = cm_staticAccounts message ! ci_programAddressIndex ci,
       ix_accounts = map ((!) (cm_staticAccounts message)) (ci_accountIndices ci), ix_data = (case ci_data ci of None \<Rightarrow> [] | Some data \<Rightarrow> data) \<rparr>"

lemma raised_units:
  assumes "is_unit_limit p ci" "n \<le> 200000"
  shows "is_unit_limit p (raise_instruction p n ci) \<and> current_units (raise_instruction p n ci) = max (current_units ci) n
    \<and> ci_accountIndices (raise_instruction p n ci) = ci_accountIndices ci"
proof -
  from assms(1) obtain b rest where d: "ci_data ci = Some (b # rest)" "length rest = 4" "b = 2"
    by (auto simp: is_unit_limit_def length_Suc_conv eval_nat_numeral)
  then show ?thesis
    using assms by (simp add: raise_instruction_def is_unit_limit_def current_units_def read_u32_le_def)
qed

lemma raise_other: "\<not> is_unit_limit p ci \<Longrightarrow> raise_instruction p n ci = ci"
  by (simp add: raise_instruction_def)

lemma sponsored_limit:
  assumes "is_unit_limit p ci"
  shows "validFeeSponsoredComputeBudget (decompiled message ci)
    \<longleftrightarrow> ci_accountIndices ci = [] \<and> current_units ci \<le> max_compute_units"
  using assms by (auto simp: is_unit_limit_def validFeeSponsoredComputeBudget_def decompiled_def current_units_def)

text \<open>Before any party signs, the browser changes one thing in the transaction: the one compute-unit
  limit becomes at least the asked units, every other instruction and account and the signature slots
  stay; so the gateway's fee-sponsorship cap admits the limit that is signed exactly when it admitted
  the limit that was there.\<close>

theorem compute_budget_raised:
  assumes codec: "\<And>m. mc_decode codec (mc_encode codec m) = Some m"
    and "raiseSvmComputeUnitLimit codec tx (Num n) = Inr tx'"
  shows "list_all (\<lambda>(_, signature). signature = None) (kt_signatures tx) \<and> kt_signatures tx' = kt_signatures tx
    \<and> (\<exists>m m' pre ci ci' post. mc_decode codec (kt_messageBytes tx) = Some m \<and> mc_decode codec (kt_messageBytes tx') = Some m'
        \<and> cm_instructions m = pre @ ci # post \<and> m' = m\<lparr> cm_instructions := pre @ ci' # post \<rparr>
        \<and> ix_program (decompiled m' ci') = compute_budget_program
        \<and> ci_accountIndices ci' = ci_accountIndices ci
        \<and> current_units ci' = max (current_units ci) (nat n)
        \<and> (validFeeSponsoredComputeBudget (decompiled m' ci') \<longleftrightarrow> validFeeSponsoredComputeBudget (decompiled m ci)))"
proof -
  from assms(2) obtain m p where
      n: "0 < n" "n \<le> 200000" and sigs: "list_all (\<lambda>(_, signature). signature = None) (kt_signatures tx)"
      and m: "mc_decode codec (kt_messageBytes tx) = Some m" and p: "index_of compute_budget_program (cm_staticAccounts m) = Some p"
      and one: "length (filter (is_unit_limit p) (cm_instructions m)) = 1"
      and tx': "tx' = (if list_all (\<lambda>ci. nat n \<le> current_units ci) (filter (is_unit_limit p) (cm_instructions m)) then tx
        else tx\<lparr> kt_messageBytes := mc_encode codec (m\<lparr> cm_instructions := map (raise_instruction p (nat n)) (cm_instructions m) \<rparr>) \<rparr>)"
    by (auto simp: raiseSvmComputeUnitLimit_def rbind_Inr_iff Let_def split: if_splits)
  from one obtain ci where "filter (is_unit_limit p) (cm_instructions m) = [ci]"
    by (metis One_nat_def length_0_conv length_Suc_conv)
  then obtain pre post where split: "cm_instructions m = pre @ ci # post" "\<forall>x \<in> set pre. \<not> is_unit_limit p x" "is_unit_limit p ci"
      "filter (is_unit_limit p) post = []"
    by (auto simp: filter_eq_Cons_iff)
  let ?ci = "raise_instruction p (nat n) ci"
  have others: "map (raise_instruction p (nat n)) pre = pre" "map (raise_instruction p (nat n)) post = post"
    using split(2,4) by (auto simp: filter_empty_conv raise_other intro!: map_idI)
  have ci': "is_unit_limit p ?ci" "current_units ?ci = max (current_units ci) (nat n)" "ci_accountIndices ?ci = ci_accountIndices ci"
    using raised_units [OF split(3), of "nat n"] n by simp_all
  have m': "mc_decode codec (kt_messageBytes tx') = Some (m\<lparr> cm_instructions := pre @ ?ci # post \<rparr>)"
  proof (cases "nat n \<le> current_units ci")
    case True
    then show ?thesis using m split tx' by (simp add: raise_instruction_def)
  next
    case False
    then show ?thesis using split others tx' codec by simp
  qed
  have "ix_program (decompiled m'' ?ci) = compute_budget_program" if "cm_staticAccounts m'' = cm_staticAccounts m" for m'' :: "'a compiled_message_scheme"
    using ci'(1) index_of_Some [OF p] that by (auto simp: is_unit_limit_def decompiled_def)
  moreover have "validFeeSponsoredComputeBudget (decompiled m'' ?ci) \<longleftrightarrow> validFeeSponsoredComputeBudget (decompiled m ci)" for m'' :: "'a compiled_message_scheme"
    using n by (auto simp: sponsored_limit [OF ci'(1)] sponsored_limit [OF split(3)] ci' max_compute_units_def)
  ultimately have "\<exists>m' ci'. mc_decode codec (kt_messageBytes tx') = Some m' \<and> m' = m\<lparr> cm_instructions := pre @ ci' # post \<rparr>
      \<and> ix_program (decompiled m' ci') = compute_budget_program \<and> ci_accountIndices ci' = ci_accountIndices ci
      \<and> current_units ci' = max (current_units ci) (nat n)
      \<and> (validFeeSponsoredComputeBudget (decompiled m' ci') \<longleftrightarrow> validFeeSponsoredComputeBudget (decompiled m ci))"
    by (intro exI conjI) (rule m', rule refl, simp, rule ci'(3), rule ci'(2), simp)
  moreover have "kt_signatures tx' = kt_signatures tx" using tx' by simp
  ultimately show ?thesis using sigs m split(1) by blast
qed

section \<open>What an accepted research quote is\<close>

lemma strictly_equalD: "strictly_equal v w \<Longrightarrow> v = w"
  by (auto simp: strictly_equal_def split: json.splits)

lemma canonicalAtomic_Some: "canonicalAtomic v p = Some a \<Longrightarrow> \<exists>s. v = JStr s \<and> re_decimal s \<and> a = int (dec_value s)"
  by (auto simp: canonicalAtomic_def split: json.splits if_splits)

text \<open>An accepted quote is the ledger's own, the gateway's agrees with it in every field, it is about the
  documents asked for, and a refill it asks for is the larger of the minimum and what the caller allowed.\<close>

lemma research_quote_sound:
  assumes "exactResearchBundleQuote gateway canonical queryId handles preferred now = Inr quote"
  shows "quote = canonical \<and> list_all (\<lambda>field. prop_of gateway field = prop_of canonical field) bundle_scalar_fields
    \<and> same_documents gateway canonical queryId handles \<and> canonical_well_formed canonical
    \<and> re_decimal preferred \<and> 0 < dec_value preferred
    \<and> (if prop_of canonical ''requiresPayment'' = JBool True
       then \<exists>a m. prop_of canonical ''amountAtomic'' = JStr a \<and> prop_of canonical ''minimumDepositAtomic'' = JStr m
         \<and> dec_value a = max (dec_value m) (dec_value preferred) \<and> 0 < dec_value m
         \<and> prop_of canonical ''status'' = JStr ''quoted'' \<and> \<not> json_at_most (prop_of canonical ''expiresAt'') (Num now)
       else js_string (prop_of canonical ''status'') \<in> Some ` set non_payable_states)"
proof -
  from assms obtain top where top: "canonicalAtomic (JStr preferred) False = Some top" "top \<noteq> 0"
      and fields: "list_all (\<lambda>field. strictly_equal (prop_of gateway field) (prop_of canonical field)) bundle_scalar_fields"
      and docs: "same_documents gateway canonical queryId handles" and wf: "canonical_well_formed canonical"
      and rest: "(let amount = the (canonicalAtomic (prop_of canonical ''amountAtomic'') False);
                minimumDeposit = the (canonicalAtomic (prop_of canonical ''minimumDepositAtomic'') False);
                permittedTopUp = (if minimumDeposit < top then top else minimumDeposit) in
            if prop_of canonical ''requiresPayment'' = JBool True then
              if prop_of canonical ''status'' \<noteq> JStr ''quoted'' \<or> amount = 0 \<or> minimumDeposit = 0
                 \<or> amount \<noteq> permittedTopUp \<or> json_at_most (prop_of canonical ''expiresAt'') (Num now)
              then Inl (Err ''The canonical research refill exceeds the requested funding contract.'')
              else Inr canonical
            else if js_string (prop_of canonical ''status'') \<notin> Some ` set non_payable_states
            then Inl (Err ''A non-payable research quote has inconsistent funding state.'')
            else Inr canonical) = Inr quote"
    unfolding exactResearchBundleQuote_def by (auto split: option.splits if_splits)
  from wf obtain a m where "canonicalAtomic (prop_of canonical ''amountAtomic'') False = Some a"
      "canonicalAtomic (prop_of canonical ''minimumDepositAtomic'') False = Some m"
    by (auto simp: canonical_well_formed_def)
  moreover from this obtain sa sm where "prop_of canonical ''amountAtomic'' = JStr sa" "a = int (dec_value sa)"
      "prop_of canonical ''minimumDepositAtomic'' = JStr sm" "m = int (dec_value sm)"
    using canonicalAtomic_Some by blast
  moreover have "re_decimal preferred" "top = int (dec_value preferred)" using canonicalAtomic_Some [OF top(1)] by auto
  moreover have "list_all (\<lambda>field. prop_of gateway field = prop_of canonical field) bundle_scalar_fields"
    using fields by (rule list.pred_mono_strong) (rule strictly_equalD)
  ultimately show ?thesis
    using rest top(2) docs wf by (auto simp: Let_def max_def split: if_splits)
qed

text \<open>A caller that allows no refill is always refused: zero is not read as an amount.\<close>

lemma zero_refill_refused: "exactResearchBundleQuote gateway canonical queryId handles ''0'' now = Inl (Err ''The research payment quote is malformed.'')"
proof -
  have "canonicalAtomic (JStr ''0'') False = Some 0" by code_simp
  then show ?thesis by (simp add: exactResearchBundleQuote_def)
qed

section \<open>Witnesses\<close>

definition browser_demo_config :: gateway_config where
  "browser_demo_config = \<lparr> gc_lib = demo_lib, gc_url_pathname = (\<lambda>_. None), gc_network = ''net'', gc_finalityTimeoutMs = 1000,
     gc_pollIntervalMs = 100, gc_signaturePages = 1, gc_batchSize = 10 \<rparr>"

definition browser_demo_services :: "(top_up_state \<times> unit) top_up_services" where
  "browser_demo_services = \<lparr> tx_now = pret 1000, tx_monotonic = pret 0, tx_sleep = (\<lambda>_. pret ()), tx_deposit = (\<lambda>_. pret ()),
     tx_facilitator = (\<lambda>_. praise (Err ''offline'')), tx_rpcs = [] \<rparr>"

definition browser_demo_quote :: top_up_quote where
  "browser_demo_quote = \<lparr> tuq_id = ''t1'', tuq_payTo = ''recv'', tuq_network = ''net'', tuq_asset = ''usdc'', tuq_amountUsdc = 5,
     tuq_amountAtomic = ''5000000'', tuq_expiresAt = 301000, tuq_resourcePath = ''/api/v1/paid-top-ups/t1'' \<rparr>"

definition browser_demo_world :: "top_up_state \<times> unit" where
  "browser_demo_world = (top_up_start\<lparr> tu_quotes := [(''t1'', browser_demo_quote)] \<rparr>, ())"

definition browser_demo_terms :: paid_terms where
  "browser_demo_terms = \<lparr> pt_scheme = ''exact'', pt_network = ''net'', pt_payTo = ''recv'', pt_asset = ''usdc'',
     pt_amount = ''5000000'', pt_memo = ''openshelf:v1:topup:t1'', pt_maxTimeoutSeconds = 60 \<rparr>"

lemma browser_demo_prepared:
  "prepareTopUp browser_demo_config ''recv'' ''usdc'' 300000 (JNum (Num 5)) 1000 ''t1'' []
     = (Inr browser_demo_quote, [(''t1'', browser_demo_quote)])"
proof -
  have "dec_value ''5000000'' = 5000000" by (simp add: dec_value_def digit_value_def)
  moreover have "re_positive ''5000000''" by code_simp
  ultimately have "show_int 5000000 = ''5000000''"
    using show_nat_dec_value [of "''5000000''"] by (simp add: show_int_def)
  moreover have "trim ''recv'' = ''recv''" "trim ''net'' = ''net''" "trim ''usdc'' = ''usdc''" by code_simp+
  ultimately show ?thesis
    by (simp add: prepareTopUp_def browser_demo_config_def tus_create_def pbind_def plift_def parse_top_up_Num
        topUpAmountAtomic_def max_top_up_usdc_def usdc_atomic_multiplier_def pmod_def pret_def Let_def browser_demo_quote_def)
qed

lemma browser_demo_path:
  "topUpIdentityFromPath (gc_url_pathname browser_demo_config) ''/api/v1/paid-top-ups/t1'' = Inr (TopUp ''t1'' (''topup'' @ [nul] @ ''t1''))"
  unfolding browser_demo_config_def by code_simp

lemma browser_demo_run: "topUpTerms browser_demo_config browser_demo_services ''/api/v1/paid-top-ups/t1'' browser_demo_world
    = (Inr browser_demo_terms, browser_demo_world)"
proof -
  have memo: "paymentMemo (TopUp ''t1'' (''topup'' @ [nul] @ ''t1'')) ''t1'' = Inr ''openshelf:v1:topup:t1''" by code_simp
  have quote: "getTopUpQuoteForIdentity browser_demo_services (TopUp ''t1'' k) browser_demo_world = (Inr browser_demo_quote, browser_demo_world)" for k
    by (simp add: getTopUpQuoteForIdentity_def browser_demo_services_def pbind_def pret_def top_up_guard_def inside_def
        srg_assertNotSettled_def browser_demo_world_def top_up_start_def pget_def tus_get_def browser_demo_quote_def plift_def
        top_up_payment_state_def assertPaymentQuotePayable_def assertPaymentQuoteUsable_def
        max_safe_integer_def)
  have sel: "tuq_id browser_demo_quote = ''t1''" by (simp add: browser_demo_quote_def)
  show ?thesis
    unfolding topUpTerms_def browser_demo_path
    by (simp add: pbind_def plift_def quote sel memo pret_def browser_demo_terms_def del: append.simps)
      (simp add: browser_demo_quote_def browser_demo_config_def)
qed

theorem browser_pays_gateway_top_up_witness:
  "\<exists>bq policy. exactTopUpQuote (top_up_quote_json browser_demo_quote) 300999 = Inr bq
    \<and> exactQuotePaymentPolicy ''topup'' bq = Inr policy
    \<and> policy [JStr ''other''] = Inr (filter (\<lambda>r. \<exists>t. 0 < t \<and> t \<le> 60 \<and> carries_terms r (browser_demo_terms\<lparr> pt_maxTimeoutSeconds := t \<rparr>)) [JStr ''other''])"
proof -
  have clock: "\<And>w r w'. tx_now browser_demo_services w = (r, w') \<Longrightarrow> tus_get ''t1'' (tu_quotes (fst w')) = tus_get ''t1'' (tu_quotes (fst w))"
    by (simp add: browser_demo_services_def pret_def)
  have cfg: "trim (gc_network browser_demo_config) = gc_network browser_demo_config"
    unfolding browser_demo_config_def by code_simp
  have q: "300999 < tuq_expiresAt browser_demo_quote" "\<bar>tuq_expiresAt browser_demo_quote\<bar> \<le> max_safe_integer"
    by (simp_all add: browser_demo_quote_def max_safe_integer_def)
  have w: "tu_quotes (fst browser_demo_world) = [(''t1'', browser_demo_quote)]"
    by (simp add: browser_demo_world_def)
  have "\<exists>bq policy. exactTopUpQuote (top_up_quote_json browser_demo_quote) 300999 = Inr bq
      \<and> etq_resourcePath bq = ''/api/v1/paid-top-ups/'' @ ''t1'' \<and> exactQuotePaymentPolicy ''topup'' bq = Inr policy
      \<and> (\<forall>rs. JNull \<notin> set rs \<and> JUndef \<notin> set rs \<longrightarrow>
         policy rs = Inr (filter (\<lambda>r. \<exists>t. 0 < t \<and> t \<le> 60 \<and> carries_terms r (browser_demo_terms\<lparr> pt_maxTimeoutSeconds := t \<rparr>)) rs))
      \<and> pt_maxTimeoutSeconds browser_demo_terms = 60"
    by (rule browser_pays_gateway_top_up [OF browser_demo_prepared _ cfg q _ browser_demo_path browser_demo_run w])
      (simp, rule clock)
  then obtain bq policy where b: "exactTopUpQuote (top_up_quote_json browser_demo_quote) 300999 = Inr bq"
      "exactQuotePaymentPolicy ''topup'' bq = Inr policy"
      "\<forall>rs. JNull \<notin> set rs \<and> JUndef \<notin> set rs \<longrightarrow>
         policy rs = Inr (filter (\<lambda>r. \<exists>t. 0 < t \<and> t \<le> 60 \<and> carries_terms r (browser_demo_terms\<lparr> pt_maxTimeoutSeconds := t \<rparr>)) rs)"
    by blast
  from b(3) [rule_format, of "[JStr ''other'']"] have "policy [JStr ''other'']
      = Inr (filter (\<lambda>r. \<exists>t. 0 < t \<and> t \<le> 60 \<and> carries_terms r (browser_demo_terms\<lparr> pt_maxTimeoutSeconds := t \<rparr>)) [JStr ''other''])"
    by (simp only: list.set empty_iff insert_iff json.distinct simp_thms)
  with b(1,2) show ?thesis by blast
qed

text \<open>A codec: a message is written as so many zeros as the number that stands for it.\<close>

definition message_parts :: "compiled_message \<Rightarrow> string list \<times> (nat \<times> nat list \<times> bytes option) list" where
  "message_parts m = (cm_staticAccounts m,
     map (\<lambda>ci. (ci_programAddressIndex ci, ci_accountIndices ci, ci_data ci)) (cm_instructions m))"

definition message_of_parts :: "string list \<times> (nat \<times> nat list \<times> bytes option) list \<Rightarrow> compiled_message" where
  "message_of_parts ps = \<lparr> cm_staticAccounts = fst ps, cm_instructions = map (\<lambda>(i, as, d).
     \<lparr> ci_programAddressIndex = i, ci_accountIndices = as, ci_data = d \<rparr>) (snd ps) \<rparr>"

lemma message_of_parts [simp]: "message_of_parts (message_parts m) = m"
  by (cases m) (auto simp: message_of_parts_def message_parts_def comp_def intro!: map_idI)

definition demo_codec :: "unit message_codec" where
  "demo_codec = \<lparr> mc_decode = (\<lambda>bs. Some (message_of_parts (from_nat (length bs)))),
     mc_encode = (\<lambda>m. replicate (to_nat (message_parts m)) 0) \<rparr>"

lemma demo_codec: "mc_decode demo_codec (mc_encode demo_codec m) = Some m"
  by (simp add: demo_codec_def)

definition demo_limit :: compiled_instruction where
  "demo_limit = \<lparr> ci_programAddressIndex = 1, ci_accountIndices = [], ci_data = Some (2 # le_bytes 4 20000) \<rparr>"

definition demo_message :: compiled_message where
  "demo_message = \<lparr> cm_staticAccounts = [''payer'', compute_budget_program], cm_instructions = [demo_limit] \<rparr>"

definition demo_unsigned :: kit_transaction where
  "demo_unsigned = \<lparr> kt_messageBytes = mc_encode demo_codec demo_message, kt_signatures = [(''payer'', None)] \<rparr>"

theorem compute_budget_raised_witness:
  "\<exists>tx' m' ci'. raiseSvmComputeUnitLimit demo_codec demo_unsigned (Num x402_compute_unit_limit) = Inr tx'
     \<and> mc_decode demo_codec (kt_messageBytes tx') = Some m' \<and> cm_instructions m' = [ci'] \<and> current_units ci' = 50000
     \<and> validFeeSponsoredComputeBudget (decompiled m' ci')"
proof -
  have limit: "is_unit_limit 1 demo_limit" "current_units demo_limit = 20000"
    by (simp_all add: is_unit_limit_def demo_limit_def current_units_def read_u32_le_def)
  have "\<exists>tx'. raiseSvmComputeUnitLimit demo_codec demo_unsigned (Num x402_compute_unit_limit) = Inr tx'"
    using limit by (simp add: raiseSvmComputeUnitLimit_def demo_unsigned_def demo_codec demo_message_def x402_compute_unit_limit_def
      max_safe_integer_def compute_budget_program_def Let_def)
  then obtain tx' where tx': "raiseSvmComputeUnitLimit demo_codec demo_unsigned (Num x402_compute_unit_limit) = Inr tx'" ..
  from compute_budget_raised [OF demo_codec tx'] obtain m m' pre ci ci' post where r:
      "mc_decode demo_codec (kt_messageBytes demo_unsigned) = Some m" "mc_decode demo_codec (kt_messageBytes tx') = Some m'"
      "cm_instructions m = pre @ ci # post" "m' = m\<lparr> cm_instructions := pre @ ci' # post \<rparr>"
      "current_units ci' = max (current_units ci) (nat x402_compute_unit_limit)"
      "validFeeSponsoredComputeBudget (decompiled m' ci') \<longleftrightarrow> validFeeSponsoredComputeBudget (decompiled m ci)"
    by blast
  have m: "m = demo_message" using r(1) by (simp add: demo_unsigned_def demo_codec)
  with r(3) have ci: "pre = []" "post = []" "ci = demo_limit"
    by (auto simp: demo_message_def append_eq_Cons_conv Cons_eq_append_conv)
  have "validFeeSponsoredComputeBudget (decompiled m ci)"
    unfolding ci(3) sponsored_limit [OF limit(1)] limit(2) by (simp add: demo_limit_def max_compute_units_def)
  with r(2,4-6) ci m limit(2) tx' show ?thesis
    by (intro exI [of _ tx'] exI [of _ m'] exI [of _ ci']) (simp add: x402_compute_unit_limit_def)
qed

end
