(* ===== verification/Browser_Api.thy ===== *)
theory Browser_Api
  imports Js_Bytes
begin

text \<open>
  The browser's client of the Rust API, \<open>src/lib/api.ts\<close>: \<open>apiFetch\<close> with its error cases, and one
  definition per call, each a request to be sent and the answer as parsed JSON. The network is the
  parameter \<open>api_fetch\<close>, which answers or throws.
\<close>

section \<open>Requests\<close>

record web_request =
  wq_url :: string
  wq_method :: string
  wq_credentials :: bool
  wq_headers :: "(string \<times> string) list"
  wq_body :: "json option"
  wq_keepalive :: bool

text \<open>The body of a response as \<open>response.json ()\<close> parses it; \<open>None\<close> is its exception.\<close>

record web_response =
  wr_status :: nat
  wr_json :: "json option"

definition wr_ok :: "web_response \<Rightarrow> bool" where
  "wr_ok response \<longleftrightarrow> 200 \<le> wr_status response \<and> wr_status response \<le> 299"

record fetch_init =
  fi_method :: string
  fi_headers :: "(string \<times> string) list"
  fi_body :: "json option"
  fi_keepalive :: bool

definition get_init :: fetch_init where
  "get_init = \<lparr> fi_method = ''GET'', fi_headers = [], fi_body = None, fi_keepalive = False \<rparr>"

definition post_json :: "json \<Rightarrow> fetch_init" where
  "post_json body = \<lparr> fi_method = ''POST'', fi_headers = [(''content-type'', ''application/json'')], fi_body = Some body,
     fi_keepalive = False \<rparr>"

definition with_query_token :: "string \<Rightarrow> fetch_init \<Rightarrow> fetch_init" where
  "with_query_token token init = init\<lparr> fi_headers := fi_headers init @ [(''x-openshelf-query-token'', token)] \<rparr>"

text \<open>\<open>API_BASE\<close> and \<open>fetch\<close>.\<close>

record 'w api =
  api_base :: string
  api_fetch :: "web_request \<Rightarrow> ('w, web_response) proc"

text \<open>\<open>await response.json ().catch (() => null)\<close>, and a text made of the value of a typed field.\<close>

definition payload_of :: "web_response \<Rightarrow> json" where
  "payload_of response = (case wr_json response of None \<Rightarrow> JNull | Some v \<Rightarrow> v)"

definition text_of :: "json \<Rightarrow> string" where
  "text_of v = str_or (js_string v) []"

definition error_message :: "json \<Rightarrow> string \<Rightarrow> string" where
  "error_message payload fallback = text_of (json_or (prop_of (prop_of payload ''error'') ''message'') (JStr fallback))"

definition error_code :: "json \<Rightarrow> string" where
  "error_code payload =
     (case prop_of (prop_of payload ''error'') ''code'' of JUndef \<Rightarrow> ''api_error'' | v \<Rightarrow> text_of v)"

definition api_request :: "string \<Rightarrow> string \<Rightarrow> fetch_init \<Rightarrow> web_request" where
  "api_request base path init =
     \<lparr> wq_url = base @ path, wq_method = fi_method init, wq_credentials = True,
       wq_headers = fold (\<lambda>(k, v). AList.update k v) (fi_headers init) [(''x-obulus-client'', ''web'')],
       wq_body = fi_body init, wq_keepalive = fi_keepalive init \<rparr>"

definition offline_error :: js_error where
  "offline_error = ApiErr ''Obolus is temporarily unavailable. Check your connection and try again.'' 0 ''offline''"

definition apiFetch :: "'w api \<Rightarrow> string \<Rightarrow> fetch_init \<Rightarrow> ('w, json) proc" where
  "apiFetch api path init =
     pbind (pcatch (api_fetch api (api_request (api_base api) path init)) (\<lambda>_. praise offline_error)) (\<lambda>response.
       if \<not> wr_ok response then
         let payload = payload_of response in
         praise (ApiErr (error_message payload (''Backend returned '' @ show_nat (wr_status response) @ ''.''))
           (wr_status response) (error_code payload))
       else if wr_status response = 204 then pret JUndef
       else plift (of_opt (Err ''invalid JSON'') (wr_json response)))"

section \<open>Helpers of the calls\<close>

text \<open>\<open>URLSearchParams.toString\<close>: every byte but the unreserved ones is escaped, a space is a plus.\<close>

definition form_unreserved :: "char \<Rightarrow> bool" where
  "form_unreserved c \<longleftrightarrow> is_alnum c \<or> c \<in> set ''*-._''"

definition form_encode :: "string \<Rightarrow> string" where
  "form_encode s = concat (map (\<lambda>c. if form_unreserved c then [c] else if c = CHR '' '' then ''+''
     else concat (map (\<lambda>b. [CHR ''%'', upper_hex (unat b div 16), upper_hex (unat b mod 16)]) (utf8_char c))) s)"

fun url_params :: "(string \<times> string) list \<Rightarrow> string" where
  "url_params [] = []"
| "url_params [(k, v)] = form_encode k @ ''='' @ form_encode v"
| "url_params ((k, v) # p # ps) = form_encode k @ ''='' @ form_encode v @ ''&'' @ url_params (p # ps)"

text \<open>An absent field, which \<open>JSON.stringify\<close> leaves out, is \<open>JUndef\<close>.\<close>

definition opt_str :: "string option \<Rightarrow> json" where
  "opt_str s = (case s of None \<Rightarrow> JUndef | Some t \<Rightarrow> JStr t)"

fun fields_of :: "json \<Rightarrow> (string \<times> json) list" where
  "fields_of (JObj fs) = fs"
| "fields_of _ = []"

text \<open>\<open>{ ...a, ...b }\<close>\<close>

definition spread :: "json list \<Rightarrow> json" where
  "spread vs = JObj (fold (\<lambda>v acc. fold (\<lambda>(k, x). AList.update k x) (fields_of v) acc) vs [])"

definition orderFromApi :: "json \<Rightarrow> json outcome" where
  "orderFromApi order =
     require (order \<noteq> JNull \<and> order \<noteq> JUndef) (Err ''Cannot read properties of null'')
       (Inr (spread [order, JObj [(''category'', prop_of order ''category'')]]))"

definition admin_table_page_size :: nat where
  "admin_table_page_size = 25"

section \<open>The calls\<close>

definition register :: "'w api \<Rightarrow> string \<Rightarrow> string \<Rightarrow> bool \<Rightarrow> ('w, json) proc" where
  "register api email password ageConfirmed14 =
     apiFetch api ''/api/v1/auth/register''
       (post_json (JObj [(''email'', JStr email), (''password'', JStr password), (''ageConfirmed14'', JBool ageConfirmed14)]))"

definition login :: "'w api \<Rightarrow> string \<Rightarrow> string \<Rightarrow> ('w, json) proc" where
  "login api email password =
     apiFetch api ''/api/v1/auth/login''
       (post_json (JObj [(''email'', JStr email), (''password'', JStr password)]))"

definition createWalletAuthChallenge :: "'w api \<Rightarrow> string \<Rightarrow> string \<Rightarrow> ('w, json) proc" where
  "createWalletAuthChallenge api wallet purpose =
     apiFetch api ''/api/v1/auth/wallet/challenge''
       (post_json (JObj [(''wallet'', JStr wallet), (''purpose'', JStr purpose)]))"

definition verifyWalletAuth :: "'w api \<Rightarrow> string \<Rightarrow> string \<Rightarrow> string \<Rightarrow> bool \<Rightarrow> ('w, json) proc" where
  "verifyWalletAuth api wallet challengeId signature ageConfirmed14 =
     apiFetch api ''/api/v1/auth/wallet/verify''
       (post_json (JObj [(''wallet'', JStr wallet), (''challengeId'', JStr challengeId), (''signature'', JStr signature), (''ageConfirmed14'', JBool ageConfirmed14)]))"

definition getSession :: "'w api \<Rightarrow> ('w, json) proc" where
  "getSession api =
     apiFetch api ''/api/v1/auth/me'' get_init"

definition logout :: "'w api \<Rightarrow> ('w, json) proc" where
  "logout api =
     apiFetch api ''/api/v1/auth/logout'' (get_init\<lparr> fi_method := ''POST'' \<rparr>)"

definition forgotPassword :: "'w api \<Rightarrow> string \<Rightarrow> ('w, json) proc" where
  "forgotPassword api email =
     apiFetch api ''/api/v1/auth/password/forgot''
       (post_json (JObj [(''email'', JStr email)]))"

definition resetPassword :: "'w api \<Rightarrow> string \<Rightarrow> string \<Rightarrow> ('w, json) proc" where
  "resetPassword api token password =
     apiFetch api ''/api/v1/auth/password/reset''
       (post_json (JObj [(''token'', JStr token), (''password'', JStr password)]))"

definition deleteAccount :: "'w api \<Rightarrow> ('w, json) proc" where
  "deleteAccount api =
     apiFetch api ''/api/v1/account'' (get_init\<lparr> fi_method := ''DELETE'' \<rparr>)"

definition getBalance :: "'w api \<Rightarrow> ('w, json) proc" where
  "getBalance api =
     apiFetch api ''/api/v1/account/balance'' get_init"

definition resolveQuestion :: "'w api \<Rightarrow> string \<Rightarrow> jnum option \<Rightarrow> json option \<Rightarrow> ('w, json) proc" where
  "resolveQuestion api question requestedDocuments filters =
     apiFetch api ''/api/v1/questions/resolve''
       (post_json (JObj [(''question'', JStr question), (''requestedDocuments'', JNum (case requestedDocuments of None \<Rightarrow> Num 5 | Some n \<Rightarrow> n)), (''filters'', case filters of None \<Rightarrow> JObj [] | Some f \<Rightarrow> f)]))"

definition generateAiBaseline :: "'w api \<Rightarrow> string \<Rightarrow> string \<Rightarrow> ('w, json) proc" where
  "generateAiBaseline api queryId paymentAccessToken =
     apiFetch api (''/api/v1/questions/'' @ encode_uri queryId @ ''/ai-baseline'') (with_query_token paymentAccessToken (get_init\<lparr> fi_method := ''POST'' \<rparr>))"

definition listPublicEvidence :: "'w api \<Rightarrow> string option \<Rightarrow> nat option \<Rightarrow> ('w, json) proc" where
  "listPublicEvidence api query limit =
     (let q = trim (str_or query []) in
      apiFetch api (''/api/v1/public-evidence?'' @ url_params ((''limit'', show_nat (case limit of None \<Rightarrow> 12 | Some n \<Rightarrow> n))
       # (if q = [] then [] else [(''q'', q)]))) get_init)"

definition listShelfStarters :: "'w api \<Rightarrow> ('w, json) proc" where
  "listShelfStarters api =
     apiFetch api ''/api/v1/shelf-starters'' get_init"

definition generateShelfStarters :: "'w api \<Rightarrow> ('w, json) proc" where
  "generateShelfStarters api =
     apiFetch api ''/api/v1/shelf-starters'' (get_init\<lparr> fi_method := ''POST'' \<rparr>)"

definition submitShelfStarterAnswer :: "'w api \<Rightarrow> string \<Rightarrow> string \<Rightarrow> jnum \<Rightarrow> ('w, json) proc" where
  "submitShelfStarterAnswer api starterId answer priceKrw =
     apiFetch api (''/api/v1/shelf-starters/'' @ encode_uri starterId @ ''/answer'')
       (post_json (JObj [(''answer'', JStr answer), (''priceKrw'', JNum priceKrw)]))"

definition listOpenCalls :: "'w api \<Rightarrow> ('w, json list) proc" where
  "listOpenCalls api =
     pbind (apiFetch api ''/api/v1/open-calls'' get_init) (\<lambda>calls. plift (rbind (of_opt (Err ''calls.map is not a function'') (as_arr calls)) (rmap orderFromApi)))"

definition createOpenCall :: "'w api \<Rightarrow> json \<Rightarrow> ('w, json) proc" where
  "createOpenCall api input =
     pbind (apiFetch api ''/api/v1/open-calls''
       (post_json input)) (\<lambda>call. plift (orderFromApi call))"

definition prepareOpenCallFundingQuote :: "'w api \<Rightarrow> json \<Rightarrow> ('w, json) proc" where
  "prepareOpenCallFundingQuote api input =
     apiFetch api ''/api/v1/open-call-funding-quotes''
       (post_json input)"

definition getOpenCallFundingQuote :: "'w api \<Rightarrow> string \<Rightarrow> ('w, json) proc" where
  "getOpenCallFundingQuote api quoteId =
     apiFetch api (''/api/v1/open-call-funding-quotes/'' @ encode_uri quoteId) get_init"

definition cancelOpenCall :: "'w api \<Rightarrow> string \<Rightarrow> ('w, json) proc" where
  "cancelOpenCall api orderId =
     pbind (apiFetch api (''/api/v1/open-calls/'' @ encode_uri orderId) (get_init\<lparr> fi_method := ''DELETE'' \<rparr>)) (\<lambda>call. plift (orderFromApi call))"

definition getChatAnswers :: "'w api \<Rightarrow> string \<Rightarrow> ('w, json) proc" where
  "getChatAnswers api chatId =
     apiFetch api (''/api/v1/chats/'' @ encode_uri chatId @ ''/answers'') get_init"

definition listMemory :: "'w api \<Rightarrow> ('w, json) proc" where
  "listMemory api =
     apiFetch api ''/api/v1/memory'' get_init"

definition setMemoryLocked :: "'w api \<Rightarrow> string \<Rightarrow> bool \<Rightarrow> ('w, json) proc" where
  "setMemoryLocked api memoryId locked =
     apiFetch api (''/api/v1/memory/'' @ encode_uri memoryId)
       (post_json (JObj [(''locked'', JBool locked)])\<lparr> fi_method := ''PATCH'' \<rparr>)"

definition correctMemory :: "'w api \<Rightarrow> string \<Rightarrow> string \<Rightarrow> ('w, json) proc" where
  "correctMemory api memoryId answer =
     apiFetch api (''/api/v1/memory/'' @ encode_uri memoryId @ ''/corrections'')
       (post_json (JObj [(''answer'', JStr answer)]))"

definition exportAccount :: "'w api \<Rightarrow> ('w, json) proc" where
  "exportAccount api =
     apiFetch api ''/api/v1/account/export'' get_init"

definition synthesizeAnswer :: "'w api \<Rightarrow> string \<Rightarrow> string list \<Rightarrow> string \<Rightarrow> ('w, json) proc" where
  "synthesizeAnswer api queryId handles accessToken =
     apiFetch api ''/api/v1/answers/synthesize''
       (with_query_token accessToken (post_json (JObj [(''queryId'', JStr queryId), (''handles'', JArr (map JStr handles))])))"

definition getAccountControls :: "'w api \<Rightarrow> ('w, json) proc" where
  "getAccountControls api =
     apiFetch api ''/api/v1/account-controls'' get_init"

definition createWalletChallenge :: "'w api \<Rightarrow> string \<Rightarrow> ('w, json) proc" where
  "createWalletChallenge api wallet =
     apiFetch api ''/api/v1/profile/wallet/challenge''
       (post_json (JObj [(''wallet'', JStr wallet)]))"

definition verifyWalletChallenge :: "'w api \<Rightarrow> string \<Rightarrow> string \<Rightarrow> ('w, json) proc" where
  "verifyWalletChallenge api challengeId signature =
     apiFetch api ''/api/v1/profile/wallet/verify''
       (post_json (JObj [(''challengeId'', JStr challengeId), (''signature'', JStr signature)]))"

definition getSettlementInvoicePreview :: "'w api \<Rightarrow> string \<Rightarrow> string list \<Rightarrow> string \<Rightarrow> ('w, json) proc" where
  "getSettlementInvoicePreview api queryId handles queryAccessToken =
     apiFetch api (''/api/v1/questions/'' @ encode_uri queryId @ ''/settlement-invoice'')
       (with_query_token queryAccessToken (post_json (JObj [(''handles'', JArr (map JStr handles))])))"

definition createPrepaidWalletSession :: "'w api \<Rightarrow> string \<Rightarrow> string \<Rightarrow> string \<Rightarrow> ('w, json) proc" where
  "createPrepaidWalletSession api wallet challengeId signature =
     apiFetch api ''/api/v1/prepaid/session''
       (post_json (JObj [(''wallet'', JStr wallet), (''challengeId'', JStr challengeId), (''signature'', JStr signature)]))"

definition getPrepaidBalance :: "'w api \<Rightarrow> ('w, json) proc" where
  "getPrepaidBalance api =
     apiFetch api ''/api/v1/prepaid/balance'' get_init"

definition getPaymentBundleQuote :: "'w api \<Rightarrow> string \<Rightarrow> string \<Rightarrow> string option \<Rightarrow> ('w, json) proc" where
  "getPaymentBundleQuote api quoteId queryAccessToken walletSessionToken =
     apiFetch api (''/api/v1/payment-bundles/'' @ encode_uri quoteId) (get_init\<lparr> fi_headers := (''x-openshelf-query-token'', queryAccessToken)
         # (if truthy walletSessionToken then [(''x-openshelf-wallet-session'', the walletSessionToken)] else []) \<rparr>)"

definition withdrawPrepaidBalance :: "'w api \<Rightarrow> string option \<Rightarrow> ('w, json) proc" where
  "withdrawPrepaidBalance api amountAtomic =
     apiFetch api ''/api/v1/prepaid/withdrawals''
       (post_json (JObj [(''amountAtomic'', opt_str amountAtomic)]))"

definition getPaymentProgress :: "'w api \<Rightarrow> string \<Rightarrow> string \<Rightarrow> string \<Rightarrow> ('w, json) proc" where
  "getPaymentProgress api queryId payer accessToken =
     apiFetch api (''/api/v1/questions/'' @ encode_uri queryId @ ''/payment-progress?'' @ url_params [(''payer'', payer)]) (with_query_token accessToken get_init)"

definition recoverPaidDocument :: "'w api \<Rightarrow> string \<Rightarrow> string \<Rightarrow> string \<Rightarrow> string \<Rightarrow> ('w, json) proc" where
  "recoverPaidDocument api queryId handle payer accessToken =
     apiFetch api (''/api/v1/questions/'' @ encode_uri queryId @ ''/paid-documents/'' @ encode_uri handle @ ''?'' @ url_params [(''payer'', payer)]) (with_query_token accessToken get_init)"

definition getAdminOperations :: "'w api \<Rightarrow> ('w, json) proc" where
  "getAdminOperations api =
     apiFetch api ''/api/v1/admin/operations'' get_init"

definition getAdminDataPipeline :: "'w api \<Rightarrow> ('w, json) proc" where
  "getAdminDataPipeline api =
     apiFetch api ''/api/v1/admin/data-pipeline'' get_init"

definition getAdminTable :: "'w api \<Rightarrow> string \<Rightarrow> nat option \<Rightarrow> nat option \<Rightarrow> ('w, json) proc" where
  "getAdminTable api path offset limit =
     apiFetch api (''/api/v1/admin/tables/'' @ encode_uri path @ ''?'' @ url_params
       [(''limit'', show_nat (case limit of None \<Rightarrow> admin_table_page_size | Some n \<Rightarrow> n)),
        (''offset'', show_nat (case offset of None \<Rightarrow> 0 | Some n \<Rightarrow> n))]) get_init"

definition submitDocumentFeedback :: "'w api \<Rightarrow> string \<Rightarrow> string \<Rightarrow> string \<Rightarrow> string \<Rightarrow> string \<Rightarrow> string option \<Rightarrow> ('w, json) proc" where
  "submitDocumentFeedback api queryId handle payer accessToken outcome reason =
     apiFetch api (''/api/v1/questions/'' @ encode_uri queryId @ ''/paid-documents/'' @ encode_uri handle @ ''/feedback?'' @ url_params [(''payer'', payer)])
       (with_query_token accessToken (post_json (JObj [(''outcome'', JStr outcome), (''reason'', opt_str reason)])))"

definition listDocumentFeedback :: "'w api \<Rightarrow> ('w, json) proc" where
  "listDocumentFeedback api =
     apiFetch api ''/api/v1/admin/document-feedback'' get_init"

definition reviewDocumentFeedback :: "'w api \<Rightarrow> string \<Rightarrow> string \<Rightarrow> string \<Rightarrow> ('w, json) proc" where
  "reviewDocumentFeedback api feedbackId decision note' =
     apiFetch api (''/api/v1/admin/document-feedback/'' @ encode_uri feedbackId @ ''/review'')
       (post_json (JObj [(''decision'', JStr decision), (''note'', JStr note')]))"

definition getProfile :: "'w api \<Rightarrow> ('w, json) proc" where
  "getProfile api =
     apiFetch api ''/api/v1/profile'' get_init"

definition upsertProfile :: "'w api \<Rightarrow> json \<Rightarrow> json \<Rightarrow> ('w, json) proc" where
  "upsertProfile api profile preferences =
     apiFetch api ''/api/v1/profile''
       (post_json (spread [profile, preferences]))"

definition updatePreferences :: "'w api \<Rightarrow> json \<Rightarrow> ('w, json) proc" where
  "updatePreferences api preferences =
     apiFetch api ''/api/v1/profile/preferences''
       (post_json preferences)"

definition getEarnings :: "'w api \<Rightarrow> ('w, json) proc" where
  "getEarnings api =
     apiFetch api ''/api/v1/earnings'' get_init"

definition submitAnswer :: "'w api \<Rightarrow> string \<Rightarrow> string \<Rightarrow> json list \<Rightarrow> ('w, json) proc" where
  "submitAnswer api orderId answer interviewResponses =
     pbind (apiFetch api (''/api/v1/open-calls/'' @ encode_uri orderId @ ''/answers'')
       (post_json (JObj [(''answer'', JStr answer), (''interviewResponses'', JArr interviewResponses)]))) (\<lambda>result.
       plift (rbind (orderFromApi (prop_of result ''order'')) (\<lambda>order. Inr (spread [result, JObj [(''order'', order)]]))))"

definition reserveOpenCall :: "'w api \<Rightarrow> string \<Rightarrow> ('w, json) proc" where
  "reserveOpenCall api orderId =
     apiFetch api (''/api/v1/open-calls/'' @ encode_uri orderId @ ''/reservation'') (get_init\<lparr> fi_method := ''POST'' \<rparr>)"

definition releaseOpenCallReservation :: "'w api \<Rightarrow> string \<Rightarrow> ('w, json) proc" where
  "releaseOpenCallReservation api orderId =
     apiFetch api (''/api/v1/open-calls/'' @ encode_uri orderId @ ''/reservation/release'') (get_init\<lparr> fi_method := ''POST'' , fi_keepalive := True \<rparr>)"

text \<open>\<open>None\<close> stands for a browser without \<open>navigator.sendBeacon\<close>.\<close>

definition beaconReleaseOpenCallReservation :: "string \<Rightarrow> (string \<Rightarrow> ('w, bool) proc) option \<Rightarrow> string \<Rightarrow> ('w, bool) proc" where
  "beaconReleaseOpenCallReservation base sendBeacon orderId =
     (case sendBeacon of
        None \<Rightarrow> pret False
      | Some send \<Rightarrow> send (base @ ''/api/v1/open-calls/'' @ encode_uri orderId @ ''/reservation/release''))"

definition listNotifications :: "'w api \<Rightarrow> ('w, json) proc" where
  "listNotifications api =
     apiFetch api ''/api/v1/notifications'' get_init"

definition markNotificationsRead :: "'w api \<Rightarrow> string list \<Rightarrow> ('w, json) proc" where
  "markNotificationsRead api ids =
     apiFetch api ''/api/v1/notifications/read''
       (post_json (JObj [(''ids'', JArr (map JStr ids))]))"

definition disputeMemory :: "'w api \<Rightarrow> string \<Rightarrow> string \<Rightarrow> ('w, json) proc" where
  "disputeMemory api memoryId reason =
     apiFetch api (''/api/v1/memory/'' @ encode_uri memoryId @ ''/dispute'')
       (post_json (JObj [(''reason'', JStr reason)]))"

definition listDisputes :: "'w api \<Rightarrow> ('w, json) proc" where
  "listDisputes api =
     apiFetch api ''/api/v1/admin/disputes'' get_init"

definition reviewDispute :: "'w api \<Rightarrow> string \<Rightarrow> string \<Rightarrow> string \<Rightarrow> ('w, json) proc" where
  "reviewDispute api memoryId decision note' =
     apiFetch api (''/api/v1/admin/disputes/'' @ encode_uri memoryId @ ''/review'')
       (post_json (JObj [(''decision'', JStr decision), (''note'', JStr note')]))"

end
