(* ===== verification/Browser_Payment.thy ===== *)
theory Browser_Payment
  imports Browser_Policy Browser_Api
begin

text \<open>
  The browser's paid flows, \<open>src/lib/x402.ts\<close>: opening documents from the prepaid balance, and the
  top-up of that balance with the wallet. The network, the wallet, the clock, the tab's session variable
  and \<open>localStorage\<close> (which other tabs write too) are services; \<open>by_paidFetch\<close> is the fetch that the x402
  packages wrap around a client with one policy. Amounts inside error messages are left out.
\<close>

section \<open>Services\<close>

record stored_session =
  ss_wallet :: string
  ss_token :: string
  ss_expiresAt :: jnum

record pending_job =
  pj_jobId :: string
  pj_queryId :: string
  pj_handles :: "string list"
  pj_payer :: string

type_synonym payment_policy = "json list \<Rightarrow> json list outcome"

text \<open>\<open>by_publicKey\<close> is \<open>provider?.publicKey?.toString ()\<close> at the time it is read, \<open>by_signMessage\<close> is
  absent where the wallet has no such method; \<open>by_pending\<close> is the parsed entry of \<open>localStorage\<close>,
  \<open>null\<close> where there is none or it does not parse.\<close>

record 'w browser_services =
  by_api :: "'w api"
  by_paidFetch :: "payment_policy \<Rightarrow> string \<Rightarrow> ('w, web_response) proc"
  by_publicKey :: "('w, string option) proc"
  by_signMessage :: "(bytes \<Rightarrow> ('w, bytes) proc) option"
  by_base58 :: "bytes \<Rightarrow> string"
  by_delay :: "int \<Rightarrow> ('w, unit) proc"
  by_now :: "('w, int) proc"
  by_session :: "('w, stored_session option) proc"
  by_setSession :: "stored_session option \<Rightarrow> ('w, unit) proc"
  by_pending :: "('w, json) proc"
  by_setPending :: "pending_job \<Rightarrow> ('w, unit) proc"
  by_removePending :: "('w, unit) proc"

record browser_config =
  bf_backendEnabled :: bool
  bf_x402Enabled :: bool
  bf_gatewayBase :: string
  bf_origin :: string

definition payment_error :: "string \<Rightarrow> js_error" where
  "payment_error message = PaymentErr ''failed'' message"

definition web_fetch :: "'w browser_services \<Rightarrow> web_request \<Rightarrow> ('w, web_response) proc" where
  "web_fetch d = api_fetch (by_api d)"

text \<open>Reading a property of a parsed value, and the typed fields the flow reads.\<close>

definition read_prop :: "json \<Rightarrow> string \<Rightarrow> json outcome" where
  "read_prop v k = require (v \<noteq> JNull \<and> v \<noteq> JUndef) (Err ''Cannot read properties of null'') (Inr (prop_of v k))"

definition string_field :: "json \<Rightarrow> string \<Rightarrow> string" where
  "string_field v k = str_or (as_str (prop_of v k)) []"

definition number_field :: "json \<Rightarrow> string \<Rightarrow> jnum" where
  "number_field v k = (case prop_of v k of JNum x \<Rightarrow> x | _ \<Rightarrow> NaN)"

definition response_json :: "web_response \<Rightarrow> json outcome" where
  "response_json response = of_opt (Err ''invalid JSON'') (wr_json response)"

section \<open>Messages\<close>

definition isPayloadRpcRateLimit :: "string \<Rightarrow> bool" where
  "isPayloadRpcRateLimit message \<longleftrightarrow>
     str_includes ''Failed to create payment payload'' message \<and> str_includes ''HTTP error (429)'' message"

definition isNetworkFailure :: "string \<Rightarrow> bool" where
  "isNetworkFailure message \<longleftrightarrow>
     list_ex (\<lambda>p. str_includes p (to_lower message))
       [''failed to fetch'', ''fetch failed'', ''networkerror'', ''network request failed'', ''load failed'']"

definition is_cancelled :: "string \<Rightarrow> bool" where
  "is_cancelled message \<longleftrightarrow> list_ex (\<lambda>p. str_includes p (to_lower message)) [''reject'', ''declin'', ''cancel'']"

fun is_payment_error :: "js_error \<Rightarrow> bool" where
  "is_payment_error (PaymentErr _ _) = True"
| "is_payment_error _ = False"

section \<open>The prepaid session\<close>

definition session_usable :: "stored_session \<Rightarrow> string \<Rightarrow> int \<Rightarrow> bool" where
  "session_usable session wallet now \<longleftrightarrow> ss_wallet session = wallet \<and> jlt (Num (now + 60000)) (ss_expiresAt session)"

definition new_session :: "'w browser_services \<Rightarrow> string \<Rightarrow> ('w, stored_session) proc" where
  "new_session d wallet =
     (case by_signMessage d of
        None \<Rightarrow> praise (payment_error ''This wallet cannot sign the one-time prepaid spending authorization message.'')
      | Some sign \<Rightarrow>
          pbind (createWalletAuthChallenge (by_api d) wallet ''prepaid_spend_v1'') (\<lambda>challenge.
          pbind (plift (read_prop challenge ''message'')) (\<lambda>_.
          pbind (sign (utf8_encode (string_field challenge ''message''))) (\<lambda>signed.
          pbind (createPrepaidWalletSession (by_api d) wallet (string_field challenge ''id'') (by_base58 d signed)) (\<lambda>session.
          pbind (plift (read_prop session ''wallet'')) (\<lambda>_.
            let stored = \<lparr> ss_wallet = string_field session ''wallet'', ss_token = string_field session ''token'',
              ss_expiresAt = number_field session ''expiresAt'' \<rparr> in
            pbind (by_setSession d (Some stored)) (\<lambda>_. pret stored)))))))"

definition ensurePrepaidWalletSession :: "'w browser_services \<Rightarrow> string \<Rightarrow> ('w, stored_session) proc" where
  "ensurePrepaidWalletSession d wallet =
     pbind (by_session d) (\<lambda>existing.
     pbind (by_now d) (\<lambda>now.
       case existing of
         Some session \<Rightarrow> if session_usable session wallet now then pret session else new_session d wallet
       | None \<Rightarrow> new_session d wallet))"

section \<open>Following a research job\<close>

definition settled_states :: "string list" where
  "settled_states = [''completed'', ''payment_reconciliation'', ''refund_pending'', ''balance_refunded'']"

definition query_request :: "string \<Rightarrow> string \<Rightarrow> web_request" where
  "query_request url token = \<lparr> wq_url = url, wq_method = ''GET'', wq_credentials = False,
     wq_headers = [(''x-openshelf-query-token'', token)], wq_body = None, wq_keepalive = False \<rparr>"

text \<open>\<open>pollResearchJob\<close> with so many attempts left.\<close>

fun pollResearchJob ::
    "'w browser_services \<Rightarrow> browser_config \<Rightarrow> string \<Rightarrow> string \<Rightarrow> nat \<Rightarrow> ('w, json option) proc" where
  "pollResearchJob d cfg jobId accessToken 0 = pret None"
| "pollResearchJob d cfg jobId accessToken (Suc n) =
     pbind (web_fetch d (query_request (bf_gatewayBase cfg @ ''/api/v1/research-jobs/'' @ encode_uri jobId) accessToken)) (\<lambda>response.
     pbind (if \<not> wr_ok response then
          if n = 0 then praise (Err (''Research job recovery returned '' @ show_nat (wr_status response) @ ''.''))
          else pret None
        else
          pbind (plift (response_json response)) (\<lambda>job.
          pbind (plift (read_prop job ''status'')) (\<lambda>status.
            pret (if status \<in> JStr ` set settled_states then Some job else None)))) (\<lambda>job.
       case job of
         Some v \<Rightarrow> pret (Some v)
       | None \<Rightarrow>
           pbind (if n \<noteq> 0 then by_delay d 1000 else pret ()) (\<lambda>_. pollResearchJob d cfg jobId accessToken n)))"

record open_result =
  or_citations :: "json list"
  or_total :: jnum
  or_txSig :: "string option"
  or_txSigs :: "string list"
  or_network :: string
  or_partial :: bool
  or_invoice :: json

fun jadd :: "jnum \<Rightarrow> jnum \<Rightarrow> jnum" where
  "jadd (Fin a) (Fin b) = Fin (a + b)"
| "jadd _ _ = NaN"

text \<open>The prices are whole won, so their sum is exact.\<close>

definition researchResult :: "'w browser_services \<Rightarrow> json \<Rightarrow> json \<Rightarrow> ('w, open_result) proc" where
  "researchResult d job invoice =
     (if prop_of job ''status'' = JStr ''payment_reconciliation''
      then praise (payment_error ''Pay.sh payment outcome is being reconciled. Do not retry or approve another payment; the reserved balance has not been refunded.'')
      else
        pbind (plift (of_opt (Err ''Cannot read properties of undefined'') (as_arr (prop_of job ''citations'')))) (\<lambda>citations.
        if prop_of job ''status'' = JStr ''balance_refunded'' \<and> citations = [] then
          pbind (by_removePending d) (\<lambda>_. praise (payment_error
            ''Pay.sh could not complete the job. It was restored to your Obolus prepaid balance.''))
        else if prop_of job ''status'' = JStr ''refund_pending'' \<and> citations = [] then
          pbind (by_removePending d) (\<lambda>_. praise (payment_error ''Pay.sh could not complete the job. It was queued for refund.''))
        else
          pbind (by_removePending d) (\<lambda>_.
            pret \<lparr> or_citations = citations,
              or_total = foldl (\<lambda>sum citation. jadd sum (number_field citation ''price'')) (Num 0) citations,
              or_txSig = as_str (prop_of job ''transactionSignature''),
              or_txSigs = (if string_field job ''transactionSignature'' = [] then [] else [string_field job ''transactionSignature'']),
              or_network = string_field job ''network'',
              or_partial = (prop_of job ''status'' \<in> {JStr ''refund_pending'', JStr ''balance_refunded''}),
              or_invoice = invoice \<rparr>)))"

section \<open>Opening documents\<close>

record open_request =
  oq_queryId :: string
  oq_handles :: "string list"
  oq_payer :: "string option"
  oq_accessToken :: string
  oq_invoice :: json

text \<open>The requests of the flow: preparing a bundle, with or without the tab's session.\<close>

definition prepare_request :: "browser_config \<Rightarrow> open_request \<Rightarrow> string option \<Rightarrow> web_request" where
  "prepare_request cfg req token =
     \<lparr> wq_url = bf_gatewayBase cfg @ ''/api/v1/payment-bundles'', wq_method = ''POST'', wq_credentials = True,
       wq_headers = [(''content-type'', ''application/json''), (''x-openshelf-query-token'', oq_accessToken req)]
         @ (if truthy token then [(''x-openshelf-wallet-session'', the token)] else []),
       wq_body = Some (JObj [(''queryId'', JStr (oq_queryId req)), (''handles'', JArr (map JStr (oq_handles req))),
         (''expectedInvoiceHash'', prop_of (oq_invoice req) ''invoiceHash'')]), wq_keepalive = False \<rparr>"

definition pending_matches :: "json \<Rightarrow> open_request \<Rightarrow> string \<Rightarrow> bool" where
  "pending_matches pending' req payer \<longleftrightarrow>
     json_truthy pending' \<and> prop_of pending' ''queryId'' = JStr (oq_queryId req) \<and> prop_of pending' ''payer'' = JStr payer
     \<and> string_items (prop_of pending' ''handles'') = Some (oq_handles req)"

definition recover_pending ::
    "'w browser_services \<Rightarrow> browser_config \<Rightarrow> open_request \<Rightarrow> string \<Rightarrow> ('w, json option) proc" where
  "recover_pending d cfg req payer =
     pbind (by_pending d) (\<lambda>pending'.
       if \<not> pending_matches pending' req payer then pret None
       else pbind (pollResearchJob d cfg (text_of (prop_of pending' ''jobId'')) (oq_accessToken req) 1) (\<lambda>recovered.
         pret (case recovered of
             None \<Rightarrow> None
           | Some job \<Rightarrow> if prop_of job ''status'' \<noteq> JStr ''quoted'' then Some job else None)))"

text \<open>The prepared response and the session it was asked for with: a first attempt with the tab's session
  if it is still good, and after a 401 one with a fresh session.\<close>

definition prepare_bundle ::
    "'w browser_services \<Rightarrow> browser_config \<Rightarrow> open_request \<Rightarrow> string \<Rightarrow> ('w, web_response \<times> string option) proc" where
  "prepare_bundle d cfg req payer =
     pbind (by_session d) (\<lambda>session.
     pbind (by_now d) (\<lambda>now.
       let token = (case session of
           None \<Rightarrow> None
         | Some s \<Rightarrow> if ss_wallet s \<noteq> payer \<or> jle (ss_expiresAt s) (Num (now + 60000)) then None else Some (ss_token s)) in
     pbind (web_fetch d (prepare_request cfg req token)) (\<lambda>prepared.
       if wr_status prepared \<noteq> 401 then pret (prepared, token)
       else
         pbind (by_publicKey d) (\<lambda>key.
         if key \<noteq> Some payer
         then praise (payment_error ''Your prepaid authorization expired. Connect the original Phantom wallet once to renew it; no funds will be transferred.'')
         else
           pbind (by_setSession d None) (\<lambda>_.
           pbind (ensurePrepaidWalletSession d payer) (\<lambda>fresh.
           pbind (web_fetch d (prepare_request cfg req (Some (ss_token fresh)))) (\<lambda>again.
             pret (again, Some (ss_token fresh)))))))))"

definition checked_bundle ::
    "'w browser_services \<Rightarrow> open_request \<Rightarrow> web_response \<Rightarrow> string option \<Rightarrow> ('w, json) proc" where
  "checked_bundle d req prepared token =
     (if \<not> wr_ok prepared
      then praise (Err (error_message (payload_of prepared)
        (''Could not prepare research job ('' @ show_nat (wr_status prepared) @ '').'')))
      else
        pbind (plift (response_json prepared)) (\<lambda>bundle.
        pbind (plift (read_prop bundle ''quote'')) (\<lambda>gatewayQuote.
        if string_field gatewayQuote ''id'' = []
        then praise (Err ''The payment gateway returned a malformed research quote.'')
        else
          pbind (getPaymentBundleQuote (by_api d) (string_field gatewayQuote ''id'') (oq_accessToken req) token) (\<lambda>canonicalQuote.
          pbind (by_now d) (\<lambda>now.
            plift (exactResearchBundleQuote gatewayQuote canonicalQuote (oq_queryId req) (oq_handles req) ''0'' now))))))"

definition open_prepared ::
    "'w browser_services \<Rightarrow> browser_config \<Rightarrow> open_request \<Rightarrow> string \<Rightarrow> ('w, open_result) proc" where
  "open_prepared d cfg req payer =
     pbind (recover_pending d cfg req payer) (\<lambda>recovered.
       case recovered of
         Some job \<Rightarrow> researchResult d job (oq_invoice req)
       | None \<Rightarrow>
           pbind (prepare_bundle d cfg req payer) (\<lambda>(prepared, token).
           pbind (checked_bundle d req prepared token) (\<lambda>quote.
             if json_truthy (prop_of quote ''requiresPayment'')
             then praise (payment_error ''Your Obolus prepaid USDC balance is insufficient. Top up from My Database, then retry; this document open will not charge Phantom.'')
             else
               pbind (by_setPending d \<lparr> pj_jobId = string_field quote ''id'', pj_queryId = oq_queryId req,
                 pj_handles = oq_handles req, pj_payer = payer \<rparr>) (\<lambda>_.
               pbind (pollResearchJob d cfg (string_field quote ''id'') (oq_accessToken req) 120) (\<lambda>followed.
                 case followed of
                   None \<Rightarrow> praise (Err ''The existing Pay.sh research job is still working. Retry to check it again without paying.'')
                 | Some job \<Rightarrow> researchResult d job (oq_invoice req))))))"

definition open_failure :: "js_error \<Rightarrow> js_error" where
  "open_failure e =
     (if is_payment_error e then e
      else if is_cancelled (js_message e) then PaymentErr ''cancelled'' ''Payment approval was cancelled in the wallet.''
      else if isNetworkFailure (js_message e)
      then payment_error ''Payment service is temporarily unavailable. Retry this same job; anything already settled will be recovered instead of paid twice.''
      else if isPayloadRpcRateLimit (js_message e)
      then payment_error ''Solana Devnet is rate-limiting payment creation. Wait 15 seconds and retry this same job; nothing was signed or paid twice.''
      else payment_error (''x402 payment failed: '' @ js_message e))"

definition openOverX402 :: "'w browser_services \<Rightarrow> browser_config \<Rightarrow> open_request \<Rightarrow> ('w, open_result) proc" where
  "openOverX402 d cfg req =
     pbind (by_publicKey d) (\<lambda>connectedPayer.
       let requested = trim (str_or (oq_payer req) []);
           payer = (if requested \<noteq> [] then requested else str_or connectedPayer []) in
       if payer = [] then praise (payment_error ''Sign in with your Solana wallet before opening paid documents.'')
       else if truthy (oq_payer req) \<and> truthy connectedPayer \<and> oq_payer req \<noteq> connectedPayer
       then praise (PaymentErr ''identity_mismatch'' ''This payment session belongs to another wallet.'')
       else if oq_accessToken req = [] then praise (payment_error ''The payment recovery token is missing. Start a new query.'')
       else pcatch (open_prepared d cfg req payer) (\<lambda>e. praise (open_failure e)))"

text \<open>Without x402 the documents come from a route behind the Pay gateway.\<close>

definition open_over_pay_gate :: "'w browser_services \<Rightarrow> browser_config \<Rightarrow> open_request \<Rightarrow> ('w, json) proc" where
  "open_over_pay_gate d cfg req =
     pbind (pcatch (web_fetch d \<lparr> wq_url = (if api_base (by_api d) = [] then bf_origin cfg else api_base (by_api d))
           @ ''/api/flash-research?'' @ url_params ([(''queryId'', oq_queryId req), (''docs'', join '','' (oq_handles req))]
             @ (if truthy (oq_payer req) then [(''payer'', the (oq_payer req))] else [])),
         wq_method = ''GET'', wq_credentials = False, wq_headers = [], wq_body = None, wq_keepalive = False \<rparr>)
       (\<lambda>_. praise (payment_error ''Obolus settlement service is not reachable.''))) (\<lambda>response.
     if wr_status response = 402 then praise (payment_error
       ''This URL is protected by the Pay gateway. Use a Pay-enabled agent client to satisfy its 402 challenge.'')
     else if \<not> wr_ok response then praise (payment_error (error_message (payload_of response)
       (''Settlement service returned '' @ show_nat (wr_status response) @ ''.'')))
     else plift (response_json response))"

definition openDocuments ::
    "'w browser_services \<Rightarrow> browser_config \<Rightarrow> open_request \<Rightarrow> ('w, open_result + json) proc" where
  "openDocuments d cfg req =
     (if \<not> bf_backendEnabled cfg
      then praise (payment_error ''Paid persona passages cannot be opened without the backend settlement service.'')
      else if bf_x402Enabled cfg then pbind (openOverX402 d cfg req) (\<lambda>r. pret (Inl r))
      else pbind (open_over_pay_gate d cfg req) (\<lambda>r. pret (Inr r)))"

section \<open>Topping up\<close>

definition rpc_backoff_ms :: "int list" where
  "rpc_backoff_ms = [1500, 3000, 6000]"

text \<open>\<open>paidFetchWithRpcBackoff\<close> with the delays that are left.\<close>

fun paidFetchWithRpcBackoff ::
    "'w browser_services \<Rightarrow> payment_policy \<Rightarrow> string \<Rightarrow> int list \<Rightarrow> ('w, web_response) proc" where
  "paidFetchWithRpcBackoff d policy url [] = by_paidFetch d policy url"
| "paidFetchWithRpcBackoff d policy url (t # ts) =
     pcatch (by_paidFetch d policy url) (\<lambda>e.
       if \<not> isPayloadRpcRateLimit (js_message e) then praise e
       else pbind (by_delay d t) (\<lambda>_. paidFetchWithRpcBackoff d policy url ts))"

definition sign_in_failure :: "js_error \<Rightarrow> js_error" where
  "sign_in_failure e =
     (if is_payment_error e then e
      else if is_cancelled (js_message e) then PaymentErr ''cancelled''
        ''Wallet sign-in was cancelled. Approve the one-time sign-in request in Phantom, then retry the top-up.''
      else payment_error ''Sign in with your Phantom wallet before topping up - approve the one-time request in Phantom, then retry.'')"

definition top_up_request :: "browser_config \<Rightarrow> jnum \<Rightarrow> web_request" where
  "top_up_request cfg amountUsdc = \<lparr> wq_url = bf_gatewayBase cfg @ ''/api/v1/prepaid/top-ups'', wq_method = ''POST'',
     wq_credentials = False, wq_headers = [(''content-type'', ''application/json'')],
     wq_body = Some (JObj [(''amountUsdc'', JNum amountUsdc)]), wq_keepalive = False \<rparr>"

definition prepare_top_up :: "'w browser_services \<Rightarrow> browser_config \<Rightarrow> jnum \<Rightarrow> ('w, exact_top_up_quote) proc" where
  "prepare_top_up d cfg amountUsdc =
     pbind (pcatch (web_fetch d (top_up_request cfg amountUsdc))
       (\<lambda>_. praise (payment_error ''Top-up service is temporarily unavailable.''))) (\<lambda>prepared.
     if \<not> wr_ok prepared then praise (payment_error (error_message (payload_of prepared)
       (''Could not prepare the top-up ('' @ show_nat (wr_status prepared) @ '').'')))
     else
       pbind (plift (response_json prepared)) (\<lambda>body.
       pbind (plift (read_prop body ''quote'')) (\<lambda>quote.
       pbind (by_now d) (\<lambda>now. plift (exactTopUpQuote quote now)))))"

definition pay_top_up :: "'w browser_services \<Rightarrow> browser_config \<Rightarrow> exact_top_up_quote \<Rightarrow> ('w, string) proc" where
  "pay_top_up d cfg quote =
     pbind (plift (exactQuotePaymentPolicy ''topup'' quote)) (\<lambda>policy.
     pbind (by_publicKey d) (\<lambda>key.
     if \<not> truthy key then praise (Err ''Connect a wallet before paying.'')
     else
       pbind (paidFetchWithRpcBackoff d policy (bf_gatewayBase cfg @ etq_resourcePath quote) rpc_backoff_ms) (\<lambda>response.
       if \<not> wr_ok response then praise (Err (error_message (payload_of response)
         (''x402 gateway returned '' @ show_nat (wr_status response) @ ''.'')))
       else
         pbind (getPrepaidBalance (by_api d)) (\<lambda>balance.
         pbind (plift (read_prop balance ''availableAtomic'')) (\<lambda>available. pret (text_of available))))))"

definition top_up_failure :: "js_error \<Rightarrow> js_error" where
  "top_up_failure e =
     (if is_payment_error e then e
      else if is_cancelled (js_message e) then PaymentErr ''cancelled'' ''Payment approval was cancelled in the wallet.''
      else if isNetworkFailure (js_message e)
      then payment_error ''Top-up service is temporarily unavailable. Retry; anything already paid credits your balance without paying twice.''
      else if isPayloadRpcRateLimit (js_message e)
      then payment_error ''Solana Devnet is rate-limiting payment creation. Wait 15 seconds and retry this same top-up.''
      else payment_error (''x402 top-up failed: '' @ js_message e))"

definition topUpPrepaid :: "'w browser_services \<Rightarrow> browser_config \<Rightarrow> jnum \<Rightarrow> ('w, string) proc" where
  "topUpPrepaid d cfg amountUsdc =
     (if \<not> bf_backendEnabled cfg \<or> \<not> bf_x402Enabled cfg
      then praise (payment_error ''Standalone top-up requires the backend and x402 gateway.'')
      else if \<not> is_integer amountUsdc \<or> jlt amountUsdc (Num 1) \<or> jlt (Num 1000) amountUsdc
      then praise (payment_error ''Choose a whole USDC amount between 1 and 1000.'')
      else
        pbind (by_publicKey d) (\<lambda>key.
        case key of
          None \<Rightarrow> praise (payment_error ''Connect a Solana browser wallet before topping up.'')
        | Some connectedPayer \<Rightarrow>
            pbind (pcatch (ensurePrepaidWalletSession d connectedPayer) (\<lambda>e. praise (sign_in_failure e))) (\<lambda>_.
            pbind (prepare_top_up d cfg amountUsdc) (\<lambda>quote.
              pcatch (pay_top_up d cfg quote) (\<lambda>e. praise (top_up_failure e))))))"

section \<open>The log of a flow\<close>

datatype browser_event =
    EvFetch web_request
  | EvPaid payment_policy string
  | EvPublicKey
  | EvSign bytes
  | EvDelay int
  | EvNow
  | EvSession
  | EvSetSession "stored_session option"
  | EvPending
  | EvSetPending pending_job
  | EvRemovePending

record browser_env =
  be_fetch :: "browser_event list \<Rightarrow> web_request \<Rightarrow> web_response outcome"
  be_paid :: "browser_event list \<Rightarrow> payment_policy \<Rightarrow> string \<Rightarrow> web_response outcome"
  be_key :: "browser_event list \<Rightarrow> string option outcome"
  be_sign :: "browser_event list \<Rightarrow> bytes \<Rightarrow> bytes outcome"
  be_now :: "browser_event list \<Rightarrow> int outcome"
  be_session :: "browser_event list \<Rightarrow> stored_session option outcome"
  be_pending :: "browser_event list \<Rightarrow> json outcome"
  be_unit :: "browser_event list \<Rightarrow> browser_event \<Rightarrow> unit outcome"

definition logged_browser :: "browser_env \<Rightarrow> string \<Rightarrow> bool \<Rightarrow> (bytes \<Rightarrow> string) \<Rightarrow> browser_event list browser_services" where
  "logged_browser env base signs base58 =
     \<lparr> by_api = \<lparr> api_base = base, api_fetch = (\<lambda>rq. ask (\<lambda>h _. be_fetch env h rq) (EvFetch rq)) \<rparr>,
       by_paidFetch = (\<lambda>policy url. ask (\<lambda>h _. be_paid env h policy url) (EvPaid policy url)),
       by_publicKey = ask (\<lambda>h _. be_key env h) EvPublicKey,
       by_signMessage = (if signs then Some (\<lambda>m. ask (\<lambda>h _. be_sign env h m) (EvSign m)) else None),
       by_base58 = base58, by_delay = (\<lambda>t. ask (be_unit env) (EvDelay t)), by_now = ask (\<lambda>h _. be_now env h) EvNow,
       by_session = ask (\<lambda>h _. be_session env h) EvSession, by_setSession = (\<lambda>v. ask (be_unit env) (EvSetSession v)),
       by_pending = ask (\<lambda>h _. be_pending env h) EvPending, by_setPending = (\<lambda>j. ask (be_unit env) (EvSetPending j)),
       by_removePending = ask (be_unit env) EvRemovePending \<rparr>"

lemma logged_browser_sel [simp]:
  "by_paidFetch (logged_browser env base signs b58) policy url = ask (\<lambda>h _. be_paid env h policy url) (EvPaid policy url)"
  "by_publicKey (logged_browser env base signs b58) = ask (\<lambda>h _. be_key env h) EvPublicKey"
  "by_signMessage (logged_browser env base signs b58) = (if signs then Some (\<lambda>m. ask (\<lambda>h _. be_sign env h m) (EvSign m)) else None)"
  "by_delay (logged_browser env base signs b58) t = ask (be_unit env) (EvDelay t)"
  "by_now (logged_browser env base signs b58) = ask (\<lambda>h _. be_now env h) EvNow"
  "by_session (logged_browser env base signs b58) = ask (\<lambda>h _. be_session env h) EvSession"
  "by_setSession (logged_browser env base signs b58) v = ask (be_unit env) (EvSetSession v)"
  "by_pending (logged_browser env base signs b58) = ask (\<lambda>h _. be_pending env h) EvPending"
  "by_setPending (logged_browser env base signs b58) j = ask (be_unit env) (EvSetPending j)"
  "by_removePending (logged_browser env base signs b58) = ask (be_unit env) EvRemovePending"
  "web_fetch (logged_browser env base signs b58) rq = ask (\<lambda>h _. be_fetch env h rq) (EvFetch rq)"
  "api_fetch (by_api (logged_browser env base signs b58)) rq = ask (\<lambda>h _. be_fetch env h rq) (EvFetch rq)"
  by (simp_all add: logged_browser_def web_fetch_def)

text \<open>Everything but a payment and a remembered job; and procedures that do nothing else.\<close>

fun harmless :: "browser_event \<Rightarrow> bool" where
  "harmless (EvPaid _ _) \<longleftrightarrow> False"
| "harmless (EvSetPending _) \<longleftrightarrow> False"
| "harmless _ \<longleftrightarrow> True"

abbreviation calm :: "browser_event list \<Rightarrow> bool" where
  "calm h \<equiv> list_all harmless h"

definition quietly :: "(browser_event list, 'a) proc \<Rightarrow> bool" where
  "quietly m \<longleftrightarrow> (\<forall>h. wp m (\<lambda>_ h'. \<exists>ext. h' = h @ ext \<and> calm ext) (\<lambda>_ h'. \<exists>ext. h' = h @ ext \<and> calm ext) h)"

named_theorems quiet_intros \<open>procedures that neither pay nor remember a job\<close>

lemma wp_quietly:
  assumes "quietly m" "\<And>a ext. calm ext \<Longrightarrow> Q a (h @ ext)" "\<And>e ext. calm ext \<Longrightarrow> E e (h @ ext)"
  shows "wp m Q E h"
  by (rule wp_mono [OF assms(1) [unfolded quietly_def, rule_format, of h]]) (use assms(2,3) in auto)

lemma quietly_pret [quiet_intros]: "quietly (pret a)" "quietly (praise e)" "quietly (plift r)"
  by (auto simp: quietly_def wp_simps split: sum.splits)

lemma quietly_ask: "harmless ev \<Longrightarrow> quietly (ask env ev)"
  by (auto simp: quietly_def wp_simps split: sum.splits)

lemma quietly_pbind [quiet_intros]:
  assumes "quietly m" "\<And>a. quietly (f a)"
  shows "quietly (pbind m f)"
  unfolding quietly_def
proof (intro allI wp_pbindI)
  fix h
  show "wp m (\<lambda>a. wp (f a) (\<lambda>_ h'. \<exists>ext. h' = h @ ext \<and> calm ext) (\<lambda>_ h'. \<exists>ext. h' = h @ ext \<and> calm ext))
     (\<lambda>_ h'. \<exists>ext. h' = h @ ext \<and> calm ext) h"
    by (rule wp_quietly [OF assms(1)]) (auto intro!: wp_quietly [OF assms(2)])
qed

lemma quietly_pcatch [quiet_intros]:
  assumes "quietly m" "\<And>e. quietly (f e)"
  shows "quietly (pcatch m f)"
  unfolding quietly_def
proof (intro allI wp_pcatchI)
  fix h
  show "wp m (\<lambda>_ h'. \<exists>ext. h' = h @ ext \<and> calm ext)
     (\<lambda>e. wp (f e) (\<lambda>_ h'. \<exists>ext. h' = h @ ext \<and> calm ext) (\<lambda>_ h'. \<exists>ext. h' = h @ ext \<and> calm ext)) h"
    by (rule wp_quietly [OF assms(1)]) (auto intro!: wp_quietly [OF assms(2)])
qed

lemma quietly_if [quiet_intros]: "(b \<Longrightarrow> quietly m) \<Longrightarrow> (\<not> b \<Longrightarrow> quietly n) \<Longrightarrow> quietly (if b then m else n)"
  by simp

lemma quietly_option [quiet_intros]:
  "(x = None \<Longrightarrow> quietly m) \<Longrightarrow> (\<And>a. x = Some a \<Longrightarrow> quietly (f a)) \<Longrightarrow> quietly (case x of None \<Rightarrow> m | Some a \<Rightarrow> f a)"
  by (cases x) simp_all

lemma quietly_let [quiet_intros]: "quietly (f x) \<Longrightarrow> quietly (let y = x in f y)"
  by simp

lemma quietly_services [quiet_intros]:
  "quietly (web_fetch (logged_browser env base signs b58) rq)"
  "quietly (api_fetch (by_api (logged_browser env base signs b58)) rq)"
  "quietly (by_publicKey (logged_browser env base signs b58))"
  "quietly (by_delay (logged_browser env base signs b58) t)"
  "quietly (by_now (logged_browser env base signs b58))"
  "quietly (by_session (logged_browser env base signs b58))"
  "quietly (by_setSession (logged_browser env base signs b58) v)"
  "quietly (by_pending (logged_browser env base signs b58))"
  "quietly (by_removePending (logged_browser env base signs b58))"
  "by_signMessage (logged_browser env base signs b58) = Some sign \<Longrightarrow> quietly (sign m)"
  by (auto intro: quietly_ask split: if_splits)

lemma quietly_api [quiet_intros]: "quietly (apiFetch (by_api (logged_browser env base signs b58)) path init)"
  unfolding apiFetch_def by (intro quiet_intros)

lemma quietly_ensure [quiet_intros]: "quietly (ensurePrepaidWalletSession (logged_browser env base signs b58) wallet)"
  unfolding ensurePrepaidWalletSession_def new_session_def createWalletAuthChallenge_def createPrepaidWalletSession_def
  by (intro quiet_intros)

lemma quietly_prepare [quiet_intros]: "quietly (prepare_bundle (logged_browser env base signs b58) cfg req payer)"
  unfolding prepare_bundle_def by (intro quiet_intros)

lemma quietly_result [quiet_intros]: "quietly (researchResult (logged_browser env base signs b58) job invoice)"
  unfolding researchResult_def by (intro quiet_intros)

section \<open>Opening documents: what an opened result rests on\<close>

definition job_request :: "browser_config \<Rightarrow> string \<Rightarrow> string \<Rightarrow> web_request" where
  "job_request cfg jobId token = query_request (bf_gatewayBase cfg @ ''/api/v1/research-jobs/'' @ encode_uri jobId) token"

definition job_reported :: "browser_env \<Rightarrow> browser_config \<Rightarrow> string \<Rightarrow> string \<Rightarrow> browser_event list \<Rightarrow> json \<Rightarrow> bool" where
  "job_reported env cfg jobId token h job \<longleftrightarrow>
     (\<exists>response. answered (\<lambda>h _. be_fetch env h (job_request cfg jobId token)) h (EvFetch (job_request cfg jobId token)) response
        \<and> wr_ok response \<and> wr_json response = Some job \<and> prop_of job ''status'' \<in> JStr ` set settled_states)"

lemma job_reported_append: "job_reported env cfg jobId token h job \<Longrightarrow> job_reported env cfg jobId token (h @ ext) job"
  unfolding job_reported_def by (blast intro: answered_append)

lemma wp_poll:
  "wp (pollResearchJob (logged_browser env base signs b58) cfg jobId token n)
     (\<lambda>r h'. \<exists>ext. h' = h @ ext \<and> calm ext \<and> (\<forall>job. r = Some job \<longrightarrow> job_reported env cfg jobId token h' job))
     (\<lambda>_ h'. \<exists>ext. h' = h @ ext \<and> calm ext) h"
proof (induction n arbitrary: h)
  case (Suc n)
  let ?rq = "job_request cfg jobId token"
  let ?Q = "\<lambda>(r :: json option) h'. \<exists>ext. h' = h @ ext \<and> calm ext \<and> (\<forall>job. r = Some job \<longrightarrow> job_reported env cfg jobId token h' job)"
  let ?E = "\<lambda>(_ :: js_error) h'. \<exists>ext. h' = h @ ext \<and> calm ext"
  have rest: "wp (pbind (if n \<noteq> 0 then by_delay (logged_browser env base signs b58) 1000 else pret ())
      (\<lambda>_. pollResearchJob (logged_browser env base signs b58) cfg jobId token n)) ?Q ?E (h @ [EvFetch ?rq])"
  proof (rule wp_pbindI, rule wp_quietly)
    show "quietly (if n \<noteq> 0 then by_delay (logged_browser env base signs b58) 1000 else pret ())" by (intro quiet_intros)
  qed (auto intro!: wp_mono [OF Suc.IH])
  show ?case
    unfolding pollResearchJob.simps logged_browser_sel job_request_def [symmetric]
  proof (intro wp_pbindI wp_askI)
    fix response assume r: "be_fetch env h ?rq = Inr response"
    have reported: "job_reported env cfg jobId token (h @ [EvFetch ?rq]) job"
      if "wr_ok response" "wr_json response = Some job" "prop_of job ''status'' \<in> JStr ` set settled_states" for job
      unfolding job_reported_def using that answered_last [of "\<lambda>h _. be_fetch env h ?rq" h] r by blast
    have inner: "wp (if \<not> wr_ok response then
          if n = 0 then praise (Err (''Research job recovery returned '' @ show_nat (wr_status response) @ ''.'')) else pret None
        else pbind (plift (response_json response)) (\<lambda>job. pbind (plift (read_prop job ''status'')) (\<lambda>status.
            pret (if status \<in> JStr ` set settled_states then Some job else None))))
       (\<lambda>job h'. h' = h @ [EvFetch ?rq] \<and> (\<forall>v. job = Some v \<longrightarrow> job_reported env cfg jobId token h' v))
       (\<lambda>_ h'. h' = h @ [EvFetch ?rq]) (h @ [EvFetch ?rq])"
      using reported by (auto simp: response_json_def read_prop_def intro!: wp_intros split: if_splits)
    show "wp (if \<not> wr_ok response then
          if n = 0 then praise (Err (''Research job recovery returned '' @ show_nat (wr_status response) @ ''.'')) else pret None
        else pbind (plift (response_json response)) (\<lambda>job. pbind (plift (read_prop job ''status'')) (\<lambda>status.
            pret (if status \<in> JStr ` set settled_states then Some job else None))))
       (\<lambda>job. wp (case job of Some v \<Rightarrow> pret (Some v) | None \<Rightarrow>
           pbind (if n \<noteq> 0 then ask (be_unit env) (EvDelay 1000) else pret ())
             (\<lambda>_. pollResearchJob (logged_browser env base signs b58) cfg jobId token n)) ?Q ?E) ?E (h @ [EvFetch ?rq])"
    proof (rule wp_mono [OF inner])
      fix job :: "json option" and h'
      assume job: "h' = h @ [EvFetch ?rq] \<and> (\<forall>v. job = Some v \<longrightarrow> job_reported env cfg jobId token h' v)"
      show "wp (case job of Some v \<Rightarrow> pret (Some v) | None \<Rightarrow>
           pbind (if n \<noteq> 0 then ask (be_unit env) (EvDelay 1000) else pret ())
             (\<lambda>_. pollResearchJob (logged_browser env base signs b58) cfg jobId token n)) ?Q ?E h'"
      proof (cases job)
        case None
        then show ?thesis using job rest [unfolded logged_browser_sel] by (simp only: option.case)
      next
        case (Some v)
        then show ?thesis using job by (auto intro!: wp_pretI)
      qed
    qed simp
  qed auto
qed (simp add: wp_simps)

lemma zero_refill_never_checked:
  "wp (checked_bundle (logged_browser env base signs b58) req prepared token) (\<lambda>_ _. False) (\<lambda>_ h'. \<exists>ext. h' = h @ ext \<and> calm ext) h"
proof -
  have api: "quietly (getPaymentBundleQuote (by_api (logged_browser env base signs b58)) i t u)" for i t u
    unfolding getPaymentBundleQuote_def by (intro quiet_intros)
  show ?thesis
    unfolding checked_bundle_def zero_refill_refused
    by (intro wp_intros wp_quietly [OF api]) (auto intro!: wp_intros)
qed

definition remembered_job :: "browser_env \<Rightarrow> browser_config \<Rightarrow> open_request \<Rightarrow> string \<Rightarrow> browser_event list \<Rightarrow> json \<Rightarrow> bool" where
  "remembered_job env cfg req payer h job \<longleftrightarrow>
     (\<exists>pending'. answered (\<lambda>h _. be_pending env h) h EvPending pending' \<and> pending_matches pending' req payer
        \<and> job_reported env cfg (text_of (prop_of pending' ''jobId'')) (oq_accessToken req) h job)"

lemma wp_recover_pending:
  "wp (recover_pending (logged_browser env base signs b58) cfg req payer)
     (\<lambda>r h'. \<exists>ext. h' = h @ ext \<and> calm ext \<and> (\<forall>job. r = Some job \<longrightarrow> remembered_job env cfg req payer h' job))
     (\<lambda>_ h'. \<exists>ext. h' = h @ ext \<and> calm ext) h"
  unfolding recover_pending_def logged_browser_sel
proof (intro wp_pbindI wp_askI wp_ifI wp_pretI)
  fix pending' assume p: "be_pending env h = Inr pending'" "\<not> \<not> pending_matches pending' req payer"
  let ?job = "text_of (prop_of pending' ''jobId'')"
  show "wp (pollResearchJob (logged_browser env base signs b58) cfg ?job (oq_accessToken req) 1)
     (\<lambda>recovered. wp (pret (case recovered of None \<Rightarrow> None
        | Some job \<Rightarrow> if prop_of job ''status'' \<noteq> JStr ''quoted'' then Some job else None))
       (\<lambda>r h'. \<exists>ext. h' = h @ ext \<and> calm ext \<and> (\<forall>job. r = Some job \<longrightarrow> remembered_job env cfg req payer h' job))
       (\<lambda>_ h'. \<exists>ext. h' = h @ ext \<and> calm ext))
     (\<lambda>_ h'. \<exists>ext. h' = h @ ext \<and> calm ext) (h @ [EvPending])"
  proof (rule wp_mono [OF wp_poll])
    fix r h' assume "\<exists>ext. h' = (h @ [EvPending]) @ ext \<and> calm ext
      \<and> (\<forall>job. r = Some job \<longrightarrow> job_reported env cfg ?job (oq_accessToken req) h' job)"
    then obtain ext where ext: "h' = h @ EvPending # ext" "calm ext"
        "\<And>job. r = Some job \<Longrightarrow> job_reported env cfg ?job (oq_accessToken req) h' job" by auto
    have "answered (\<lambda>h _. be_pending env h) h' EvPending pending'" unfolding answered_def ext(1) using p(1) by blast
    then have "remembered_job env cfg req payer h' job" if "r = Some job" for job
      unfolding remembered_job_def using p(2) ext(3) [OF that] by blast
    then show "wp (pret (case r of None \<Rightarrow> None | Some job \<Rightarrow> if prop_of job ''status'' \<noteq> JStr ''quoted'' then Some job else None))
       (\<lambda>r h'. \<exists>ext. h' = h @ ext \<and> calm ext \<and> (\<forall>job. r = Some job \<longrightarrow> remembered_job env cfg req payer h' job))
       (\<lambda>_ h'. \<exists>ext. h' = h @ ext \<and> calm ext) h'"
      using ext(1,2) by (auto simp: wp_simps split: option.splits)
  qed auto
qed auto

lemma remembered_job_append: "remembered_job env cfg req payer h job \<Longrightarrow> remembered_job env cfg req payer (h @ ext) job"
  unfolding remembered_job_def by (blast intro: answered_append job_reported_append)

lemma wp_researchResult:
  "wp (researchResult (logged_browser env base signs b58) job invoice)
     (\<lambda>res h'. \<exists>ext. h' = h @ ext \<and> calm ext \<and> prop_of job ''citations'' = JArr (or_citations res)
        \<and> prop_of job ''status'' \<noteq> JStr ''payment_reconciliation''
        \<and> (or_citations res = [] \<longrightarrow> prop_of job ''status'' \<notin> {JStr ''refund_pending'', JStr ''balance_refunded''}))
     (\<lambda>_ h'. \<exists>ext. h' = h @ ext \<and> calm ext) h"
  unfolding researchResult_def logged_browser_sel
  by (intro wp_intros) auto

text \<open>What an opened result rests on.\<close>

definition opened_from :: "browser_env \<Rightarrow> browser_config \<Rightarrow> open_request \<Rightarrow> browser_event list \<Rightarrow> open_result \<Rightarrow> bool" where
  "opened_from env cfg req h res \<longleftrightarrow>
     (\<exists>payer job. payer \<noteq> [] \<and> remembered_job env cfg req payer h job \<and> prop_of job ''citations'' = JArr (or_citations res)
        \<and> prop_of job ''status'' \<noteq> JStr ''payment_reconciliation''
        \<and> (or_citations res = [] \<longrightarrow> prop_of job ''status'' = JStr ''completed''))"

lemma wp_open_prepared:
  assumes "payer \<noteq> []"
  shows "wp (open_prepared (logged_browser env base signs b58) cfg req payer)
     (\<lambda>res h'. \<exists>ext. h' = h @ ext \<and> calm ext \<and> opened_from env cfg req h' res)
     (\<lambda>_ h'. \<exists>ext. h' = h @ ext \<and> calm ext) h"
  unfolding open_prepared_def
proof (rule wp_pbindI, rule wp_mono [OF wp_recover_pending])
  let ?Q = "\<lambda>res h'. \<exists>ext. h' = h @ ext \<and> calm ext \<and> opened_from env cfg req h' res"
  let ?E = "\<lambda>(_ :: js_error) h'. \<exists>ext. h' = h @ ext \<and> calm ext"
  fix recovered h1
  assume "\<exists>ext. h1 = h @ ext \<and> calm ext \<and> (\<forall>job. recovered = Some job \<longrightarrow> remembered_job env cfg req payer h1 job)"
  then obtain ext where h1: "h1 = h @ ext" "calm ext" "\<And>job. recovered = Some job \<Longrightarrow> remembered_job env cfg req payer h1 job"
    by blast
  have found: "wp (researchResult (logged_browser env base signs b58) job (oq_invoice req)) ?Q ?E h1"
    if job: "recovered = Some job" for job
  proof (rule wp_mono [OF wp_researchResult])
    fix res :: open_result and h2
    assume "\<exists>ext. h2 = h1 @ ext \<and> calm ext \<and> prop_of job ''citations'' = JArr (or_citations res)
        \<and> prop_of job ''status'' \<noteq> JStr ''payment_reconciliation''
        \<and> (or_citations res = [] \<longrightarrow> prop_of job ''status'' \<notin> {JStr ''refund_pending'', JStr ''balance_refunded''})"
    then obtain ext2 where h2: "h2 = h1 @ ext2" "calm ext2" "prop_of job ''citations'' = JArr (or_citations res)"
        "prop_of job ''status'' \<noteq> JStr ''payment_reconciliation''"
        "or_citations res = [] \<longrightarrow> prop_of job ''status'' \<notin> {JStr ''refund_pending'', JStr ''balance_refunded''}" by blast
    have "remembered_job env cfg req payer h2 job" unfolding h2(1) using h1(3) [OF job] by (rule remembered_job_append)
    moreover from this have "prop_of job ''status'' \<in> JStr ` set settled_states"
      by (auto simp: remembered_job_def job_reported_def)
    ultimately have "opened_from env cfg req h2 res"
      unfolding opened_from_def using assms h2(3-5) by (intro exI [of _ payer] exI [of _ job]) (auto simp: settled_states_def)
    then show "?Q res h2" using h1(1,2) h2(1,2) by auto
  qed (use h1(1,2) in auto)
  show "wp (case recovered of Some job \<Rightarrow> researchResult (logged_browser env base signs b58) job (oq_invoice req)
      | None \<Rightarrow> pbind (prepare_bundle (logged_browser env base signs b58) cfg req payer) (\<lambda>(prepared, token).
           pbind (checked_bundle (logged_browser env base signs b58) req prepared token) (\<lambda>quote.
             if json_truthy (prop_of quote ''requiresPayment'')
             then praise (payment_error ''Your Obolus prepaid USDC balance is insufficient. Top up from My Database, then retry; this document open will not charge Phantom.'')
             else
               pbind (by_setPending (logged_browser env base signs b58) \<lparr> pj_jobId = string_field quote ''id'', pj_queryId = oq_queryId req,
                 pj_handles = oq_handles req, pj_payer = payer \<rparr>) (\<lambda>_.
               pbind (pollResearchJob (logged_browser env base signs b58) cfg (string_field quote ''id'') (oq_accessToken req) 120) (\<lambda>followed.
                 case followed of
                   None \<Rightarrow> praise (Err ''The existing Pay.sh research job is still working. Retry to check it again without paying.'')
                 | Some job \<Rightarrow> researchResult (logged_browser env base signs b58) job (oq_invoice req)))))) ?Q ?E h1"
  proof (cases recovered)
    case None
    then show ?thesis
      using h1(1,2)
      by (auto intro!: wp_pbindI wp_quietly [OF quietly_prepare] wp_mono [OF zero_refill_never_checked] split: prod.splits)
  qed (simp add: found)
qed auto

text \<open>C37: The browser opens paid documents only by recovering a research job that this browser had
  remembered for the same query, documents and payer and that the gateway reports as finished: it never
  asks the wallet to pay, and it never remembers a job, because the check of every newly prepared quote
  refuses the refill of zero it is given.\<close>

theorem browser_opens_only_remembered_jobs:
  assumes "openOverX402 (logged_browser env base signs b58) cfg req [] = (r, h)"
  shows "calm h \<and> (\<forall>res. r = Inr res \<longrightarrow> opened_from env cfg req h res)"
proof -
  have "wp (openOverX402 (logged_browser env base signs b58) cfg req)
     (\<lambda>res h. calm h \<and> opened_from env cfg req h res) (\<lambda>_ h. calm h) []"
    unfolding openOverX402_def Let_def logged_browser_sel
    by (intro wp_pbindI wp_askI wp_ifI wp_pcatchI wp_praiseI wp_mono [OF wp_open_prepared]) auto
  with assms show ?thesis by (cases r) (auto simp: wp_def)
qed

section \<open>Topping up: what is paid\<close>

definition quote_offered :: "browser_env \<Rightarrow> browser_config \<Rightarrow> jnum \<Rightarrow> browser_event list \<Rightarrow> exact_top_up_quote \<Rightarrow> bool" where
  "quote_offered env cfg amountUsdc h quote \<longleftrightarrow>
     (\<exists>response body now. answered (\<lambda>h _. be_fetch env h (top_up_request cfg amountUsdc)) h (EvFetch (top_up_request cfg amountUsdc)) response
        \<and> wr_ok response \<and> wr_json response = Some body \<and> exactTopUpQuote (prop_of body ''quote'') now = Inr quote)"

text \<open>A payment that failed with the rate limit of building its payload.\<close>

definition failed_unsigned :: "browser_env \<Rightarrow> browser_event list \<Rightarrow> browser_event \<Rightarrow> bool" where
  "failed_unsigned env pre ev \<longleftrightarrow>
     (case ev of EvPaid policy url \<Rightarrow> \<exists>e. be_paid env pre policy url = Inl e \<and> isPayloadRpcRateLimit (js_message e) | _ \<Rightarrow> True)"

definition pinned :: "browser_env \<Rightarrow> payment_policy \<Rightarrow> string \<Rightarrow> browser_event list \<Rightarrow> browser_event \<Rightarrow> bool" where
  "pinned env policy url pre ev \<longleftrightarrow>
     (case ev of EvPaid p u \<Rightarrow> p = policy \<and> u = url \<and> log_inv (failed_unsigned env) pre | _ \<Rightarrow> True)"

fun is_paid :: "browser_event \<Rightarrow> bool" where
  "is_paid (EvPaid _ _) = True"
| "is_paid _ = False"

lemma log_inv_quiet:
  assumes "calm ext" "\<And>pre ev. harmless ev \<Longrightarrow> P pre ev"
  shows "log_inv P (h @ ext) \<longleftrightarrow> log_inv P h"
  using assms(1)
proof (induction ext rule: rev_induct)
  case (snoc ev ext)
  then show ?case using assms(2) log_inv_simps(2) [of P "h @ ext" ev] by simp
qed simp

lemma harmless_unsigned: "harmless ev \<Longrightarrow> failed_unsigned env pre ev"
  by (cases ev) (simp_all add: failed_unsigned_def)

lemma harmless_pinned: "harmless ev \<Longrightarrow> pinned env policy url pre ev"
  by (cases ev) (simp_all add: pinned_def)

lemma calm_logs:
  assumes "calm ext"
  shows "log_inv (failed_unsigned env) (h @ ext) \<longleftrightarrow> log_inv (failed_unsigned env) h"
    "log_inv (pinned env policy url) (h @ ext) \<longleftrightarrow> log_inv (pinned env policy url) h"
  using assms by (blast intro!: log_inv_quiet harmless_unsigned harmless_pinned)+

lemma paid_event_simps [simp]:
  "pinned env policy url pre (EvPaid p u) \<longleftrightarrow> p = policy \<and> u = url \<and> log_inv (failed_unsigned env) pre"
  "pinned env policy url pre (EvDelay t)"
  "failed_unsigned env pre (EvPaid p u) \<longleftrightarrow> (\<exists>e. be_paid env pre p u = Inl e \<and> isPayloadRpcRateLimit (js_message e))"
  "failed_unsigned env pre (EvDelay t)"
  by (simp_all add: pinned_def failed_unsigned_def)

lemma quiet_unpaid: "calm ext \<Longrightarrow> filter is_paid ext = []"
proof (induction ext)
  case (Cons ev ext)
  then show ?case by (cases ev) simp_all
qed simp

definition paid_for :: "browser_env \<Rightarrow> payment_policy \<Rightarrow> string \<Rightarrow> browser_event list \<Rightarrow> web_response \<Rightarrow> bool" where
  "paid_for env policy url h response \<longleftrightarrow> answered (\<lambda>h _. be_paid env h policy url) h (EvPaid policy url) response"

lemma wp_backoff:
  assumes "log_inv (pinned env policy url) h" "log_inv (failed_unsigned env) h"
  shows "wp (paidFetchWithRpcBackoff (logged_browser env base signs b58) policy url ts)
     (\<lambda>response h'. log_inv (pinned env policy url) h' \<and> length (filter is_paid h') \<le> length (filter is_paid h) + length ts + 1
        \<and> extends h h' \<and> paid_for env policy url h' response)
     (\<lambda>_ h'. log_inv (pinned env policy url) h' \<and> length (filter is_paid h') \<le> length (filter is_paid h) + length ts + 1 \<and> extends h h') h"
  using assms
proof (induction ts arbitrary: h)
  case Nil
  then show ?case
    by (simp, intro wp_askI) (auto simp: paid_for_def intro: answered_last)
next
  case (Cons t ts)
  let ?h = "h @ [EvPaid policy url]"
  let ?P = "\<lambda>h'. log_inv (pinned env policy url) h' \<and> length (filter is_paid h') \<le> length (filter is_paid h) + length (t # ts) + 1 \<and> extends h h'"
  have pinned: "log_inv (pinned env policy url) ?h" using Cons.prems by simp
  show ?case
    unfolding paidFetchWithRpcBackoff.simps logged_browser_sel
  proof (rule wp_pcatchI, rule wp_askI)
    fix response assume "be_paid env h policy url = Inr response"
    then show "log_inv (pinned env policy url) ?h \<and> length (filter is_paid ?h) \<le> length (filter is_paid h) + length (t # ts) + 1
      \<and> extends h ?h \<and> paid_for env policy url ?h response"
      using pinned by (auto simp: paid_for_def intro: answered_last)
  next
    fix e assume e: "be_paid env h policy url = Inl e"
    have P: "?P ?h" using pinned by simp
    have P': "log_inv (pinned env policy url) (?h @ [EvDelay t])" using pinned by (simp only: log_inv_simps paid_event_simps)
    show "wp (if \<not> isPayloadRpcRateLimit (js_message e) then praise e
         else pbind (ask (be_unit env) (EvDelay t)) (\<lambda>_. paidFetchWithRpcBackoff (logged_browser env base signs b58) policy url ts))
       (\<lambda>response h'. log_inv (pinned env policy url) h' \<and> length (filter is_paid h') \<le> length (filter is_paid h) + length (t # ts) + 1
          \<and> extends h h' \<and> paid_for env policy url h' response) (\<lambda>_. ?P) ?h"
    proof (cases "isPayloadRpcRateLimit (js_message e)")
      case False
      then show ?thesis using P by (simp only: simp_thms if_True wp_simps)
    next
      case True
      have "log_inv (failed_unsigned env) (?h @ [EvDelay t])"
        using Cons.prems(2) e True by (simp only: log_inv_simps paid_event_simps) blast
      then have "wp (paidFetchWithRpcBackoff (logged_browser env base signs b58) policy url ts)
       (\<lambda>response h'. log_inv (pinned env policy url) h' \<and> length (filter is_paid h') \<le> length (filter is_paid h) + length (t # ts) + 1
          \<and> extends h h' \<and> paid_for env policy url h' response) (\<lambda>_. ?P) (?h @ [EvDelay t])"
        using P' by (intro wp_mono [OF Cons.IH]) (auto simp: extends_def)
      moreover have "?P (?h @ [EvDelay t])" using P' by (simp only: extends_def append_assoc) auto
      ultimately show ?thesis
        using True by (simp only: simp_thms if_False) (intro wp_pbindI wp_askI, simp_all only: simp_thms)
    qed
  qed
qed

lemma quote_offeredI:
  assumes "be_fetch env h (top_up_request cfg amountUsdc) = Inr response" "wr_ok response" "wr_json response = Some body"
    and "exactTopUpQuote (prop_of body ''quote'') now = Inr quote"
  shows "quote_offered env cfg amountUsdc (h @ EvFetch (top_up_request cfg amountUsdc) # ext) quote"
  unfolding quote_offered_def answered_def using assms by blast

lemma wp_prepare_top_up:
  "wp (prepare_top_up (logged_browser env base signs b58) cfg amountUsdc)
     (\<lambda>quote h'. \<exists>ext. h' = h @ ext \<and> calm ext \<and> quote_offered env cfg amountUsdc h' quote)
     (\<lambda>_ h'. \<exists>ext. h' = h @ ext \<and> calm ext) h"
  unfolding prepare_top_up_def logged_browser_sel
  by (intro wp_intros) (auto simp: response_json_def read_prop_def intro: quote_offeredI)

lemma exact_top_up_path: "exactTopUpQuote v now = Inr quote \<Longrightarrow> etq_resourcePath quote = ''/api/v1/paid-top-ups/'' @ ebq_id quote"
  by (auto simp: exactTopUpQuote_def split: json.splits if_splits)

text \<open>The whole payment of a quote.\<close>

definition top_up_log :: "browser_env \<Rightarrow> browser_config \<Rightarrow> jnum \<Rightarrow> browser_event list \<Rightarrow> bool" where
  "top_up_log env cfg amountUsdc h \<longleftrightarrow> calm h \<or>
     (\<exists>pre ext quote policy. h = pre @ ext \<and> calm pre \<and> quote_offered env cfg amountUsdc pre quote
        \<and> exactQuotePaymentPolicy ''topup'' quote = Inr policy
        \<and> log_inv (pinned env policy (bf_gatewayBase cfg @ ''/api/v1/paid-top-ups/'' @ ebq_id quote)) h
        \<and> length (filter is_paid h) \<le> 4)"

lemma quiet_top_up_log: "calm h \<Longrightarrow> top_up_log env cfg amountUsdc h"
  by (simp add: top_up_log_def)

lemma wp_pay_top_up:
  assumes h: "calm h" "quote_offered env cfg amountUsdc h quote"
  shows "wp (pay_top_up (logged_browser env base signs b58) cfg quote)
     (\<lambda>_ h'. top_up_log env cfg amountUsdc h' \<and> (\<exists>policy url response. paid_for env policy url h' response \<and> wr_ok response))
     (\<lambda>_ h'. top_up_log env cfg amountUsdc h') h"
proof -
  let ?h = "h @ [EvPublicKey]"
  let ?url = "bf_gatewayBase cfg @ etq_resourcePath quote"
  have q: "calm ?h" using h(1) by simp
  have balance: "quietly (getPrepaidBalance (by_api (logged_browser env base signs b58)))"
    unfolding getPrepaidBalance_def by (intro quiet_intros)
  have logged: "top_up_log env cfg amountUsdc (h' @ ext)"
    if "exactQuotePaymentPolicy ''topup'' quote = Inr policy" "log_inv (pinned env policy ?url) h'"
      "length (filter is_paid h') \<le> length (filter is_paid ?h) + length rpc_backoff_ms + 1" "extends ?h h'" "calm ext"
    for policy h' ext
  proof -
    from that(4) obtain more where more: "h' = h @ EvPublicKey # more" by (auto simp: extends_def)
    have "length (filter is_paid (h' @ ext)) \<le> 4"
      using that(3) quiet_unpaid [OF q] quiet_unpaid [OF that(5)] by (simp add: rpc_backoff_ms_def)
    moreover have "log_inv (pinned env policy ?url) (h' @ ext)" using that(2) calm_logs(2) [OF that(5)] by blast
    moreover have "etq_resourcePath quote = ''/api/v1/paid-top-ups/'' @ ebq_id quote"
      using h(2) exact_top_up_path unfolding quote_offered_def by blast
    ultimately show ?thesis
      unfolding top_up_log_def using h that(1) more
      by (intro disjI2 exI [of _ h] exI [of _ "EvPublicKey # more @ ext"] exI [of _ quote] exI [of _ policy]) simp
  qed
  have pay: "wp (paidFetchWithRpcBackoff (logged_browser env base signs b58) policy ?url rpc_backoff_ms)
     (\<lambda>response. wp (if \<not> wr_ok response then praise (Err (error_message (payload_of response)
           (''x402 gateway returned '' @ show_nat (wr_status response) @ ''.'')))
         else pbind (getPrepaidBalance (by_api (logged_browser env base signs b58))) (\<lambda>balance.
           pbind (plift (read_prop balance ''availableAtomic'')) (\<lambda>available. pret (text_of available))))
       (\<lambda>_ h'. top_up_log env cfg amountUsdc h' \<and> (\<exists>policy url response. paid_for env policy url h' response \<and> wr_ok response))
       (\<lambda>_ h'. top_up_log env cfg amountUsdc h'))
     (\<lambda>_ h'. top_up_log env cfg amountUsdc h') ?h" if policy: "exactQuotePaymentPolicy ''topup'' quote = Inr policy" for policy
  proof (rule wp_mono [OF wp_backoff])
    fix response h'
    assume post: "log_inv (pinned env policy ?url) h' \<and> length (filter is_paid h') \<le> length (filter is_paid ?h) + length rpc_backoff_ms + 1
      \<and> extends ?h h' \<and> paid_for env policy ?url h' response"
    note all_logged = logged [OF policy]
    have paid: "paid_for env policy ?url (h' @ ext) response" for ext
      using post unfolding paid_for_def by (blast intro: answered_append)
    show "wp (if \<not> wr_ok response then praise (Err (error_message (payload_of response)
           (''x402 gateway returned '' @ show_nat (wr_status response) @ ''.'')))
         else pbind (getPrepaidBalance (by_api (logged_browser env base signs b58))) (\<lambda>balance.
           pbind (plift (read_prop balance ''availableAtomic'')) (\<lambda>available. pret (text_of available))))
       (\<lambda>_ h'. top_up_log env cfg amountUsdc h' \<and> (\<exists>policy url response. paid_for env policy url h' response \<and> wr_ok response))
       (\<lambda>_ h'. top_up_log env cfg amountUsdc h') h'"
    proof (cases "wr_ok response")
      case False
      then show ?thesis using all_logged [of h' "[]"] post by (simp add: wp_simps)
    next
      case True
      have "top_up_log env cfg amountUsdc (h' @ ext) \<and> (\<exists>policy url response. paid_for env policy url (h' @ ext) response \<and> wr_ok response)"
        if "calm ext" for ext
        using all_logged [of h' ext] post that paid [of ext] True by blast
      then show ?thesis
        using True by (simp, intro wp_pbindI wp_quietly [OF balance] wp_pliftI wp_pretI) blast+
    qed
  next
    fix e h'
    assume "log_inv (pinned env policy ?url) h' \<and> length (filter is_paid h') \<le> length (filter is_paid ?h) + length rpc_backoff_ms + 1 \<and> extends ?h h'"
    then show "top_up_log env cfg amountUsdc h'" using logged [OF policy, of h' "[]"] by simp
  next
    show "log_inv (pinned env policy ?url) ?h" "log_inv (failed_unsigned env) ?h"
      using calm_logs [where h = "[]" and ext = ?h, OF q] by simp_all
  qed
  show ?thesis
    unfolding pay_top_up_def logged_browser_sel
    by (intro wp_pbindI wp_pliftI wp_askI wp_ifI wp_praiseI pay quiet_top_up_log h(1) q)
qed

text \<open>C9: A top-up asks the wallet to pay only after the gateway answered the request for the chosen amount
  with a well-formed quote, always with the one policy that pins that quote and at the one address of its
  resource, at most four times, and again only when every earlier attempt had failed with the rate limit of
  building its payload, from which the code concludes that nothing was signed; and it reports a balance only
  after a payment was answered with success.\<close>

theorem browser_top_up_pays_pinned_quote:
  assumes "topUpPrepaid (logged_browser env base signs b58) cfg amountUsdc [] = (r, h)"
  shows "top_up_log env cfg amountUsdc h
    \<and> (\<forall>balance. r = Inr balance \<longrightarrow> (\<exists>policy url response. paid_for env policy url h response \<and> wr_ok response))"
proof -
  have "wp (topUpPrepaid (logged_browser env base signs b58) cfg amountUsdc)
     (\<lambda>_ h. top_up_log env cfg amountUsdc h \<and> (\<exists>policy url response. paid_for env policy url h response \<and> wr_ok response))
     (\<lambda>_ h. top_up_log env cfg amountUsdc h) []"
    unfolding topUpPrepaid_def
    by (intro wp_ifI wp_praiseI wp_pbindI wp_optionI wp_pcatchI wp_quietly [OF quietly_services(3)] wp_quietly [OF quietly_ensure]
        wp_mono [OF wp_prepare_top_up] wp_mono [OF wp_pay_top_up]) (auto intro: quiet_top_up_log)
  with assms show ?thesis by (cases r) (auto simp: wp_def)
qed


section \<open>Witnesses\<close>

definition browser_demo_cfg :: browser_config where
  "browser_demo_cfg = \<lparr> bf_backendEnabled = True, bf_x402Enabled = True, bf_gatewayBase = ''/x402'', bf_origin = ''origin'' \<rparr>"

definition browser_demo_request :: open_request where
  "browser_demo_request = \<lparr> oq_queryId = ''q'', oq_handles = [''d''], oq_payer = None, oq_accessToken = ''t'', oq_invoice = JNull \<rparr>"

definition browser_demo_job :: json where
  "browser_demo_job = JObj [(''status'', JStr ''completed''), (''citations'', JArr [JStr ''c'']), (''network'', JStr ''net'')]"

definition browser_demo_env :: browser_env where
  "browser_demo_env = \<lparr> be_fetch = (\<lambda>_ rq. Inr \<lparr> wr_status = 200, wr_json = Some
       (if wq_url rq = ''/x402/api/v1/prepaid/top-ups'' then JObj [(''quote'', top_up_quote_json browser_demo_quote)]
        else if wq_url rq = ''/api/v1/prepaid/balance'' then JObj [(''availableAtomic'', JStr ''5000000'')]
        else browser_demo_job) \<rparr>),
     be_paid = (\<lambda>h _ _. if list_ex is_paid h then Inr \<lparr> wr_status = 200, wr_json = None \<rparr>
       else Inl (Err ''Failed to create payment payload: HTTP error (429)'')),
     be_key = (\<lambda>_. Inr (Some ''w'')), be_sign = (\<lambda>_ _. Inr []), be_now = (\<lambda>_. Inr 1000),
     be_session = (\<lambda>_. Inr (Some \<lparr> ss_wallet = ''w'', ss_token = ''s'', ss_expiresAt = Num 900000 \<rparr>)),
     be_pending = (\<lambda>_. Inr (JObj [(''jobId'', JStr ''j''), (''queryId'', JStr ''q''), (''handles'', JArr [JStr ''d'']), (''payer'', JStr ''w'')])),
     be_unit = (\<lambda>_ _. Inr ()) \<rparr>"

abbreviation demo_browser :: "browser_event list browser_services" where
  "demo_browser \<equiv> logged_browser browser_demo_env [] True (\<lambda>_. ''sig'')"

lemma browser_demo_sel:
  "be_fetch browser_demo_env h rq = Inr \<lparr> wr_status = 200, wr_json = Some
       (if wq_url rq = ''/x402/api/v1/prepaid/top-ups'' then JObj [(''quote'', top_up_quote_json browser_demo_quote)]
        else if wq_url rq = ''/api/v1/prepaid/balance'' then JObj [(''availableAtomic'', JStr ''5000000'')]
        else browser_demo_job) \<rparr>"
  "be_key browser_demo_env h = Inr (Some ''w'')" "be_now browser_demo_env h = Inr 1000" "be_unit browser_demo_env h ev = Inr ()"
  "be_session browser_demo_env h = Inr (Some \<lparr> ss_wallet = ''w'', ss_token = ''s'', ss_expiresAt = Num 900000 \<rparr>)"
  "be_pending browser_demo_env h
     = Inr (JObj [(''jobId'', JStr ''j''), (''queryId'', JStr ''q''), (''handles'', JArr [JStr ''d'']), (''payer'', JStr ''w'')])"
  "be_paid browser_demo_env h p u = (if list_ex is_paid h then Inr \<lparr> wr_status = 200, wr_json = None \<rparr>
       else Inl (Err ''Failed to create payment payload: HTTP error (429)''))"
  by (simp_all add: browser_demo_env_def)

lemma browser_demo_open:
  "\<exists>res h. openOverX402 demo_browser browser_demo_cfg browser_demo_request [] = (Inr res, h)"
proof -
  have trim: "trim [] = []" by code_simp
  have matches: "pending_matches (JObj [(''jobId'', JStr ''j''), (''queryId'', JStr ''q''), (''handles'', JArr [JStr ''d'']), (''payer'', JStr ''w'')])
      browser_demo_request ''w''"
    by (simp add: pending_matches_def browser_demo_request_def string_items_def)
  have poll: "pollResearchJob demo_browser browser_demo_cfg jobId token 1 h
      = (Inr (Some browser_demo_job), h @ [EvFetch (job_request browser_demo_cfg jobId token)])" for jobId token h
    by (simp add: pbind_def ask_def browser_demo_sel query_request_def browser_demo_cfg_def job_request_def wr_ok_def
      response_json_def plift_def read_prop_def pret_def browser_demo_job_def settled_states_def)
  have recover: "\<exists>h'. recover_pending demo_browser browser_demo_cfg browser_demo_request ''w'' h = (Inr (Some browser_demo_job), h')" for h
    by (simp add: recover_pending_def pbind_def ask_def browser_demo_sel matches poll pret_def del: pollResearchJob.simps One_nat_def)
      (simp add: browser_demo_job_def)
  have result: "\<exists>res h'. researchResult demo_browser browser_demo_job invoice h = (Inr res, h')" for invoice h
    by (simp add: researchResult_def browser_demo_job_def plift_def pbind_def ask_def browser_demo_sel pret_def)
  have "\<exists>res h'. open_prepared demo_browser browser_demo_cfg browser_demo_request ''w'' h = (Inr res, h')" for h
    using recover [of h] result by (auto simp: open_prepared_def pbind_def)
  from this [of "[EvPublicKey]"] show ?thesis
    by (auto simp: openOverX402_def pbind_def ask_def browser_demo_sel browser_demo_request_def str_or_def truthy_def trim pcatch_def)
qed

theorem browser_opens_only_remembered_jobs_witness:
  "\<exists>res h. openOverX402 demo_browser browser_demo_cfg browser_demo_request [] = (Inr res, h)
     \<and> calm h \<and> opened_from browser_demo_env browser_demo_cfg browser_demo_request h res"
  using browser_demo_open browser_opens_only_remembered_jobs by fast

lemma browser_demo_quote_accepted:
  "exactTopUpQuote (top_up_quote_json browser_demo_quote) 1000 = Inr \<lparr> ebq_id = ''t1'', ebq_network = ''net'', ebq_asset = ''usdc'',
     ebq_amountAtomic = ''5000000'', ebq_payTo = ''recv'', etq_expiresAt = 301000, etq_status = ''quoted'',
     etq_resourcePath = ''/api/v1/paid-top-ups/t1'' \<rparr>"
proof -
  have "re_positive ''5000000''" by code_simp
  then show ?thesis
    by (subst top_up_json_accepted) (simp_all add: browser_demo_quote_def max_safe_integer_def)
qed

lemma browser_demo_top_up:
  "\<exists>h. topUpPrepaid demo_browser browser_demo_cfg (Num 5) [] = (Inr ''5000000'', h) \<and> length (filter is_paid h) = 2"
proof -
  have e: "isPayloadRpcRateLimit ''Failed to create payment payload: HTTP error (429)''" by code_simp
  have amount: "re_positive ''5000000''" by code_simp
  let ?quote = "\<lparr> ebq_id = ''t1'', ebq_network = ''net'', ebq_asset = ''usdc'', ebq_amountAtomic = ''5000000'', ebq_payTo = ''recv'',
        etq_expiresAt = 301000, etq_status = ''quoted'', etq_resourcePath = ''/api/v1/paid-top-ups/t1'' \<rparr>"
  have session: "ensurePrepaidWalletSession demo_browser ''w'' h
      = (Inr \<lparr> ss_wallet = ''w'', ss_token = ''s'', ss_expiresAt = Num 900000 \<rparr>, h @ [EvSession, EvNow])" for h
    by (simp add: ensurePrepaidWalletSession_def pbind_def ask_def browser_demo_sel session_usable_def pret_def)
  have quote: "prepare_top_up demo_browser browser_demo_cfg (Num 5) h
      = (Inr ?quote, h @ [EvFetch (top_up_request browser_demo_cfg (Num 5)), EvNow])" for h
    by (simp add: prepare_top_up_def pbind_def pcatch_def ask_def browser_demo_sel top_up_request_def browser_demo_cfg_def
      wr_ok_def response_json_def plift_def read_prop_def browser_demo_quote_accepted)
  have backoff: "paidFetchWithRpcBackoff demo_browser policy url rpc_backoff_ms h
      = (Inr \<lparr> wr_status = 200, wr_json = None \<rparr>, h @ [EvPaid policy url, EvDelay 1500, EvPaid policy url])"
    if "\<not> list_ex is_paid h" for policy url h
    using that by (simp add: rpc_backoff_ms_def pcatch_def pbind_def ask_def browser_demo_sel e)
  obtain policy where policy: "exactQuotePaymentPolicy ''topup'' ?quote = Inr policy"
    using amount by (simp add: exactQuotePaymentPolicy_def Let_def)
  have balance: "getPrepaidBalance (by_api demo_browser) h
      = (Inr (JObj [(''availableAtomic'', JStr ''5000000'')]), h @ [EvFetch (api_request [] ''/api/v1/prepaid/balance'' get_init)])" for h
    by (simp add: getPrepaidBalance_def apiFetch_def pbind_def pcatch_def ask_def browser_demo_sel api_request_def wr_ok_def plift_def)
      (simp add: logged_browser_def)
  have enabled: "bf_backendEnabled browser_demo_cfg" "bf_x402Enabled browser_demo_cfg" by (simp_all add: browser_demo_cfg_def)
  have "\<exists>h'. pay_top_up demo_browser browser_demo_cfg ?quote h = (Inr ''5000000'', h') \<and> length (filter is_paid h') = 2"
    if "\<not> list_ex is_paid h" "filter is_paid h = []" for h
    using that
    by (simp add: pay_top_up_def policy plift_def pbind_def ask_def browser_demo_sel truthy_def backoff wr_ok_def balance
      read_prop_def pret_def text_of_def str_or_def)
  from this [of "[EvPublicKey, EvSession, EvNow, EvFetch (top_up_request browser_demo_cfg (Num 5)), EvNow]"] show ?thesis
    by (auto simp: topUpPrepaid_def enabled pbind_def pcatch_def ask_def browser_demo_sel session quote
      split: option.splits)
qed

theorem browser_top_up_pays_pinned_quote_witness:
  "\<exists>h. topUpPrepaid demo_browser browser_demo_cfg (Num 5) [] = (Inr ''5000000'', h)
     \<and> length (filter is_paid h) = 2 \<and> top_up_log browser_demo_env browser_demo_cfg (Num 5) h"
  using browser_demo_top_up browser_top_up_pays_pinned_quote by fast

end
