(* ===== verification/Configuration.thy ===== *)
theory Configuration
  imports Settlement_Gate
begin

text \<open>
  Configuration, admission and readiness: \<open>runtime-config.ts\<close>, \<open>url-policy.ts\<close>, \<open>rpc-policy.ts\<close>,
  \<open>browser-rpc-policy.ts\<close>, \<open>bundle-funding-mode.ts\<close>, \<open>bounded-rpc.ts\<close>, \<open>dependency-readiness.ts\<close> and
  \<open>reconciler-readiness.ts\<close> of the gateway, and the orchestrator's \<open>cycle-readiness.ts\<close> and
  \<open>payout-coverage.ts\<close>. The WHATWG URL parser is a parameter; the process environment is a map.
\<close>

section \<open>Environment variables\<close>

type_synonym environment = "string \<rightharpoonup> string"

definition env_trim :: "environment \<Rightarrow> string \<Rightarrow> string" where
  "env_trim environment name = (case environment name of None \<Rightarrow> [] | Some v \<Rightarrow> trim v)"

text \<open>The contract of the caller is checked first; the result is a safe integer.\<close>

definition integerEnv :: "string \<Rightarrow> jnum \<Rightarrow> jnum \<Rightarrow> jnum \<Rightarrow> environment \<Rightarrow> int outcome" where
  "integerEnv name fallback minimum maximum environment =
     (if \<not> is_safe_integer fallback \<or> jlt fallback minimum \<or> jlt maximum fallback
         \<or> \<not> is_safe_integer minimum \<or> \<not> is_safe_integer maximum \<or> jlt maximum minimum
      then Inl (Err (''invalid integer configuration contract for '' @ name))
      else let raw = env_trim environment name in
      if raw = [] then Inr (jint fallback)
      else if \<not> re_positive raw then Inl (Err (name @ '' must be a base-10 integer''))
      else let v = int (dec_value raw) in
      if \<not> is_safe_integer (Num v) \<or> jlt (Num v) minimum \<or> jlt maximum (Num v) then Inl (Err (name @ '' is out of range''))
      else Inr v)"

definition booleanEnv :: "string \<Rightarrow> bool \<Rightarrow> environment \<Rightarrow> bool outcome" where
  "booleanEnv name fallback environment =
     (let v = to_lower (env_trim environment name) in
      if v = [] then Inr fallback
      else if v \<in> {''1'', ''true'', ''yes'', ''on''} then Inr True
      else if v \<in> {''0'', ''false'', ''no'', ''off''} then Inr False
      else Inl (Err (name @ '' must be an explicit boolean'')))"

definition managedEnvironment :: "string \<Rightarrow> bool outcome" where
  "managedEnvironment s =
     (let v = to_lower (trim s) in
      if v \<in> {''production'', ''prod'', ''staging'', ''stage''} then Inr True
      else if v \<in> {''development'', ''dev'', ''local'', ''test''} then Inr False
      else Inl (Err ''OPENSHELF_ENV/NODE_ENV is not recognised''))"

definition managedRuntimeEnvironment :: "string \<Rightarrow> environment \<Rightarrow> bool outcome" where
  "managedRuntimeEnvironment s environment =
     rbind (managedEnvironment s) (\<lambda>configured.
       let cloudRun = list_ex (\<lambda>name. env_trim environment name \<noteq> [])
         [''K_SERVICE'', ''K_REVISION'', ''K_CONFIGURATION'', ''CLOUD_RUN_JOB'', ''CLOUD_RUN_EXECUTION''] in
       Inr (configured \<or> cloudRun))"

definition researchOrchestratorReadinessRequired :: "bool \<Rightarrow> bool \<Rightarrow> bool outcome" where
  "researchOrchestratorReadinessRequired configured managed =
     (if managed \<and> \<not> configured
      then Inl (Err ''OPENSHELF_REQUIRE_RESEARCH_ORCHESTRATOR cannot be disabled in a managed environment'')
      else Inr configured)"

section \<open>URLs\<close>

text \<open>What \<open>new URL (s)\<close> exposes; the parser is the parameter \<open>new_url\<close>, \<open>None\<close> when it throws.\<close>

record js_url =
  url_href :: string
  url_protocol :: string
  url_username :: string
  url_password :: string
  url_hostname :: string
  url_port :: string
  url_pathname :: string
  url_search :: string
  url_hash :: string
  url_origin :: string

type_synonym url_parser = "string \<Rightarrow> js_url option"

definition loopback_hosts :: "string set" where
  "loopback_hosts = {''localhost'', ''127.0.0.1'', ''[::1]''}"

definition secure_url :: "url_parser \<Rightarrow> string \<Rightarrow> js_url outcome" where
  "secure_url new_url v =
     (case new_url v of
        None \<Rightarrow> Inl (Err ''must be an absolute HTTP URL'')
      | Some url \<Rightarrow>
          if url_username url \<noteq> [] \<or> url_password url \<noteq> [] then Inl (Err ''must not embed credentials'')
          else if url_protocol url \<noteq> ''https:''
            \<and> \<not> (url_protocol url = ''http:'' \<and> url_hostname url \<in> loopback_hosts)
          then Inl (Err ''must use HTTPS except on loopback'')
          else if url_hash url \<noteq> [] then Inl (Err ''must not contain a URL fragment'')
          else Inr url)"

definition secureServiceUrl :: "url_parser \<Rightarrow> string \<Rightarrow> string outcome" where
  "secureServiceUrl new_url v = rbind (secure_url new_url v) (\<lambda>url. Inr (url_href url))"

definition secureServiceOrigin :: "url_parser \<Rightarrow> string \<Rightarrow> string outcome" where
  "secureServiceOrigin new_url v =
     rbind (secureServiceUrl new_url v) (\<lambda>href.
     rbind (of_opt (Err ''Invalid URL'') (new_url href)) (\<lambda>url.
       if url_pathname url \<noteq> ''/'' \<or> url_search url \<noteq> []
       then Inl (Err ''must be an origin without a path or query'')
       else Inr (url_origin url)))"

definition browserOriginAllowed :: "url_parser \<Rightarrow> string option \<Rightarrow> string \<Rightarrow> bool \<Rightarrow> bool" where
  "browserOriginAllowed new_url candidate configured managed =
     (if \<not> truthy candidate then False
      else if candidate = Some configured then True
      else if managed then False
      else (case (new_url (the candidate), new_url configured) of
          (Some actual, Some expected) \<Rightarrow>
            url_hostname actual \<in> loopback_hosts \<and> url_hostname expected \<in> loopback_hosts
            \<and> url_protocol actual = url_protocol expected \<and> url_port actual = url_port expected
            \<and> url_username actual = [] \<and> url_password actual = [] \<and> url_pathname actual = ''/''
            \<and> url_search actual = [] \<and> url_hash actual = []
        | _ \<Rightarrow> False))"

text \<open>\<open>secureRpcUrl\<close> makes the checks of \<open>secureServiceUrl\<close> and returns the URL.\<close>

definition secureRpcUrl :: "url_parser \<Rightarrow> string \<Rightarrow> js_url outcome" where
  "secureRpcUrl new_url v = secure_url new_url v"

fun independent_urls :: "url_parser \<Rightarrow> (string \<times> string) list \<Rightarrow> string list \<Rightarrow> (string \<times> string) list outcome" where
  "independent_urls new_url byOrigin [] = Inr byOrigin"
| "independent_urls new_url byOrigin (v # vs) =
     rbind (secureRpcUrl new_url v) (\<lambda>parsed.
       independent_urls new_url
         (if map_of byOrigin (url_origin parsed) = None
          then byOrigin @ [(url_origin parsed, url_href parsed)] else byOrigin) vs)"

definition independentRpcUrls :: "url_parser \<Rightarrow> string list \<Rightarrow> string list outcome" where
  "independentRpcUrls new_url vs = rbind (independent_urls new_url [] vs) (\<lambda>m. Inr (map snd m))"

section \<open>The browser's RPC surface\<close>

definition is_base58 :: "char \<Rightarrow> bool" where
  "is_base58 c \<longleftrightarrow> is_alnum c \<and> c \<notin> {CHR ''0'', CHR ''O'', CHR ''I'', CHR ''l''}"

definition isPublicKey :: "json \<Rightarrow> bool" where
  "isPublicKey v = (case v of JStr s \<Rightarrow> 32 \<le> length s \<and> length s \<le> 44 \<and> list_all is_base58 s | _ \<Rightarrow> False)"

fun obj_keys :: "json \<Rightarrow> string list" where
  "obj_keys (JObj fs) = remdups (map fst fs)"
| "obj_keys _ = []"

definition commitment_ok :: "json \<Rightarrow> bool" where
  "commitment_ok v \<longleftrightarrow> v = JUndef \<or> js_string v \<in> {Some ''confirmed'', Some ''finalized''}"

definition isCommitmentConfig :: "json \<Rightarrow> bool \<Rightarrow> bool" where
  "isCommitmentConfig v required =
     (if v = JUndef then \<not> required
      else is_obj v \<and> set (obj_keys v) \<subseteq> {''commitment''} \<and> commitment_ok (prop_of v ''commitment''))"

definition isAccountInfoConfig :: "json \<Rightarrow> bool" where
  "isAccountInfoConfig v =
     (v = JUndef \<or>
      (is_obj v \<and> set (obj_keys v) \<subseteq> {''encoding'', ''commitment''}
       \<and> prop_of v ''encoding'' \<in> {JUndef, JStr ''base64''} \<and> commitment_ok (prop_of v ''commitment'')))"

definition isTokenBalanceRequest :: "json list \<Rightarrow> string \<Rightarrow> bool" where
  "isTokenBalanceRequest params allowedMint \<longleftrightarrow>
     length params = 3 \<and> isPublicKey (elem params 0)
     \<and> is_obj (elem params 1) \<and> is_obj (elem params 2)
     \<and> length (obj_keys (elem params 1)) = 1 \<and> prop_of (elem params 1) ''mint'' = JStr allowedMint
     \<and> set (obj_keys (elem params 2)) \<subseteq> {''encoding'', ''commitment''}
     \<and> prop_of (elem params 2) ''encoding'' = JStr ''jsonParsed''
     \<and> prop_of (elem params 2) ''commitment'' \<in> {JUndef, JStr ''confirmed''}"

definition isAllowedBrowserRpcRequest :: "json \<Rightarrow> string \<Rightarrow> bool" where
  "isAllowedBrowserRpcRequest body allowedMint =
     (if \<not> is_obj body then False
      else (case (prop_of body ''method'', json_or (prop_of body ''params'') (JArr [])) of
          (JStr method, JArr params) \<Rightarrow>
            if prop_of body ''jsonrpc'' \<noteq> JStr ''2.0'' \<or> prop_of body ''params'' = JNull then False
            else if method = ''getLatestBlockhash''
            then length params \<le> 1 \<and> isCommitmentConfig (elem params 0) False
            else if method = ''getAccountInfo''
            then 1 \<le> length params \<and> length params \<le> 2 \<and> isPublicKey (elem params 0)
              \<and> isAccountInfoConfig (elem params 1)
            else if method = ''getTokenAccountsByOwner'' then isTokenBalanceRequest params allowedMint
            else False
        | _ \<Rightarrow> False))"

section \<open>Funding modes\<close>

datatype bundle_funding = Prepaid string | AgentDirect

definition agent_bundle_protocol :: string where
  "agent_bundle_protocol = ''exact-agent-bundle-v1''"

definition bundleFundingMode :: "string option \<Rightarrow> string option \<Rightarrow> json \<Rightarrow> bundle_funding outcome" where
  "bundleFundingMode walletSession0 agentProtocol0 topUpAtomic =
     (let walletSession = map_option trim walletSession0; agentProtocol = map_option trim agentProtocol0 in
      if truthy walletSession \<and> truthy agentProtocol
      then Inl (BundleFundingModeErr 400 ''ambiguous_funding_mode'')
      else if truthy walletSession then
        (if topUpAtomic \<noteq> JUndef then Inl (BundleFundingModeErr 400 ''automatic_top_up_forbidden'')
         else Inr (Prepaid (the walletSession)))
      else if \<not> truthy agentProtocol then Inl (BundleFundingModeErr 401 ''missing_wallet_session'')
      else if agentProtocol \<noteq> Some agent_bundle_protocol
      then Inl (BundleFundingModeErr 400 ''unsupported_agent_protocol'')
      else if topUpAtomic \<noteq> JUndef then Inl (BundleFundingModeErr 400 ''agent_top_up_forbidden'')
      else Inr AgentDirect)"

section \<open>The bounded RPC transport\<close>

definition max_finality_rpc_response_bytes :: nat where
  "max_finality_rpc_response_bytes = 128 * 1024"

text \<open>\<open>boundedResponseText\<close> of \<open>bounded-rpc.ts\<close> checks its limit first.\<close>

definition boundedResponseText_checked :: "http_response \<Rightarrow> int \<Rightarrow> bytes outcome" where
  "boundedResponseText_checked response limit =
     (if \<not> is_safe_integer (Num limit) \<or> limit < 1
      then Inl (Err ''HTTP response size limit must be a positive safe integer'')
      else boundedResponseText response (nat limit))"

definition boundedSolanaRpc ::
    "(bytes \<Rightarrow> json option) \<Rightarrow> (string \<Rightarrow> int \<Rightarrow> json \<Rightarrow> ('w, http_response) proc)
     \<Rightarrow> string \<Rightarrow> int \<Rightarrow> string \<Rightarrow> 'w solana_rpc outcome" where
  "boundedSolanaRpc json_parse post endpoint timeoutMs requestId =
     (if \<not> is_safe_integer (Num timeoutMs) \<or> timeoutMs < 100 \<or> 10000 < timeoutMs
      then Inl (Err ''finality RPC timeout must be between 100 and 10000 ms'')
      else Inr (\<lambda>method params.
        pbind (post endpoint timeoutMs
          (JObj [(''jsonrpc'', JStr ''2.0''), (''id'', JStr requestId), (''method'', JStr method),
                 (''params'', JArr params)])) (\<lambda>response.
        pbind (plift (boundedResponseText_checked response (int max_finality_rpc_response_bytes))) (\<lambda>text.
          if \<not> hr_ok response then praise (Err ''Solana finality RPC returned HTTP'')
          else case json_parse text of
            None \<Rightarrow> praise (Err ''Solana finality RPC returned invalid JSON'')
          | Some payload \<Rightarrow>
              if \<not> is_obj payload then praise (Err ''Solana finality RPC returned a malformed envelope'')
              else if prop_of payload ''error'' \<noteq> JUndef \<or> \<not> has_prop payload ''result''
              then praise (Err ''Solana finality RPC did not return a result'')
              else pret (prop_of payload ''result'')))))"

section \<open>Readiness\<close>

definition jrat :: "jnum \<Rightarrow> rat" where
  "jrat x = (case x of Fin r \<Rightarrow> r | _ \<Rightarrow> 0)"

text \<open>The age limit both readiness checks use: three intervals, at least a minute.\<close>

definition readiness_interval :: "jnum \<Rightarrow> rat" where
  "readiness_interval intervalMs =
     (if is_safe_integer intervalMs \<and> jlt (Num 0) intervalMs then min (jrat intervalMs) (5 * 60000) else 30000)"

definition bad_monotonic :: "jnum \<Rightarrow> jnum \<Rightarrow> bool" where
  "bad_monotonic now completed \<longleftrightarrow>
     \<not> is_finite now \<or> \<not> is_finite completed \<or> jlt completed (Num 0) \<or> jlt now completed"

text \<open>\<open>reconcilerReadiness\<close>: \<open>None\<close> is ready, otherwise the reason.\<close>

definition reconcilerReadiness :: "jnum \<Rightarrow> jnum option \<Rightarrow> string option \<Rightarrow> jnum \<Rightarrow> string option" where
  "reconcilerReadiness now lastCompleted lastError intervalMs =
     (if truthy lastError then Some (''chain reconciler failed: '' @ the lastError)
      else (case lastCompleted of
          None \<Rightarrow> Some ''chain reconciler has not completed its initial scan''
        | Some completed \<Rightarrow>
            if bad_monotonic now completed then Some ''chain reconciler monotonic timestamp is invalid''
            else if max (3 * readiness_interval intervalMs) 60000 < jrat now - jrat completed
            then Some ''chain reconciler has not completed a recent scan''
            else None))"

record background_cycle_state =
  bcs_lastCompletedMonotonicMs :: "jnum option"
  bcs_lastError :: "string option"

definition newBackgroundCycleState :: background_cycle_state where
  "newBackgroundCycleState = \<lparr> bcs_lastCompletedMonotonicMs = None, bcs_lastError = None \<rparr>"

definition completeBackgroundCycle :: "jnum \<Rightarrow> background_cycle_state \<Rightarrow> background_cycle_state" where
  "completeBackgroundCycle now s = s\<lparr> bcs_lastCompletedMonotonicMs := Some now, bcs_lastError := None \<rparr>"

definition failBackgroundCycle :: "string \<Rightarrow> background_cycle_state \<Rightarrow> background_cycle_state" where
  "failBackgroundCycle message s = s\<lparr> bcs_lastError := Some message \<rparr>"

definition backgroundCycleIssue :: "string \<Rightarrow> background_cycle_state \<Rightarrow> jnum \<Rightarrow> jnum \<Rightarrow> string option" where
  "backgroundCycleIssue name state now intervalMs =
     (if truthy (bcs_lastError state) then Some (name @ '' failed: '' @ the (bcs_lastError state))
      else (case bcs_lastCompletedMonotonicMs state of
          None \<Rightarrow> Some (name @ '' has not completed its initial cycle'')
        | Some completed \<Rightarrow>
            if bad_monotonic now completed then Some (name @ '' has an invalid monotonic timestamp'')
            else if max (3 * readiness_interval intervalMs) 60000 < jrat now - jrat completed
            then Some (name @ '' has not completed a recent cycle'')
            else None))"

text \<open>
  The cached readiness probe of a dependency. Callers interleave, so a call and the end of a probe
  are separate steps; \<open>inFlight\<close> is true between them. A call returns, rethrows the last failure,
  joins the probe in flight, or starts one.
\<close>

record ready_guard =
  rg_readyUntil :: jnum
  rg_failedUntil :: jnum
  rg_lastFailure :: "js_error option"
  rg_inFlight :: bool

datatype guard_answer = GuardReady | GuardFailed "js_error option" | GuardJoins | GuardProbes

definition guard_config_ok :: "jnum \<Rightarrow> jnum \<Rightarrow> bool" where
  "guard_config_ok successTtlMs failureTtlMs \<longleftrightarrow>
     is_safe_integer successTtlMs \<and> \<not> jlt successTtlMs (Num 0) \<and> \<not> jlt (Num 5000) successTtlMs
     \<and> is_safe_integer failureTtlMs \<and> \<not> jlt failureTtlMs (Num 0) \<and> \<not> jlt (Num 5000) failureTtlMs"

definition new_guard :: ready_guard where
  "new_guard = \<lparr> rg_readyUntil = NegInf, rg_failedUntil = NegInf, rg_lastFailure = None, rg_inFlight = False \<rparr>"

definition guard_call :: "int \<Rightarrow> ready_guard \<Rightarrow> guard_answer \<times> ready_guard" where
  "guard_call current g =
     (if jlt (Num current) (rg_readyUntil g) then (GuardReady, g)
      else if jlt (Num current) (rg_failedUntil g) then (GuardFailed (rg_lastFailure g), g)
      else if rg_inFlight g then (GuardJoins, g)
      else (GuardProbes, g\<lparr> rg_inFlight := True \<rparr>))"

definition guard_probe_ok :: "int \<Rightarrow> int \<Rightarrow> ready_guard \<Rightarrow> ready_guard" where
  "guard_probe_ok now successTtlMs g =
     g\<lparr> rg_readyUntil := Num (now + successTtlMs), rg_failedUntil := NegInf, rg_lastFailure := None,
        rg_inFlight := False \<rparr>"

definition guard_probe_failed :: "int \<Rightarrow> int \<Rightarrow> js_error \<Rightarrow> ready_guard \<Rightarrow> ready_guard" where
  "guard_probe_failed now failureTtlMs error g =
     g\<lparr> rg_failedUntil := Num (now + failureTtlMs), rg_lastFailure := Some error, rg_inFlight := False \<rparr>"

definition requireReadyDependency ::
    "(string \<Rightarrow> int \<Rightarrow> ('w, http_response) proc) \<Rightarrow> string \<Rightarrow> string \<Rightarrow> int \<Rightarrow> ('w, unit) proc" where
  "requireReadyDependency get name origin timeoutMs =
     pbind (get (origin @ ''/readyz'') timeoutMs) (\<lambda>response.
       if \<not> hr_ok response then praise (Err (name @ '' is not ready'')) else pret ())"

section \<open>Payout coverage\<close>

definition safeCount :: "json \<Rightarrow> bool" where
  "safeCount v = (case v of JNum x \<Rightarrow> is_safe_integer x \<and> jle (Num 0) x | _ \<Rightarrow> False)"

definition nonempty_str :: "json \<Rightarrow> bool" where
  "nonempty_str v = (case v of JStr s \<Rightarrow> s \<noteq> [] | _ \<Rightarrow> False)"

definition isPayoutClaimBacklog :: "json \<Rightarrow> bool" where
  "isPayoutClaimBacklog b \<longleftrightarrow>
     nonempty_str (prop_of b ''escrowWallet'') \<and> nonempty_str (prop_of b ''network'')
     \<and> safeCount (prop_of b ''claimCount'') \<and> safeCount (prop_of b ''preparedCount'')
     \<and> safeCount (prop_of b ''blockedCount'') \<and> safeCount (prop_of b ''oldestCreatedAt'')
     \<and> json_int (prop_of b ''preparedCount'') \<le> json_int (prop_of b ''claimCount'')
     \<and> json_int (prop_of b ''blockedCount'') \<le> json_int (prop_of b ''claimCount'')"

definition backlog_own :: "string \<Rightarrow> string \<Rightarrow> json \<Rightarrow> bool" where
  "backlog_own signerAddress network b \<longleftrightarrow>
     prop_of b ''escrowWallet'' = JStr signerAddress \<and> prop_of b ''network'' = JStr network"

definition payoutCoverageIssue :: "json \<Rightarrow> string \<Rightarrow> string \<Rightarrow> string option" where
  "payoutCoverageIssue backlogs signerAddress network =
     (case backlogs of
        JArr bs \<Rightarrow>
          if \<not> list_all isPayoutClaimBacklog bs then Some ''payout backlog response contains malformed or unsafe counts''
          else
            let uncovered = filter (\<lambda>b. 0 < json_int (prop_of b ''claimCount'') \<and> \<not> backlog_own signerAddress network b) bs;
                blocked = filter (\<lambda>b. 0 < json_int (prop_of b ''claimCount'') \<and> backlog_own signerAddress network b
                  \<and> 0 < json_int (prop_of b ''blockedCount'')) bs;
                uncoveredClaims = sum_list (map (\<lambda>b. json_int (prop_of b ''claimCount'')) uncovered);
                blockedClaims = sum_list (map (\<lambda>b. json_int (prop_of b ''blockedCount'')) blocked) in
            if uncovered = [] \<and> blocked = [] then None
            else if \<not> is_safe_integer (Num uncoveredClaims) \<or> \<not> is_safe_integer (Num blockedClaims)
            then Some ''payout backlog totals exceed the safe integer range''
            else Some (show_int uncoveredClaims @ '' payout claim(s) require a different escrow signer or network; ''
              @ show_int blockedClaims @ '' payout claim(s) have exhausted or invalid work state'')
      | _ \<Rightarrow> Some ''payout backlog response is not an array'')"

section \<open>Properties\<close>

text \<open>An integer read from the environment lies within its configured bounds, whatever the
  environment holds, and a value out of them or not a canonical numeral is an error.\<close>

theorem integer_env_in_bounds:
  assumes "integerEnv name (Num fallback) (Num minimum) (Num maximum) environment = Inr v"
  shows "minimum \<le> v \<and> v \<le> maximum \<and> \<bar>v\<bar> \<le> max_safe_integer
    \<and> (if env_trim environment name = [] then v = fallback else env_trim environment name = show_nat (nat v))"
  using assms by (auto simp: integerEnv_def Let_def show_nat_dec_value not_less split: if_splits)

theorem integer_env_in_bounds_witness:
  "(1::int) \<le> 20 \<and> (20::int) \<le> 100 \<and> \<bar>20\<bar> \<le> max_safe_integer
    \<and> (if env_trim [''PAGES'' \<mapsto> '' 20 ''] ''PAGES'' = [] then 20 = (5::int)
       else env_trim [''PAGES'' \<mapsto> '' 20 ''] ''PAGES'' = show_nat (nat 20))"
  by (rule integer_env_in_bounds [where name = "''PAGES''" and fallback = 5 and environment = "[''PAGES'' \<mapsto> '' 20 '']"]) code_simp

lemma prop_obj_keys: "prop_of v k \<noteq> JUndef \<Longrightarrow> k \<in> set (obj_keys v)"
  by (cases v) (auto split: option.splits dest!: map_of_SomeD intro: rev_image_eqI)

lemma secure_url_Inr:
  "secure_url new_url v = Inr u \<Longrightarrow> url_username u = [] \<and> url_password u = [] \<and> url_hash u = []
     \<and> (url_protocol u = ''https:'' \<or> url_protocol u = ''http:'' \<and> url_hostname u \<in> loopback_hosts)"
  by (auto simp: secure_url_def split: option.splits if_splits)

lemma independent_urls_Inr:
  assumes "independent_urls new_url m vs = Inr m'" "distinct (map fst m)"
    and "\<And>q h. (q, h) \<in> set m \<Longrightarrow> P q h"
    and "\<And>v u. v \<in> set vs \<Longrightarrow> secureRpcUrl new_url v = Inr u \<Longrightarrow> P (url_origin u) (url_href u)"
  shows "distinct (map fst m') \<and> (\<forall>(q, h) \<in> set m'. P q h) \<and> fst ` set m \<subseteq> fst ` set m'
    \<and> (\<forall>v \<in> set vs. \<exists>u. secureRpcUrl new_url v = Inr u \<and> url_origin u \<in> fst ` set m')"
  using assms
proof (induction vs arbitrary: m)
  case (Cons v vs)
  then obtain u where u: "secureRpcUrl new_url v = Inr u"
    by (auto simp: rbind_Inr_iff)
  let ?m = "if map_of m (url_origin u) = None then m @ [(url_origin u, url_href u)] else m"
  have r: "independent_urls new_url ?m vs = Inr m'" using Cons.prems(1) u by simp
  have d: "distinct (map fst ?m)" using Cons.prems(2) by (auto simp: map_of_eq_None_iff)
  have P: "P q h" if "(q, h) \<in> set ?m" for q h
    using that Cons.prems(3) Cons.prems(4) [of v u] u by (auto split: if_splits)
  have i: "fst ` set m \<subseteq> fst ` set ?m" "url_origin u \<in> fst ` set ?m"
    by (auto simp: map_of_eq_None_iff)
  have PP: "P (url_origin w) (url_href w)" if "x \<in> set vs" "secureRpcUrl new_url x = Inr w" for x w
    using Cons.prems(4) [of x w] that by simp
  have c: "distinct (map fst m') \<and> (\<forall>(q, h) \<in> set m'. P q h) \<and> fst ` set ?m \<subseteq> fst ` set m'
    \<and> (\<forall>x \<in> set vs. \<exists>w. secureRpcUrl new_url x = Inr w \<and> url_origin w \<in> fst ` set m')"
    using Cons.IH [OF r d] P PP by presburger
  have "\<exists>w. secureRpcUrl new_url x = Inr w \<and> url_origin w \<in> fst ` set m'" if "x \<in> set (v # vs)" for x
  proof (cases "x = v")
    case True
    have "url_origin u \<in> fst ` set m'" using c i(2) by (elim conjE) (rule subsetD)
    with u True show ?thesis by (intro exI [of _ u] conjI) simp_all
  next
    case False
    with that c show ?thesis by simp
  qed
  with c i show ?case by blast
qed auto

text \<open>The independent RPC endpoints have pairwise different origins, one for the origin of every
  configured endpoint, and each of them is an HTTPS endpoint (or a loopback one) without embedded
  credentials or fragment; so two views never share an origin.\<close>

theorem independent_rpc_urls_distinct_origins:
  assumes "independentRpcUrls new_url vs = Inr us"
  shows "\<exists>origins. distinct origins \<and> length origins = length us
    \<and> (\<forall>i < length us. \<exists>v u. v \<in> set vs \<and> new_url v = Some u \<and> url_origin u = origins ! i \<and> us ! i = url_href u
          \<and> url_username u = [] \<and> url_password u = [] \<and> url_hash u = []
          \<and> (url_protocol u = ''https:'' \<or> url_protocol u = ''http:'' \<and> url_hostname u \<in> loopback_hosts))
    \<and> (\<forall>v \<in> set vs. \<exists>u. new_url v = Some u \<and> url_origin u \<in> set origins)"
proof -
  let ?P = "\<lambda>q h. \<exists>v u. v \<in> set vs \<and> secureRpcUrl new_url v = Inr u \<and> url_origin u = q \<and> h = url_href u"
  from assms obtain m where m: "independent_urls new_url [] vs = Inr m" "us = map snd m"
    by (auto simp: independentRpcUrls_def rbind_Inr_iff)
  have r: "distinct (map fst m)" "\<forall>(q, h) \<in> set m. ?P q h"
      "\<forall>v \<in> set vs. \<exists>u. secureRpcUrl new_url v = Inr u \<and> url_origin u \<in> fst ` set m"
    using independent_urls_Inr [OF m(1), of ?P, simplified] by blast+
  have u: "secureRpcUrl new_url v = Inr u \<Longrightarrow> new_url v = Some u" for v u
    by (auto simp: secureRpcUrl_def secure_url_def split: option.splits if_splits)
  have "?P (fst (m ! i)) (snd (m ! i))" if "i < length m" for i
    using r(2) nth_mem [OF that] by (cases "m ! i") fastforce
  then show ?thesis
    using r(1,3) m(2) u secure_url_Inr [of new_url]
    by (intro exI [of _ "map fst m"]) (simp add: secureRpcUrl_def, metis)
qed

definition demo_url :: url_parser where
  "demo_url v = Some \<lparr>url_href = v, url_protocol = ''https:'', url_username = [], url_password = [],
     url_hostname = v, url_port = [], url_pathname = ''/'', url_search = [], url_hash = [], url_origin = v\<rparr>"

theorem independent_rpc_urls_distinct_origins_witness:
  "\<exists>origins. distinct origins \<and> length origins = 2 \<and> {''a'', ''b''} \<subseteq> set origins"
proof -
  have "independentRpcUrls demo_url [''a'', ''b'', ''a''] = Inr [''a'', ''b'']"
    by (simp add: independentRpcUrls_def secureRpcUrl_def secure_url_def demo_url_def)
  from independent_rpc_urls_distinct_origins [OF this] obtain origins
    where "distinct origins" "length origins = 2" "\<forall>v \<in> {''a'', ''b''}. \<exists>u. demo_url v = Some u \<and> url_origin u \<in> set origins"
    by auto
  then show ?thesis by (intro exI [of _ origins]) (simp add: demo_url_def)
qed

text \<open>The browser's RPC proxy lets through three read-only methods and nothing else, and the
  token balances it lets through are those of one owner for the configured mint.\<close>

theorem browser_rpc_surface:
  assumes "isAllowedBrowserRpcRequest body mint"
  shows "\<exists>meth. prop_of body ''method'' = JStr meth
    \<and> meth \<in> {''getLatestBlockhash'', ''getAccountInfo'', ''getTokenAccountsByOwner''}
    \<and> (meth = ''getTokenAccountsByOwner'' \<longrightarrow> (\<exists>owner filter config. prop_of body ''params'' = JArr [owner, filter, config]
         \<and> isPublicKey owner \<and> set (obj_keys filter) = {''mint''} \<and> prop_of filter ''mint'' = JStr mint))"
proof -
  obtain meth ps where b: "prop_of body ''method'' = JStr meth"
      "json_or (prop_of body ''params'') (JArr []) = JArr ps" "prop_of body ''params'' \<noteq> JNull"
    using assms unfolding isAllowedBrowserRpcRequest_def
    by (cases "prop_of body ''method''"; cases "json_or (prop_of body ''params'') (JArr [])") (simp_all split: if_splits)
  have m: "meth \<in> {''getLatestBlockhash'', ''getAccountInfo'', ''getTokenAccountsByOwner''}"
    using assms b unfolding isAllowedBrowserRpcRequest_def by (auto split: if_splits)
  have "\<exists>owner filter config. prop_of body ''params'' = JArr [owner, filter, config]
         \<and> isPublicKey owner \<and> set (obj_keys filter) = {''mint''} \<and> prop_of filter ''mint'' = JStr mint"
    if "meth = ''getTokenAccountsByOwner''"
  proof -
    have t: "isTokenBalanceRequest ps mint"
      using assms b that unfolding isAllowedBrowserRpcRequest_def by (auto split: if_splits)
    then have "length ps = Suc (Suc (Suc 0))" by (simp add: isTokenBalanceRequest_def)
    then obtain owner flt config where p: "ps = [owner, flt, config]"
      unfolding length_Suc_conv by blast
    have e: "elem ps 0 = owner" "elem ps 1 = flt" unfolding p elem_def by simp_all
    have q: "isPublicKey owner" "length (obj_keys flt) = 1" "prop_of flt ''mint'' = JStr mint"
      using t unfolding isTokenBalanceRequest_def e by blast+
    have "''mint'' \<in> set (obj_keys flt)" using prop_obj_keys [of flt "''mint''"] q(3) by simp
    with q(2) have k: "set (obj_keys flt) = {''mint''}" by (cases "obj_keys flt") auto
    have "prop_of body ''params'' = JArr ps"
      using b(2) unfolding json_or_def p by (cases "prop_of body ''params''") simp_all
    with p q k show ?thesis
      by (intro exI [of _ owner] exI [of _ flt] exI [of _ config] conjI) simp_all
  qed
  with b(1) m show ?thesis by (intro exI [of _ meth] conjI impI) simp_all
qed

theorem browser_rpc_surface_witness:
  "\<exists>meth. prop_of (JObj [(''jsonrpc'', JStr ''2.0''), (''method'', JStr ''getLatestBlockhash'')]) ''method'' = JStr meth
    \<and> meth \<in> {''getLatestBlockhash'', ''getAccountInfo'', ''getTokenAccountsByOwner''}"
  using browser_rpc_surface [of "JObj [(''jsonrpc'', JStr ''2.0''), (''method'', JStr ''getLatestBlockhash'')]" "''m''"]
  by (auto simp: isAllowedBrowserRpcRequest_def json_or_def isCommitmentConfig_def elem_def)

end
