(* ===== verification/Gateway_Startup.thy ===== *)
theory Gateway_Startup
  imports Configuration
begin

text \<open>
  What \<open>payment-gateway/src/main.ts\<close> does before it serves anything: it reads its configuration from
  the process environment and refuses to start on an unsafe one. Each \<open>throw\<close> of the module is a
  check of \<open>startup\<close>, in the module's order; the warnings are left out, and so are the protocol
  packages that are constructed from the configuration. \<open>new_url\<close> is the WHATWG URL parser.
\<close>

section \<open>Reading the environment\<close>

text \<open>The helper \<open>env\<close>: unset, empty and blank variables take the fallback.\<close>

definition env_or :: "environment \<Rightarrow> string \<Rightarrow> string \<Rightarrow> string" where
  "env_or environment name fallback =
     (let v = env_trim environment name in if v = [] then fallback else v)"

text \<open>\<open>(process.env[name] ?? "").split (",").map (trim).filter (Boolean)\<close>.\<close>

definition env_list :: "environment \<Rightarrow> string \<Rightarrow> string list" where
  "env_list environment name =
     filter (\<lambda>v. v \<noteq> []) (map trim (split_at (CHR '','') (case environment name of None \<Rightarrow> [] | Some v \<Rightarrow> v)))"

definition drop_slash :: "string \<Rightarrow> string" where
  "drop_slash url = (if url \<noteq> [] \<and> last url = CHR ''/'' then butlast url else url)"

definition gateway_devnet_network :: string where
  "gateway_devnet_network = ''solana:EtWTRABZaYq6iMfeYKouRu166VU2xqa1''"

definition gateway_devnet_usdc :: string where
  "gateway_devnet_usdc = ''4zMMC9srt5Ri5X14GAgXhaHii3GnPAEERYPJgZJDncDU''"

definition default_devnet_rpc_url :: string where
  "default_devnet_rpc_url = ''https://api.devnet.solana.com''"

text \<open>The module's constants, in three groups: the services it talks to, its limits, its secrets.\<close>

record gateway_urls =
  gu_rustApiUrl :: string
  gu_facilitatorUrl :: string
  gu_rpcUrl :: string
  gu_chainRpcUrls :: "string list"
  gu_payShRpcUrl :: string
  gu_payShRpcUrls :: "string list"
  gu_allowedOrigin :: string
  gu_orchestratorUrl :: string
  gu_privatePayShUrl :: string

record gateway_limits =
  gl_port :: int
  gl_rpcRateLimitPerMinute :: int
  gl_reconciliationIntervalMs :: int
  gl_batchSize :: int
  gl_signaturePages :: int
  gl_finalityTimeoutMs :: int
  gl_facilitatorTimeoutMs :: int
  gl_pollIntervalMs :: int
  gl_rpcTimeoutMs :: int

record gateway_runtime =
  gr_managed :: bool
  gr_internalToken :: string
  gr_network :: string
  gr_browserBalanceMint :: string
  gr_urls :: gateway_urls
  gr_limits :: gateway_limits
  gr_requireOrchestrator :: bool
  gr_frontToken :: string
  gr_operatorWallet :: string
  gr_feePayerKey :: string
  gr_testFailpoint :: string
  gr_bundleReceiver :: string
  gr_topUpAsset :: string
  gr_topUpQuoteTtlMs :: int

definition read_managed :: "environment \<Rightarrow> bool outcome" where
  "read_managed environment =
     managedRuntimeEnvironment
       (to_lower (env_or environment ''OPENSHELF_ENV'' (env_or environment ''NODE_ENV'' ''development''))) environment"

definition read_rpc_urls :: "url_parser \<Rightarrow> environment \<Rightarrow> (string \<times> string list \<times> string \<times> string list) outcome" where
  "read_rpc_urls new_url environment =
     (let rpcUrl = env_or environment ''X402_RPC_URL'' default_devnet_rpc_url in
      rbind (independentRpcUrls new_url (rpcUrl # env_list environment ''X402_RECONCILIATION_RPC_URLS'')) (\<lambda>chain.
      rbind (independentRpcUrls new_url [env_or environment ''PAY_SH_RPC_URL'' rpcUrl]) (\<lambda>paySh.
      rbind (independentRpcUrls new_url (hd paySh # env_list environment ''PAY_SH_RECONCILIATION_RPC_URLS'')) (\<lambda>payShAll.
        Inr (rpcUrl, chain, hd paySh, payShAll)))))"

definition read_limits :: "environment \<Rightarrow> gateway_limits outcome" where
  "read_limits environment =
     rbind (integerEnv ''PORT'' (Num 1402) (Num 1) (Num 65535) environment) (\<lambda>port.
     rbind (integerEnv ''X402_RPC_RATE_LIMIT_PER_MINUTE'' (Num 120) (Num 1) (Num 10000) environment) (\<lambda>rate.
     rbind (integerEnv ''X402_CHAIN_RECONCILIATION_INTERVAL_MS'' (Num 30000) (Num 5000) (Num 300000) environment) (\<lambda>interval.
     rbind (integerEnv ''X402_CHAIN_RECONCILIATION_BATCH_SIZE'' (Num 25) (Num 1) (Num 100) environment) (\<lambda>batch.
     rbind (integerEnv ''X402_CHAIN_RECONCILIATION_SIGNATURE_PAGES'' (Num 5) (Num 1) (Num 20) environment) (\<lambda>pages.
     rbind (integerEnv ''X402_SETTLEMENT_FINALITY_TIMEOUT_MS'' (Num 20000) (Num 1000) (Num 45000) environment) (\<lambda>finality.
     rbind (integerEnv ''X402_FACILITATOR_SETTLEMENT_TIMEOUT_MS'' (Num 15000) (Num 100) (Num 30000) environment) (\<lambda>facilitator.
     rbind (integerEnv ''X402_SETTLEMENT_FINALITY_POLL_INTERVAL_MS'' (Num 500) (Num 50) (Num 5000) environment) (\<lambda>poll.
     rbind (integerEnv ''X402_SETTLEMENT_FINALITY_RPC_TIMEOUT_MS'' (Num 3000) (Num 100) (Num 10000) environment) (\<lambda>rpc.
       Inr \<lparr> gl_port = port, gl_rpcRateLimitPerMinute = rate, gl_reconciliationIntervalMs = interval,
          gl_batchSize = batch, gl_signaturePages = pages, gl_finalityTimeoutMs = finality,
          gl_facilitatorTimeoutMs = facilitator, gl_pollIntervalMs = poll, gl_rpcTimeoutMs = rpc \<rparr>)))))))))"

definition read_gateway :: "url_parser \<Rightarrow> environment \<Rightarrow> gateway_runtime outcome" where
  "read_gateway new_url environment =
     rbind (read_managed environment) (\<lambda>managed.
     rbind (secureServiceOrigin new_url (env_or environment ''RUST_API_URL'' ''http://127.0.0.1:8787'')) (\<lambda>rust.
     rbind (secureServiceUrl new_url (env_or environment ''X402_FACILITATOR_URL'' ''https://x402.org/facilitator'')) (\<lambda>facilitator.
     rbind (read_rpc_urls new_url environment) (\<lambda>(rpcUrl, chain, paySh, payShAll).
     rbind (secureServiceOrigin new_url (env_or environment ''FRONTEND_ORIGIN''
         (env_or environment ''OPENSHELF_FRONTEND_ORIGIN'' ''http://localhost:4319''))) (\<lambda>origin.
     rbind (read_limits environment) (\<lambda>limits.
     rbind (secureServiceOrigin new_url (env_or environment ''RESEARCH_ORCHESTRATOR_URL'' ''http://127.0.0.1:1410'')) (\<lambda>orchestrator.
     rbind (booleanEnv ''OPENSHELF_REQUIRE_RESEARCH_ORCHESTRATOR'' True environment) (\<lambda>configured.
     rbind (researchOrchestratorReadinessRequired configured managed) (\<lambda>required.
     rbind (secureServiceOrigin new_url (env_or environment ''PAY_SH_PRIVATE_URL'' ''http://127.0.0.1:3402'')) (\<lambda>payShUrl.
     rbind (integerEnv ''PREPAID_TOP_UP_TTL_MS'' (Num 300000) (Num 60000) (Num 900000) environment) (\<lambda>ttl.
       Inr \<lparr> gr_managed = managed,
         gr_internalToken = env_or environment ''OPENSHELF_INTERNAL_TOKEN'' ''openshelf-local-internal'',
         gr_network = env_or environment ''X402_NETWORK'' (env_or environment ''OPENSHELF_X402_NETWORK'' gateway_devnet_network),
         gr_browserBalanceMint = env_or environment ''OPENSHELF_X402_ASSET'' gateway_devnet_usdc,
         gr_urls = \<lparr> gu_rustApiUrl = rust, gu_facilitatorUrl = drop_slash facilitator, gu_rpcUrl = rpcUrl,
           gu_chainRpcUrls = chain, gu_payShRpcUrl = paySh, gu_payShRpcUrls = payShAll, gu_allowedOrigin = origin,
           gu_orchestratorUrl = orchestrator, gu_privatePayShUrl = payShUrl \<rparr>,
         gr_limits = limits,
         gr_requireOrchestrator = required,
         gr_frontToken = env_or environment ''OPENSHELF_PAY_FRONT_TOKEN'' ''openshelf-local-pay-front'',
         gr_operatorWallet = env_trim environment ''OPENSHELF_PAY_OPERATOR_WALLET'',
         gr_feePayerKey = env_trim environment ''OPENSHELF_PAY_GCP_KMS_PUBKEY'',
         gr_testFailpoint = env_trim environment ''OPENSHELF_TEST_FAILPOINT'',
         gr_bundleReceiver = env_trim environment ''OPENSHELF_BUNDLE_RECEIVER'',
         gr_topUpAsset = env_or environment ''X402_ASSET'' (env_or environment ''OPENSHELF_X402_ASSET'' gateway_devnet_usdc),
         gr_topUpQuoteTtlMs = ttl \<rparr>)))))))))))"

section \<open>The checks\<close>

text \<open>\<open>if (bad) throw new Error (message)\<close>, one after the other.\<close>

fun refuse_first :: "(bool \<times> string) list \<Rightarrow> unit outcome" where
  "refuse_first [] = Inr ()"
| "refuse_first ((bad, message) # checks) = (if bad then Inl (Err message) else refuse_first checks)"

lemma refuse_first_Inr [simp]: "refuse_first checks = Inr u \<longleftrightarrow> (\<forall>(bad, message) \<in> set checks. \<not> bad)"
  by (induction checks rule: refuse_first.induct) auto

abbreviation https :: "string \<Rightarrow> bool" where
  "https url \<equiv> starts_with ''https://'' url"

definition managed_checks :: "gateway_runtime \<Rightarrow> (bool \<times> string) list" where
  "managed_checks r = (let u = gr_urls r; managed = gr_managed r in
     [(managed \<and> (length (gr_internalToken r) < 32
          \<or> gr_internalToken r \<in> {''openshelf-local-internal'', ''change-this-before-deploy''}),
        ''OPENSHELF_INTERNAL_TOKEN must be a non-default secret of at least 32 characters in production''),
      (managed \<and> \<not> https (gu_allowedOrigin u), ''FRONTEND_ORIGIN must use HTTPS in production''),
      (managed \<and> \<not> https (gu_rustApiUrl u), ''RUST_API_URL must use HTTPS in a managed environment''),
      (managed \<and> \<not> https (gu_orchestratorUrl u), ''RESEARCH_ORCHESTRATOR_URL must use HTTPS in a managed environment''),
      (managed \<and> \<not> https (gu_facilitatorUrl u), ''X402_FACILITATOR_URL must use HTTPS in a managed environment''),
      (managed \<and> gu_rpcUrl u = default_devnet_rpc_url, ''X402_RPC_URL must use a managed RPC endpoint in production''),
      (managed \<and> length (gu_chainRpcUrls u) < 2, ''X402_RECONCILIATION_RPC_URLS must include a second independent RPC origin''),
      (managed \<and> (\<not> https (gu_payShRpcUrl u) \<or> gu_payShRpcUrl u = default_devnet_rpc_url),
        ''PAY_SH_RPC_URL must use a managed HTTPS RPC endpoint''),
      (managed \<and> length (gu_payShRpcUrls u) < 2, ''PAY_SH_RECONCILIATION_RPC_URLS must include a second independent RPC origin''),
      (managed \<and> \<not> https (gu_privatePayShUrl u), ''PAY_SH_PRIVATE_URL must use HTTPS in a managed environment''),
      (managed \<and> (length (gr_frontToken r) < 32 \<or> gr_frontToken r = ''openshelf-local-pay-front''),
        ''OPENSHELF_PAY_FRONT_TOKEN must be a non-default 32-character secret''),
      (managed \<and> (gr_operatorWallet r = [] \<or> gr_feePayerKey r = []),
        ''OPENSHELF_PAY_OPERATOR_WALLET and OPENSHELF_PAY_GCP_KMS_PUBKEY are required'')])"

definition failpoint_checks :: "bool \<Rightarrow> gateway_runtime \<Rightarrow> (bool \<times> string) list" where
  "failpoint_checks mainnet r =
     [(mainnet \<and> gr_network r = gateway_devnet_network, ''mainnet mode cannot use the Solana Devnet network''),
      (gr_testFailpoint r \<noteq> [] \<and> gr_testFailpoint r \<notin> {''direct-after-prepare'', ''direct-after-receipt''},
        ''OPENSHELF_TEST_FAILPOINT is not a recognized test crash point''),
      (gr_managed r \<and> gr_testFailpoint r \<noteq> [], ''OPENSHELF_TEST_FAILPOINT cannot be enabled in a managed environment'')]"

definition startup :: "url_parser \<Rightarrow> environment \<Rightarrow> gateway_runtime outcome" where
  "startup new_url environment =
     rbind (read_gateway new_url environment) (\<lambda>r.
     rbind (refuse_first (managed_checks r)) (\<lambda>_.
     rbind (booleanEnv ''OPENSHELF_REQUIRE_MAINNET'' False environment) (\<lambda>mainnet.
     rbind (refuse_first (failpoint_checks mainnet r)) (\<lambda>_. Inr r))))"

section \<open>A gateway that starts is configured safely\<close>

definition cloud_run_variables :: "string set" where
  "cloud_run_variables = {''K_SERVICE'', ''K_REVISION'', ''K_CONFIGURATION'', ''CLOUD_RUN_JOB'', ''CLOUD_RUN_EXECUTION''}"

text \<open>Endpoints of pairwise different origins, each HTTPS or on loopback and without credentials.\<close>

definition separate_origins :: "url_parser \<Rightarrow> string list \<Rightarrow> bool" where
  "separate_origins new_url urls \<longleftrightarrow>
     (\<exists>origins. distinct origins \<and> length origins = length urls
        \<and> (\<forall>i < length urls. \<exists>v u. new_url v = Some u \<and> url_origin u = origins ! i \<and> urls ! i = url_href u
             \<and> url_username u = [] \<and> url_password u = []
             \<and> (url_protocol u = ''https:'' \<or> url_protocol u = ''http:'' \<and> url_hostname u \<in> loopback_hosts)))"

lemma independent_separate:
  assumes "independentRpcUrls new_url vs = Inr urls"
  shows "separate_origins new_url urls"
proof -
  obtain origins where o: "distinct origins" "length origins = length urls"
    and each: "\<forall>i < length urls. \<exists>v u. v \<in> set vs \<and> new_url v = Some u \<and> url_origin u = origins ! i \<and> urls ! i = url_href u
          \<and> url_username u = [] \<and> url_password u = [] \<and> url_hash u = []
          \<and> (url_protocol u = ''https:'' \<or> url_protocol u = ''http:'' \<and> url_hostname u \<in> loopback_hosts)"
    using independent_rpc_urls_distinct_origins [OF assms] by blast
  show ?thesis
    unfolding separate_origins_def
  proof (intro exI [of _ origins] conjI allI impI)
    fix i assume "i < length urls"
    with each show "\<exists>v u. new_url v = Some u \<and> url_origin u = origins ! i \<and> urls ! i = url_href u
             \<and> url_username u = [] \<and> url_password u = []
             \<and> (url_protocol u = ''https:'' \<or> url_protocol u = ''http:'' \<and> url_hostname u \<in> loopback_hosts)"
      by meson
  qed (use o in simp_all)
qed

lemma read_rpc_urls_separate:
  "read_rpc_urls new_url environment = Inr (rpcUrl, chain, paySh, all)
     \<Longrightarrow> separate_origins new_url chain \<and> separate_origins new_url all"
  by (auto simp: read_rpc_urls_def Let_def rbind_Inr_iff intro: independent_separate)

lemma integerEnv_bounds:
  "integerEnv name (Num fallback) (Num minimum) (Num maximum) environment = Inr v \<Longrightarrow> minimum \<le> v \<and> v \<le> maximum"
  by (auto simp: integerEnv_def Let_def not_less split: if_splits)

definition limits_ok :: "gateway_limits \<Rightarrow> bool" where
  "limits_ok l \<longleftrightarrow> gl_port l \<in> {1..65535} \<and> gl_rpcRateLimitPerMinute l \<in> {1..10000}
     \<and> gl_reconciliationIntervalMs l \<in> {5000..300000} \<and> gl_batchSize l \<in> {1..100} \<and> gl_signaturePages l \<in> {1..20}
     \<and> gl_finalityTimeoutMs l \<in> {1000..45000} \<and> gl_facilitatorTimeoutMs l \<in> {100..30000}
     \<and> gl_pollIntervalMs l \<in> {50..5000} \<and> gl_rpcTimeoutMs l \<in> {100..10000}"

lemma read_limits_ok: "read_limits environment = Inr l \<Longrightarrow> limits_ok l"
  by (auto simp: read_limits_def rbind_Inr_iff limits_ok_def dest!: integerEnv_bounds)

lemma read_managed_cloud_run:
  "read_managed environment = Inr managed \<Longrightarrow> name \<in> cloud_run_variables \<Longrightarrow> env_trim environment name \<noteq> [] \<Longrightarrow> managed"
  by (auto simp: read_managed_def managedRuntimeEnvironment_def rbind_Inr_iff cloud_run_variables_def)

lemma read_gateway_facts:
  assumes "read_gateway new_url environment = Inr r"
  shows "limits_ok (gr_limits r) \<and> gr_topUpQuoteTtlMs r \<in> {60000..900000}
    \<and> separate_origins new_url (gu_chainRpcUrls (gr_urls r)) \<and> separate_origins new_url (gu_payShRpcUrls (gr_urls r))
    \<and> (gr_managed r \<longrightarrow> gr_requireOrchestrator r) \<and> read_managed environment = Inr (gr_managed r)"
proof -
  obtain managed rpcUrl chain paySh all limits configured required ttl where
    r: "read_managed environment = Inr managed" "read_rpc_urls new_url environment = Inr (rpcUrl, chain, paySh, all)"
      "read_limits environment = Inr limits" "researchOrchestratorReadinessRequired configured managed = Inr required"
      "integerEnv ''PREPAID_TOP_UP_TTL_MS'' (Num 300000) (Num 60000) (Num 900000) environment = Inr ttl"
    and sel: "gr_managed r = managed" "gu_chainRpcUrls (gr_urls r) = chain" "gu_payShRpcUrls (gr_urls r) = all"
      "gr_limits r = limits" "gr_requireOrchestrator r = required" "gr_topUpQuoteTtlMs r = ttl"
    using assms unfolding read_gateway_def by (clarsimp simp: rbind_Inr_iff)
  have "managed \<longrightarrow> required"
    using r(4) by (auto simp: researchOrchestratorReadinessRequired_def split: if_splits)
  then show ?thesis
    using read_limits_ok [OF r(3)] read_rpc_urls_separate [OF r(2)] integerEnv_bounds [OF r(5)] r(1) by (simp add: sel)
qed

text \<open>C38: A gateway that starts has every limit within its bounds and its RPC views on pairwise
  different origins. In a managed environment - and every Cloud Run process is one, whatever the
  environment claims - it also has secrets of at least 32 characters that are not the defaults,
  HTTPS for every service it sends a secret or a payment to, at least two views of the chain for
  either protocol, a required orchestrator and no test crash point.\<close>

theorem started_gateway_is_hardened:
  assumes "startup new_url environment = Inr r"
  shows "limits_ok (gr_limits r) \<and> gr_topUpQuoteTtlMs r \<in> {60000..900000}
    \<and> separate_origins new_url (gu_chainRpcUrls (gr_urls r)) \<and> separate_origins new_url (gu_payShRpcUrls (gr_urls r))
    \<and> ((\<exists>name \<in> cloud_run_variables. env_trim environment name \<noteq> []) \<longrightarrow> gr_managed r)
    \<and> (gr_managed r \<longrightarrow>
         32 \<le> length (gr_internalToken r) \<and> 32 \<le> length (gr_frontToken r)
       \<and> gr_operatorWallet r \<noteq> [] \<and> gr_feePayerKey r \<noteq> []
       \<and> (\<forall>url \<in> {gu_rustApiUrl (gr_urls r), gu_facilitatorUrl (gr_urls r), gu_payShRpcUrl (gr_urls r),
              gu_allowedOrigin (gr_urls r), gu_orchestratorUrl (gr_urls r), gu_privatePayShUrl (gr_urls r)}. https url)
       \<and> gu_rpcUrl (gr_urls r) \<noteq> default_devnet_rpc_url
       \<and> 2 \<le> length (gu_chainRpcUrls (gr_urls r)) \<and> 2 \<le> length (gu_payShRpcUrls (gr_urls r))
       \<and> gr_requireOrchestrator r \<and> gr_testFailpoint r = [])"
proof -
  obtain mainnet where read: "read_gateway new_url environment = Inr r"
    and checks: "\<forall>(bad, message) \<in> set (managed_checks r). \<not> bad"
    and failpoint: "\<forall>(bad, message) \<in> set (failpoint_checks mainnet r). \<not> bad"
    using assms unfolding startup_def by (clarsimp simp: rbind_Inr_iff)
  have "gr_managed r \<longrightarrow> gr_testFailpoint r = []"
    using failpoint by (simp add: failpoint_checks_def)
  moreover have "(\<exists>name \<in> cloud_run_variables. env_trim environment name \<noteq> []) \<longrightarrow> gr_managed r"
    using read_gateway_facts [OF read] read_managed_cloud_run by blast
  ultimately show ?thesis
    using read_gateway_facts [OF read] checks by (simp add: managed_checks_def Let_def not_less)
qed

definition demo_environment :: environment where
  "demo_environment = map_of
     [(''K_SERVICE'', ''gateway''), (''RUST_API_URL'', ''https://rust''), (''FRONTEND_ORIGIN'', ''https://front''),
      (''RESEARCH_ORCHESTRATOR_URL'', ''https://orch''), (''PAY_SH_PRIVATE_URL'', ''https://gate''),
      (''X402_RPC_URL'', ''https://rpc1''), (''X402_RECONCILIATION_RPC_URLS'', ''https://rpc2''),
      (''PAY_SH_RECONCILIATION_RPC_URLS'', ''https://rpc1, https://rpc3''),
      (''OPENSHELF_INTERNAL_TOKEN'', ''0123456789abcdef0123456789abcdef''),
      (''OPENSHELF_PAY_FRONT_TOKEN'', ''fedcba9876543210fedcba9876543210''),
      (''OPENSHELF_PAY_OPERATOR_WALLET'', ''w''), (''OPENSHELF_PAY_GCP_KMS_PUBKEY'', ''k''),
      (''X402_CHAIN_RECONCILIATION_SIGNATURE_PAGES'', '' 20 '')]"

lemma demo_started:
  "case startup demo_url demo_environment of
     Inr r \<Rightarrow> gr_managed r \<and> gl_signaturePages (gr_limits r) = 20
       \<and> gu_payShRpcUrls (gr_urls r) = [''https://rpc1'', ''https://rpc3'']
   | Inl e \<Rightarrow> False"
  by code_simp

theorem started_gateway_is_hardened_witness:
  "\<exists>r. startup demo_url demo_environment = Inr r \<and> gr_managed r \<and> limits_ok (gr_limits r)
     \<and> gu_payShRpcUrls (gr_urls r) = [''https://rpc1'', ''https://rpc3'']
     \<and> separate_origins demo_url (gu_payShRpcUrls (gr_urls r)) \<and> https (gu_facilitatorUrl (gr_urls r))
     \<and> 32 \<le> length (gr_internalToken r) \<and> gr_testFailpoint r = []"
  using demo_started started_gateway_is_hardened [of demo_url demo_environment]
  by (auto split: sum.splits)

end
