(* ===== verification/Gateway_Edge.thy ===== *)
theory Gateway_Edge
  imports Gateway Gateway_Startup
begin

text \<open>
  The edge of \<open>payment-gateway/src/main.ts\<close>: the rate limit and the \<open>/rpc\<close> proxy in front of the
  server's Solana endpoint, the preparation of a payment bundle, the handler that turns errors into
  answers, and the settlement queue of \<open>payment-gateway/src/durable-outbox.ts\<close>. Express and Cloud
  Tasks are services. The world of a request is the rate windows beside everything outside, because
  other requests run while an answer is awaited.
\<close>

section \<open>The rate limit\<close>

record rate_window =
  rw_startedAt :: int
  rw_count :: int

type_synonym rate_windows = "(string \<times> rate_window) list"

text \<open>\<open>consumeRateLimit\<close> at the time \<open>now\<close>: whether the request is admitted, and the windows after it.\<close>

definition consumeRateLimit :: "rate_windows \<Rightarrow> string \<Rightarrow> int \<Rightarrow> int \<Rightarrow> bool \<times> rate_windows" where
  "consumeRateLimit windows client limit now =
     (case map_of windows client of
        None \<Rightarrow> (True, AList.update client \<lparr> rw_startedAt = now, rw_count = 1 \<rparr> windows)
      | Some current \<Rightarrow>
          if 60000 \<le> now - rw_startedAt current
          then (True, AList.update client \<lparr> rw_startedAt = now, rw_count = 1 \<rparr> windows)
          else if limit \<le> rw_count current then (False, windows)
          else (True, AList.update client (current \<lparr> rw_count := rw_count current + 1 \<rparr>) windows))"

definition pruneRpcRateWindows :: "int \<Rightarrow> rate_windows \<Rightarrow> rate_windows" where
  "pruneRpcRateWindows now windows = keep_entries (\<lambda>_ w. \<not> rw_startedAt w < now - 120000) windows"

datatype rate_op = RateRequest string | RatePrune

text \<open>When the requests of a client are admitted, over any sequence of requests and prunings.\<close>

fun admitted_at :: "int \<Rightarrow> string \<Rightarrow> rate_windows \<Rightarrow> (rate_op \<times> int) list \<Rightarrow> int list" where
  "admitted_at limit client windows [] = []"
| "admitted_at limit client windows ((RateRequest other, now) # ops) =
     (let (admitted, windows') = consumeRateLimit windows other limit now;
          rest = admitted_at limit client windows' ops in
      if admitted \<and> other = client then now # rest else rest)"
| "admitted_at limit client windows ((RatePrune, now) # ops) =
     admitted_at limit client (pruneRpcRateWindows now windows) ops"

text \<open>\<open>rate_inv\<close>: with \<open>n\<close> requests admitted since \<open>t\<close> and the clock at \<open>now\<close>, a window that was opened
  before \<open>t\<close> counts one request more than those, and a later one leaves room for at most one window before.\<close>

definition rate_inv :: "int \<Rightarrow> int \<Rightarrow> int \<Rightarrow> int \<Rightarrow> rate_window option \<Rightarrow> bool" where
  "rate_inv limit t now n w \<longleftrightarrow> 0 \<le> n \<and> n \<le> 2 * limit - 1 \<and> (now < t \<longrightarrow> n = 0)
     \<and> (now < t + 60000 \<longrightarrow>
         (case w of None \<Rightarrow> n = 0
          | Some v \<Rightarrow> 1 \<le> rw_count v \<and> rw_count v \<le> limit
              \<and> (rw_startedAt v < t \<longrightarrow> n \<le> rw_count v - 1 \<and> (0 < n \<longrightarrow> t < rw_startedAt v + 60000))
              \<and> (t \<le> rw_startedAt v \<longrightarrow> n \<le> limit - 1 + rw_count v)))"

lemma rate_inv_consume:
  assumes inv: "rate_inv limit t now n (map_of windows client)" and le: "now \<le> u" and limit: "0 < limit"
    and consume: "consumeRateLimit windows client limit u = (admitted, windows')"
  shows "rate_inv limit t u (if admitted \<and> t \<le> u \<and> u < t + 60000 then n + 1 else n) (map_of windows' client)"
proof (cases "map_of windows client")
  case None
  with consume have "admitted" "map_of windows' client = Some \<lparr> rw_startedAt = u, rw_count = 1 \<rparr>"
    by (auto simp: consumeRateLimit_def update_conv')
  with None inv le limit show ?thesis by (auto simp: rate_inv_def)
next
  case (Some v)
  consider (fresh) "60000 \<le> u - rw_startedAt v" "admitted" "map_of windows' client = Some \<lparr> rw_startedAt = u, rw_count = 1 \<rparr>"
    | (full) "u - rw_startedAt v < 60000" "limit \<le> rw_count v" "\<not> admitted" "windows' = windows"
    | (more) "u - rw_startedAt v < 60000" "rw_count v < limit" "admitted"
        "map_of windows' client = Some (v \<lparr> rw_count := rw_count v + 1 \<rparr>)"
    using consume Some by (auto simp: consumeRateLimit_def update_conv' split: if_splits)
  then show ?thesis
  proof cases
    case fresh
    with Some inv le limit show ?thesis by (auto simp: rate_inv_def)
  next
    case full
    with Some inv le limit show ?thesis by (auto simp: rate_inv_def)
  next
    case more
    with Some inv le limit show ?thesis by (auto simp: rate_inv_def)
  qed
qed

lemma rate_inv_prune:
  assumes "rate_inv limit t now n (map_of windows client)" "now \<le> u" "distinct (map fst windows)"
  shows "rate_inv limit t u n (map_of (pruneRpcRateWindows u windows) client)"
  using assms(1,2)
  by (cases "map_of windows client")
    (auto simp: rate_inv_def pruneRpcRateWindows_def map_of_keep_entries [OF assms(3)] simp del: map_of_eq_Some_iff)

lemma distinct_windows:
  "distinct (map fst windows) \<Longrightarrow> distinct (map fst (pruneRpcRateWindows now windows))"
  "distinct (map fst windows) \<Longrightarrow> consumeRateLimit windows client limit now = (admitted, windows')
     \<Longrightarrow> distinct (map fst windows')"
  by (auto simp: pruneRpcRateWindows_def distinct_keep_entries consumeRateLimit_def distinct_update
    split: option.splits if_splits)

lemma consume_other:
  "other \<noteq> client \<Longrightarrow> consumeRateLimit windows other limit now = (admitted, windows') \<Longrightarrow>
     map_of windows' client = map_of windows client"
  by (auto simp: consumeRateLimit_def update_conv' split: option.splits if_splits)

lemma rate_inv_later: "rate_inv limit t now n w \<Longrightarrow> now \<le> u \<Longrightarrow> rate_inv limit t u n w"
  by (auto simp: rate_inv_def)

lemma rate_limit_from:
  assumes "0 < limit" "sorted (map snd ops)" "\<forall>u \<in> set (map snd ops). now \<le> u"
    and "distinct (map fst windows)" "rate_inv limit t now n (map_of windows client)"
  shows "n + int (length (filter (\<lambda>u. t \<le> u \<and> u < t + 60000) (admitted_at limit client windows ops))) \<le> 2 * limit - 1"
  using assms(2-5)
proof (induction ops arbitrary: now n windows)
  case Nil
  then show ?case by (simp add: rate_inv_def)
next
  case (Cons x ops)
  obtain op u where x: "x = (op, u)" by (cases x)
  have order: "now \<le> u" "sorted (map snd ops)" "\<forall>v \<in> set (map snd ops). u \<le> v"
    using Cons.prems(1,2) x by simp_all
  show ?case
  proof (cases op)
    case (RateRequest other)
    obtain admitted windows' where c: "consumeRateLimit windows other limit u = (admitted, windows')" by force
    let ?n = "if admitted \<and> other = client \<and> t \<le> u \<and> u < t + 60000 then n + 1 else n"
    have "rate_inv limit t u ?n (map_of windows' client)"
      using rate_inv_consume [OF Cons.prems(4) order(1) assms(1), of admitted windows'] c consume_other [of other client]
        rate_inv_later [OF Cons.prems(4) order(1)]
      by (cases "other = client") simp_all
    from Cons.IH [OF order(2,3) distinct_windows(2) [OF Cons.prems(3) c] this] show ?thesis
      by (auto simp: x RateRequest c Let_def split: if_splits)
  next
    case RatePrune
    from Cons.IH [OF order(2,3) distinct_windows(1) [OF Cons.prems(3)] rate_inv_prune [OF Cons.prems(4) order(1) Cons.prems(3)]]
    show ?thesis by (simp add: x RatePrune)
  qed
qed

text \<open>C40: Whatever requests and prunings run, in any 60 seconds a client gets fewer than twice its
  per-minute limit of requests admitted: the windows are fixed ones, so two of them can overlap the
  interval, but the first request of the earlier one lies before it.\<close>

theorem rate_limit_any_minute:
  assumes "0 < limit" "sorted (map snd ops)"
  shows "int (length (filter (\<lambda>u. t \<le> u \<and> u < t + 60000) (admitted_at limit client [] ops))) \<le> 2 * limit - 1"
proof (cases ops)
  case (Cons x rest)
  let ?now = "min (t - 1) (snd x)"
  have "rate_inv limit t ?now 0 (map_of [] client)" "\<forall>u \<in> set (map snd ops). ?now \<le> u"
    using assms Cons by (auto simp: rate_inv_def min_le_iff_disj)
  from rate_limit_from [OF assms this(2) _ this(1)] show ?thesis by simp
qed (use assms(1) in simp)

theorem rate_limit_any_minute_witness:
  "int (length (filter (\<lambda>u. 59999 \<le> u \<and> u < 59999 + 60000)
      (admitted_at 2 ''a'' [] [(RateRequest ''a'', 0), (RateRequest ''a'', 59999), (RateRequest ''b'', 59999),
         (RateRequest ''a'', 59999), (RateRequest ''a'', 60000), (RatePrune, 60000), (RateRequest ''a'', 60001)]))) \<le> 2 * 2 - 1
   \<and> admitted_at 2 ''a'' [] [(RateRequest ''a'', 0), (RateRequest ''a'', 59999), (RateRequest ''b'', 59999),
         (RateRequest ''a'', 59999), (RateRequest ''a'', 60000), (RatePrune, 60000), (RateRequest ''a'', 60001)]
       = [0, 59999, 60000, 60001]"
  by (intro conjI rate_limit_any_minute) (simp_all add: consumeRateLimit_def pruneRpcRateWindows_def keep_entries_def)

section \<open>The browser's RPC proxy\<close>

text \<open>\<open>Number.parseInt (s, 10)\<close> when it is finite: white space, a sign, then the longest run of digits.
  Rounding does not matter here, overflow to \<open>Infinity\<close> does.\<close>

definition parse_int :: "string \<Rightarrow> int option" where
  "parse_int s = (let t = dropWhile is_space s;
       (sign, u) = (case t of [] \<Rightarrow> (1, []) | c # cs \<Rightarrow> if c = CHR ''-'' then (- 1, cs) else if c = CHR ''+'' then (1, cs) else (1, t));
       digits = takeWhile is_digit u in
     if digits = [] \<or> 2 ^ 1024 - 2 ^ 970 \<le> dec_value digits then None else Some (sign * int (dec_value digits)))"

definition retry_delay :: "string option \<Rightarrow> int \<Rightarrow> int" where
  "retry_delay retryAfter backoff =
     (case parse_int (case retryAfter of None \<Rightarrow> [] | Some s \<Rightarrow> s) of
        None \<Rightarrow> backoff
      | Some seconds \<Rightarrow> min (max seconds 1 * 1000) 10000)"

text \<open>What the route calls: the clock, one request to an endpoint (with its \<open>retry-after\<close> header) and
  a timer.\<close>

record 'w edge_services =
  es_now :: "('w, int) proc"
  es_fetch :: "string \<Rightarrow> json \<Rightarrow> ('w, http_response \<times> string option) proc"
  es_wait :: "int \<Rightarrow> ('w, unit) proc"

definition edge_backoff_ms :: "int list" where
  "edge_backoff_ms = map (\<lambda>attempt. 1000 * 2 ^ attempt) [0..<3]"

text \<open>\<open>fetchRpcWithBackoff\<close> with the delays of the attempts that are left; cancelling the body of a
  dropped response is left out.\<close>

fun fetchRpcWithBackoff :: "'w edge_services \<Rightarrow> string \<Rightarrow> json \<Rightarrow> int list \<Rightarrow> ('w, http_response) proc" where
  "fetchRpcWithBackoff d endpoint body [] = pbind (es_fetch d endpoint body) (\<lambda>(response, _). pret response)"
| "fetchRpcWithBackoff d endpoint body (t # ts) =
     pbind (pcatch (pbind (es_fetch d endpoint body) (\<lambda>answer. pret (Some answer))) (\<lambda>_. pret None)) (\<lambda>answer.
       case answer of
         None \<Rightarrow> pbind (es_wait d t) (\<lambda>_. fetchRpcWithBackoff d endpoint body ts)
       | Some (response, retryAfter) \<Rightarrow>
           if hr_status response \<noteq> 429 then pret response
           else pbind (es_wait d (retry_delay retryAfter t)) (\<lambda>_. fetchRpcWithBackoff d endpoint body ts))"

definition rpcRequestId :: "json \<Rightarrow> json" where
  "rpcRequestId body = (if is_obj body then json_or (prop_of body ''id'') JNull else JNull)"

record rpc_request =
  rr_origin :: "string option"
  rr_remoteAddress :: "string option"
  rr_body :: json

text \<open>A reply: a JSON-RPC error (status, \<open>retry-after\<close> header, code, message, id) or the upstream's answer.\<close>

datatype rpc_reply =
    RpcRefusal nat "string option" int string json
  | RpcForward nat bytes

definition max_account_preflight_response_bytes :: nat where
  "max_account_preflight_response_bytes = 128 * 1024"

text \<open>The handler of \<open>POST /rpc\<close>; what it throws goes to the error handler.\<close>

definition rpc_route :: "url_parser \<Rightarrow> gateway_runtime \<Rightarrow> (rate_windows \<times> 'h) edge_services \<Rightarrow> rpc_request
    \<Rightarrow> (rate_windows \<times> 'h, rpc_reply) proc" where
  "rpc_route new_url cfg d request =
     (if truthy (rr_origin request)
         \<and> \<not> browserOriginAllowed new_url (rr_origin request) (gu_allowedOrigin (gr_urls cfg)) (gr_managed cfg)
      then pret (RpcRefusal 403 None (- 32003) ''RPC browser origin is not allowed'' (rpcRequestId (rr_body request)))
      else pbind (es_now d) (\<lambda>now. pbind (pget fst) (\<lambda>windows.
        let (admitted, windows') = consumeRateLimit windows
              (case rr_remoteAddress request of None \<Rightarrow> ''unknown'' | Some address \<Rightarrow> address)
              (gl_rpcRateLimitPerMinute (gr_limits cfg)) now in
        pbind (pmod (\<lambda>(_, h). (windows', h))) (\<lambda>_.
          if \<not> admitted
          then pret (RpcRefusal 429 (Some ''60'') (- 32005) ''RPC proxy rate limit exceeded'' (rpcRequestId (rr_body request)))
          else if \<not> isAllowedBrowserRpcRequest (rr_body request) (gr_browserBalanceMint cfg)
          then pret (RpcRefusal 400 None (- 32600) ''RPC method is not allowed'' (rpcRequestId (rr_body request)))
          else pbind (fetchRpcWithBackoff d (gu_rpcUrl (gr_urls cfg)) (rr_body request) edge_backoff_ms) (\<lambda>upstream.
            pbind (plift (boundedResponseText upstream max_account_preflight_response_bytes)) (\<lambda>payload.
              pret (RpcForward (hr_status upstream) payload)))))))"

text \<open>The outside as a log. While an answer is awaited the other requests of the gateway run, and may
  change the windows in any way.\<close>

datatype edge_event = EdgeNow | EdgeFetch string json | EdgeWait int

record edge_env =
  ee_now :: "edge_event list \<Rightarrow> int"
  ee_fetch :: "edge_event list \<Rightarrow> string \<Rightarrow> json \<Rightarrow> (http_response \<times> string option) outcome"
  ee_others :: "edge_event list \<Rightarrow> rate_windows \<Rightarrow> rate_windows"

text \<open>The clock is read without an await; a timer does not fail.\<close>

definition logged_edge :: "edge_env \<Rightarrow> (rate_windows \<times> edge_event list) edge_services" where
  "logged_edge env =
     \<lparr> es_now = (\<lambda>(windows, h). (Inr (ee_now env h), (windows, h @ [EdgeNow]))),
       es_fetch = (\<lambda>endpoint body (windows, h).
         (ee_fetch env h endpoint body, (ee_others env h windows, h @ [EdgeFetch endpoint body]))),
       es_wait = (\<lambda>t (windows, h). (Inr (), (ee_others env h windows, h @ [EdgeWait t]))) \<rparr>"

definition is_edge_fetch :: "edge_event \<Rightarrow> bool" where
  "is_edge_fetch ev = (case ev of EdgeFetch _ _ \<Rightarrow> True | _ \<Rightarrow> False)"

text \<open>\<open>fetches env endpoint body n h new\<close>: after \<open>h\<close> at most \<open>n\<close> requests follow, each of this body to this
  endpoint; between two of them the first failed or was answered with 429, and one to ten seconds are waited.\<close>

definition upstream_busy :: "edge_env \<Rightarrow> string \<Rightarrow> json \<Rightarrow> edge_event list \<Rightarrow> bool" where
  "upstream_busy env endpoint body h \<longleftrightarrow>
     (case ee_fetch env h endpoint body of Inl _ \<Rightarrow> True | Inr (response, _) \<Rightarrow> hr_status response = 429)"

fun fetches :: "edge_env \<Rightarrow> string \<Rightarrow> json \<Rightarrow> nat \<Rightarrow> edge_event list \<Rightarrow> edge_event list \<Rightarrow> bool" where
  "fetches env endpoint body n h [] \<longleftrightarrow> True"
| "fetches env endpoint body (Suc n) h [ev] \<longleftrightarrow> ev = EdgeFetch endpoint body"
| "fetches env endpoint body (Suc n) h (ev # EdgeWait t # rest) \<longleftrightarrow>
     ev = EdgeFetch endpoint body \<and> upstream_busy env endpoint body h \<and> 1000 \<le> t \<and> t \<le> 10000
     \<and> rest \<noteq> [] \<and> fetches env endpoint body n (h @ [ev, EdgeWait t]) rest"
| "fetches env endpoint body n h _ \<longleftrightarrow> False"

definition fetched :: "edge_env \<Rightarrow> string \<Rightarrow> json \<Rightarrow> edge_event list \<Rightarrow> http_response \<Rightarrow> bool" where
  "fetched env endpoint body h response \<longleftrightarrow>
     (\<exists>pre post retryAfter. h = pre @ EdgeFetch endpoint body # post \<and> ee_fetch env pre endpoint body = Inr (response, retryAfter))"

lemma retry_delay_bounds: "1000 \<le> t \<Longrightarrow> t \<le> 10000 \<Longrightarrow> 1000 \<le> retry_delay r t \<and> retry_delay r t \<le> 10000"
  by (auto simp: retry_delay_def split: option.splits)

lemma fetchedI:
  "ee_fetch env h endpoint body = Inr (response, retryAfter)
     \<Longrightarrow> fetched env endpoint body (h @ [EdgeFetch endpoint body]) response"
  unfolding fetched_def by blast

lemma backoff_log:
  assumes "fetchRpcWithBackoff (logged_edge env) endpoint body ts (windows, h) = (res, windows', h')"
    and "\<forall>t \<in> set ts. 1000 \<le> t \<and> t \<le> 10000"
  shows "(\<exists>new. h' = h @ new \<and> new \<noteq> [] \<and> fetches env endpoint body (Suc (length ts)) h new)
    \<and> (\<forall>response. res = Inr response \<longrightarrow> fetched env endpoint body h' response)"
  using assms
proof (induction ts arbitrary: windows h)
  case Nil
  then show ?case
    by (auto simp: pbind_def pret_def logged_edge_def fetchedI split: sum.splits)
next
  case (Cons t ts)
  have again: ?case
    if busy: "upstream_busy env endpoint body h" and w: "1000 \<le> w" "w \<le> 10000"
      and run: "fetchRpcWithBackoff (logged_edge env) endpoint body ts
        (ee_others env (h @ [EdgeFetch endpoint body]) (ee_others env h windows), h @ [EdgeFetch endpoint body, EdgeWait w])
          = (res, windows', h')" for w
  proof -
    from Cons.IH [OF run] Cons.prems(2) obtain new where
      "h' = h @ EdgeFetch endpoint body # EdgeWait w # new" "new \<noteq> []"
      "fetches env endpoint body (Suc (length ts)) (h @ [EdgeFetch endpoint body, EdgeWait w]) new"
      "\<forall>response. res = Inr response \<longrightarrow> fetched env endpoint body h' response" by auto
    with busy w show ?thesis by auto
  qed
  show ?case
  proof (cases "ee_fetch env h endpoint body")
    case (Inl e)
    with Cons.prems have "fetchRpcWithBackoff (logged_edge env) endpoint body ts
        (ee_others env (h @ [EdgeFetch endpoint body]) (ee_others env h windows), h @ [EdgeFetch endpoint body, EdgeWait t])
          = (res, windows', h')"
      by (simp add: pbind_def pcatch_def pret_def logged_edge_def)
    from again [OF _ _ _ this] Inl Cons.prems(2) show ?thesis by (simp add: upstream_busy_def)
  next
    case (Inr answer)
    obtain response retryAfter where a: "answer = (response, retryAfter)" by force
    show ?thesis
    proof (cases "hr_status response = 429")
      case True
      with Inr a Cons.prems have "fetchRpcWithBackoff (logged_edge env) endpoint body ts
          (ee_others env (h @ [EdgeFetch endpoint body]) (ee_others env h windows),
           h @ [EdgeFetch endpoint body, EdgeWait (retry_delay retryAfter t)]) = (res, windows', h')"
        by (simp add: pbind_def pcatch_def pret_def logged_edge_def)
      from again [OF _ _ _ this] retry_delay_bounds [of t retryAfter] Inr a True Cons.prems(2)
      show ?thesis by (simp add: upstream_busy_def)
    next
      case False
      with Inr a Cons.prems have "res = Inr response" "h' = h @ [EdgeFetch endpoint body]"
        by (simp_all add: pbind_def pcatch_def pret_def logged_edge_def)
      with Inr a show ?thesis by (auto simp: fetchedI)
    qed
  qed
qed

text \<open>C39: The \<open>/rpc\<close> proxy sends something to the server's endpoint only for a caller of an allowed
  origin within its rate limit, only the caller's own body, and only when that body is one of three
  read-only calls; it sends it at most four times, again only after an error or a 429 and a wait of one
  to ten seconds, and whatever it answers from upstream is what that endpoint said, within 128 KiB.\<close>

theorem rpc_proxy_forwards_admitted:
  assumes "rpc_route new_url cfg (logged_edge env) request (windows, []) = (res, windows', h)"
  shows "(list_ex is_edge_fetch h \<longrightarrow>
        (\<not> truthy (rr_origin request)
          \<or> browserOriginAllowed new_url (rr_origin request) (gu_allowedOrigin (gr_urls cfg)) (gr_managed cfg))
      \<and> fst (consumeRateLimit windows (case rr_remoteAddress request of None \<Rightarrow> ''unknown'' | Some a \<Rightarrow> a)
          (gl_rpcRateLimitPerMinute (gr_limits cfg)) (ee_now env []))
      \<and> isAllowedBrowserRpcRequest (rr_body request) (gr_browserBalanceMint cfg)
      \<and> prop_of (rr_body request) ''method''
          \<in> {JStr ''getLatestBlockhash'', JStr ''getAccountInfo'', JStr ''getTokenAccountsByOwner''})
    \<and> (h = [] \<or> (\<exists>new. h = EdgeNow # new \<and> fetches env (gu_rpcUrl (gr_urls cfg)) (rr_body request) 4 [EdgeNow] new))
    \<and> (\<forall>status payload. res = Inr (RpcForward status payload) \<longrightarrow>
        (\<exists>upstream. fetched env (gu_rpcUrl (gr_urls cfg)) (rr_body request) h upstream \<and> status = hr_status upstream
           \<and> boundedResponseText upstream max_account_preflight_response_bytes = Inr payload))"
proof -
  let ?origin_ok = "\<not> truthy (rr_origin request)
      \<or> browserOriginAllowed new_url (rr_origin request) (gu_allowedOrigin (gr_urls cfg)) (gr_managed cfg)"
  let ?client = "case rr_remoteAddress request of None \<Rightarrow> ''unknown'' | Some a \<Rightarrow> a"
  let ?url = "gu_rpcUrl (gr_urls cfg)" and ?body = "rr_body request"
  obtain admitted windows1 where c: "consumeRateLimit windows ?client (gl_rpcRateLimitPerMinute (gr_limits cfg)) (ee_now env [])
      = (admitted, windows1)" by force
  have now: "es_now (logged_edge env) (windows, []) = (Inr (ee_now env []), (windows, [EdgeNow]))"
    by (simp add: logged_edge_def)
  consider (origin) "\<not> ?origin_ok" | (refused) "?origin_ok" "\<not> admitted \<or> \<not> isAllowedBrowserRpcRequest ?body (gr_browserBalanceMint cfg)"
    | (sent) "?origin_ok" "admitted" "isAllowedBrowserRpcRequest ?body (gr_browserBalanceMint cfg)" by blast
  then show ?thesis
  proof cases
    case origin
    with assms show ?thesis by (auto simp: rpc_route_def pret_def)
  next
    case refused
    with assms show ?thesis
      by (auto simp: rpc_route_def pret_def pbind_def pget_def pmod_def now c is_edge_fetch_def split: if_splits)
  next
    case sent
    obtain r ws h1 where b: "fetchRpcWithBackoff (logged_edge env) ?url ?body edge_backoff_ms (windows1, [EdgeNow]) = (r, ws, h1)"
      by (metis surj_pair)
    have l: "\<exists>new. h1 = EdgeNow # new \<and> fetches env ?url ?body 4 [EdgeNow] new"
        "\<forall>response. r = Inr response \<longrightarrow> fetched env ?url ?body h1 response"
      using backoff_log [OF b] by (auto simp: edge_backoff_ms_def upt_rec eval_nat_numeral)
    obtain meth where "prop_of ?body ''method'' = JStr meth"
        "meth \<in> {''getLatestBlockhash'', ''getAccountInfo'', ''getTokenAccountsByOwner''}"
      using browser_rpc_surface [OF sent(3)] by blast
    moreover have h: "h = h1" and f: "\<forall>status payload. res = Inr (RpcForward status payload) \<longrightarrow> (\<exists>upstream. r = Inr upstream
        \<and> status = hr_status upstream \<and> boundedResponseText upstream max_account_preflight_response_bytes = Inr payload)"
      using assms sent
      by (auto simp: rpc_route_def pret_def pbind_def pget_def pmod_def plift_def now c b split: sum.splits if_splits)
    moreover have "\<forall>status payload. res = Inr (RpcForward status payload) \<longrightarrow>
        (\<exists>upstream. fetched env ?url ?body h upstream \<and> status = hr_status upstream
           \<and> boundedResponseText upstream max_account_preflight_response_bytes = Inr payload)"
      using f l(2) h by blast
    ultimately show ?thesis using l(1) sent c by simp
  qed
qed

definition demo_edge_env :: edge_env where
  "demo_edge_env = \<lparr> ee_now = (\<lambda>_. 5000),
     ee_fetch = (\<lambda>h _ _. Inr (if list_ex is_edge_fetch h
        then (\<lparr> hr_ok = True, hr_status = 200, hr_contentLength = None, hr_body = Some [[123, 125]] \<rparr>, None)
        else (\<lparr> hr_ok = False, hr_status = 429, hr_contentLength = None, hr_body = None \<rparr>, Some ''2''))),
     ee_others = (\<lambda>_ windows. windows) \<rparr>"

definition demo_rpc_request :: rpc_request where
  "demo_rpc_request = \<lparr> rr_origin = Some ''https://front'', rr_remoteAddress = Some ''10.0.0.7'',
     rr_body = JObj [(''jsonrpc'', JStr ''2.0''), (''method'', JStr ''getLatestBlockhash'')] \<rparr>"

lemma edge_backoff [simp]: "edge_backoff_ms = [1000, 2000, 4000]"
  by (simp add: edge_backoff_ms_def upt_rec)

lemma demo_rpc_run:
  assumes "gu_allowedOrigin (gr_urls cfg) = ''https://front''"
  shows "\<exists>windows' h. rpc_route demo_url cfg (logged_edge demo_edge_env) demo_rpc_request ([], [])
       = (Inr (RpcForward 200 [123, 125]), windows', h) \<and> list_ex is_edge_fetch h"
proof -
  let ?body = "rr_body demo_rpc_request" and ?url = "gu_rpcUrl (gr_urls cfg)"
  let ?upstream = "\<lparr> hr_ok = True, hr_status = 200, hr_contentLength = None, hr_body = Some [[123, 125]] \<rparr>"
  have "parse_int ''2'' = Some 2"
    by (simp add: parse_int_def is_space_def is_digit_def dec_value_def digit_value_def)
  then have "retry_delay (Some ''2'') 1000 = 2000"
    by (simp add: retry_delay_def)
  then have "fetchRpcWithBackoff (logged_edge demo_edge_env) ?url ?body edge_backoff_ms (windows, [EdgeNow])
      = (Inr ?upstream, windows, [EdgeNow, EdgeFetch ?url ?body, EdgeWait 2000, EdgeFetch ?url ?body])" for windows
    by (simp add: pbind_def pcatch_def pret_def logged_edge_def demo_edge_env_def is_edge_fetch_def)
  moreover have "isAllowedBrowserRpcRequest ?body mint" for mint
    by (simp add: demo_rpc_request_def isAllowedBrowserRpcRequest_def json_or_def isCommitmentConfig_def elem_def)
  moreover have "browserOriginAllowed demo_url (rr_origin demo_rpc_request) ''https://front'' managed" for managed
    by (simp add: demo_rpc_request_def browserOriginAllowed_def truthy_def)
  moreover have "es_now (logged_edge demo_edge_env) ([], []) = (Inr 5000, ([], [EdgeNow]))"
    by (simp add: logged_edge_def demo_edge_env_def)
  moreover have "consumeRateLimit [] client limit now = (True, [(client, \<lparr> rw_startedAt = now, rw_count = 1 \<rparr>)])" for client limit now
    by (simp add: consumeRateLimit_def)
  moreover have "boundedResponseText ?upstream max_account_preflight_response_bytes = Inr [123, 125]"
    by (simp add: boundedResponseText_def truthy_def max_account_preflight_response_bytes_def)
  ultimately show ?thesis
    by (simp add: rpc_route_def assms pbind_def pget_def pmod_def plift_def pret_def is_edge_fetch_def)
qed

theorem rpc_proxy_forwards_admitted_witness:
  "\<exists>cfg windows' h. gu_allowedOrigin (gr_urls cfg) = ''https://front''
     \<and> rpc_route demo_url cfg (logged_edge demo_edge_env) demo_rpc_request ([], []) = (Inr (RpcForward 200 [123, 125]), windows', h)
     \<and> list_ex is_edge_fetch h \<and> isAllowedBrowserRpcRequest (rr_body demo_rpc_request) (gr_browserBalanceMint cfg)
     \<and> (\<exists>new. h = EdgeNow # new \<and> fetches demo_edge_env (gu_rpcUrl (gr_urls cfg)) (rr_body demo_rpc_request) 4 [EdgeNow] new)"
proof -
  obtain cfg :: gateway_runtime where o: "gu_allowedOrigin (gr_urls cfg) = ''https://front''"
    by (metis gateway_runtime.select_convs(5) gateway_urls.select_convs(7))
  obtain windows' h where run:
      "rpc_route demo_url cfg (logged_edge demo_edge_env) demo_rpc_request ([], []) = (Inr (RpcForward 200 [123, 125]), windows', h)"
      "list_ex is_edge_fetch h"
    using demo_rpc_run [OF o] by blast
  then have "h \<noteq> []" by auto
  with rpc_proxy_forwards_admitted [OF run(1)] run o show ?thesis by blast
qed

section \<open>Preparing a payment bundle\<close>

fun cookie_pair :: "string \<Rightarrow> string \<times> string" where
  "cookie_pair item = (case split_at (CHR ''='') (trim item) of [] \<Rightarrow> ([], []) | key # parts \<Rightarrow> (key, trim (join ''='' parts)))"

definition cookieValue :: "string option \<Rightarrow> string \<Rightarrow> string option" where
  "cookieValue header name =
     (if \<not> truthy header then None
      else (case find (\<lambda>item. fst (cookie_pair item) = name) (split_at (CHR '';'') (the header)) of
              None \<Rightarrow> None
            | Some item \<Rightarrow> let v = snd (cookie_pair item) in if v = [] then None else Some v))"

record bundle_request =
  bq_queryToken :: "string option"
  bq_walletSession :: "string option"
  bq_cookie :: "string option"
  bq_agentProtocol :: "string option"
  bq_body :: json
  bq_base :: string

datatype bundle_reply = BundleRefused nat string | BundleCreated json string

record 'w bundle_services =
  bs_ready :: "('w, unit) proc"
  bs_ledger :: "string \<Rightarrow> (string \<times> string) list \<Rightarrow> json \<Rightarrow> ('w, json) proc"
  bs_trigger :: "json \<Rightarrow> ('w, unit) proc"

definition optional_matching :: "(string \<Rightarrow> bool) \<Rightarrow> json \<Rightarrow> bool" where
  "optional_matching P v = (case v of JUndef \<Rightarrow> True | JStr s \<Rightarrow> P s | _ \<Rightarrow> False)"

definition bundle_body_ok :: "json \<Rightarrow> bool" where
  "bundle_body_ok body =
     (case (prop_of body ''queryId'', prop_of body ''handles'') of
        (JStr queryId, JArr handles) \<Rightarrow>
          1 \<le> length handles \<and> length handles \<le> 100 \<and> list_all (\<lambda>h. as_str h \<noteq> None) handles
          \<and> optional_matching re_digits (prop_of body ''topUpAtomic'')
          \<and> optional_matching re_hex64 (prop_of body ''expectedInvoiceHash'')
      | _ \<Rightarrow> False)"

definition bundle_session :: "bundle_request \<Rightarrow> string option" where
  "bundle_session request =
     (let header = map_option trim (bq_walletSession request) in
      if truthy header then header else cookieValue (bq_cookie request) ''openshelf_prepaid_session'')"

definition ledger_bundle_body :: "json \<Rightarrow> json" where
  "ledger_bundle_body body =
     JObj ([(''queryId'', prop_of body ''queryId''), (''handles'', prop_of body ''handles'')]
       @ (if json_truthy (prop_of body ''expectedInvoiceHash'')
          then [(''expectedInvoiceHash'', prop_of body ''expectedInvoiceHash'')] else []))"

text \<open>The trigger of a funded job is not awaited and never throws.\<close>

definition bundle_route :: "'w bundle_services \<Rightarrow> bundle_request \<Rightarrow> ('w, bundle_reply) proc" where
  "bundle_route d request =
     (let accessToken = map_option trim (bq_queryToken request) in
      if \<not> truthy accessToken then pret (BundleRefused 401 ''missing_query_token'')
      else if \<not> bundle_body_ok (bq_body request) then pret (BundleRefused 400 ''invalid_bundle'')
      else case bundleFundingMode (bundle_session request) (map_option trim (bq_agentProtocol request))
          (prop_of (bq_body request) ''topUpAtomic'') of
        Inl (BundleFundingModeErr status code) \<Rightarrow> pret (BundleRefused status code)
      | Inl e \<Rightarrow> praise e
      | Inr fundingMode \<Rightarrow>
          pbind (bs_ready d) (\<lambda>_.
          pbind (bs_ledger d
              (case fundingMode of Prepaid _ \<Rightarrow> ''/internal/v1/payment-bundles'' | AgentDirect \<Rightarrow> ''/internal/v1/agent-payment-bundles'')
              ((''x-openshelf-query-token'', the accessToken)
                # (case fundingMode of Prepaid session \<Rightarrow> [(''x-openshelf-wallet-session'', session)] | AgentDirect \<Rightarrow> []))
              (ledger_bundle_body (bq_body request))) (\<lambda>quote.
            if quote = JNull then praise (Err ''quote is null'')
            else
              pbind (if \<not> json_truthy (prop_of quote ''requiresPayment'') \<and> prop_of quote ''status'' = JStr ''funded''
                then bs_trigger d (prop_of quote ''id'') else pret ()) (\<lambda>_.
              pret (BundleCreated quote (bq_base request @ str_or (as_str (prop_of quote ''resourcePath'')) ''undefined''))))))"

text \<open>The ledger is asked for a bundle only with a query token, for 1 to 100 documents, and from one
  source of funds: the session of the caller without any top-up, or the agent protocol without a session.\<close>

lemma bundle_route_asks:
  assumes "\<And>path headers body w. bundle_body_ok (bq_body request) \<Longrightarrow> truthy (map_option trim (bq_queryToken request))
      \<Longrightarrow> body = ledger_bundle_body (bq_body request) \<Longrightarrow> prop_of (bq_body request) ''topUpAtomic'' = JUndef
      \<Longrightarrow> (''x-openshelf-query-token'', the (map_option trim (bq_queryToken request))) \<in> set headers
      \<Longrightarrow> path = ''/internal/v1/payment-bundles'' \<and> truthy (map_option trim (bundle_session request))
          \<and> (''x-openshelf-wallet-session'', the (map_option trim (bundle_session request))) \<in> set headers
        \<or> path = ''/internal/v1/agent-payment-bundles'' \<and> \<not> truthy (map_option trim (bundle_session request))
      \<Longrightarrow> Q w \<Longrightarrow> wp (bs_ledger d path headers body) (\<lambda>_. Q) (\<lambda>_. Q) w"
    and "\<And>w. Q w \<Longrightarrow> wp (bs_ready d) (\<lambda>_. Q) (\<lambda>_. Q) w"
    and "\<And>jobId w. Q w \<Longrightarrow> wp (bs_trigger d jobId) (\<lambda>_. Q) (\<lambda>_. Q) w"
    and "Q w"
  shows "wp (bundle_route d request) (\<lambda>_. Q) (\<lambda>_. Q) w"
proof (cases "bundleFundingMode (bundle_session request) (map_option trim (bq_agentProtocol request))
    (prop_of (bq_body request) ''topUpAtomic'')")
  case (Inl e)
  with assms(4) show ?thesis
    by (cases e) (simp_all add: bundle_route_def Let_def wp_simps)
next
  case (Inr mode)
  then have mode: "prop_of (bq_body request) ''topUpAtomic'' = JUndef"
    "case mode of Prepaid session \<Rightarrow> truthy (map_option trim (bundle_session request)) \<and> session = the (map_option trim (bundle_session request))
      | AgentDirect \<Rightarrow> \<not> truthy (map_option trim (bundle_session request))"
    by (auto simp: bundleFundingMode_def Let_def split: if_splits)
  have after: "wp (if b then bs_trigger d jobId else pret ()) (\<lambda>_. Q) (\<lambda>_. Q) w" if "Q w" for b jobId w
    using that assms(3) by (simp add: wp_simps)
  have ask: "wp (bs_ledger d
        (case mode of Prepaid _ \<Rightarrow> ''/internal/v1/payment-bundles'' | AgentDirect \<Rightarrow> ''/internal/v1/agent-payment-bundles'')
        ((''x-openshelf-query-token'', the (map_option trim (bq_queryToken request)))
          # (case mode of Prepaid session \<Rightarrow> [(''x-openshelf-wallet-session'', session)] | AgentDirect \<Rightarrow> []))
        (ledger_bundle_body (bq_body request))) (\<lambda>_. Q) (\<lambda>_. Q) w"
    if "Q w" "bundle_body_ok (bq_body request)" "truthy (map_option trim (bq_queryToken request))" for w
    using that mode by (intro assms(1)) (auto split: bundle_funding.splits)
  show ?thesis
    unfolding bundle_route_def Let_def Inr sum.case
    by (auto simp: wp_simps simp del: wp_if intro: assms(3) intro!: assms(4) wp_mono [OF assms(2)] wp_mono [OF ask] wp_mono [OF after]
      split: if_splits)
qed

section \<open>The error handler\<close>

text \<open>Status and code of the answer to an error. Of the errors that carry a code the model keeps the
  code in place of the message; the message of the others is a constant unless the status is 401.\<close>

definition answer_status :: "js_error \<Rightarrow> nat" where
  "answer_status e =
     (case e of
        PayShProxyErr status _ \<Rightarrow> status
      | PaymentQuoteErr status _ \<Rightarrow> status
      | RustApiErr status _ \<Rightarrow> if 400 \<le> status \<and> status < 500 then status else 502
      | _ \<Rightarrow> 502)"

definition answer_code :: "js_error \<Rightarrow> string" where
  "answer_code e =
     (case e of
        PayShProxyErr _ code \<Rightarrow> code
      | PaymentQuoteErr _ code \<Rightarrow> code
      | _ \<Rightarrow> if answer_status e = 401 then ''wallet_session_invalid'' else ''gateway_error'')"

definition public_message :: "js_error \<Rightarrow> string" where
  "public_message e =
     (case e of
        PayShProxyErr _ code \<Rightarrow> code
      | PaymentQuoteErr _ code \<Rightarrow> code
      | _ \<Rightarrow> if answer_status e = 401 then js_message e else ''Payment service is temporarily unavailable.'')"

text \<open>An answer is an error answer, and nothing of an internal error but an expired session's message leaves the gateway.\<close>

lemma error_answers:
  "(\<forall>status code. e = PayShProxyErr status code \<or> e = PaymentQuoteErr status code \<longrightarrow> 400 \<le> status \<and> status < 600)
     \<Longrightarrow> 400 \<le> answer_status e \<and> answer_status e < 600"
  "e = Err m \<or> e = RustApiErr status m \<Longrightarrow> answer_status e \<noteq> 401
     \<Longrightarrow> public_message e = ''Payment service is temporarily unavailable.'' \<and> answer_code e = ''gateway_error''"
  by (cases e; auto simp: answer_status_def) (auto simp: answer_status_def answer_code_def public_message_def)

section \<open>The settlement queue\<close>

record queue_configuration =
  qc_projectId :: string
  qc_location :: string
  qc_queue :: string
  qc_targetBaseUrl :: string
  qc_internalToken :: string

text \<open>\<open>DurableSettlementQueue.fromEnvironment\<close>; the class holds the configuration and the client.\<close>

definition queueFromEnvironment ::
    "url_parser \<Rightarrow> environment \<Rightarrow> bool \<Rightarrow> string \<Rightarrow> queue_configuration option outcome" where
  "queueFromEnvironment new_url environment production internalToken =
     (let projectId = env_trim environment ''GOOGLE_CLOUD_PROJECT'';
          location = env_trim environment ''OPENSHELF_SETTLEMENT_QUEUE_LOCATION'';
          queue = env_trim environment ''OPENSHELF_SETTLEMENT_QUEUE'';
          rawTargetBaseUrl = env_trim environment ''OPENSHELF_SETTLEMENT_TARGET_URL'' in
      rbind (if rawTargetBaseUrl = [] then Inr [] else secureServiceOrigin new_url rawTargetBaseUrl) (\<lambda>targetBaseUrl.
        if projectId = [] \<or> location = [] \<or> queue = [] \<or> targetBaseUrl = []
        then (if production then Inl (Err ''Cloud Tasks settlement queue configuration is required in production'') else Inr None)
        else if location \<noteq> ''asia-northeast3''
        then Inl (Err ''OPENSHELF_SETTLEMENT_QUEUE_LOCATION must be asia-northeast3'')
        else if \<not> https targetBaseUrl then Inl (Err ''OPENSHELF_SETTLEMENT_TARGET_URL must use HTTPS'')
        else Inr (Some \<lparr> qc_projectId = projectId, qc_location = location, qc_queue = queue,
          qc_targetBaseUrl = targetBaseUrl, qc_internalToken = internalToken \<rparr>)))"

record cloud_task =
  ct_parent :: string
  ct_name :: string
  ct_httpMethod :: string
  ct_url :: string
  ct_headers :: "(string \<times> string) list"
  ct_body :: "json option"
  ct_dispatchDeadlineSeconds :: int

text \<open>The Cloud Tasks client: resource names, and \<open>createTask\<close>, whose rejection carries a \<open>code\<close>.\<close>

record 'w tasks_client =
  tc_queuePath :: "string \<Rightarrow> string \<Rightarrow> string \<Rightarrow> string"
  tc_taskPath :: "string \<Rightarrow> string \<Rightarrow> string \<Rightarrow> string \<Rightarrow> string"
  tc_createTask :: "cloud_task \<Rightarrow> ('w, (js_error \<times> json) option) proc"

definition settlement_task :: "'w tasks_client \<Rightarrow> queue_configuration \<Rightarrow> durable_settlement \<Rightarrow> cloud_task" where
  "settlement_task client c settlement =
     \<lparr> ct_parent = tc_queuePath client (qc_projectId c) (qc_location c) (qc_queue c),
       ct_name = tc_taskPath client (qc_projectId c) (qc_location c) (qc_queue c)
         (''settlement-'' @ ds_transactionSignature settlement),
       ct_httpMethod = ''POST'',
       ct_url = qc_targetBaseUrl c @ settlement_endpoint (ds_settlementKind settlement),
       ct_headers = [(''content-type'', ''application/json''), (''x-openshelf-internal-token'', qc_internalToken c)],
       ct_body = call_body (PostSettlement settlement),
       ct_dispatchDeadlineSeconds = 30 \<rparr>"

definition already_exists :: "json \<Rightarrow> bool" where
  "already_exists code \<longleftrightarrow> code \<in> {JNum (Num 6), JStr ''6'', JStr ''ALREADY_EXISTS''}"

definition enqueue_settlement :: "'w tasks_client \<Rightarrow> queue_configuration \<Rightarrow> durable_settlement \<Rightarrow> ('w, unit) proc" where
  "enqueue_settlement client c settlement =
     pbind (tc_createTask client (settlement_task client c settlement)) (\<lambda>rejection.
       case rejection of
         None \<Rightarrow> pret ()
       | Some (e, code) \<Rightarrow> if already_exists code then pret () else praise e)"

text \<open>A production gateway always has a queue, whose tasks make exactly the ledger call of the
  synchronous path: same path, same body, one task name per transaction.\<close>

lemma queue_makes_ledger_calls:
  assumes "queueFromEnvironment new_url environment True token = Inr q"
  shows "\<exists>c. q = Some c \<and> https (qc_targetBaseUrl c) \<and> qc_location c = ''asia-northeast3'' \<and> qc_internalToken c = token
    \<and> (\<forall>settlement. ct_url (settlement_task client c settlement) = qc_targetBaseUrl c @ call_path (PostSettlement settlement)
         \<and> ct_body (settlement_task client c settlement) = call_body (PostSettlement settlement)
         \<and> (\<forall>other. ds_transactionSignature other = ds_transactionSignature settlement
              \<longrightarrow> ct_name (settlement_task client c other) = ct_name (settlement_task client c settlement)))"
  using assms by (auto simp: queueFromEnvironment_def Let_def rbind_Inr_iff settlement_task_def split: if_splits)

text \<open>When the client rejects a name that is in use, as Cloud Tasks does, a settlement enqueued twice
  is one task, and enqueueing returns only when its task exists.\<close>

lemma enqueue_settlement_once:
  assumes create: "\<And>task w. tc_createTask client task w =
      (if ct_name task \<in> tasks w then (Inr (Some (e, JNum (Num 6))), w) else (answer task w, after task w))"
    and after: "\<And>task w. answer task w = Inr None \<Longrightarrow> tasks (after task w) = insert (ct_name task) (tasks w)"
    and rejects: "\<And>task w e' code. answer task w = Inr (Some (e', code)) \<Longrightarrow> \<not> already_exists code"
    and run: "enqueue_settlement client c settlement w = (Inr (), w')"
  shows "ct_name (settlement_task client c settlement) \<in> tasks w'
    \<and> enqueue_settlement client c settlement w' = (Inr (), w')"
proof -
  let ?task = "settlement_task client c settlement"
  have "ct_name ?task \<in> tasks w'"
  proof (cases "ct_name ?task \<in> tasks w")
    case True
    with run create [of ?task w] show ?thesis
      by (simp add: enqueue_settlement_def pbind_def pret_def already_exists_def)
  next
    case False
    with run create [of ?task w] rejects [of ?task w] have "answer ?task w = Inr None" "w' = after ?task w"
      by (auto simp: enqueue_settlement_def pbind_def pret_def praise_def split: sum.splits option.splits prod.splits if_splits)
    with after show ?thesis by simp
  qed
  then show ?thesis
    using create [of ?task w'] by (simp add: enqueue_settlement_def pbind_def pret_def already_exists_def)
qed

end
