(* ===== verification/Onchain_Invoice.thy ===== *)
theory Onchain_Invoice
  imports Solana_Lib
begin

text \<open>
  The browser's side of the on-chain settlement program, \<open>src/lib/obulusSettlementProgram.ts\<close>, and
  what the program (\<open>programs/obulus-settlement/src\<close>) reads and checks of it: the instructions' bytes
  and accounts, the check of an invoice before it is built, and the check the program makes of the
  invoice it decodes. Public keys and program addresses are the parameter \<open>pubkey_lib\<close>.
\<close>

section \<open>Public keys and the invoice\<close>

text \<open>\<open>new PublicKey (s)\<close> as its bytes (\<open>None\<close> is its exception), \<open>toBase58\<close> and
  \<open>findProgramAddressSync\<close> with its bump.\<close>

record pubkey_lib =
  pk_bytes :: "string \<Rightarrow> bytes option"
  pk_base58 :: "bytes \<Rightarrow> string"
  pk_find :: "bytes list \<Rightarrow> bytes \<Rightarrow> bytes \<times> nat"
  pk_system :: bytes

datatype line_kind = Payout | ProtocolFee

fun kind_number :: "line_kind \<Rightarrow> nat" where
  "kind_number Payout = 0"
| "kind_number ProtocolFee = 1"

record onchain_item =
  oi_recipientTokenAccount :: string
  oi_documentHash :: string
  oi_documentVersion :: jnum
  oi_amountAtomic :: string
  oi_kind :: line_kind

record onchain_invoice =
  ov_invoiceHash :: string
  ov_queryHash :: string
  ov_bundleRoot :: string
  ov_authorization :: string
  ov_disputeResolver :: string
  ov_totalAmountAtomic :: string
  ov_platformFeeAtomic :: string
  ov_expiresAtUnixSeconds :: jnum
  ov_disputeWindowSeconds :: jnum
  ov_lineItems :: "onchain_item list"

record fund_accounts =
  fa_programId :: string
  fa_payer :: string
  fa_payerTokenAccount :: string
  fa_escrowTokenAccount :: string
  fa_refundTokenAccount :: string
  fa_mint :: string

record account_meta =
  am_pubkey :: bytes
  am_isSigner :: bool
  am_isWritable :: bool

record program_instruction =
  pi_programId :: bytes
  pi_keys :: "account_meta list"
  pi_data :: bytes

definition max_onchain_line_items :: nat where
  "max_onchain_line_items = 20"

definition max_onchain_protocol_fee_bps :: int where
  "max_onchain_protocol_fee_bps = 1000"

definition min_dispute_window_seconds :: int where
  "min_dispute_window_seconds = 60"

definition max_dispute_window_seconds :: int where
  "max_dispute_window_seconds = 86400"

section \<open>Encoding\<close>

definition pubkey :: "pubkey_lib \<Rightarrow> string \<Rightarrow> bytes outcome" where
  "pubkey lib s = of_opt (Err ''Invalid public key input'') (pk_bytes lib s)"

fun hex_bytes :: "string \<Rightarrow> bytes" where
  "hex_bytes (a # b # rest) = byte_of (case hex_pair a b of Some n \<Rightarrow> n | None \<Rightarrow> 0) # hex_bytes rest"
| "hex_bytes _ = []"

definition hex32 :: "string \<Rightarrow> bytes outcome" where
  "hex32 s = require (re_hex64 s) (Err ''must be 32 bytes of lowercase hex'') (Inr (hex_bytes s))"

definition parse_u64_atomic :: "string \<Rightarrow> int outcome" where
  "parse_u64_atomic v =
     require (re_decimal v) (Err ''atomic amount must be canonical decimal'')
       (require (dec_value v \<le> 0xffffffffffffffff) (Err ''atomic amount exceeds u64'') (Inr (int (dec_value v))))"

definition u32_bytes :: "jnum \<Rightarrow> bytes outcome" where
  "u32_bytes v =
     require (is_safe_integer v \<and> \<not> jlt v (Num 0) \<and> \<not> jlt (Num 0xffffffff) v) (Err ''value exceeds u32'')
       (Inr (le_bytes 4 (nat (jint v))))"

definition u64_bytes :: "string \<Rightarrow> bytes outcome" where
  "u64_bytes v = rbind (parse_u64_atomic v) (\<lambda>n. Inr (le_bytes 8 (nat n)))"

definition i64_bytes :: "jnum \<Rightarrow> bytes outcome" where
  "i64_bytes v =
     require (is_safe_integer v) (Err ''timestamp exceeds JavaScript safe integer'')
       (Inr (le_bytes 8 (nat (jint v mod 2 ^ 64))))"

definition encodeLineItem :: "pubkey_lib \<Rightarrow> onchain_item \<Rightarrow> bytes outcome" where
  "encodeLineItem lib item =
     rbind (pubkey lib (oi_recipientTokenAccount item)) (\<lambda>recipient.
     rbind (hex32 (oi_documentHash item)) (\<lambda>hash.
     rbind (u32_bytes (oi_documentVersion item)) (\<lambda>version.
     rbind (u64_bytes (oi_amountAtomic item)) (\<lambda>amount.
       Inr (recipient @ hash @ version @ amount @ [byte_of (kind_number (oi_kind item))])))))"

section \<open>The check of an invoice\<close>

fun check_onchain_items ::
    "pubkey_lib \<Rightarrow> string list \<Rightarrow> int \<Rightarrow> int \<Rightarrow> nat \<Rightarrow> onchain_item list \<Rightarrow> (int \<times> int \<times> nat) outcome" where
  "check_onchain_items lib identities lineTotal platformTotal platformItems [] = Inr (lineTotal, platformTotal, platformItems)"
| "check_onchain_items lib identities lineTotal platformTotal platformItems (item # rest) =
     rbind (pubkey lib (oi_recipientTokenAccount item)) (\<lambda>_.
     rbind (hex32 (oi_documentHash item)) (\<lambda>_.
     require (is_safe_integer (oi_documentVersion item) \<and> \<not> jlt (oi_documentVersion item) (Num 0))
       (Err ''document version must be a non-negative integer'')
       (rbind (parse_u64_atomic (oi_amountAtomic item)) (\<lambda>amount.
        require (0 < amount) (Err ''invoice line-item amount must be positive'')
          (let identity = oi_documentHash item @ '':'' @ show_int (jint (oi_documentVersion item)) @ '':''
             @ show_nat (kind_number (oi_kind item)) in
           if identity \<in> set identities then Inl (Err ''invoice contains a duplicate payout'')
           else check_onchain_items lib (identity # identities) (lineTotal + amount)
             (if oi_kind item = ProtocolFee then platformTotal + amount else platformTotal)
             (if oi_kind item = ProtocolFee then platformItems + 1 else platformItems) rest)))))"

definition validateOnchainInvoice :: "pubkey_lib \<Rightarrow> onchain_invoice \<Rightarrow> unit outcome" where
  "validateOnchainInvoice lib args =
     rbind (hex32 (ov_invoiceHash args)) (\<lambda>_. rbind (hex32 (ov_queryHash args)) (\<lambda>_. rbind (hex32 (ov_bundleRoot args)) (\<lambda>_.
     rbind (pubkey lib (ov_authorization args)) (\<lambda>_. rbind (pubkey lib (ov_disputeResolver args)) (\<lambda>_.
     require (is_safe_integer (ov_expiresAtUnixSeconds args) \<and> jlt (Num 0) (ov_expiresAtUnixSeconds args))
       (Err ''invoice expiry must be a positive Unix timestamp'')
     (require (is_safe_integer (ov_disputeWindowSeconds args)
         \<and> \<not> jlt (ov_disputeWindowSeconds args) (Num min_dispute_window_seconds)
         \<and> \<not> jlt (Num max_dispute_window_seconds) (ov_disputeWindowSeconds args))
       (Err ''invoice dispute window is outside the program safety bounds'')
     (require (ov_lineItems args \<noteq> [] \<and> length (ov_lineItems args) \<le> max_onchain_line_items)
       (Err ''invoice must contain between one and twenty line items'')
     (rbind (parse_u64_atomic (ov_totalAmountAtomic args)) (\<lambda>total'.
     rbind (parse_u64_atomic (ov_platformFeeAtomic args)) (\<lambda>platformFee.
     require (0 < total' \<and> platformFee * 10000 \<le> total' * max_onchain_protocol_fee_bps)
       (Err ''invoice economics exceed the on-chain fee policy'')
     (rbind (check_onchain_items lib [] 0 0 0 (ov_lineItems args)) (\<lambda>(lineTotal, platformTotal, platformItems).
     require (lineTotal = total' \<and> platformTotal = platformFee)
       (Err ''invoice line items do not balance to the committed totals'')
     (require (if platformFee = 0 then platformItems = 0 else platformItems = 1)
       (Err ''invoice must contain exactly one protocol-fee line item'') (Inr ()))))))))))))))"

section \<open>The instructions\<close>

definition deriveInvoicePda :: "pubkey_lib \<Rightarrow> string \<Rightarrow> string \<Rightarrow> string \<Rightarrow> (string \<times> nat) outcome" where
  "deriveInvoicePda lib programId payer invoiceHash =
     rbind (pubkey lib payer) (\<lambda>payer'.
     rbind (hex32 invoiceHash) (\<lambda>hash.
     rbind (pubkey lib programId) (\<lambda>program.
       (case pk_find lib [utf8_encode ''obulus-invoice'', payer', hash] program of
          (address, bump) \<Rightarrow> Inr (pk_base58 lib address, bump)))))"

definition create_data :: "pubkey_lib \<Rightarrow> onchain_invoice \<Rightarrow> bytes outcome" where
  "create_data lib args =
     rbind (hex32 (ov_invoiceHash args)) (\<lambda>invoiceHash.
     rbind (hex32 (ov_queryHash args)) (\<lambda>queryHash.
     rbind (hex32 (ov_bundleRoot args)) (\<lambda>bundleRoot.
     rbind (pubkey lib (ov_authorization args)) (\<lambda>authorization.
     rbind (pubkey lib (ov_disputeResolver args)) (\<lambda>resolver.
     rbind (u64_bytes (ov_totalAmountAtomic args)) (\<lambda>total'.
     rbind (u64_bytes (ov_platformFeeAtomic args)) (\<lambda>fee.
     rbind (i64_bytes (ov_expiresAtUnixSeconds args)) (\<lambda>expiry.
     rbind (u32_bytes (ov_disputeWindowSeconds args)) (\<lambda>window.
     rbind (u32_bytes (Num (int (length (ov_lineItems args))))) (\<lambda>count.
     rbind (rmap (encodeLineItem lib) (ov_lineItems args)) (\<lambda>items.
       Inr ([0] @ invoiceHash @ queryHash @ bundleRoot @ authorization @ resolver @ total' @ fee @ expiry @ window
         @ count @ concat items))))))))))))"

definition meta :: "pubkey_lib \<Rightarrow> bool \<Rightarrow> bool \<Rightarrow> string \<Rightarrow> account_meta outcome" where
  "meta lib signer writable s =
     rbind (pubkey lib s) (\<lambda>key. Inr \<lparr> am_pubkey = key, am_isSigner = signer, am_isWritable = writable \<rparr>)"

definition buildCreateAndFundInstruction ::
    "pubkey_lib \<Rightarrow> onchain_invoice \<Rightarrow> fund_accounts \<Rightarrow> program_instruction outcome" where
  "buildCreateAndFundInstruction lib args accounts =
     rbind (validateOnchainInvoice lib args) (\<lambda>_.
     rbind (deriveInvoicePda lib (fa_programId accounts) (fa_payer accounts) (ov_invoiceHash args)) (\<lambda>(address, _).
     rbind (create_data lib args) (\<lambda>data.
     rbind (pubkey lib (fa_programId accounts)) (\<lambda>program.
     rbind (meta lib True True (fa_payer accounts)) (\<lambda>payer.
     rbind (rmap (meta lib False True) [address, fa_payerTokenAccount accounts, fa_escrowTokenAccount accounts]) (\<lambda>writable.
     rbind (rmap (meta lib False False) [fa_refundTokenAccount accounts, fa_mint accounts, token_program]) (\<lambda>readable.
     rbind (rmap (meta lib False False) (map oi_recipientTokenAccount (ov_lineItems args))) (\<lambda>recipients.
       Inr \<lparr> pi_programId = program,
         pi_keys = [payer] @ writable @ readable
           @ [\<lparr> am_pubkey = pk_system lib, am_isSigner = False, am_isWritable = False \<rparr>] @ recipients,
         pi_data = data \<rparr>))))))))"

definition simple_instruction ::
    "pubkey_lib \<Rightarrow> string \<Rightarrow> (bool \<times> bool \<times> string) list \<Rightarrow> bytes \<Rightarrow> program_instruction outcome" where
  "simple_instruction lib programId accounts data =
     rbind (pubkey lib programId) (\<lambda>program.
     rbind (rmap (\<lambda>(signer, writable, s). meta lib signer writable s) accounts) (\<lambda>keys.
       Inr \<lparr> pi_programId = program, pi_keys = keys, pi_data = data \<rparr>))"

definition buildAcknowledgeDeliveryInstruction ::
    "pubkey_lib \<Rightarrow> string \<Rightarrow> string \<Rightarrow> string \<Rightarrow> string \<Rightarrow> program_instruction outcome" where
  "buildAcknowledgeDeliveryInstruction lib programId authorization invoicePda deliveryRoot =
     rbind (simple_instruction lib programId [(True, False, authorization), (False, True, invoicePda)] []) (\<lambda>ix.
     rbind (hex32 deliveryRoot) (\<lambda>root. Inr (ix\<lparr> pi_data := [1] @ root \<rparr>)))"

definition buildSettleInstruction ::
    "pubkey_lib \<Rightarrow> string \<Rightarrow> string \<Rightarrow> string \<Rightarrow> string \<Rightarrow> string list \<Rightarrow> program_instruction outcome" where
  "buildSettleInstruction lib programId invoicePda escrow mint recipients =
     require (recipients \<noteq> [] \<and> length recipients \<le> max_onchain_line_items)
       (Err ''settlement needs the exact recipient token-account list of the invoice'')
       (simple_instruction lib programId
         ([(False, True, invoicePda), (False, True, escrow), (False, False, mint), (False, False, token_program)]
          @ map (\<lambda>r. (False, True, r)) recipients) [2])"

definition buildDisputeInstruction :: "pubkey_lib \<Rightarrow> string \<Rightarrow> string \<Rightarrow> string \<Rightarrow> program_instruction outcome" where
  "buildDisputeInstruction lib programId payer invoicePda =
     simple_instruction lib programId [(True, False, payer), (False, True, invoicePda)] [3]"

definition buildResolveDisputeInstruction ::
    "pubkey_lib \<Rightarrow> string \<Rightarrow> string \<Rightarrow> string \<Rightarrow> bool \<Rightarrow> program_instruction outcome" where
  "buildResolveDisputeInstruction lib programId disputeResolver invoicePda refund =
     simple_instruction lib programId [(True, False, disputeResolver), (False, True, invoicePda)] [4, if refund then 1 else 0]"

definition buildRefundInstruction ::
    "pubkey_lib \<Rightarrow> string \<Rightarrow> string \<Rightarrow> bool \<Rightarrow> string \<Rightarrow> string \<Rightarrow> string \<Rightarrow> string \<Rightarrow> program_instruction outcome" where
  "buildRefundInstruction lib programId caller callerMustSign invoicePda escrow refundAccount mint =
     simple_instruction lib programId
       [(callerMustSign, False, caller), (False, True, invoicePda), (False, True, escrow), (False, True, refundAccount),
        (False, False, mint), (False, False, token_program)] [5]"

definition deriveAssociatedTokenAddress :: "pubkey_lib \<Rightarrow> string \<Rightarrow> string \<Rightarrow> string outcome" where
  "deriveAssociatedTokenAddress lib owner mint =
     rbind (pubkey lib owner) (\<lambda>owner'. rbind (pubkey lib token_program) (\<lambda>token. rbind (pubkey lib mint) (\<lambda>mint'.
     rbind (pubkey lib ''ATokenGPvbdGVxr1b2hvZbsiqW5xWH25efTNsLJA8knL'') (\<lambda>ata.
       Inr (pk_base58 lib (fst (pk_find lib [owner', token, mint'] ata)))))))"

section \<open>The program's side\<close>

text \<open>\<open>CreateInvoiceArgs\<close> and \<open>InvoiceLineItem\<close>. The unsigned integers are their values, below the bound
  of their width because they are decoded from that many bytes; \<open>expires_at\<close> is an \<open>i64\<close>.\<close>

record program_item =
  gi_recipient :: bytes
  gi_hash :: bytes
  gi_version :: nat
  gi_amount :: nat
  gi_kind :: nat

record program_args =
  ga_invoice_hash :: bytes
  ga_query_hash :: bytes
  ga_bundle_root :: bytes
  ga_authorization :: bytes
  ga_dispute_resolver :: bytes
  ga_total_amount :: nat
  ga_platform_fee :: nat
  ga_expires_at :: int
  ga_dispute_window :: nat
  ga_line_items :: "program_item list"

datatype settlement_instruction =
    CreateAndFund program_args
  | AcknowledgeDelivery bytes
  | Settle
  | Dispute
  | ResolveDispute bool
  | Refund

text \<open>Borsh reads the fields in their order: arrays as they are, integers in little endian, a vector
  after its \<open>u32\<close> length, an enum after its \<open>u8\<close> tag; \<open>try_from_slice\<close> wants every byte used.\<close>

definition take_bytes :: "nat \<Rightarrow> bytes \<Rightarrow> (bytes \<times> bytes) option" where
  "take_bytes n bs = (if n \<le> length bs then Some (take n bs, drop n bs) else None)"

definition take_uint :: "nat \<Rightarrow> bytes \<Rightarrow> (nat \<times> bytes) option" where
  "take_uint n bs = map_option (\<lambda>(b, rest). (le_value b, rest)) (take_bytes n bs)"

definition signed64 :: "nat \<Rightarrow> int" where
  "signed64 n = (if n < 2 ^ 63 then int n else int n - 2 ^ 64)"

definition obind :: "('a \<times> bytes) option \<Rightarrow> ('a \<Rightarrow> bytes \<Rightarrow> 'b option) \<Rightarrow> 'b option" where
  "obind m f = (case m of None \<Rightarrow> None | Some (a, rest) \<Rightarrow> f a rest)"

fun take_items :: "nat \<Rightarrow> bytes \<Rightarrow> (program_item list \<times> bytes) option" where
  "take_items 0 bs = Some ([], bs)"
| "take_items (Suc n) bs =
     obind (take_bytes 32 bs) (\<lambda>recipient bs. obind (take_bytes 32 bs) (\<lambda>hash bs.
     obind (take_uint 4 bs) (\<lambda>version bs. obind (take_uint 8 bs) (\<lambda>amount bs. obind (take_uint 1 bs) (\<lambda>kind bs.
     obind (take_items n bs) (\<lambda>items bs.
       Some (\<lparr> gi_recipient = recipient, gi_hash = hash, gi_version = version, gi_amount = amount, gi_kind = kind \<rparr> # items, bs)))))))"

definition take_args :: "bytes \<Rightarrow> (program_args \<times> bytes) option" where
  "take_args bs =
     obind (take_bytes 32 bs) (\<lambda>invoice_hash bs. obind (take_bytes 32 bs) (\<lambda>query_hash bs.
     obind (take_bytes 32 bs) (\<lambda>bundle_root bs. obind (take_bytes 32 bs) (\<lambda>authorization bs.
     obind (take_bytes 32 bs) (\<lambda>resolver bs. obind (take_uint 8 bs) (\<lambda>total' bs. obind (take_uint 8 bs) (\<lambda>fee bs.
     obind (take_uint 8 bs) (\<lambda>expires bs. obind (take_uint 4 bs) (\<lambda>window bs. obind (take_uint 4 bs) (\<lambda>count bs.
     obind (take_items count bs) (\<lambda>items bs.
       Some (\<lparr> ga_invoice_hash = invoice_hash, ga_query_hash = query_hash, ga_bundle_root = bundle_root,
         ga_authorization = authorization, ga_dispute_resolver = resolver, ga_total_amount = total',
         ga_platform_fee = fee, ga_expires_at = signed64 expires, ga_dispute_window = window,
         ga_line_items = items \<rparr>, bs))))))))))))"

definition finished :: "('a \<times> bytes) option \<Rightarrow> 'a option" where
  "finished m = (case m of Some (a, []) \<Rightarrow> Some a | _ \<Rightarrow> None)"

definition take_bool :: "bytes \<Rightarrow> (bool \<times> bytes) option" where
  "take_bool bs = obind (take_uint 1 bs) (\<lambda>n rest. if n = 0 then Some (False, rest) else if n = 1 then Some (True, rest) else None)"

definition decode_instruction :: "bytes \<Rightarrow> settlement_instruction option" where
  "decode_instruction bs = finished (obind (take_uint 1 bs) (\<lambda>tag rest.
     if tag = 0 then map_option (apfst CreateAndFund) (take_args rest)
     else if tag = 1 then map_option (apfst AcknowledgeDelivery) (take_bytes 32 rest)
     else if tag = 2 then Some (Settle, rest)
     else if tag = 3 then Some (Dispute, rest)
     else if tag = 4 then map_option (apfst ResolveDispute) (take_bool rest)
     else if tag = 5 then Some (Refund, rest)
     else None))"

datatype settlement_error =
    ZeroCommitment
  | InvalidDisputeWindow
  | InvoiceExpired
  | InvalidEconomics
  | InvalidLineItems
  | ProtocolFeeTooHigh

definition is_zero_array :: "bytes \<Rightarrow> bool" where
  "is_zero_array bs \<longleftrightarrow> list_all (\<lambda>b. b = 0) bs"

definition u64_max :: nat where
  "u64_max = 0xffffffffffffffff"

definition saturating_add_i64 :: "int \<Rightarrow> int \<Rightarrow> int" where
  "saturating_add_i64 a b = max (- (2 ^ 63)) (min (2 ^ 63 - 1) (a + b))"

definition saturating_mul_u64 :: "nat \<Rightarrow> nat \<Rightarrow> nat" where
  "saturating_mul_u64 a b = min u64_max (a * b)"

definition checked_add_u64 :: "nat \<Rightarrow> nat \<Rightarrow> nat option" where
  "checked_add_u64 a b = (if a + b \<le> u64_max then Some (a + b) else None)"

text \<open>The loop of \<open>validate_args\<close> over the items: the totals and the number of protocol items.\<close>

fun sum_program_items ::
    "(bytes \<times> nat \<times> nat) set \<Rightarrow> nat \<Rightarrow> nat \<Rightarrow> nat \<Rightarrow> program_item list \<Rightarrow> settlement_error + (nat \<times> nat \<times> nat)" where
  "sum_program_items identities total' platform fees [] = Inr (total', platform, fees)"
| "sum_program_items identities total' platform fees (item # rest) =
     (if gi_amount item = 0 \<or> 1 < gi_kind item \<or> is_zero_array (gi_recipient item) \<or> is_zero_array (gi_hash item)
      then Inl InvalidLineItems
      else if (gi_hash item, gi_version item, gi_kind item) \<in> identities then Inl InvalidLineItems
      else (case checked_add_u64 total' (gi_amount item) of
          None \<Rightarrow> Inl InvalidEconomics
        | Some total'' \<Rightarrow>
            if gi_kind item = 1 then
              (case checked_add_u64 platform (gi_amount item) of
                None \<Rightarrow> Inl InvalidEconomics
              | Some platform' \<Rightarrow> sum_program_items (insert (gi_hash item, gi_version item, gi_kind item) identities)
                  total'' platform' (fees + 1) rest)
            else sum_program_items (insert (gi_hash item, gi_version item, gi_kind item) identities) total'' platform fees rest))"

definition validate_args :: "program_args \<Rightarrow> int \<Rightarrow> settlement_error + unit" where
  "validate_args args now =
     (if is_zero_array (ga_invoice_hash args) \<or> is_zero_array (ga_query_hash args) \<or> is_zero_array (ga_bundle_root args)
         \<or> is_zero_array (ga_authorization args) \<or> is_zero_array (ga_dispute_resolver args)
      then Inl ZeroCommitment
      else if int (ga_dispute_window args) < min_dispute_window_seconds \<or> max_dispute_window_seconds < int (ga_dispute_window args)
      then Inl InvalidDisputeWindow
      else if ga_expires_at args \<le> saturating_add_i64 now (int (ga_dispute_window args)) then Inl InvoiceExpired
      else if ga_total_amount args = 0 \<or> ga_line_items args = [] then Inl InvalidEconomics
      else if max_onchain_line_items < length (ga_line_items args) then Inl InvalidLineItems
      else if saturating_mul_u64 (ga_total_amount args) 1000 div 10000 < ga_platform_fee args then Inl ProtocolFeeTooHigh
      else (case sum_program_items {} 0 0 0 (ga_line_items args) of
          Inl e \<Rightarrow> Inl e
        | Inr (total', platform, fees) \<Rightarrow>
            if total' \<noteq> ga_total_amount args \<or> platform \<noteq> ga_platform_fee args then Inl InvalidEconomics
            else if (ga_platform_fee args = 0 \<and> fees \<noteq> 0) \<or> (0 < ga_platform_fee args \<and> fees \<noteq> 1)
            then Inl InvalidLineItems
            else Inr ()))"

section \<open>What the program decodes\<close>

text \<open>The invoice as the program sees it.\<close>

definition program_item_of :: "pubkey_lib \<Rightarrow> onchain_item \<Rightarrow> program_item" where
  "program_item_of lib item =
     \<lparr> gi_recipient = the (pk_bytes lib (oi_recipientTokenAccount item)), gi_hash = hex_bytes (oi_documentHash item),
       gi_version = nat (jint (oi_documentVersion item)), gi_amount = dec_value (oi_amountAtomic item),
       gi_kind = kind_number (oi_kind item) \<rparr>"

definition program_args_of :: "pubkey_lib \<Rightarrow> onchain_invoice \<Rightarrow> program_args" where
  "program_args_of lib args =
     \<lparr> ga_invoice_hash = hex_bytes (ov_invoiceHash args), ga_query_hash = hex_bytes (ov_queryHash args),
       ga_bundle_root = hex_bytes (ov_bundleRoot args), ga_authorization = the (pk_bytes lib (ov_authorization args)),
       ga_dispute_resolver = the (pk_bytes lib (ov_disputeResolver args)),
       ga_total_amount = dec_value (ov_totalAmountAtomic args), ga_platform_fee = dec_value (ov_platformFeeAtomic args),
       ga_expires_at = jint (ov_expiresAtUnixSeconds args), ga_dispute_window = nat (jint (ov_disputeWindowSeconds args)),
       ga_line_items = map (program_item_of lib) (ov_lineItems args) \<rparr>"

lemma take_bytes_append: "length bs = n \<Longrightarrow> take_bytes n (bs @ rest) = Some (bs, rest)"
  by (simp add: take_bytes_def)

lemma take_uint_append: "take_uint n (le_bytes n v @ rest) = Some (v mod 256 ^ n, rest)"
  by (simp add: take_uint_def take_bytes_append)

lemma obind_Some [simp]: "obind (Some (a, rest)) f = f a rest"
  by (simp add: obind_def)

lemma length_hex_bytes: "length s = 2 * n \<Longrightarrow> length (hex_bytes s) = n"
proof (induction n arbitrary: s)
  case (Suc n)
  then obtain a b rest where "s = a # b # rest"
    by (metis (no_types) Suc_length_conv mult_Suc_right numeral_2_eq_2 add_Suc add_0)
  with Suc show ?case by simp
qed simp

lemma hex32_Inr: "hex32 s = Inr bs \<longleftrightarrow> re_hex64 s \<and> bs = hex_bytes s"
  by (auto simp: hex32_def)

lemma length_hex32: "re_hex64 s \<Longrightarrow> length (hex_bytes s) = 32"
  by (simp add: re_hex64_def length_hex_bytes [of s 32])

lemma parse_u64_Inr: "parse_u64_atomic v = Inr n \<longleftrightarrow> re_decimal v \<and> dec_value v \<le> u64_max \<and> n = int (dec_value v)"
  by (auto simp: parse_u64_atomic_def u64_max_def)

lemma u64_bytes_Inr: "u64_bytes v = Inr bs \<longleftrightarrow> re_decimal v \<and> dec_value v \<le> u64_max \<and> bs = le_bytes 8 (dec_value v)"
  by (auto simp: u64_bytes_def parse_u64_Inr rbind_Inr_iff)

lemma u32_bytes_Inr:
  "u32_bytes v = Inr bs \<longleftrightarrow> (\<exists>i. v = Num i \<and> 0 \<le> i \<and> i \<le> 0xffffffff \<and> bs = le_bytes 4 (nat i))"
  by (auto simp: u32_bytes_def max_safe_integer_def elim!: is_safe_integerE)

lemma i64_bytes_Inr:
  "i64_bytes v = Inr bs \<longleftrightarrow> (\<exists>i. v = Num i \<and> \<bar>i\<bar> \<le> max_safe_integer \<and> bs = le_bytes 8 (nat (i mod 2 ^ 64)))"
  by (auto simp: i64_bytes_def elim!: is_safe_integerE)

lemma take_u64: "v \<le> u64_max \<Longrightarrow> take_uint 8 (le_bytes 8 v @ rest) = Some (v, rest)"
  by (simp add: take_uint_append u64_max_def)

lemma take_u32: "0 \<le> i \<Longrightarrow> i \<le> 0xffffffff \<Longrightarrow> take_uint 4 (le_bytes 4 (nat i) @ rest) = Some (nat i, rest)"
  by (simp add: take_uint_append nat_less_iff)

lemma take_u8: "n < 256 \<Longrightarrow> take_uint 1 (byte_of n # rest) = Some (n, rest)"
  by (simp add: take_uint_def take_bytes_def)

lemma take_i64: "take_uint 8 (le_bytes 8 (nat (i mod 2 ^ 64)) @ rest) = Some (nat (i mod 2 ^ 64), rest)"
proof -
  have "nat (i mod 2 ^ 64) < 2 ^ 64" by (simp add: nat_less_iff)
  then show ?thesis by (simp add: take_uint_append)
qed

lemma signed64_i64:
  assumes "\<bar>i\<bar> \<le> max_safe_integer"
  shows "signed64 (nat (i mod 2 ^ 64)) = i"
proof -
  have "i mod 2 ^ 64 = (if 0 \<le> i then i else i + 2 ^ 64)"
    using assms mod_pos_pos_trivial [of "i + 2 ^ 64" "2 ^ 64"] by (auto simp: max_safe_integer_def)
  then show ?thesis
    using assms unfolding signed64_def max_safe_integer_def by (auto simp: nat_less_iff)
qed

lemma kind_number_small: "kind_number k < 256" "kind_number k \<le> 1"
  by (cases k; simp)+

lemma take_items_encoded:
  assumes "\<And>s bs. pk_bytes lib s = Some bs \<Longrightarrow> length bs = 32"
    and "rmap (encodeLineItem lib) items = Inr bss"
  shows "take_items (length items) (concat bss @ rest) = Some (map (program_item_of lib) items, rest)"
  using assms(2)
proof (induction items arbitrary: bss)
  case (Cons item items)
  then obtain b bss' where b: "encodeLineItem lib item = Inr b" "rmap (encodeLineItem lib) items = Inr bss'" "bss = b # bss'"
    by (auto simp: rbind_Inr_iff)
  from b(1) obtain key i where k: "pk_bytes lib (oi_recipientTokenAccount item) = Some key" "re_hex64 (oi_documentHash item)"
    "oi_documentVersion item = Num i" "0 \<le> i" "i \<le> 0xffffffff" "dec_value (oi_amountAtomic item) \<le> u64_max"
    "b = key @ hex_bytes (oi_documentHash item) @ le_bytes 4 (nat i) @ le_bytes 8 (dec_value (oi_amountAtomic item))
       @ [byte_of (kind_number (oi_kind item))]"
    by (auto simp: encodeLineItem_def rbind_Inr_iff pubkey_def hex32_Inr u32_bytes_Inr u64_bytes_Inr)
  show ?case
    unfolding b(3) using Cons.IH [OF b(2)] k
    by (simp add: take_bytes_append assms(1) length_hex32 take_u32 take_u64 take_u8 [simplified] kind_number_small program_item_of_def)
qed simp

lemma create_data_decoded:
  assumes "\<And>s bs. pk_bytes lib s = Some bs \<Longrightarrow> length bs = 32" "create_data lib args = Inr data"
  shows "decode_instruction data = Some (CreateAndFund (program_args_of lib args))"
proof -
  from assms(2) obtain auth resolver expiry window bss where d:
    "pk_bytes lib (ov_authorization args) = Some auth" "pk_bytes lib (ov_disputeResolver args) = Some resolver"
    "re_hex64 (ov_invoiceHash args)" "re_hex64 (ov_queryHash args)" "re_hex64 (ov_bundleRoot args)"
    "dec_value (ov_totalAmountAtomic args) \<le> u64_max" "dec_value (ov_platformFeeAtomic args) \<le> u64_max"
    "ov_expiresAtUnixSeconds args = Num expiry" "\<bar>expiry\<bar> \<le> max_safe_integer"
    "ov_disputeWindowSeconds args = Num window" "0 \<le> window" "window \<le> 0xffffffff"
    "int (length (ov_lineItems args)) \<le> 0xffffffff" "rmap (encodeLineItem lib) (ov_lineItems args) = Inr bss"
    "data = [0] @ hex_bytes (ov_invoiceHash args) @ hex_bytes (ov_queryHash args) @ hex_bytes (ov_bundleRoot args)
       @ auth @ resolver @ le_bytes 8 (dec_value (ov_totalAmountAtomic args)) @ le_bytes 8 (dec_value (ov_platformFeeAtomic args))
       @ le_bytes 8 (nat (expiry mod 2 ^ 64)) @ le_bytes 4 (nat window) @ le_bytes 4 (nat (int (length (ov_lineItems args)))) @ concat bss"
    unfolding create_data_def by (auto simp: rbind_Inr_iff pubkey_def hex32_Inr u32_bytes_Inr u64_bytes_Inr i64_bytes_Inr)
  have items: "take_items (length (ov_lineItems args)) (concat bss) = Some (map (program_item_of lib) (ov_lineItems args), [])"
    using take_items_encoded [OF assms(1) d(14), where rest = "[]"] by simp
  have count: "take_uint 4 (le_bytes 4 (nat (int (length (ov_lineItems args)))) @ rest) = Some (length (ov_lineItems args), rest)" for rest
    using take_u32 [of "int (length (ov_lineItems args))" rest] d(13) by simp
  have tag: "take_uint 1 (0 # rest) = Some (0, rest)" for rest
    by (simp add: take_uint_def take_bytes_def)
  have "take_args (tl data) = Some (program_args_of lib args, [])"
    unfolding d(15) take_args_def
    using items d(1,2,8,10) by (simp add: take_bytes_append assms(1) [OF d(1)] assms(1) [OF d(2)] length_hex32 [OF d(3)]
      length_hex32 [OF d(4)] length_hex32 [OF d(5)] take_u64 [OF d(6)] take_u64 [OF d(7)] take_i64 [simplified] signed64_i64 [OF d(9), simplified]
      take_u32 [OF d(11,12)] count program_args_of_def del: nat_int)
  then show ?thesis
    unfolding d(15) decode_instruction_def by (simp add: tag [simplified] finished_def)
qed

section \<open>What the program accepts\<close>

lemma hex_digit_inj:
  assumes "is_hex a" "is_hex b" "hex_digit a = hex_digit b"
  shows "a = b"
proof -
  have "m = n" if "(48 \<le> m \<and> m \<le> 57) \<or> (97 \<le> m \<and> m \<le> 102)" "(48 \<le> n \<and> n \<le> 57) \<or> (97 \<le> n \<and> n \<le> 102)"
    "(if m \<le> 57 then m - 48 else m - 87) = (if n \<le> 57 then n - 48 else n - 87)" for m n :: nat
    using that by (auto split: if_splits)
  from this [of "of_char a" "of_char b"] assms show ?thesis
    by (auto simp: is_hex_def is_digit_def hex_digit_def split: if_splits)
qed

lemma hex_digit_hex: "is_hex c \<Longrightarrow> \<exists>n < 16. hex_digit c = Some n"
  by (auto simp: is_hex_def is_digit_def hex_digit_def)

lemma hex_pair_inj:
  assumes "is_hex a" "is_hex b" "is_hex a'" "is_hex b'"
    and "byte_of (case hex_pair a b of Some n \<Rightarrow> n | None \<Rightarrow> 0) = byte_of (case hex_pair a' b' of Some n \<Rightarrow> n | None \<Rightarrow> 0)"
  shows "a = a' \<and> b = b'"
proof -
  obtain x where x: "x < 16" "hex_digit a = Some x" using hex_digit_hex [OF assms(1)] by blast
  obtain y where y: "y < 16" "hex_digit b = Some y" using hex_digit_hex [OF assms(2)] by blast
  obtain x' where x': "x' < 16" "hex_digit a' = Some x'" using hex_digit_hex [OF assms(3)] by blast
  obtain y' where y': "y' < 16" "hex_digit b' = Some y'" using hex_digit_hex [OF assms(4)] by blast
  note h = x(2) y(2) x'(2) y'(2) x(1) y(1) x'(1) y'(1)
  have "unat (byte_of (16 * x + y)) = unat (byte_of (16 * x' + y'))"
    using assms(5) by (simp only: hex_pair_def h option.case)
  moreover have "16 * x + y < 256" "16 * x' + y' < 256" using h(5-8) by linarith+
  ultimately have eq: "16 * x + y = 16 * x' + y'" by (simp only: unat_byte_of)
  have "(16 * x + y) div 16 = x" "(16 * x' + y') div 16 = x'" using h(6,8) by simp_all
  with eq have "x = x'" by simp
  moreover have "y = y'" using eq calculation by simp
  ultimately show ?thesis using h(1-4) assms(1-4) hex_digit_inj [of a a'] hex_digit_inj [of b b'] by simp
qed

lemma hex_bytes_inj:
  assumes "length s = 2 * n" "length t = 2 * n" "list_all is_hex s" "list_all is_hex t" "hex_bytes s = hex_bytes t"
  shows "s = t"
  using assms
proof (induction n arbitrary: s t)
  case (Suc n)
  obtain a b s' where s: "s = a # b # s'" using Suc.prems(1) by (cases s; cases "tl s") auto
  obtain a' b' t' where t: "t = a' # b' # t'" using Suc.prems(2) by (cases t; cases "tl t") auto
  have "a = a' \<and> b = b'" using Suc.prems s t by (intro hex_pair_inj) simp_all
  moreover have "s' = t'" using Suc.prems s t by (intro Suc.IH) simp_all
  ultimately show ?case using s t by simp
qed simp

definition item_identity :: "onchain_item \<Rightarrow> string" where
  "item_identity item = oi_documentHash item @ '':'' @ show_int (jint (oi_documentVersion item)) @ '':''
     @ show_nat (kind_number (oi_kind item))"

definition item_key :: "onchain_item \<Rightarrow> bytes \<times> nat \<times> nat" where
  "item_key item = (hex_bytes (oi_documentHash item), nat (jint (oi_documentVersion item)), kind_number (oi_kind item))"

definition item_checked :: "onchain_item \<Rightarrow> bool" where
  "item_checked item \<longleftrightarrow> re_hex64 (oi_documentHash item) \<and> (\<exists>i. oi_documentVersion item = Num i \<and> 0 \<le> i)"

text \<open>Items the program takes for the same were the same text to the browser.\<close>

lemma item_key_identity:
  assumes "item_checked x" "item_checked y" "item_key x = item_key y"
  shows "item_identity x = item_identity y"
proof -
  have "oi_documentHash x = oi_documentHash y"
    using assms hex_bytes_inj [of "oi_documentHash x" 32 "oi_documentHash y"]
    by (simp add: item_checked_def item_key_def re_hex64_def)
  moreover have "jint (oi_documentVersion x) = jint (oi_documentVersion y)"
    using assms by (auto simp: item_checked_def item_key_def eq_nat_nat_iff)
  moreover have "kind_number (oi_kind x) = kind_number (oi_kind y)" using assms(3) by (simp add: item_key_def)
  ultimately show ?thesis by (simp add: item_identity_def)
qed

abbreviation item_amount :: "onchain_item \<Rightarrow> int" where
  "item_amount item \<equiv> int (dec_value (oi_amountAtomic item))"

lemma check_items_step:
  assumes "check_onchain_items lib ids lt pt m (item # items) = Inr (L, P, N)"
  shows "item_checked item \<and> 0 < item_amount item \<and> item_identity item \<notin> set ids
    \<and> check_onchain_items lib (item_identity item # ids) (lt + item_amount item)
       (if oi_kind item = ProtocolFee then pt + item_amount item else pt) (if oi_kind item = ProtocolFee then m + 1 else m) items
      = Inr (L, P, N)"
  using assms
  by (auto simp: rbind_Inr_iff pubkey_def hex32_Inr parse_u64_Inr item_identity_def item_checked_def Let_def
    elim!: is_safe_integerE split: if_splits)

lemma check_items_mono: "check_onchain_items lib ids lt pt m items = Inr (L, P, N) \<Longrightarrow> lt \<le> L \<and> pt \<le> P"
proof (induction items arbitrary: ids lt pt m)
  case (Cons item items)
  from check_items_step [OF Cons.prems] Cons.IH show ?case by (fastforce split: if_splits)
qed simp

lemma checked_add_nat:
  assumes "0 \<le> a" "a + int n \<le> int u64_max"
  shows "checked_add_u64 (nat a) n = Some (nat (a + int n))"
proof -
  obtain k where "a = int k" using assms(1) by (rule nonneg_int_cases)
  with assms(2) show ?thesis by (simp add: checked_add_u64_def flip: of_nat_add)
qed

lemma sum_items_of_checked:
  assumes "check_onchain_items lib (map item_identity ds) lt pt m items = Inr (L, P, N)"
    and "0 \<le> lt" "0 \<le> pt" "L \<le> int u64_max" "P \<le> int u64_max" "list_all item_checked ds"
    and "\<forall>item \<in> set items. \<not> is_zero_array (the (pk_bytes lib (oi_recipientTokenAccount item)))
      \<and> \<not> is_zero_array (hex_bytes (oi_documentHash item))"
  shows "sum_program_items (item_key ` set ds) (nat lt) (nat pt) m (map (program_item_of lib) items) = Inr (nat L, nat P, N)"
  using assms
proof (induction items arbitrary: ds lt pt m)
  case (Cons item items)
  let ?pt = "if oi_kind item = ProtocolFee then pt + item_amount item else pt"
  let ?m = "if oi_kind item = ProtocolFee then m + 1 else m"
  have a: "item_checked item" "0 < item_amount item" "item_identity item \<notin> set (map item_identity ds)"
    "check_onchain_items lib (map item_identity (item # ds)) (lt + item_amount item) ?pt ?m items = Inr (L, P, N)"
    using check_items_step [OF Cons.prems(1)] by simp_all
  note mono = check_items_mono [OF a(4)]
  have new: "item_key item \<notin> item_key ` set ds"
  proof
    assume "item_key item \<in> item_key ` set ds"
    then obtain d where "d \<in> set ds" "item_key d = item_key item" by auto
    with item_key_identity [of d item] a(1) Cons.prems(6) have "item_identity d = item_identity item" by (simp add: list_all_iff)
    with \<open>d \<in> set ds\<close> a(3) show False by (metis image_eqI set_map)
  qed
  have key: "(gi_hash (program_item_of lib item), gi_version (program_item_of lib item), gi_kind (program_item_of lib item)) = item_key item"
    by (simp add: program_item_of_def item_key_def)
  have rest: "sum_program_items (item_key ` set (item # ds)) (nat (lt + item_amount item)) (nat ?pt) ?m
      (map (program_item_of lib) items) = Inr (nat L, nat P, N)"
    using Cons.prems a(1,2) by (intro Cons.IH [OF a(4)]) auto
  have sel: "gi_amount (program_item_of lib item) = nat (item_amount item)" "gi_kind (program_item_of lib item) = kind_number (oi_kind item)"
    "\<not> is_zero_array (gi_recipient (program_item_of lib item))" "\<not> is_zero_array (gi_hash (program_item_of lib item))"
    using Cons.prems(7) by (simp_all add: program_item_of_def)
  have add: "checked_add_u64 (nat lt) (nat (item_amount item)) = Some (nat (lt + item_amount item))"
    using mono Cons.prems(2,4) by (simp add: checked_add_nat)
  have addp: "checked_add_u64 (nat pt) (nat (item_amount item)) = Some (nat (pt + item_amount item))" if "oi_kind item = ProtocolFee"
    using mono Cons.prems(3,5) that by (simp add: checked_add_nat)
  show ?case
    using rest new key sel add addp a(2) by (cases "oi_kind item") simp_all
qed simp

text \<open>No commitment of the invoice is the array of zeros, which the browser does not check.\<close>

definition nonzero_commitments :: "pubkey_lib \<Rightarrow> onchain_invoice \<Rightarrow> bool" where
  "nonzero_commitments lib args \<longleftrightarrow>
     list_all (\<lambda>bs. \<not> is_zero_array bs)
       ([hex_bytes (ov_invoiceHash args), hex_bytes (ov_queryHash args), hex_bytes (ov_bundleRoot args),
         the (pk_bytes lib (ov_authorization args)), the (pk_bytes lib (ov_disputeResolver args))]
        @ map (\<lambda>item. the (pk_bytes lib (oi_recipientTokenAccount item))) (ov_lineItems args)
        @ map (\<lambda>item. hex_bytes (oi_documentHash item)) (ov_lineItems args))"

lemma validated_invoice:
  assumes "validateOnchainInvoice lib args = Inr ()"
  obtains N where "check_onchain_items lib [] 0 0 0 (ov_lineItems args) =
      Inr (int (dec_value (ov_totalAmountAtomic args)), int (dec_value (ov_platformFeeAtomic args)), N)"
    "ov_lineItems args \<noteq> []" "length (ov_lineItems args) \<le> max_onchain_line_items"
    "dec_value (ov_totalAmountAtomic args) \<le> u64_max" "dec_value (ov_platformFeeAtomic args) \<le> u64_max"
    "0 < dec_value (ov_totalAmountAtomic args)"
    "int (dec_value (ov_platformFeeAtomic args)) * 10000 \<le> int (dec_value (ov_totalAmountAtomic args)) * max_onchain_protocol_fee_bps"
    "if dec_value (ov_platformFeeAtomic args) = 0 then N = 0 else N = 1"
    "min_dispute_window_seconds \<le> jint (ov_disputeWindowSeconds args)" "jint (ov_disputeWindowSeconds args) \<le> max_dispute_window_seconds"
  using assms
  by (auto simp: validateOnchainInvoice_def rbind_Inr_iff parse_u64_Inr elim!: is_safe_integerE split: if_splits)

lemma program_accepts:
  assumes "validateOnchainInvoice lib args = Inr ()" "nonzero_commitments lib args"
    and "dec_value (ov_totalAmountAtomic args) * 1000 \<le> u64_max"
    and "saturating_add_i64 now (jint (ov_disputeWindowSeconds args)) < jint (ov_expiresAtUnixSeconds args)"
  shows "validate_args (program_args_of lib args) now = Inr ()"
proof -
  from assms(1) obtain N where v: "check_onchain_items lib [] 0 0 0 (ov_lineItems args) =
      Inr (int (dec_value (ov_totalAmountAtomic args)), int (dec_value (ov_platformFeeAtomic args)), N)"
    "ov_lineItems args \<noteq> []" "length (ov_lineItems args) \<le> max_onchain_line_items"
    "dec_value (ov_totalAmountAtomic args) \<le> u64_max" "dec_value (ov_platformFeeAtomic args) \<le> u64_max"
    "0 < dec_value (ov_totalAmountAtomic args)"
    "int (dec_value (ov_platformFeeAtomic args)) * 10000 \<le> int (dec_value (ov_totalAmountAtomic args)) * max_onchain_protocol_fee_bps"
    "if dec_value (ov_platformFeeAtomic args) = 0 then N = 0 else N = 1"
    "min_dispute_window_seconds \<le> jint (ov_disputeWindowSeconds args)" "jint (ov_disputeWindowSeconds args) \<le> max_dispute_window_seconds"
    by (rule validated_invoice)
  have sum: "sum_program_items {} 0 0 0 (map (program_item_of lib) (ov_lineItems args)) =
      Inr (dec_value (ov_totalAmountAtomic args), dec_value (ov_platformFeeAtomic args), N)"
    using sum_items_of_checked [of lib "[]" 0 0 0 "ov_lineItems args", simplified, OF v(1)] v(4,5) assms(2)
    by (simp add: nonzero_commitments_def list_all_iff)
  have fee: "dec_value (ov_platformFeeAtomic args) \<le> saturating_mul_u64 (dec_value (ov_totalAmountAtomic args)) 1000 div 10000"
    using v(7) assms(3) by (simp add: saturating_mul_u64_def max_onchain_protocol_fee_bps_def)
  have window: "int (nat (jint (ov_disputeWindowSeconds args))) = jint (ov_disputeWindowSeconds args)"
    using v(9) by (simp add: min_dispute_window_seconds_def)
  show ?thesis
    unfolding validate_args_def
    using sum fee window v(2,3,6,8,9,10) assms(2,4)
    by (simp add: program_args_of_def nonzero_commitments_def split: if_splits)
qed

text \<open>C17: When the browser builds the instruction that creates and funds an invoice, the program decodes
  from its bytes exactly that invoice; and it accepts it, if no commitment is the array of zeros, the
  dispute window ends before the invoice expires, and a thousand times the total fits in 64 bits (the
  program's multiplication saturates).\<close>

theorem onchain_invoice_reaches_program:
  assumes "\<And>s bs. pk_bytes lib s = Some bs \<Longrightarrow> length bs = 32"
    and "buildCreateAndFundInstruction lib args accounts = Inr ix"
  shows "decode_instruction (pi_data ix) = Some (CreateAndFund (program_args_of lib args))
    \<and> (nonzero_commitments lib args \<longrightarrow> dec_value (ov_totalAmountAtomic args) * 1000 \<le> u64_max
       \<longrightarrow> saturating_add_i64 now (jint (ov_disputeWindowSeconds args)) < jint (ov_expiresAtUnixSeconds args)
       \<longrightarrow> validate_args (program_args_of lib args) now = Inr ())"
proof -
  from assms(2) have "create_data lib args = Inr (pi_data ix)" "validateOnchainInvoice lib args = Inr ()"
    by (auto simp: buildCreateAndFundInstruction_def rbind_Inr_iff)
  moreover from this(1) have "decode_instruction (pi_data ix) = Some (CreateAndFund (program_args_of lib args))"
    by (rule create_data_decoded [rotated]) (rule assms(1))
  ultimately show ?thesis using program_accepts [of lib args now] by blast
qed

definition demo_pubkeys :: pubkey_lib where
  "demo_pubkeys = \<lparr> pk_bytes = (\<lambda>s. if s = [] then None else Some (replicate 32 1)), pk_base58 = (\<lambda>_. ''pda''),
     pk_find = (\<lambda>_ _. (replicate 32 2, 255)), pk_system = replicate 32 0 \<rparr>"

definition demo_invoice :: onchain_invoice where
  "demo_invoice = \<lparr> ov_invoiceHash = replicate 64 (CHR ''a''), ov_queryHash = replicate 64 (CHR ''b''),
     ov_bundleRoot = replicate 64 (CHR ''c''), ov_authorization = ''buyer'', ov_disputeResolver = ''resolver'',
     ov_totalAmountAtomic = ''100'', ov_platformFeeAtomic = ''10'', ov_expiresAtUnixSeconds = Num 9000,
     ov_disputeWindowSeconds = Num 60, ov_lineItems =
       [\<lparr> oi_recipientTokenAccount = ''owner'', oi_documentHash = replicate 64 (CHR ''d''), oi_documentVersion = Num 1,
          oi_amountAtomic = ''90'', oi_kind = Payout \<rparr>,
        \<lparr> oi_recipientTokenAccount = ''protocol'', oi_documentHash = replicate 64 (CHR ''d''), oi_documentVersion = Num 1,
          oi_amountAtomic = ''10'', oi_kind = ProtocolFee \<rparr>] \<rparr>"

definition demo_fund_accounts :: fund_accounts where
  "demo_fund_accounts = \<lparr> fa_programId = ''program'', fa_payer = ''buyer'', fa_payerTokenAccount = ''buyer-token'',
     fa_escrowTokenAccount = ''escrow'', fa_refundTokenAccount = ''refund'', fa_mint = ''mint'' \<rparr>"

lemma demo_decimals: "re_decimal ''100''" "re_decimal ''90''" "re_decimal ''10''" "dec_value ''100'' = 100" "dec_value ''90'' = 90"
    "dec_value ''10'' = 10"
  by code_simp+

lemma demo_kinds: "show_nat 0 = ''0''" "show_nat (Suc 0) = ''1''"
  by code_simp+

lemma demo_hexes: "re_hex64 (replicate 64 (CHR ''a''))" "re_hex64 (replicate 64 (CHR ''b''))"
    "re_hex64 (replicate 64 (CHR ''c''))" "re_hex64 (replicate 64 (CHR ''d''))"
  by (simp_all add: re_hex64_def list_all_iff is_hex_def)

lemma demo_built: "\<exists>ix. buildCreateAndFundInstruction demo_pubkeys demo_invoice demo_fund_accounts = Inr ix"
proof -
  have v: "validateOnchainInvoice demo_pubkeys demo_invoice = Inr ()"
    unfolding validateOnchainInvoice_def demo_invoice_def
    by (simp add: pubkey_def demo_pubkeys_def hex32_def demo_hexes parse_u64_atomic_def demo_decimals demo_kinds max_safe_integer_def
      min_dispute_window_seconds_def max_dispute_window_seconds_def max_onchain_line_items_def max_onchain_protocol_fee_bps_def)
  show ?thesis
    unfolding buildCreateAndFundInstruction_def v
    by (simp add: deriveInvoicePda_def create_data_def meta_def pubkey_def demo_pubkeys_def hex32_def demo_hexes u64_bytes_def
      i64_bytes_def u32_bytes_def encodeLineItem_def parse_u64_atomic_def demo_decimals demo_invoice_def demo_fund_accounts_def
      max_safe_integer_def token_program_def)
qed

theorem onchain_invoice_reaches_program_witness:
  "decode_instruction (pi_data (projr (buildCreateAndFundInstruction demo_pubkeys demo_invoice demo_fund_accounts)))
     = Some (CreateAndFund (program_args_of demo_pubkeys demo_invoice))
   \<and> validate_args (program_args_of demo_pubkeys demo_invoice) 1000 = Inr ()"
proof -
  obtain ix where ix: "buildCreateAndFundInstruction demo_pubkeys demo_invoice demo_fund_accounts = Inr ix"
    using demo_built by blast
  have bytes: "\<And>s bs. pk_bytes demo_pubkeys s = Some bs \<Longrightarrow> length bs = 32"
    by (auto simp: demo_pubkeys_def split: if_splits)
  have "nonzero_commitments demo_pubkeys demo_invoice"
    unfolding nonzero_commitments_def demo_invoice_def demo_pubkeys_def by code_simp
  moreover have "dec_value (ov_totalAmountAtomic demo_invoice) * 1000 \<le> u64_max"
    by (simp add: demo_invoice_def demo_decimals u64_max_def)
  moreover have "saturating_add_i64 1000 (jint (ov_disputeWindowSeconds demo_invoice)) < jint (ov_expiresAtUnixSeconds demo_invoice)"
    by (simp add: demo_invoice_def saturating_add_i64_def)
  ultimately show ?thesis
    using onchain_invoice_reaches_program [OF bytes ix, where now = 1000] ix by simp
qed

end
