(* ===== verification/Gateway_Safety.thy ===== *)
theory Gateway_Safety
  imports Gateway
begin

text \<open>
  What the gateway's hooks guarantee, over a log of everything they ask of the outside. Whenever a
  hook awaits an answer the other hooks may run: \<open>other\<close> is what they do, and all that is assumed
  of it is what every hook is shown to keep (rely and guarantee). \<open>gateway_inv\<close> is the invariant,
  \<open>step_ok\<close> the relation every step and every interference stays in.
\<close>

section \<open>Procedures that keep a predicate\<close>

named_theorems keeps_intros \<open>procedures that keep a predicate of the world\<close>

definition keeps :: "('w \<Rightarrow> bool) \<Rightarrow> ('w, 'a) proc \<Rightarrow> bool" where
  "keeps J m \<longleftrightarrow> (\<forall>w. J w \<longrightarrow> wp m (\<lambda>_. J) (\<lambda>_. J) w)"

lemma keepsI: "(\<And>w. J w \<Longrightarrow> wp m (\<lambda>_. J) (\<lambda>_. J) w) \<Longrightarrow> keeps J m"
  by (simp add: keeps_def)

lemma keepsD: "keeps J m \<Longrightarrow> J w \<Longrightarrow> wp m (\<lambda>_. J) (\<lambda>_. J) w"
  by (simp add: keeps_def)

lemma keeps_pret [keeps_intros]: "keeps J (pret a)"
  by (simp add: keeps_def wp_simps)

lemma keeps_praise [keeps_intros]: "keeps J (praise e)"
  by (simp add: keeps_def wp_simps)

lemma keeps_plift [keeps_intros]: "keeps J (plift r)"
  by (simp add: keeps_def wp_simps split: sum.splits)

lemma keeps_pget [keeps_intros]: "keeps J (pget f)"
  by (simp add: keeps_def wp_simps)

lemma keeps_pbind [keeps_intros]: "keeps J m \<Longrightarrow> (\<And>a. keeps J (f a)) \<Longrightarrow> keeps J (pbind m f)"
  by (rule keepsI, rule wp_pbindI, rule wp_mono [OF keepsD [of J]]) (auto intro: keepsD)

lemma keeps_pcatch [keeps_intros]: "keeps J m \<Longrightarrow> (\<And>e. keeps J (h e)) \<Longrightarrow> keeps J (pcatch m h)"
  by (rule keepsI, rule wp_pcatchI, rule wp_mono [OF keepsD [of J]]) (auto intro: keepsD)

lemma keeps_if [keeps_intros]: "(b \<Longrightarrow> keeps J m) \<Longrightarrow> (\<not> b \<Longrightarrow> keeps J n) \<Longrightarrow> keeps J (if b then m else n)"
  by simp

lemma keeps_option [keeps_intros]:
  "keeps J m \<Longrightarrow> (\<And>a. keeps J (f a)) \<Longrightarrow> keeps J (case x of None \<Rightarrow> m | Some a \<Rightarrow> f a)"
  by (simp split: option.splits)

lemma keeps_prod [keeps_intros]: "(\<And>a b. keeps J (f a b)) \<Longrightarrow> keeps J (case x of (a, b) \<Rightarrow> f a b)"
  by (simp split: prod.splits)

lemma keeps_let [keeps_intros]: "keeps J (f x) \<Longrightarrow> keeps J (let y = x in f y)"
  by simp

lemma keeps_pmapM [keeps_intros]: "(\<And>x. x \<in> set xs \<Longrightarrow> keeps J (f x)) \<Longrightarrow> keeps J (pmapM f xs)"
  by (induction xs) (auto intro!: keeps_intros)

lemma keeps_pforM [keeps_intros]: "(\<And>x. x \<in> set xs \<Longrightarrow> keeps J (f x)) \<Longrightarrow> keeps J (pforM xs f)"
  by (induction xs) (auto intro!: keeps_intros)

section \<open>Scans keep what their RPC calls keep\<close>

lemma keeps_scan_candidates:
  assumes rpc: "\<And>m ps. keeps J (rpc m ps)"
  shows "keeps J (scan_candidates lib prepared rpc cs)"
proof (induction cs)
  case (Cons c cs)
  show ?case
    unfolding scan_candidates.simps get_exact_transaction_def by (intro keeps_intros rpc Cons)
qed (simp add: keeps_intros)

lemma keeps_scan_pages:
  assumes rpc: "\<And>m ps. keeps J (rpc m ps)"
  shows "keeps J (scan_pages lib prepared payer rpc pages before)"
proof (induction pages arbitrary: before)
  case (Suc pages)
  show ?case
    unfolding scan_pages.simps get_signatures_def by (intro keeps_intros keeps_scan_candidates rpc Suc)
qed (simp add: keeps_intros)

lemma keeps_exact_view:
  assumes rpc: "\<And>m ps. keeps J (rpc m ps)"
  shows "keeps J (exact_view cfg attempt rpc)"
  unfolding exact_view_def scanExactFinalizedChainAttempt_def get_exact_transaction_def
  by (intro keeps_intros keeps_scan_pages rpc)

lemma keeps_verifyExact:
  assumes rpc: "\<And>m ps. keeps J (rpc m ps)"
  shows "keeps J (verifyExactFinalizedSettlementSignature lib attempt signature rpc net now)"
  unfolding verifyExactFinalizedSettlementSignature_def get_exact_transaction_def
  by (intro keeps_intros rpc)

lemma keeps_blockhash_view:
  assumes rpc: "\<And>m ps. keeps J (rpc m ps)"
  shows "keeps J (chain_blockhash_view attempt rpc)"
  unfolding chain_blockhash_view_def by (intro keeps_intros rpc)

lemma keeps_find_candidates:
  assumes rpc: "\<And>m ps. keeps J (rpc m ps)"
  shows "keeps J (find_candidates lib attempt memo dests rpc cs visited)"
proof (induction cs arbitrary: visited)
  case (Cons c cs)
  show ?case
    unfolding find_candidates.simps find_candidate_def get_exact_transaction_def by (intro keeps_intros rpc Cons)
qed (simp add: keeps_intros)

lemma keeps_find_pages:
  assumes rpc: "\<And>m ps. keeps J (rpc m ps)"
  shows "keeps J (find_pages lib attempt memo dests rpc dest pages before visited)"
proof (induction pages arbitrary: before visited)
  case (Suc pages)
  show ?case
    unfolding find_pages.simps get_signatures_def by (intro keeps_intros keeps_find_candidates rpc Suc)
qed (simp add: keeps_intros)

lemma keeps_find_destinations:
  assumes rpc: "\<And>m ps. keeps J (rpc m ps)"
  shows "keeps J (find_destinations lib attempt memo all rpc pages dests visited)"
proof (induction dests arbitrary: visited)
  case (Cons dest dests)
  show ?case
    unfolding find_destinations.simps by (intro keeps_intros keeps_find_pages rpc Cons)
qed (simp add: keeps_intros)

lemma keeps_findFinalized:
  assumes rpc: "\<And>m ps. keeps J (rpc m ps)"
  shows "keeps J (findFinalizedChainSettlement lib attempt rpc net pages now)"
  unfolding findFinalizedChainSettlement_def by (intro keeps_intros keeps_find_destinations rpc)

lemma keeps_gate_polls:
  assumes "\<And>rpc signature. rpc \<in> set (gd_rpcs g) \<Longrightarrow> keeps J (gd_verifySignature g attempt signature rpc (gd_expectedNetwork g))"
    and "keeps J (gd_nowMs g)" "\<And>t. keeps J (gd_sleep g t)"
  shows "keeps J (gate_polls g attempt result deadline polls)"
proof (induction polls)
  case (Suc polls)
  show ?case
    unfolding gate_polls.simps by (intro keeps_intros assms Suc)
qed (simp add: keeps_intros)

section \<open>The log of the gateway\<close>

datatype gw_event =
    GwNow
  | GwMonotonic
  | GwSleep int
  | GwCall rust_call
  | GwReady
  | GwEnqueue durable_settlement
  | GwTrigger string
  | GwFacilitator hook_context
  | GwRpc nat string "json list"

type_synonym gw_log = "gw_event list"
type_synonym gw_world = "gateway_state \<times> gw_log"
type_synonym 'r gw_answers = "gw_log \<Rightarrow> gw_event \<Rightarrow> 'r outcome"

record gw_env =
  gwe_int :: "int gw_answers"
  gwe_unit :: "unit gw_answers"
  gwe_quote :: "payable_quote gw_answers"
  gwe_attempt :: "reconciliation_attempt gw_answers"
  gwe_due :: "reconciliation_attempt list gw_answers"
  gwe_http :: "http_response gw_answers"
  gwe_settle :: "settle_response gw_answers"
  gwe_json :: "json gw_answers"

text \<open>A request is logged and answered; then the other hooks run before the answer is used.\<close>

definition await ::
    "('e list \<Rightarrow> 'e \<Rightarrow> 'r outcome) \<Rightarrow> ('s \<times> 'e list \<Rightarrow> 's \<times> 'e list) \<Rightarrow> 'e \<Rightarrow> ('s \<times> 'e list, 'r) proc" where
  "await env other ev w = (env (snd w) ev, other (fst w, snd w @ [ev]))"

definition gateway_rpc :: "gw_env \<Rightarrow> (gw_world \<Rightarrow> gw_world) \<Rightarrow> nat \<Rightarrow> gw_world solana_rpc" where
  "gateway_rpc env other i m ps = await (gwe_json env) other (GwRpc i m ps)"

definition logged_gateway :: "gw_env \<Rightarrow> (gw_world \<Rightarrow> gw_world) \<Rightarrow> nat \<Rightarrow> bool \<Rightarrow> gw_world gateway_services" where
  "logged_gateway env other n queue =
     \<lparr> gx_now = await (gwe_int env) other GwNow, gx_monotonic = await (gwe_int env) other GwMonotonic,
       gx_sleep = (\<lambda>t. await (gwe_unit env) other (GwSleep t)),
       gx_quote = (\<lambda>c. await (gwe_quote env) other (GwCall c)), gx_attempt = (\<lambda>c. await (gwe_attempt env) other (GwCall c)),
       gx_due = (\<lambda>c. await (gwe_due env) other (GwCall c)), gx_post = (\<lambda>c. await (gwe_unit env) other (GwCall c)),
       gx_ready = await (gwe_unit env) other GwReady,
       gx_enqueue = (if queue then Some (\<lambda>s. await (gwe_unit env) other (GwEnqueue s)) else None),
       gx_trigger = (\<lambda>j. await (gwe_http env) other (GwTrigger j)),
       gx_facilitator = (\<lambda>c. await (gwe_settle env) other (GwFacilitator c)),
       gx_rpcs = map (gateway_rpc env other) [0 ..< n] \<rparr>"

lemma logged_gateway_sel:
  "gx_now (logged_gateway env other n queue) = await (gwe_int env) other GwNow"
  "gx_monotonic (logged_gateway env other n queue) = await (gwe_int env) other GwMonotonic"
  "gx_sleep (logged_gateway env other n queue) t = await (gwe_unit env) other (GwSleep t)"
  "gx_quote (logged_gateway env other n queue) c = await (gwe_quote env) other (GwCall c)"
  "gx_attempt (logged_gateway env other n queue) c = await (gwe_attempt env) other (GwCall c)"
  "gx_due (logged_gateway env other n queue) c = await (gwe_due env) other (GwCall c)"
  "gx_post (logged_gateway env other n queue) c = await (gwe_unit env) other (GwCall c)"
  "gx_ready (logged_gateway env other n queue) = await (gwe_unit env) other GwReady"
  "gx_enqueue (logged_gateway env other n queue) =
     (if queue then Some (\<lambda>s. await (gwe_unit env) other (GwEnqueue s)) else None)"
  "gx_trigger (logged_gateway env other n queue) j = await (gwe_http env) other (GwTrigger j)"
  "gx_facilitator (logged_gateway env other n queue) ctx = await (gwe_settle env) other (GwFacilitator ctx)"
  "gx_rpcs (logged_gateway env other n queue) = map (gateway_rpc env other) [0 ..< n]"
  by (simp_all add: logged_gateway_def)

section \<open>Evidence in the log\<close>

text \<open>The ledger acknowledged the claim of an attempt.\<close>

definition claimed :: "gw_env \<Rightarrow> gw_log \<Rightarrow> string \<Rightarrow> string \<Rightarrow> string \<Rightarrow> bool" where
  "claimed env h kind quoteId attemptId \<longleftrightarrow>
     (\<exists>payer tx blockhash. answered (gwe_unit env) h (GwCall (PostAttempt kind quoteId attemptId payer tx blockhash)) ())"

text \<open>A settlement was handed to a durable sink; a durable sink acknowledged one of its signature; it
  is acknowledged or still in memory.\<close>

definition handed :: "gw_log \<Rightarrow> string \<Rightarrow> bool" where
  "handed h signature \<longleftrightarrow>
     (\<exists>s. ds_transactionSignature s = signature \<and> (GwCall (PostSettlement s) \<in> set h \<or> GwEnqueue s \<in> set h))"

definition acked :: "gw_env \<Rightarrow> gw_log \<Rightarrow> string \<Rightarrow> bool" where
  "acked env h signature \<longleftrightarrow>
     (\<exists>s. ds_transactionSignature s = signature
        \<and> (answered (gwe_unit env) h (GwCall (PostSettlement s)) () \<or> answered (gwe_unit env) h (GwEnqueue s) ()))"

definition kept :: "gw_env \<Rightarrow> gw_world \<Rightarrow> string \<Rightarrow> bool" where
  "kept env w signature \<longleftrightarrow> acked env (snd w) signature \<or> map_of (gs_pending (fst w)) signature \<noteq> None"

text \<open>A run of a procedure over RPC origins, within the log and interleaved with anything that only
  extends it, returned \<open>r\<close>.\<close>

definition ran :: "gw_env \<Rightarrow> gw_log \<Rightarrow> ((gw_world \<Rightarrow> gw_world) \<Rightarrow> (gw_world, 'a) proc) \<Rightarrow> 'a \<Rightarrow> bool" where
  "ran env h m r \<longleftrightarrow>
     (\<exists>other w w'. (\<forall>u. extends (snd u) (snd (other u))) \<and> m other w = (Inr r, w') \<and> extends (snd w') h)"

definition listed :: "gateway_config \<Rightarrow> gw_env \<Rightarrow> gw_log \<Rightarrow> reconciliation_attempt \<Rightarrow> bool" where
  "listed cfg env h attempt \<longleftrightarrow>
     (\<exists>due. answered (gwe_due env) h (GwCall (GetDueAttempts (gc_batchSize cfg))) due \<and> attempt \<in> set due)"

definition blockhash_request :: "reconciliation_attempt \<Rightarrow> nat \<Rightarrow> gw_event" where
  "blockhash_request attempt i = GwRpc i ''isBlockhashValid''
     [JStr (str_or (ra_recentBlockhash attempt) []), JObj [(''commitment'', JStr ''finalized'')]]"

text \<open>Every one of at least two origins scanned the attempt as absent or failed and reported its
  blockhash expired.\<close>

definition absence_evidence :: "gateway_config \<Rightarrow> gw_env \<Rightarrow> nat \<Rightarrow> gw_log \<Rightarrow> reconciliation_attempt \<Rightarrow> bool" where
  "absence_evidence cfg env n h attempt \<longleftrightarrow> 2 \<le> n
     \<and> (\<forall>i < n. \<exists>scan. ran env h (\<lambda>other. exact_view cfg attempt (gateway_rpc env other i)) scan
          \<and> scan \<in> insert ScanAbsent (range ScanFailed))
     \<and> (\<forall>i < n. \<exists>v. answered (gwe_json env) h (blockhash_request attempt i) v \<and> prop_of v ''value'' = JBool False)"

text \<open>Where a settlement comes from: the facilitator settled a durable attempt, or every one of at
  least two origins scanned a listed attempt as settled under the same signature, or found the same
  settlement in the recipient's history.\<close>

definition settled_attempt :: "gw_env \<Rightarrow> gw_log \<Rightarrow> durable_settlement \<Rightarrow> bool" where
  "settled_attempt env h s \<longleftrightarrow>
     (\<exists>durable. answered (gwe_attempt env) h (GwCall (GetAttempt (ds_attemptId s))) durable
        \<and> ra_attemptId durable = ds_attemptId s \<and> ra_quoteId durable = ds_quoteId s
        \<and> ra_settlementKind durable = ds_settlementKind s)"

definition recovered_exactly :: "gateway_config \<Rightarrow> gw_env \<Rightarrow> nat \<Rightarrow> gw_log \<Rightarrow> durable_settlement \<Rightarrow> bool" where
  "recovered_exactly cfg env n h s \<longleftrightarrow> 2 \<le> n
     \<and> (\<exists>attempt signature. listed cfg env h attempt \<and> s = exact_recovery attempt signature
        \<and> (\<forall>i < n. ran env h (\<lambda>other. exact_view cfg attempt (gateway_rpc env other i)) (ScanSettled signature)))"

definition recovered_from_history :: "gateway_config \<Rightarrow> gw_env \<Rightarrow> nat \<Rightarrow> gw_log \<Rightarrow> durable_settlement \<Rightarrow> bool" where
  "recovered_from_history cfg env n h s \<longleftrightarrow> 2 \<le> n
     \<and> (\<exists>attempt now. listed cfg env h attempt
        \<and> (\<forall>i < n. \<exists>found. ran env h (\<lambda>other. findFinalizedChainSettlement (gc_lib cfg) attempt (gateway_rpc env other i)
               (gc_network cfg) (gc_signaturePages cfg) now) (Some found)
             \<and> ds_transactionSignature found = ds_transactionSignature s \<and> ds_attemptId found = ds_attemptId s))"

definition provenance :: "gateway_config \<Rightarrow> gw_env \<Rightarrow> nat \<Rightarrow> gw_log \<Rightarrow> durable_settlement \<Rightarrow> bool" where
  "provenance cfg env n h s \<longleftrightarrow>
     settled_attempt env h s \<or> recovered_exactly cfg env n h s \<or> recovered_from_history cfg env n h s"

text \<open>The claim a request makes is of a quote that was loaded, is payable, and is paid exactly by the
  signed transaction.\<close>

definition claim_justified ::
    "gateway_config \<Rightarrow> gw_env \<Rightarrow> gw_log \<Rightarrow> string \<Rightarrow> string \<Rightarrow> string \<Rightarrow> string \<Rightarrow> string \<Rightarrow> string \<Rightarrow> bool" where
  "claim_justified cfg env h kind quoteId attemptId payer tx blockhash \<longleftrightarrow>
     (\<exists>identity quote t t1 t2. answered (gwe_quote env) h (GwCall (quote_call identity)) quote
        \<and> kind = pri_kind identity \<and> quoteId = pyq_id quote \<and> pyq_network quote = gc_network cfg
        \<and> assertPaymentQuotePayable (pyq_state quote) t = Inr ()
        \<and> tx \<noteq> [] \<and> attemptId = lib_sha256_hex (gc_lib cfg) tx
        \<and> recentBlockhashFromTransaction (gc_lib cfg) tx = Inr blockhash
        \<and> hasExactPreparedPaymentSemantics (gc_lib cfg)
            (attempt_evidence identity quote attemptId payer tx blockhash t1 t2) (base64_decode tx))"

definition settle_justified :: "gateway_config \<Rightarrow> gw_env \<Rightarrow> nat \<Rightarrow> gw_log \<Rightarrow> hook_context \<Rightarrow> bool" where
  "settle_justified cfg env n h context \<longleftrightarrow> 2 \<le> n
     \<and> (\<exists>attemptId durable. attempt_id cfg context = Inr attemptId
        \<and> answered (gwe_attempt env) h (GwCall (GetAttempt attemptId)) durable \<and> ra_attemptId durable = attemptId
        \<and> hk_network context = ra_network durable \<and> hk_payTo context = ra_payTo durable
        \<and> hk_asset context = ra_asset durable \<and> hk_amount context = ra_amountAtomic durable)"

fun gw_ok :: "gateway_config \<Rightarrow> gw_env \<Rightarrow> nat \<Rightarrow> gw_log \<Rightarrow> gw_event \<Rightarrow> bool" where
  "gw_ok cfg env n h (GwCall (PostAttempt kind quoteId attemptId payer tx blockhash)) =
     claim_justified cfg env h kind quoteId attemptId payer tx blockhash"
| "gw_ok cfg env n h (GwCall (PostRelease kind quoteId attemptId)) = claimed env h kind quoteId attemptId"
| "gw_ok cfg env n h (GwCall (PostDefer kind quoteId attemptId True)) =
     (\<exists>attempt. listed cfg env h attempt \<and> ra_settlementKind attempt = kind \<and> ra_quoteId attempt = quoteId
        \<and> ra_attemptId attempt = attemptId \<and> absence_evidence cfg env n h attempt)"
| "gw_ok cfg env n h (GwCall (PostReconciledRelease kind quoteId attemptId)) =
     (\<exists>attempt. listed cfg env h attempt \<and> ra_settlementKind attempt = kind \<and> ra_quoteId attempt = quoteId
        \<and> ra_attemptId attempt = attemptId \<and> ra_absenceObservedAt attempt \<noteq> None \<and> absence_evidence cfg env n h attempt)"
| "gw_ok cfg env n h (GwCall (PostSettlement s)) = provenance cfg env n h s"
| "gw_ok cfg env n h (GwEnqueue s) = provenance cfg env n h s"
| "gw_ok cfg env n h (GwFacilitator context) = settle_justified cfg env n h context"
| "gw_ok cfg env n h _ = True"

section \<open>The invariant\<close>

definition gateway_inv :: "gateway_config \<Rightarrow> gw_env \<Rightarrow> nat \<Rightarrow> gw_world \<Rightarrow> bool" where
  "gateway_inv cfg env n w \<longleftrightarrow>
     tracker_inv (gs_tracker (fst w))
     \<and> (\<forall>attemptId a. map_of (trk_byAttempt (gs_tracker (fst w))) attemptId = Some a \<longrightarrow>
          claimed env (snd w) (pri_kind (vpa_identity a)) (pyq_id (vpa_quote a)) attemptId)
     \<and> (\<forall>signature s. map_of (gs_pending (fst w)) signature = Some s \<longrightarrow>
          ds_transactionSignature s = signature \<and> provenance cfg env n (snd w) s)
     \<and> (\<forall>signature. handed (snd w) signature \<longrightarrow> kept env w signature)
     \<and> log_inv (gw_ok cfg env n) (snd w)"

definition step_ok :: "gateway_config \<Rightarrow> gw_env \<Rightarrow> nat \<Rightarrow> gw_world \<Rightarrow> gw_world \<Rightarrow> bool" where
  "step_ok cfg env n w w' \<longleftrightarrow>
     gateway_inv cfg env n w' \<and> extends (snd w) (snd w') \<and> (\<forall>signature. kept env w signature \<longrightarrow> kept env w' signature)"

text \<open>What is assumed of the hooks that run meanwhile.\<close>

definition well_behaved :: "gateway_config \<Rightarrow> gw_env \<Rightarrow> nat \<Rightarrow> (gw_world \<Rightarrow> gw_world) \<Rightarrow> bool" where
  "well_behaved cfg env n other \<longleftrightarrow>
     (\<forall>w. extends (snd w) (snd (other w))) \<and> (\<forall>w. gateway_inv cfg env n w \<longrightarrow> step_ok cfg env n w (other w))"

lemma answered_extends: "answered env h ev r \<Longrightarrow> extends h h' \<Longrightarrow> answered env h' ev r"
  by (auto simp: extends_def intro: answered_append)

lemma claimed_extends: "claimed env h k q a \<Longrightarrow> extends h h' \<Longrightarrow> claimed env h' k q a"
  unfolding claimed_def by (blast intro: answered_extends)

lemma acked_extends: "acked env h signature \<Longrightarrow> extends h h' \<Longrightarrow> acked env h' signature"
  unfolding acked_def by (blast intro: answered_extends)

lemma ran_extends: "ran env h m r \<Longrightarrow> extends h h' \<Longrightarrow> ran env h' m r"
  unfolding ran_def by (blast intro: extends_trans)

lemma listed_extends: "listed cfg env h a \<Longrightarrow> extends h h' \<Longrightarrow> listed cfg env h' a"
  unfolding listed_def by (blast intro: answered_extends)

lemma settled_attempt_extends: "settled_attempt env h s \<Longrightarrow> extends h h' \<Longrightarrow> settled_attempt env h' s"
  unfolding settled_attempt_def by (blast intro: answered_extends)

lemma recovered_exactly_extends:
  assumes "recovered_exactly cfg env n h s" "extends h h'"
  shows "recovered_exactly cfg env n h' s"
proof -
  from assms(1) obtain attempt signature where a: "2 \<le> n" "listed cfg env h attempt" "s = exact_recovery attempt signature"
    "\<forall>i < n. ran env h (\<lambda>other. exact_view cfg attempt (gateway_rpc env other i)) (ScanSettled signature)"
    unfolding recovered_exactly_def by blast
  show ?thesis
    unfolding recovered_exactly_def
  proof (intro conjI exI [of _ attempt] exI [of _ signature] allI impI a(1,3) listed_extends [OF a(2) assms(2)])
    fix i assume "i < n"
    with a(4) have "ran env h (\<lambda>other. exact_view cfg attempt (gateway_rpc env other i)) (ScanSettled signature)"
      by blast
    then show "ran env h' (\<lambda>other. exact_view cfg attempt (gateway_rpc env other i)) (ScanSettled signature)"
      by (rule ran_extends [OF _ assms(2)])
  qed
qed

lemma recovered_from_history_extends:
  assumes "recovered_from_history cfg env n h s" "extends h h'"
  shows "recovered_from_history cfg env n h' s"
proof -
  let ?found = "\<lambda>h attempt now i found. ran env h (\<lambda>other. findFinalizedChainSettlement (gc_lib cfg) attempt (gateway_rpc env other i)
         (gc_network cfg) (gc_signaturePages cfg) now) (Some found)
       \<and> ds_transactionSignature found = ds_transactionSignature s \<and> ds_attemptId found = ds_attemptId s"
  from assms(1) obtain attempt now where a: "2 \<le> n" "listed cfg env h attempt" "\<forall>i < n. \<exists>found. ?found h attempt now i found"
    unfolding recovered_from_history_def by blast
  have "?found h' attempt now i found" if "?found h attempt now i found" for i found
    using ran_extends [OF conjunct1 [OF that] assms(2)] conjunct2 [OF that] by (rule conjI)
  with a(3) have "\<forall>i < n. \<exists>found. ?found h' attempt now i found" by meson
  with a(1) listed_extends [OF a(2) assms(2)] show ?thesis
    unfolding recovered_from_history_def by blast
qed

lemma provenance_extends: "provenance cfg env n h s \<Longrightarrow> extends h h' \<Longrightarrow> provenance cfg env n h' s"
  unfolding provenance_def
  using settled_attempt_extends recovered_exactly_extends recovered_from_history_extends by fast

lemma absence_evidence_extends:
  assumes "absence_evidence cfg env n h a" "extends h h'"
  shows "absence_evidence cfg env n h' a"
  using assms(1) ran_extends [OF _ assms(2)] answered_extends [OF _ assms(2)]
  unfolding absence_evidence_def by fast

lemma step_ok_refl: "gateway_inv cfg env n w \<Longrightarrow> step_ok cfg env n w w"
  by (simp add: step_ok_def)

lemma step_ok_trans: "step_ok cfg env n u v \<Longrightarrow> step_ok cfg env n v w \<Longrightarrow> step_ok cfg env n u w"
  by (auto simp: step_ok_def intro: extends_trans)

lemma step_ok_inv: "step_ok cfg env n u v \<Longrightarrow> gateway_inv cfg env n v"
  by (simp add: step_ok_def)

lemma step_ok_log: "step_ok cfg env n u v \<Longrightarrow> extends (snd u) (snd v)"
  by (simp add: step_ok_def)

section \<open>Steps on the state and on the log\<close>

fun hands_over :: "gw_event \<Rightarrow> string option" where
  "hands_over (GwCall (PostSettlement s)) = Some (ds_transactionSignature s)"
| "hands_over (GwEnqueue s) = Some (ds_transactionSignature s)"
| "hands_over _ = None"

lemma handed_snoc: "handed (h @ [ev]) signature \<Longrightarrow> handed h signature \<or> hands_over ev = Some signature"
  by (auto simp: handed_def)

lemma step_ok_event:
  assumes "gateway_inv cfg env n w" "gw_ok cfg env n (snd w) ev"
    and "\<And>signature. hands_over ev = Some signature \<Longrightarrow> kept env w signature"
  shows "step_ok cfg env n w (fst w, snd w @ [ev])"
proof -
  have "extends (snd w) (snd w @ [ev])" by simp
  note c = claimed_extends [OF _ this] and p = provenance_extends [OF _ this]
  have kept': "kept env (fst w, snd w @ [ev]) signature" if "kept env w signature" for signature
    using that by (auto simp: kept_def intro: acked_extends)
  have "kept env (fst w, snd w @ [ev]) signature" if "handed (snd w @ [ev]) signature" for signature
    using handed_snoc [OF that] assms kept' by (auto simp: gateway_inv_def)
  with assms(1,2) have "gateway_inv cfg env n (fst w, snd w @ [ev])"
    unfolding gateway_inv_def by (auto intro: c p)
  with kept' show ?thesis by (simp add: step_ok_def)
qed

lemma wp_await:
  assumes "well_behaved cfg env n other" "step_ok cfg env n w0 w" "gw_ok cfg env n (snd w) ev"
    and "\<And>signature. hands_over ev = Some signature \<Longrightarrow> kept env w signature"
    and "\<And>r w'. step_ok cfg env n w0 w' \<Longrightarrow> step_ok cfg env n w w' \<Longrightarrow> answered ans (snd w') ev r \<Longrightarrow> Q r w'"
    and "\<And>e w'. step_ok cfg env n w0 w' \<Longrightarrow> step_ok cfg env n w w' \<Longrightarrow> E e w'"
  shows "wp (await ans other ev) Q E w"
proof -
  let ?v = "(fst w, snd w @ [ev])"
  have v: "step_ok cfg env n w ?v"
    by (rule step_ok_event [OF step_ok_inv [OF assms(2)] assms(3,4)])
  then have o': "step_ok cfg env n ?v (other ?v)"
    using assms(1) by (auto simp: well_behaved_def step_ok_def)
  have w: "step_ok cfg env n w (other ?v)" by (rule step_ok_trans [OF v o'])
  moreover have "step_ok cfg env n w0 (other ?v)" by (rule step_ok_trans [OF assms(2) w])
  moreover have "answered ans (snd (other ?v)) ev r" if "ans (snd w) ev = Inr r" for r
    using answered_last [of ans "snd w" ev r] that step_ok_log [OF o'] by (auto intro: answered_extends)
  ultimately show ?thesis
    using assms(5,6) by (auto simp: wp_def await_def split: sum.splits)
qed

text \<open>Requests that are always allowed and hand nothing over.\<close>

definition quiet_event :: "gw_event \<Rightarrow> bool" where
  "quiet_event ev \<longleftrightarrow> hands_over ev = None \<and> (\<forall>cfg env n h. gw_ok cfg env n h ev)"

lemma quiet_events [simp]:
  "quiet_event GwNow" "quiet_event GwMonotonic" "quiet_event (GwSleep t)" "quiet_event GwReady" "quiet_event (GwTrigger j)"
  "quiet_event (GwRpc i m ps)" "quiet_event (GwCall (quote_call identity))" "quiet_event (GwCall (GetAttempt a))"
  "quiet_event (GwCall (GetDueAttempts k))" "quiet_event (GwCall (PostDefer kind q a False))"
  by (cases identity; simp add: quiet_event_def)+

lemma wp_await_quiet:
  assumes "well_behaved cfg env n other" "step_ok cfg env n w0 w" "quiet_event ev"
    and "\<And>r w'. step_ok cfg env n w0 w' \<Longrightarrow> step_ok cfg env n w w' \<Longrightarrow> answered ans (snd w') ev r \<Longrightarrow> Q r w'"
    and "\<And>e w'. step_ok cfg env n w0 w' \<Longrightarrow> step_ok cfg env n w w' \<Longrightarrow> E e w'"
  shows "wp (await ans other ev) Q E w"
  using assms(3) by (intro wp_await [OF assms(1,2)] assms(4,5)) (auto simp: quiet_event_def)

lemma keeps_await [keeps_intros]:
  assumes "well_behaved cfg env n other" "quiet_event ev"
  shows "keeps (step_ok cfg env n w0) (await ans other ev)"
  by (rule keepsI) (rule wp_await_quiet [OF assms(1) _ assms(2)])

lemma keeps_gateway_rpc:
  "well_behaved cfg env n other \<Longrightarrow> keeps (step_ok cfg env n w0) (gateway_rpc env other i m ps)"
  unfolding gateway_rpc_def by (intro keeps_intros) auto

text \<open>Changes of the state.\<close>

lemma step_ok_same:
  assumes "gateway_inv cfg env n w" "gs_tracker s = gs_tracker (fst w)" "gs_pending s = gs_pending (fst w)"
  shows "step_ok cfg env n w (s, snd w)"
  using assms by (auto simp: step_ok_def gateway_inv_def kept_def)

lemma step_ok_tracker:
  assumes "gateway_inv cfg env n w" "tracker_inv t"
    and "\<And>attemptId a. map_of (trk_byAttempt t) attemptId = Some a \<Longrightarrow>
      claimed env (snd w) (pri_kind (vpa_identity a)) (pyq_id (vpa_quote a)) attemptId"
  shows "step_ok cfg env n w ((fst w)\<lparr> gs_tracker := t \<rparr>, snd w)"
  using assms by (auto simp: step_ok_def gateway_inv_def kept_def)

lemma step_ok_set_pending:
  assumes "gateway_inv cfg env n w" "provenance cfg env n (snd w) s"
  shows "step_ok cfg env n w (set_pending s w)" "kept env (set_pending s w) (ds_transactionSignature s)"
  using assms by (auto simp: step_ok_def gateway_inv_def kept_def set_pending_def)

lemma step_ok_drop_pending:
  assumes "gateway_inv cfg env n w" "acked env (snd w) signature"
  shows "step_ok cfg env n w (drop_pending signature w)"
  using assms by (auto simp: step_ok_def gateway_inv_def kept_def drop_pending_def)

lemma wp_forget_attempt:
  assumes "step_ok cfg env n w0 w"
  shows "wp (forget_attempt attemptId) (\<lambda>_ w'. step_ok cfg env n w0 w' \<and> step_ok cfg env n w w') (\<lambda>_ _. False) w"
proof -
  have "step_ok cfg env n w ((fst w)\<lparr> gs_tracker := trk_forget attemptId (gs_tracker (fst w)) \<rparr>, snd w)"
    using step_ok_inv [OF assms]
    by (intro step_ok_tracker) (auto simp: gateway_inv_def map_of_forget tracker_inv_forget split: if_splits)
  with step_ok_trans [OF assms this] show ?thesis
    by (simp add: wp_def forget_attempt_def on_tracker_def inside_def pmod_def)
qed

lemma keeps_forget_attempt [keeps_intros]: "keeps (step_ok cfg env n w0) (forget_attempt attemptId)"
  by (rule keepsI, rule wp_mono [OF wp_forget_attempt]) auto

lemma keeps_on_guard [keeps_intros]: "keeps (step_ok cfg env n w0) (on_guard m)"
proof (rule keepsI)
  fix w assume w: "step_ok cfg env n w0 w"
  have "step_ok cfg env n w ((fst w)\<lparr> gs_guard := g \<rparr>, snd w)" for g
    by (rule step_ok_same [OF step_ok_inv [OF w]]) auto
  then show "wp (on_guard m) (\<lambda>_. step_ok cfg env n w0) (\<lambda>_. step_ok cfg env n w0) w"
    by (auto simp: wp_def on_guard_def inside_def split: prod.splits sum.splits intro: step_ok_trans [OF w])
qed

lemma keeps_in_gateway [keeps_intros]:
  assumes "\<And>s. gs_tracker (f s) = gs_tracker s" "\<And>s. gs_pending (f s) = gs_pending s"
  shows "keeps (step_ok cfg env n w0) (in_gateway f)"
proof (rule keepsI)
  fix w assume w: "step_ok cfg env n w0 w"
  have "step_ok cfg env n w (f (fst w), snd w)"
    by (rule step_ok_same [OF step_ok_inv [OF w] assms])
  then show "wp (in_gateway f) (\<lambda>_. step_ok cfg env n w0) (\<lambda>_. step_ok cfg env n w0) w"
    by (auto simp: in_gateway_def wp_simps intro: step_ok_trans [OF w])
qed

section \<open>Specifications of procedures\<close>

text \<open>A fact about the world that every step keeps, and a procedure that keeps the invariant and
  establishes \<open>R\<close> when it is started with the invariant and \<open>P\<close>.\<close>

named_theorems stable_intros \<open>facts that steps keep\<close>
named_theorems spec_intros \<open>specifications of procedures\<close>

definition stable_fact :: "gateway_config \<Rightarrow> gw_env \<Rightarrow> nat \<Rightarrow> (gw_world \<Rightarrow> bool) \<Rightarrow> bool" where
  "stable_fact cfg env n P \<longleftrightarrow> (\<forall>w w'. P w \<longrightarrow> step_ok cfg env n w w' \<longrightarrow> P w')"

definition spec :: "gateway_config \<Rightarrow> gw_env \<Rightarrow> nat \<Rightarrow> (gw_world \<Rightarrow> bool) \<Rightarrow> (gw_world, 'a) proc \<Rightarrow> ('a \<Rightarrow> gw_world \<Rightarrow> bool) \<Rightarrow> bool" where
  "spec cfg env n P m R \<longleftrightarrow> (\<forall>w. gateway_inv cfg env n w \<longrightarrow> P w \<longrightarrow>
     wp m (\<lambda>r w'. step_ok cfg env n w w' \<and> R r w') (\<lambda>_ w'. step_ok cfg env n w w') w)"

lemma stable_factD: "stable_fact cfg env n P \<Longrightarrow> P w \<Longrightarrow> step_ok cfg env n w w' \<Longrightarrow> P w'"
  unfolding stable_fact_def by blast

lemma stable_log: "(\<And>h h'. P h \<Longrightarrow> extends h h' \<Longrightarrow> P h') \<Longrightarrow> stable_fact cfg env n (\<lambda>w. P (snd w))"
  unfolding stable_fact_def using step_ok_log by blast

lemma stable_basic [stable_intros]:
  "stable_fact cfg env n (\<lambda>_. b)"
  "stable_fact cfg env n P \<Longrightarrow> stable_fact cfg env n Q \<Longrightarrow> stable_fact cfg env n (\<lambda>w. P w \<and> Q w)"
  "stable_fact cfg env n (\<lambda>w. kept env w signature)"
  "(\<And>a. stable_fact cfg env n (F a)) \<Longrightarrow> stable_fact cfg env n (\<lambda>w. \<forall>a. B a \<longrightarrow> F a w)"
  by (auto simp: stable_fact_def step_ok_def)

lemma stable_logs [stable_intros]:
  "stable_fact cfg env n (\<lambda>w. answered ans (snd w) ev r)"
  "stable_fact cfg env n (\<lambda>w. claimed env (snd w) k q a)"
  "stable_fact cfg env n (\<lambda>w. acked env (snd w) signature)"
  "stable_fact cfg env n (\<lambda>w. listed cfg env (snd w) attempt)"
  "stable_fact cfg env n (\<lambda>w. provenance cfg env n (snd w) s)"
  "stable_fact cfg env n (\<lambda>w. absence_evidence cfg env n (snd w) attempt)"
  by (rule stable_log; fact answered_extends claimed_extends acked_extends listed_extends provenance_extends absence_evidence_extends)+

lemma specI:
  "(\<And>w. gateway_inv cfg env n w \<Longrightarrow> P w \<Longrightarrow>
     wp m (\<lambda>r w'. step_ok cfg env n w w' \<and> R r w') (\<lambda>_ w'. step_ok cfg env n w w') w) \<Longrightarrow> spec cfg env n P m R"
  unfolding spec_def by blast

lemma specD:
  "spec cfg env n P m R \<Longrightarrow> gateway_inv cfg env n w \<Longrightarrow> P w \<Longrightarrow>
     wp m (\<lambda>r w'. step_ok cfg env n w w' \<and> R r w') (\<lambda>_ w'. step_ok cfg env n w w') w"
  unfolding spec_def by blast

lemma spec_weaken:
  assumes "spec cfg env n P m R" "\<And>w. Q w \<Longrightarrow> P w" "\<And>r w. R r w \<Longrightarrow> S r w"
  shows "spec cfg env n Q m S"
  by (rule specI, rule wp_mono [OF specD [OF assms(1)]]) (auto intro: assms(2,3))

lemma spec_pre: "spec cfg env n (\<lambda>_. True) m R \<Longrightarrow> spec cfg env n P m R"
  by (erule spec_weaken) simp_all

text \<open>What held before still holds after.\<close>

lemma spec_frame:
  assumes "stable_fact cfg env n F" "spec cfg env n P m R"
  shows "spec cfg env n (\<lambda>w. F w \<and> P w) m (\<lambda>r w. F w \<and> R r w)"
  by (rule specI, rule wp_mono [OF specD [OF assms(2)]]) (auto intro: stable_factD [OF assms(1)])

lemma spec_pbind [spec_intros]:
  assumes "stable_fact cfg env n P" "spec cfg env n P m R" "\<And>a. spec cfg env n (\<lambda>w. P w \<and> R a w) (f a) S"
  shows "spec cfg env n P (pbind m f) S"
proof (rule specI)
  fix w assume w: "gateway_inv cfg env n w" "P w"
  have f: "wp (f a) (\<lambda>r w''. step_ok cfg env n w w'' \<and> S r w'') (\<lambda>_ w''. step_ok cfg env n w w'') w'"
    if "step_ok cfg env n w w'" "R a w'" for a w'
    by (rule wp_mono [OF specD [OF assms(3) step_ok_inv [OF that(1)], of a]])
      (auto intro: stable_factD [OF assms(1) w(2)] step_ok_trans that)
  show "wp (pbind m f) (\<lambda>r w'. step_ok cfg env n w w' \<and> S r w') (\<lambda>_ w'. step_ok cfg env n w w') w"
    by (rule wp_pbindI, rule wp_mono [OF specD [OF assms(2) w]]) (auto intro: f)
qed

lemma spec_pcatch [spec_intros]:
  assumes "stable_fact cfg env n P" "spec cfg env n P m S" "\<And>e. spec cfg env n P (h e) S"
  shows "spec cfg env n P (pcatch m h) S"
proof (rule specI)
  fix w assume w: "gateway_inv cfg env n w" "P w"
  have h: "wp (h e) (\<lambda>r w''. step_ok cfg env n w w'' \<and> S r w'') (\<lambda>_ w''. step_ok cfg env n w w'') w'"
    if "step_ok cfg env n w w'" for e w'
    by (rule wp_mono [OF specD [OF assms(3) step_ok_inv [OF that], of e]])
      (auto intro: stable_factD [OF assms(1) w(2)] step_ok_trans that)
  show "wp (pcatch m h) (\<lambda>r w'. step_ok cfg env n w w' \<and> S r w') (\<lambda>_ w'. step_ok cfg env n w w') w"
    by (rule wp_pcatchI, rule wp_mono [OF specD [OF assms(2) w]]) (auto intro: h)
qed

lemma spec_pret [spec_intros]: "(\<And>w. P w \<Longrightarrow> R a w) \<Longrightarrow> spec cfg env n P (pret a) R"
  by (auto simp: spec_def wp_simps intro: step_ok_refl)

lemma spec_praise [spec_intros]: "spec cfg env n P (praise e) R"
  by (auto simp: spec_def wp_simps intro: step_ok_refl)

lemma spec_plift [spec_intros]: "spec cfg env n P (plift r) (\<lambda>a _. r = Inr a)"
  by (auto simp: spec_def wp_simps intro: step_ok_refl split: sum.splits)

lemma spec_if [spec_intros]:
  "(b \<Longrightarrow> spec cfg env n P m R) \<Longrightarrow> (\<not> b \<Longrightarrow> spec cfg env n P m' R) \<Longrightarrow> spec cfg env n P (if b then m else m') R"
  by simp

lemma spec_option [spec_intros]:
  "(x = None \<Longrightarrow> spec cfg env n P m R) \<Longrightarrow> (\<And>a. x = Some a \<Longrightarrow> spec cfg env n P (f a) R) \<Longrightarrow>
   spec cfg env n P (case x of None \<Rightarrow> m | Some a \<Rightarrow> f a) R"
  by (simp split: option.splits)

lemma spec_prod [spec_intros]:
  "(\<And>a b. x = (a, b) \<Longrightarrow> spec cfg env n P (f a b) R) \<Longrightarrow> spec cfg env n P (case x of (a, b) \<Rightarrow> f a b) R"
  by (simp split: prod.splits)

lemma spec_keeps:
  assumes "\<And>u. keeps (step_ok cfg env n u) m"
  shows "spec cfg env n P m (\<lambda>_ _. True)"
  by (rule specI, rule wp_mono [OF keepsD [OF assms step_ok_refl]]) auto

lemma spec_pget [spec_intros]: "spec cfg env n P (pget f) (\<lambda>_ _. True)"
  by (auto simp: spec_def wp_simps intro: step_ok_refl)

lemma spec_pfinally [spec_intros]:
  assumes "stable_fact cfg env n P" "spec cfg env n P m (\<lambda>_ _. True)" "spec cfg env n P c (\<lambda>_ _. True)"
  shows "spec cfg env n P (pfinally m c) (\<lambda>_ _. True)"
proof (rule specI)
  fix w assume w: "gateway_inv cfg env n w" "P w"
  have c: "wp c (\<lambda>_ w''. step_ok cfg env n w w'' \<and> True) (\<lambda>_ w''. step_ok cfg env n w w'') w'"
    if "step_ok cfg env n w w'" for w'
    by (rule wp_mono [OF specD [OF assms(3) step_ok_inv [OF that]]])
      (auto intro: stable_factD [OF assms(1) w(2)] step_ok_trans that)
  show "wp (pfinally m c) (\<lambda>_ w'. step_ok cfg env n w w' \<and> True) (\<lambda>_ w'. step_ok cfg env n w w') w"
    by (simp only: wp_pfinally, rule wp_mono [OF specD [OF assms(2) w]]) (use c in \<open>auto simp: simp_thms\<close>)
qed

lemma spec_pforM [spec_intros]:
  assumes "stable_fact cfg env n P" "\<And>x. x \<in> set xs \<Longrightarrow> spec cfg env n P (f x) (\<lambda>_ _. True)"
  shows "spec cfg env n P (pforM xs f) (\<lambda>_ _. True)"
  using assms(2)
proof (induction xs)
  case (Cons x xs)
  have "spec cfg env n (\<lambda>w. P w \<and> True) (pforM xs f) (\<lambda>_ _. True)"
    using Cons by simp
  with Cons.prems show ?case
    unfolding pforM.simps by (intro spec_pbind assms(1)) auto
qed (simp add: spec_pret)

lemma spec_pmapM:
  assumes "stable_fact cfg env n P" "\<And>x. x \<in> set xs \<Longrightarrow> spec cfg env n P (f x) (R x)"
    and "\<And>x b. stable_fact cfg env n (R x b)"
  shows "spec cfg env n P (pmapM f xs) (\<lambda>bs w. list_all2 (\<lambda>x b. R x b w) xs bs)"
  using assms(1,2)
proof (induction xs arbitrary: P)
  case (Cons x xs)
  have "spec cfg env n (\<lambda>w. P w \<and> R x b w) (pmapM f xs) (\<lambda>bs w. list_all2 (\<lambda>x b. R x b w) xs bs)" for b
    by (rule spec_weaken [OF Cons.IH [OF Cons.prems(1) Cons.prems(2)]]) auto
  then have "spec cfg env n (\<lambda>w. R x b w \<and> (P w \<and> R x b w)) (pmapM f xs)
      (\<lambda>bs w. R x b w \<and> list_all2 (\<lambda>x b. R x b w) xs bs)" for b
    by (rule spec_frame [OF assms(3)])
  then have "spec cfg env n (\<lambda>w. P w \<and> R x b w) (pmapM f xs) (\<lambda>bs w. R x b w \<and> list_all2 (\<lambda>x b. R x b w) xs bs)" for b
    by (rule spec_weaken) auto
  then have "spec cfg env n (\<lambda>w. P w \<and> R x b w) (pbind (pmapM f xs) (\<lambda>bs. pret (b # bs)))
      (\<lambda>bs w. list_all2 (\<lambda>x b. R x b w) (x # xs) bs)" for b
    by (rule spec_pbind [OF stable_basic(2) [OF Cons.prems(1) assms(3)]]) (rule spec_pret, simp)
  moreover have "spec cfg env n P (f x) (R x)" by (rule Cons.prems(2)) simp
  ultimately show ?case
    unfolding pmapM.simps by (rule spec_pbind [OF Cons.prems(1), rotated])
qed (simp add: spec_pret)

text \<open>A quote that was loaded for an identity, on this network, and payable.\<close>

definition loaded :: "gateway_config \<Rightarrow> gw_env \<Rightarrow> gw_log \<Rightarrow> payment_route_identity \<Rightarrow> payable_quote \<Rightarrow> bool" where
  "loaded cfg env h identity quote \<longleftrightarrow> answered (gwe_quote env) h (GwCall (quote_call identity)) quote
     \<and> pyq_network quote = gc_network cfg \<and> (\<exists>t. assertPaymentQuotePayable (pyq_state quote) t = Inr ())"

lemma loaded_extends: "loaded cfg env h i q \<Longrightarrow> extends h h' \<Longrightarrow> loaded cfg env h' i q"
  unfolding loaded_def by (blast intro: answered_extends)

lemma stable_loaded [stable_intros]: "stable_fact cfg' env' n (\<lambda>w. loaded cfg env (snd w) i q)"
  by (rule stable_log) (rule loaded_extends)

section \<open>The hooks\<close>

lemma paid_transaction:
  assumes "attempt_id cfg context = Inr attemptId"
  shows "signed_transaction context \<noteq> [] \<and> attemptId = lib_sha256_hex (gc_lib cfg) (signed_transaction context)"
  using assms by (auto simp: attempt_id_def paymentAttemptId_def signed_transaction_def json_or_def str_or_def split: json.splits if_splits)

locale gateway_run =
  fixes cfg :: gateway_config and env :: gw_env and n :: nat and other :: "gw_world \<Rightarrow> gw_world"
  assumes well: "well_behaved cfg env n other"
begin

lemma spec_await:
  assumes "\<And>w. P w \<Longrightarrow> gw_ok cfg env n (snd w) ev"
    and "\<And>w signature. P w \<Longrightarrow> hands_over ev = Some signature \<Longrightarrow> kept env w signature"
  shows "spec cfg env n P (await ans other ev) (\<lambda>r w. answered ans (snd w) ev r)"
  by (rule specI, rule wp_await [OF well step_ok_refl]) (auto intro: assms)

lemma spec_quiet:
  "quiet_event ev \<Longrightarrow> spec cfg env n P (await ans other ev) (\<lambda>r w. answered ans (snd w) ev r)"
  by (rule spec_await) (auto simp: quiet_event_def)

lemma spec_on_guard: "spec cfg env n P (on_guard m) (\<lambda>_ _. True)"
  by (rule spec_keeps [OF keeps_on_guard])

lemma spec_forget: "spec cfg env n P (forget_attempt a) (\<lambda>_ _. True)"
  by (rule spec_keeps [OF keeps_forget_attempt])

lemma spec_when: "(b \<Longrightarrow> spec cfg env n P m R) \<Longrightarrow> spec cfg env n P (if b then m else pret ()) (\<lambda>_ _. True)"
  by (cases b) (auto intro: spec_weaken spec_pret)

lemma spec_loadQuote:
  assumes "stable_fact cfg env n P"
  shows "spec cfg env n P (loadQuote cfg (logged_gateway env other n queue) identity)
    (\<lambda>quote w. answered (gwe_quote env) (snd w) (GwCall (quote_call identity)) quote \<and> pyq_network quote = gc_network cfg)"
  unfolding loadQuote_def logged_gateway_sel
  by (rule spec_pbind spec_if spec_praise spec_pret assms spec_quiet quiet_events | simp)+

lemma spec_getQuote:
  assumes "stable_fact cfg env n P"
  shows "spec cfg env n P (getQuote cfg (logged_gateway env other n queue) identity)
    (\<lambda>quote w. loaded cfg env (snd w) identity quote)"
  unfolding getQuote_def logged_gateway_sel
  by (rule spec_loadQuote spec_when spec_intros stable_intros assms spec_quiet spec_on_guard quiet_events | (auto simp: loaded_def; fail))+

lemmas hook_rules = spec_pbind spec_if spec_praise spec_plift spec_pget spec_quiet quiet_events spec_on_guard spec_forget
  stable_intros spec_when

lemma spec_claim:
  assumes "stable_fact cfg env n P"
    and "\<And>w. P w \<Longrightarrow> loaded cfg env (snd w) identity quote \<and> tx \<noteq> [] \<and> attemptId = lib_sha256_hex (gc_lib cfg) tx
      \<and> (\<exists>blockhash t1 t2. recentBlockhashFromTransaction (gc_lib cfg) tx = Inr blockhash \<and> hasExactPreparedPaymentSemantics (gc_lib cfg)
            (attempt_evidence identity quote attemptId payer tx blockhash t1 t2) (base64_decode tx))"
  shows "spec cfg env n P (claimPaymentAttempt cfg (logged_gateway env other n queue) attemptId identity quote payer tx)
    (\<lambda>_ w. claimed env (snd w) (pri_kind identity) (pyq_id quote) attemptId)"
proof -
  have "spec cfg env n (\<lambda>w. P w \<and> recentBlockhashFromTransaction (gc_lib cfg) tx = Inr blockhash)
      (await (gwe_unit env) other (GwCall (PostAttempt (pri_kind identity) (pyq_id quote) attemptId payer tx blockhash)))
      (\<lambda>_ w. claimed env (snd w) (pri_kind identity) (pyq_id quote) attemptId)" for blockhash
  proof (rule spec_weaken [OF spec_await])
    fix w assume w: "P w \<and> recentBlockhashFromTransaction (gc_lib cfg) tx = Inr blockhash"
    with assms(2) [of w] show "gw_ok cfg env n (snd w)
        (GwCall (PostAttempt (pri_kind identity) (pyq_id quote) attemptId payer tx blockhash))"
      by (auto simp: claim_justified_def loaded_def)
  qed (auto simp: claimed_def)
  then show ?thesis
    unfolding claimPaymentAttempt_def logged_gateway_sel by (rule spec_pbind [OF assms(1) spec_plift])
qed

lemma spec_remember:
  assumes "\<And>w. P w \<Longrightarrow> claimed env (snd w) (pri_kind identity) (pyq_id quote) attemptId"
  shows "spec cfg env n P (on_tracker (trk_remember attemptId identity quote now)) (\<lambda>_ _. True)"
proof (rule specI)
  fix w assume w: "gateway_inv cfg env n w" "P w"
  obtain r t where t: "trk_remember attemptId identity quote now (gs_tracker (fst w)) = (r, t)" by fastforce
  have "tracker_inv t"
    using w(1) tracker_inv_remember [OF _ t] by (simp add: gateway_inv_def)
  moreover have "claimed env (snd w) (pri_kind (vpa_identity a)) (pyq_id (vpa_quote a)) i"
    if "map_of (trk_byAttempt t) i = Some a" for i a
    using that t w assms [OF w(2)] by (auto simp: trk_remember_def gateway_inv_def split: if_splits)
  ultimately have "step_ok cfg env n w ((fst w)\<lparr> gs_tracker := t \<rparr>, snd w)"
    by (intro step_ok_tracker [OF w(1)]) auto
  then show "wp (on_tracker (trk_remember attemptId identity quote now)) (\<lambda>_ w'. step_ok cfg env n w w' \<and> True)
      (\<lambda>_ w'. step_ok cfg env n w w') w"
    by (auto simp: wp_def on_tracker_def inside_def t split: sum.splits)
qed

lemma spec_release:
  assumes "\<And>w. P w \<Longrightarrow> claimed env (snd w) (pri_kind identity) (pyq_id quote) attemptId"
  shows "spec cfg env n P (releasePaymentAttempt (logged_gateway env other n queue) attemptId identity quote) (\<lambda>_ _. True)"
  unfolding releasePaymentAttempt_def logged_gateway_sel
  by (rule spec_weaken [OF spec_await [where P = P]]) (use assms in auto)

lemma spec_remember_claimed:
  assumes "stable_fact cfg env n P" "\<And>w. P w \<Longrightarrow> claimed env (snd w) (pri_kind identity) (pyq_id quote) attemptId"
  shows "spec cfg env n P (remember_claimed (logged_gateway env other n queue) attemptId identity quote) (\<lambda>_ _. True)"
  unfolding remember_claimed_def logged_gateway_sel
  by (rule spec_pcatch spec_remember spec_release hook_rules assms | (simp add: assms; fail))+

lemma spec_onAfterVerify:
  "spec cfg env n (\<lambda>_. True) (onAfterVerify cfg (logged_gateway env other n queue) context payer) (\<lambda>_ _. True)"
proof -
  have claim: "spec cfg env n (\<lambda>_. True) (claim_verified cfg (logged_gateway env other n queue) context p) (\<lambda>_ _. True)" for p
    unfolding claim_verified_def logged_gateway_sel Let_def
    by (rule spec_getQuote spec_claim spec_remember_claimed hook_rules | (auto dest: paid_transaction; fail))+
  show ?thesis
    unfolding onAfterVerify_def by (rule spec_pcatch claim hook_rules | (simp add: spec_pret; fail))+
qed

lemma spec_tracked:
  "spec cfg env n P (pget (\<lambda>w. trk_forAttempt (gs_tracker (fst w)) attemptId))
     (\<lambda>attempt w. \<forall>a. attempt = Some a \<longrightarrow>
        claimed env (snd w) (pri_kind (vpa_identity a)) (pyq_id (vpa_quote a)) attemptId)"
  by (auto simp: spec_def wp_simps trk_forAttempt_def gateway_inv_def intro: step_ok_refl)

lemma spec_onVerifiedPaymentCanceled:
  "spec cfg env n (\<lambda>_. True) (onVerifiedPaymentCanceled cfg (logged_gateway env other n queue) context) (\<lambda>_ _. True)"
proof -
  have "spec cfg env n (\<lambda>_. True) (releaseVerifiedPaymentAttempt cfg (logged_gateway env other n queue) context) (\<lambda>_ _. True)"
    unfolding releaseVerifiedPaymentAttempt_def
    by (rule spec_tracked spec_option spec_pfinally spec_release hook_rules | (simp add: spec_pret; fail))+
  note released = this
  show ?thesis
    unfolding onVerifiedPaymentCanceled_def by (rule spec_pcatch released hook_rules | (simp add: spec_pret; fail))+
qed

lemma spec_paymentAttemptForSettlement:
  assumes "stable_fact cfg env n P"
  shows "spec cfg env n P (paymentAttemptForSettlement cfg (logged_gateway env other n queue) context attemptId)
    (\<lambda>(identity, quote, durable) w. answered (gwe_attempt env) (snd w) (GwCall (GetAttempt attemptId)) durable
       \<and> ra_attemptId durable = attemptId \<and> ra_settlementKind durable = pri_kind identity \<and> ra_quoteId durable = pyq_id quote)"
proof -
  have quote: "spec cfg env n Q (case local of None \<Rightarrow> loadQuote cfg (logged_gateway env other n queue) identity | Some q \<Rightarrow> pret q)
      (\<lambda>_ _. True)" if "stable_fact cfg env n Q" for Q local identity
    by (cases local) (auto intro: spec_pret spec_weaken [OF spec_loadQuote [OF that]])
  show ?thesis
    unfolding paymentAttemptForSettlement_def logged_gateway_sel
    by (rule quote hook_rules assms | (rule spec_pret, auto; fail))+
qed

lemma spec_settle_attempt:
  "spec cfg env n (\<lambda>_. True) (pbind (plift (attempt_id cfg context)) (\<lambda>attemptId.
       pbind (paymentAttemptForSettlement cfg (logged_gateway env other n queue) context attemptId) (\<lambda>(_, _, evidence). pret evidence)))
     (\<lambda>durable w. \<exists>attemptId. attempt_id cfg context = Inr attemptId
        \<and> answered (gwe_attempt env) (snd w) (GwCall (GetAttempt attemptId)) durable \<and> ra_attemptId durable = attemptId)"
  by (rule spec_paymentAttemptForSettlement hook_rules | (rule spec_prod)+ | (rule spec_pret, auto; fail))+

lemma keeps_verify:
  "rpc \<in> set (map (gateway_rpc env other) [0 ..< n]) \<Longrightarrow>
   keeps (step_ok cfg env n u) (pbind (await (gwe_int env) other GwNow) (\<lambda>now.
     verifyExactFinalizedSettlementSignature lib attempt signature rpc net now))"
  using well by (auto intro!: keeps_intros keeps_verifyExact keeps_gateway_rpc)

lemma stable_settle_attempt:
  "stable_fact cfg env n (\<lambda>w. \<exists>attemptId. attempt_id cfg context = Inr attemptId
        \<and> answered (gwe_attempt env) (snd w) (GwCall (GetAttempt attemptId)) durable \<and> ra_attemptId durable = attemptId)"
  by (rule stable_log) (auto intro: answered_extends)

lemma spec_onBeforeSettle:
  "spec cfg env n (\<lambda>_. True) (onBeforeSettle cfg (logged_gateway env other n queue) context) (\<lambda>_ _. True)"
proof -
  have pay: "spec cfg env n P (await (gwe_settle env) other (GwFacilitator context)) (\<lambda>_ _. True)"
    if "2 \<le> n" "hk_network context = ra_network durable" "hk_payTo context = ra_payTo durable"
      "hk_asset context = ra_asset durable" "hk_amount context = ra_amountAtomic durable"
      "\<And>w. P w \<Longrightarrow> \<exists>attemptId. attempt_id cfg context = Inr attemptId
        \<and> answered (gwe_attempt env) (snd w) (GwCall (GetAttempt attemptId)) durable \<and> ra_attemptId durable = attemptId"
    for durable P
    by (rule spec_weaken [OF spec_await [where P = P]]) (use that(1-5) that(6) in \<open>fastforce simp: settle_justified_def\<close>)+
  show ?thesis
    unfolding onBeforeSettle_def settleWithIndependentFinality_def logged_gateway_sel gate_dependencies.simps requirements_match_def
    by (rule spec_pcatch spec_settle_attempt stable_settle_attempt pay spec_keeps [OF keeps_gate_polls] hook_rules
        | (simp add: spec_pret; fail) | (simp add: keeps_await [OF well] keeps_verify; fail))+
qed

section \<open>Handing a settlement over\<close>

lemma spec_set_pending:
  assumes "\<And>w. P w \<Longrightarrow> provenance cfg env n (snd w) s"
  shows "spec cfg env n P (pmod (set_pending s)) (\<lambda>_ w. kept env w (ds_transactionSignature s))"
  by (rule specI) (use assms step_ok_set_pending in \<open>auto simp: wp_simps\<close>)

lemma spec_drop_pending:
  assumes "\<And>w. P w \<Longrightarrow> acked env (snd w) signature"
  shows "spec cfg env n P (pmod (drop_pending signature)) (\<lambda>_ w. acked env (snd w) signature)"
  by (rule specI) (use assms step_ok_drop_pending in \<open>auto simp: wp_simps drop_pending_def\<close>)

lemma spec_trigger:
  "spec cfg env n P (triggerResearchJob (logged_gateway env other n queue) jobId) (\<lambda>_ _. True)"
proof (rule spec_keeps)
  show "keeps (step_ok cfg env n u) (triggerResearchJob (logged_gateway env other n queue) jobId)" for u
    unfolding triggerResearchJob_def logged_gateway_sel by (intro keeps_intros well) simp
qed

definition handing where
  "handing s = (\<lambda>w :: gw_world. provenance cfg env n (snd w) s \<and> kept env w (ds_transactionSignature s))"

lemma stable_handing: "stable_fact cfg env n (handing s)"
  unfolding handing_def by (intro stable_intros)

lemma spec_recordSettlement:
  assumes "stable_fact cfg env n P" "\<And>w. P w \<Longrightarrow> handing s w"
  shows "spec cfg env n P (recordSettlement (logged_gateway env other n queue) s) (\<lambda>_ w. acked env (snd w) (ds_transactionSignature s))"
proof -
  have post: "spec cfg env n P (await (gwe_unit env) other (GwCall (PostSettlement s)))
      (\<lambda>_ w. acked env (snd w) (ds_transactionSignature s))"
    by (rule spec_weaken [OF spec_await [where P = P]]) (use assms(2) in \<open>auto simp: handing_def acked_def\<close>)
  let ?rest = "pbind (pmod (drop_pending (ds_transactionSignature s)))
      (\<lambda>_. if ds_settlementKind s = ''bundle'' then triggerResearchJob (logged_gateway env other n queue) (ds_quoteId s) else pret ())"
  have "spec cfg env n (\<lambda>w. acked env (snd w) (ds_transactionSignature s)) ?rest (\<lambda>_ _. True)"
    by (rule spec_drop_pending spec_trigger hook_rules | (simp; fail))+
  then have "spec cfg env n (\<lambda>w. P w \<and> acked env (snd w) (ds_transactionSignature s)) ?rest
      (\<lambda>_ w. acked env (snd w) (ds_transactionSignature s))"
    by (rule spec_weaken [OF spec_frame [OF stable_logs(3)]]) simp_all
  then show ?thesis
    unfolding recordSettlement_def logged_gateway_sel by (rule spec_pbind [OF assms(1) post])
qed

lemma spec_try_sink:
  assumes "stable_fact cfg env n P" "spec cfg env n P sink (\<lambda>_ w. acked env (snd w) signature)"
  shows "spec cfg env n P (try_sink sink (pmod (drop_pending signature)) released) (\<lambda>_ _. True)"
proof -
  have "spec cfg env n Q (pmod (if released then id else drop_pending signature)) (\<lambda>_ _. True)"
    if "\<And>w. Q w \<Longrightarrow> acked env (snd w) signature" for Q
  proof (cases released)
    case False
    then show ?thesis using spec_weaken [OF spec_drop_pending [of Q, OF that]] by simp
  qed (auto simp: spec_def wp_simps step_ok_refl)
  note release = this
  show ?thesis
    unfolding try_sink_pmod
    by (rule spec_pcatch release assms spec_pbind stable_intros | (simp add: spec_pret; fail))+
qed

lemma spec_reconcileSettlement:
  "spec cfg env n (handing s) (reconcileSettlement (logged_gateway env other n queue) s) (\<lambda>_ _. True)"
proof -
  have enqueue: "spec cfg env n (handing s) (await (gwe_unit env) other (GwEnqueue s)) (\<lambda>_ w. acked env (snd w) (ds_transactionSignature s))"
    by (rule spec_weaken [OF spec_await [where P = "handing s"]]) (auto simp: handing_def acked_def)
  have sink: "spec cfg env n (handing s) (case map_option (\<lambda>enqueue. enqueue s) (gx_enqueue (logged_gateway env other n queue)) of
        None \<Rightarrow> pret (False, None)
      | Some sink \<Rightarrow> try_sink sink (pmod (drop_pending (ds_transactionSignature s))) False) (\<lambda>_ _. True)"
    unfolding logged_gateway_sel
    by (cases queue) (auto intro: spec_pret spec_try_sink [OF stable_handing enqueue])
  have ledger: "spec cfg env n P (try_sink (recordSettlement (logged_gateway env other n queue) s)
      (pmod (drop_pending (ds_transactionSignature s))) queued) (\<lambda>_ _. True)"
    if "stable_fact cfg env n P" "\<And>w. P w \<Longrightarrow> handing s w" for P queued
    by (rule spec_try_sink spec_recordSettlement that | assumption)+
  have "spec cfg env n (handing s) (persistSettlementDurably
      (map_option (\<lambda>enqueue. enqueue s) (gx_enqueue (logged_gateway env other n queue)))
      (recordSettlement (logged_gateway env other n queue) s) (pmod (drop_pending (ds_transactionSignature s)))) (\<lambda>_ _. True)"
    unfolding persistSettlementDurably_def
    by (rule sink ledger spec_pbind spec_if spec_praise stable_handing stable_intros | rule spec_prod | (simp add: spec_pret; fail))+
  note persist = this
  show ?thesis
    unfolding reconcileSettlement_def by (rule spec_pbind persist stable_handing spec_pret TrueI)+
qed

lemma spec_hand_over:
  assumes "stable_fact cfg env n P" "\<And>w. P w \<Longrightarrow> provenance cfg env n (snd w) s"
  shows "spec cfg env n P (hand_over (logged_gateway env other n queue) s) (\<lambda>_ _. True)"
proof -
  have reconcile: "spec cfg env n (\<lambda>w. P w \<and> kept env w (ds_transactionSignature s))
      (reconcileSettlement (logged_gateway env other n queue) s) (\<lambda>_ _. True)"
    by (rule spec_weaken [OF spec_reconcileSettlement]) (auto simp: handing_def assms(2))
  show ?thesis
    unfolding hand_over_def
    by (rule spec_set_pending reconcile spec_forget spec_pbind assms stable_intros | assumption)+
qed

lemma spec_retry:
  "spec cfg env n (\<lambda>_. True) (retryPendingSettlements (logged_gateway env other n queue)) (\<lambda>_ _. True)"
proof -
  have pending: "spec cfg env n (\<lambda>_. True) (pget (\<lambda>w. map_of (gs_pending (fst w)) signature))
      (\<lambda>found w. \<forall>s. found = Some s \<longrightarrow> handing s w)" for signature
    by (auto simp: spec_def wp_simps handing_def kept_def gateway_inv_def intro: step_ok_refl)
  have reconcile: "spec cfg env n (\<lambda>w. True \<and> (\<forall>s'. Some s = Some s' \<longrightarrow> handing s' w))
      (reconcileSettlement (logged_gateway env other n queue) s) (\<lambda>_ _. True)" for s
    by (rule spec_weaken [OF spec_reconcileSettlement]) auto
  have one: "spec cfg env n (\<lambda>_. True) (retry_settlement (logged_gateway env other n queue) signature) (\<lambda>_ _. True)" for signature
    unfolding retry_settlement_def
    by (rule pending reconcile spec_option spec_pcatch spec_forget spec_pbind stable_handing stable_intros
        | hypsubst | (simp add: spec_pret; fail))+
  show ?thesis
    unfolding retryPendingSettlements_def by (rule spec_pre [OF one] spec_pforM hook_rules)+
qed

lemma spec_settled:
  "spec cfg env n (\<lambda>_. True) (pcatch (pbind (plift (attempt_id cfg context)) (\<lambda>attemptId.
      pbind (paymentAttemptForSettlement cfg (logged_gateway env other n queue) context attemptId) (\<lambda>(identity, quote, _).
        pret (Some (attemptId, identity, quote))))) (\<lambda>_. pret None))
    (\<lambda>attempt w. \<forall>a. attempt = Some a \<longrightarrow>
       settled_attempt env (snd w) (settlement_of context (fst (snd a)) (snd (snd a)) (fst a) result raw))"
  by (rule spec_pcatch spec_paymentAttemptForSettlement hook_rules | rule spec_prod
      | (rule spec_pret, auto simp: settled_attempt_def settlement_of_def; fail))+

lemma stable_settled [stable_intros]: "stable_fact cfg env n (\<lambda>w. settled_attempt env (snd w) s)"
  by (rule stable_log) (rule settled_attempt_extends)

lemma spec_onAfterSettle:
  "spec cfg env n (\<lambda>_. True) (onAfterSettle cfg (logged_gateway env other n queue) context result raw) (\<lambda>_ _. True)"
  unfolding onAfterSettle_def logged_gateway_sel
  by (rule spec_settled [of "context" _ result raw, unfolded logged_gateway_sel] spec_option spec_pcatch spec_hand_over stable_settled hook_rules | rule spec_prod
      | (simp add: spec_pret provenance_def; fail))+

section \<open>The recovery cycle\<close>

lemma spec_ran:
  assumes "\<And>u. keeps (step_ok cfg env n u) (m other)"
  shows "spec cfg env n P (m other) (\<lambda>r w. ran env (snd w) m r)"
proof (rule specI)
  fix w assume w: "gateway_inv cfg env n w"
  have "wp (m other) (\<lambda>_. step_ok cfg env n w) (\<lambda>_. step_ok cfg env n w) w"
    by (rule keepsD [OF assms step_ok_refl [OF w]])
  moreover have "ran env (snd w') m r" if "m other w = (Inr r, w')" for r w'
    unfolding ran_def
    by (intro exI [of _ other] exI [of _ w] exI [of _ w']) (use well that extends_refl in \<open>simp add: well_behaved_def\<close>)
  ultimately show "wp (m other) (\<lambda>r w'. step_ok cfg env n w w' \<and> ran env (snd w') m r) (\<lambda>_ w'. step_ok cfg env n w w') w"
    by (auto simp: wp_def split: prod.splits sum.splits)
qed

lemma rpc_keeps: "keeps (step_ok cfg env n u) (gateway_rpc env other i m ps)"
  by (rule keeps_gateway_rpc [OF well])

lemma stable_ran [stable_intros]: "stable_fact cfg env n (\<lambda>w. ran env (snd w) m r)"
  by (rule stable_log) (rule ran_extends)

lemma spec_exact_views:
  assumes "stable_fact cfg env n P"
  shows "spec cfg env n P (pmapM (exact_view cfg attempt) (gx_rpcs (logged_gateway env other n queue)))
    (\<lambda>scans w. length scans = n \<and> (\<forall>i < n. ran env (snd w) (\<lambda>other. exact_view cfg attempt (gateway_rpc env other i)) (scans ! i)))"
proof -
  have view: "spec cfg env n P (exact_view cfg attempt (gateway_rpc env other i))
      (\<lambda>scan w. ran env (snd w) (\<lambda>other. exact_view cfg attempt (gateway_rpc env other i)) scan)" for i
    by (rule spec_ran [of "\<lambda>other. exact_view cfg attempt (gateway_rpc env other i)"]) (intro keeps_exact_view rpc_keeps)
  show ?thesis
    unfolding logged_gateway_sel pmapM_map
    by (rule spec_weaken [OF spec_pmapM [OF assms view stable_ran]]) (auto simp: list_all2_conv_all_nth)
qed

lemma spec_blockhash_views:
  assumes "stable_fact cfg env n P"
  shows "spec cfg env n P (pmapM (chain_blockhash_view attempt) (gx_rpcs (logged_gateway env other n queue)))
    (\<lambda>views w. length views = n \<and> (\<forall>i < n. \<forall>b. views ! i = Some b \<longrightarrow>
       (\<exists>v. answered (gwe_json env) (snd w) (blockhash_request attempt i) v \<and> prop_of v ''value'' = JBool b)))"
proof -
  let ?R = "\<lambda>i view w. \<forall>b. view = Some b \<longrightarrow>
       (\<exists>v. answered (gwe_json env) (snd w) (blockhash_request attempt i) v \<and> prop_of v ''value'' = JBool b)"
  have stable: "stable_fact cfg env n (?R i view)" for i view
    by (rule stable_log) (blast intro: answered_extends)
  have view: "spec cfg env n P (chain_blockhash_view attempt (gateway_rpc env other i)) (?R i)" for i
    unfolding chain_blockhash_view_def gateway_rpc_def
    by (rule spec_pcatch spec_pbind spec_quiet quiet_events assms
        | (rule spec_pret, auto simp: blockhash_request_def split: json.splits; fail))+
  show ?thesis
    unfolding logged_gateway_sel pmapM_map
    by (rule spec_weaken [OF spec_pmapM [OF assms view stable]]) (auto simp: list_all2_conv_all_nth)
qed

text \<open>The views behind a decision that the payment is absent.\<close>

lemma absence_from_views:
  assumes "exactAbsenceDecision scans views observed \<noteq> Defer" "length scans = n"
    and "\<forall>i < n. ran env h (\<lambda>other. exact_view cfg attempt (gateway_rpc env other i)) (scans ! i)"
    and "\<forall>i < n. \<forall>b. views ! i = Some b \<longrightarrow>
       (\<exists>v. answered (gwe_json env) h (blockhash_request attempt i) v \<and> prop_of v ''value'' = JBool b)"
  shows "absence_evidence cfg env n h attempt"
proof -
  from assms(1,2) have d: "2 \<le> n" "length views = n"
    "\<forall>scan \<in> set scans. \<not> (case scan of ScanSettled _ \<Rightarrow> True | ScanInconclusive \<Rightarrow> True | _ \<Rightarrow> False)"
    "\<forall>view \<in> set views. view \<noteq> None \<and> view \<noteq> Some True"
    by (auto simp: exactAbsenceDecision_def list_ex_iff split: if_splits)
  have "scans ! i \<in> insert ScanAbsent (range ScanFailed)" if "i < n" for i
    using d(3) that assms(2) nth_mem [of i scans] by (cases "scans ! i") force+
  moreover have "views ! i = Some False" if "i < n" for i
    using d(2,4) that nth_mem [of i views] by (cases "views ! i") auto
  ultimately show ?thesis
    unfolding absence_evidence_def using d(1) assms(3,4) by blast
qed

lemma spec_defer: "spec cfg env n P (deferPaymentAttemptReconciliation (logged_gateway env other n queue) attempt False) (\<lambda>_ _. True)"
proof (rule spec_pre)
  show "spec cfg env n (\<lambda>_. True) (deferPaymentAttemptReconciliation (logged_gateway env other n queue) attempt False) (\<lambda>_ _. True)"
    unfolding deferPaymentAttemptReconciliation_def logged_gateway_sel
    by (rule spec_pcatch hook_rules | (rule spec_weaken [OF spec_quiet]; simp) | (simp add: spec_pret spec_praise split: js_error.splits; fail))+
qed

lemma spec_noting:
  "stable_fact cfg env n P \<Longrightarrow> spec cfg env n P m (\<lambda>_ _. True) \<Longrightarrow> spec cfg env n P (noting cycleError m) (\<lambda>_ _. True)"
  unfolding noting_def by (rule spec_pcatch spec_pbind | assumption | (simp add: spec_pret; fail))+

lemma spec_reconcile_absent:
  assumes "stable_fact cfg env n P" "length scans = n"
    and "\<And>w. P w \<Longrightarrow> listed cfg env (snd w) attempt
      \<and> (\<forall>i < n. ran env (snd w) (\<lambda>other. exact_view cfg attempt (gateway_rpc env other i)) (scans ! i))"
  shows "spec cfg env n P (reconcile_absent cfg (logged_gateway env other n queue) attempt scans cycleError) (\<lambda>_ _. True)"
proof -
  define Q where "Q views = (\<lambda>w. P w \<and> length views = n \<and> (\<forall>i < n. \<forall>b. views ! i = Some b \<longrightarrow>
       (\<exists>v. answered (gwe_json env) (snd w) (blockhash_request attempt i) v \<and> prop_of v ''value'' = JBool b)))" for views
  have views: "stable_fact cfg env n (\<lambda>w. length views = n \<and> (\<forall>i < n. \<forall>b. views ! i = Some b \<longrightarrow>
       (\<exists>v. answered (gwe_json env) (snd w) (blockhash_request attempt i) v \<and> prop_of v ''value'' = JBool b)))" for views
    by (rule stable_log) (blast intro: answered_extends)
  have stable: "stable_fact cfg env n (Q views)" for views
    unfolding Q_def by (rule stable_basic(2) [OF assms(1) views])
  have observe: "spec cfg env n (Q views) (deferPaymentAttemptReconciliation (logged_gateway env other n queue) attempt True) (\<lambda>_ _. True)"
    if "exactAbsenceDecision scans views (ra_absenceObservedAt attempt) = Observe" for views
  proof -
    have "spec cfg env n (Q views) (await (gwe_unit env) other
        (GwCall (PostDefer (ra_settlementKind attempt) (ra_quoteId attempt) (ra_attemptId attempt) True))) (\<lambda>_ _. True)"
    proof (rule spec_weaken [OF spec_await [where P = "Q views"]])
      fix w assume "Q views w"
      then have "absence_evidence cfg env n (snd w) attempt" "listed cfg env (snd w) attempt"
        using that assms(2) assms(3) [of w] absence_from_views [of scans views "ra_absenceObservedAt attempt"] by (auto simp: Q_def)
      then show "gw_ok cfg env n (snd w)
          (GwCall (PostDefer (ra_settlementKind attempt) (ra_quoteId attempt) (ra_attemptId attempt) True))" by auto
    qed auto
    note post = this
    show ?thesis
      unfolding deferPaymentAttemptReconciliation_def logged_gateway_sel
      by (rule spec_pcatch post stable | (simp add: spec_pret spec_praise split: js_error.splits; fail))+
  qed
  have release: "spec cfg env n (Q views) (releaseReconciledPaymentAttempt (logged_gateway env other n queue) attempt) (\<lambda>_ _. True)"
    if "exactAbsenceDecision scans views (ra_absenceObservedAt attempt) = Release" for views
    unfolding releaseReconciledPaymentAttempt_def logged_gateway_sel
  proof (rule spec_weaken [OF spec_await [where P = "Q views"]])
    fix w assume "Q views w"
    then have "absence_evidence cfg env n (snd w) attempt" "listed cfg env (snd w) attempt"
      using that assms(2) assms(3) [of w] absence_from_views [of scans views "ra_absenceObservedAt attempt"] by (auto simp: Q_def)
    moreover have "ra_absenceObservedAt attempt \<noteq> None"
      using that by (auto simp: exactAbsenceDecision_def split: if_splits)
    ultimately show "gw_ok cfg env n (snd w)
        (GwCall (PostReconciledRelease (ra_settlementKind attempt) (ra_quoteId attempt) (ra_attemptId attempt)))" by auto
  qed auto
  have "spec cfg env n (Q views) (case exactAbsenceDecision scans views (ra_absenceObservedAt attempt) of
           Defer \<Rightarrow> deferPaymentAttemptReconciliation (logged_gateway env other n queue) attempt False
         | Observe \<Rightarrow> deferPaymentAttemptReconciliation (logged_gateway env other n queue) attempt True
         | Release \<Rightarrow> releaseReconciledPaymentAttempt (logged_gateway env other n queue) attempt) (\<lambda>_ _. True)" for views
    using spec_defer observe release by (simp split: absence_decision.splits)
  then show ?thesis
    unfolding reconcile_absent_def
    by (intro spec_pbind [OF assms(1) spec_blockhash_views [OF assms(1)]] spec_noting stable [unfolded Q_def]) (simp add: Q_def)
qed

lemma spec_reconcile_exact:
  "spec cfg env n (\<lambda>w. listed cfg env (snd w) attempt)
     (reconcile_exact cfg (logged_gateway env other n queue) attempt cycleError) (\<lambda>_ _. True)"
proof -
  let ?P = "\<lambda>scans w. listed cfg env (snd w) attempt \<and> length scans = n
      \<and> (\<forall>i < n. ran env (snd w) (\<lambda>other. exact_view cfg attempt (gateway_rpc env other i)) (scans ! i))"
  have stable: "stable_fact cfg env n (?P scans)" for scans
    by (rule stable_log) (blast intro: listed_extends ran_extends)
  have recover: "spec cfg env n (?P scans) (hand_over (logged_gateway env other n queue) (exact_recovery attempt signature)) (\<lambda>_ _. True)"
    if "exactSettlementSignature scans = Some signature" for scans signature
  proof (rule spec_hand_over [OF stable])
    fix w assume w: "?P scans w"
    from that have "2 \<le> length scans" "\<forall>scan \<in> set scans. scan = ScanSettled signature"
      unfolding gateway_agreement.verdict_iff by blast+
    with w have "2 \<le> n" "\<forall>i < n. scans ! i = ScanSettled signature" by (simp_all add: all_set_conv_all_nth)
    with w have "recovered_exactly cfg env n (snd w) (exact_recovery attempt signature)"
      unfolding recovered_exactly_def by (intro conjI exI [of _ attempt] exI [of _ signature]) auto
    then show "provenance cfg env n (snd w) (exact_recovery attempt signature)" by (simp add: provenance_def)
  qed
  have absent: "spec cfg env n (?P scans) (reconcile_absent cfg (logged_gateway env other n queue) attempt scans cycleError) (\<lambda>_ _. True)" for scans
  proof (cases "length scans = n")
    case True
    show ?thesis by (rule spec_reconcile_absent [OF stable True]) simp
  qed (simp add: spec_def)
  show ?thesis
    unfolding reconcile_exact_def
    by (rule spec_pbind [OF stable_logs(4) spec_exact_views [OF stable_logs(4)]])
      (rule spec_option spec_if spec_noting recover absent stable spec_defer | assumption)+
qed

lemma spec_reconcile_legacy:
  "spec cfg env n (\<lambda>w. listed cfg env (snd w) attempt)
     (reconcile_legacy cfg (logged_gateway env other n queue) attempt cycleError) (\<lambda>_ _. True)"
proof -
  let ?find = "\<lambda>now rpc. findFinalizedChainSettlement (gc_lib cfg) attempt rpc (gc_network cfg) (gc_signaturePages cfg) now"
  let ?R = "\<lambda>now i found w. \<forall>s. found = Some s \<longrightarrow> ran env (snd w) (\<lambda>other. ?find now (gateway_rpc env other i)) (Some s)"
  have view: "spec cfg env n P (pcatch (?find now (gateway_rpc env other i)) (\<lambda>_. pret None)) (?R now i)"
    if "stable_fact cfg env n P" for P now i
  proof (rule spec_pcatch [OF that])
    have "spec cfg env n P (?find now (gateway_rpc env other i))
        (\<lambda>r w. ran env (snd w) (\<lambda>other. ?find now (gateway_rpc env other i)) r)"
      by (rule spec_ran [of "\<lambda>other. ?find now (gateway_rpc env other i)"]) (intro keeps_findFinalized rpc_keeps)
    then show "spec cfg env n P (?find now (gateway_rpc env other i)) (?R now i)" by (rule spec_weaken) auto
  qed (simp add: spec_pret)
  have stable: "stable_fact cfg env n (?R now i found)" for now i found
    by (rule stable_log) (blast intro: ran_extends)
  have unanimous: "spec cfg env n P (findUnanimousFinalizedChainSettlement (gc_lib cfg) attempt
        (gx_rpcs (logged_gateway env other n queue)) (gc_network cfg) (gc_signaturePages cfg) now)
      (\<lambda>found w. \<forall>s. found = Some s \<longrightarrow> recovered_from_history cfg env n (snd w) s)"
    if P: "stable_fact cfg env n P" "\<And>w. P w \<Longrightarrow> listed cfg env (snd w) attempt" for P now
  proof (cases "2 \<le> n")
    case True
    let ?Q = "\<lambda>found w. P w \<and> length found = n \<and> (\<forall>i < n. ?R now i (found ! i) w)"
    have views: "spec cfg env n P (pmapM (\<lambda>rpc. pcatch (?find now rpc) (\<lambda>_. pret None)) (map (gateway_rpc env other) [0 ..< n]))
        (\<lambda>found w. length found = n \<and> (\<forall>i < n. ?R now i (found ! i) w))"
      unfolding pmapM_map by (rule spec_weaken [OF spec_pmapM [OF P(1) view [OF P(1)] stable]]) (auto simp: list_all2_conv_all_nth)
    have verdict: "recovered_from_history cfg env n (snd w) s"
      if w: "?Q found w" and s: "found ! 0 = Some s"
        "\<not> list_ex (\<lambda>x. case x of None \<Rightarrow> True
           | Some other \<Rightarrow> ds_transactionSignature other \<noteq> ds_transactionSignature s \<or> ds_attemptId other \<noteq> ds_attemptId s) found"
      for found w s
    proof -
      have same: "\<exists>t. ran env (snd w) (\<lambda>other. ?find now (gateway_rpc env other i)) (Some t)
          \<and> ds_transactionSignature t = ds_transactionSignature s \<and> ds_attemptId t = ds_attemptId s" if "i < n" for i
      proof -
        have "found ! i \<in> set found" using that w by simp
        with s(2) obtain t where "found ! i = Some t" "ds_transactionSignature t = ds_transactionSignature s" "ds_attemptId t = ds_attemptId s"
          by (fastforce simp: list_ex_iff split: option.splits)
        with w that show ?thesis by blast
      qed
      have "listed cfg env (snd w) attempt" using w P(2) by blast
      with True same show ?thesis
        unfolding recovered_from_history_def by (intro conjI exI [of _ attempt] exI [of _ now] allI impI) blast+
    qed
    show ?thesis
      unfolding findUnanimousFinalizedChainSettlement_def logged_gateway_sel
      by (rule spec_pbind [OF P(1) views] spec_if spec_option | (simp add: True; fail) | (rule spec_pret, simp; fail)
          | (rule spec_pret, use verdict in blast))+
  next
    case False
    then show ?thesis
      by (simp add: findUnanimousFinalizedChainSettlement_def logged_gateway_sel spec_pret)
  qed
  have stable': "stable_fact cfg env n (\<lambda>w. \<forall>s. found = Some s \<longrightarrow> recovered_from_history cfg env n (snd w) s)" for found
    by (rule stable_log) (blast intro: recovered_from_history_extends)
  have now: "spec cfg env n P (gx_now (logged_gateway env other n queue)) (\<lambda>_ _. True)" for P
    unfolding logged_gateway_sel by (rule spec_weaken [OF spec_quiet]) auto
  show ?thesis
    unfolding reconcile_legacy_def
    by (rule spec_pbind [OF stable_logs(4) now] spec_pbind [OF _ unanimous] spec_option spec_noting spec_hand_over spec_defer
        stable_logs(4) stable' stable_basic(1,2) | (simp add: provenance_def; fail))+
qed

lemma spec_reconcile_due:
  "spec cfg env n (\<lambda>w. listed cfg env (snd w) attempt)
     (reconcile_due cfg (logged_gateway env other n queue) attempt cycleError) (\<lambda>_ _. True)"
proof -
  have tried: "spec cfg env n (\<lambda>w. listed cfg env (snd w) attempt)
      (pcatch (if truthy (ra_payer attempt) \<and> truthy (ra_signedTransactionBase64 attempt) \<and> truthy (ra_recentBlockhash attempt)
         then reconcile_exact cfg (logged_gateway env other n queue) attempt cycleError
         else reconcile_legacy cfg (logged_gateway env other n queue) attempt cycleError)
       (\<lambda>e. pret (cycleError, Some e))) (\<lambda>_ _. True)"
    by (rule spec_pcatch spec_if spec_reconcile_exact spec_reconcile_legacy stable_logs(4) | (simp add: spec_pret; fail))+
  have failed: "spec cfg env n P (defer_failed (logged_gateway env other n queue) attempt c e) (\<lambda>_ _. True)" for P c e
  proof (rule spec_pre)
    show "spec cfg env n (\<lambda>_. True) (defer_failed (logged_gateway env other n queue) attempt c e) (\<lambda>_ _. True)"
      unfolding defer_failed_def
      by (rule spec_pcatch spec_pbind spec_defer stable_basic(1) | (simp add: spec_pret; fail))+
  qed
  show ?thesis
    unfolding reconcile_due_def
    by (rule spec_pbind [OF stable_logs(4) tried] spec_option failed | rule spec_prod | (simp add: spec_pret; fail))+
qed

lemma spec_reconcile_all:
  "spec cfg env n (\<lambda>w. \<forall>attempt. attempt \<in> set attempts \<longrightarrow> listed cfg env (snd w) attempt)
     (reconcile_all cfg (logged_gateway env other n queue) attempts cycleError) (\<lambda>_ _. True)"
proof (induction attempts arbitrary: cycleError)
  case (Cons a as)
  have stable: "stable_fact cfg env n (\<lambda>w. \<forall>attempt. attempt \<in> set (a # as) \<longrightarrow> listed cfg env (snd w) attempt)"
    by (intro stable_intros)
  show ?case
    unfolding reconcile_all.simps
    by (rule spec_pbind [OF stable]) (rule spec_weaken [OF spec_reconcile_due] spec_weaken [OF Cons.IH]; simp)+
qed (simp add: spec_pret)

lemma spec_in_gateway:
  assumes "\<And>s. gs_tracker (f s) = gs_tracker s" "\<And>s. gs_pending (f s) = gs_pending s"
  shows "spec cfg env n P (in_gateway f) (\<lambda>_ _. True)"
  by (rule spec_keeps [OF keeps_in_gateway [OF assms]])

lemma spec_recover:
  "spec cfg env n (\<lambda>_. True) (reconcileDueChainAttempts cfg (logged_gateway env other n queue)) (\<lambda>_ _. True)"
proof -
  have due: "spec cfg env n P (gx_due (logged_gateway env other n queue) (GetDueAttempts (gc_batchSize cfg)))
      (\<lambda>attempts w. \<forall>attempt. attempt \<in> set attempts \<longrightarrow> listed cfg env (snd w) attempt)" for P
    unfolding logged_gateway_sel by (rule spec_weaken [OF spec_quiet]) (auto simp: listed_def)
  have all: "spec cfg env n (\<lambda>w. True \<and> (\<forall>attempt. attempt \<in> set attempts \<longrightarrow> listed cfg env (snd w) attempt))
      (reconcile_all cfg (logged_gateway env other n queue) attempts None) (\<lambda>_ _. True)" for attempts
    by (rule spec_weaken [OF spec_reconcile_all]) simp_all
  have int: "spec cfg env n P (await (gwe_int env) other ev) (\<lambda>_ _. True)" if "quiet_event ev" for P ev
    by (rule spec_weaken [OF spec_quiet [OF that]]) auto
  have cycle: "spec cfg env n (\<lambda>_. True) (reconcile_cycle cfg (logged_gateway env other n queue)) (\<lambda>_ _. True)"
    unfolding reconcile_cycle_def logged_gateway_sel(1,2)
    by (rule spec_pcatch spec_pbind due all int quiet_events spec_in_gateway stable_intros | (simp; fail))+
  then have "spec cfg env n P (reconcile_cycle cfg (logged_gateway env other n queue)) (\<lambda>_ _. True)" for P
    by (rule spec_pre)
  note cycle = this
  show ?thesis
    unfolding reconcileDueChainAttempts_def
    by (rule spec_pbind spec_pget spec_if spec_pfinally cycle spec_in_gateway stable_intros | (simp add: spec_pret; fail))+
qed

lemma spec_prune:
  "spec cfg env n (\<lambda>_. True) (prune_gateway (logged_gateway env other n queue)) (\<lambda>_ _. True)"
proof -
  have prune: "spec cfg env n P (on_tracker (pmod (trk_prune now))) (\<lambda>_ _. True)" for P now
  proof (rule specI)
    fix w assume w: "gateway_inv cfg env n w"
    then have "step_ok cfg env n w ((fst w)\<lparr> gs_tracker := trk_prune now (gs_tracker (fst w)) \<rparr>, snd w)"
      by (intro step_ok_tracker) (auto simp: gateway_inv_def map_of_prune tracker_inv_prune split: option.splits if_splits)
    then show "wp (on_tracker (pmod (trk_prune now))) (\<lambda>_ w'. step_ok cfg env n w w' \<and> True) (\<lambda>_ w'. step_ok cfg env n w w') w"
      by (simp add: wp_def on_tracker_def inside_def pmod_def)
  qed
  show ?thesis
    unfolding prune_gateway_def logged_gateway_sel
    by (rule prune hook_rules)+
qed

end

end
