(* ===== verification/Interleaving.thy ===== *)
theory Interleaving
  imports Interfaces
begin

text \<open>
  Handlers that run one at a time and let others run whenever they await an answer. \<open>hook other step\<close>
  is the run of a handler while \<open>other\<close> is what happens at each of its awaits; the runs of a program are
  the closure of its handlers under this.
\<close>

inductive interleaved :: "(('w \<Rightarrow> 'w) \<Rightarrow> 's \<Rightarrow> 'w \<Rightarrow> 'w) \<Rightarrow> ('w \<Rightarrow> 'w) \<Rightarrow> bool"
  for hook where
  idle: "interleaved hook (\<lambda>w. w)"
| handler: "interleaved hook other \<Longrightarrow> interleaved hook (hook other step)"
| seq: "interleaved hook f \<Longrightarrow> interleaved hook g \<Longrightarrow> interleaved hook (\<lambda>w. g (f w))"
| choice: "(\<And>w. interleaved hook (schedule w)) \<Longrightarrow> interleaved hook (\<lambda>w. schedule w w)"

text \<open>What every handler guarantees when the others guarantee it, every run guarantees.\<close>

locale interference =
  fixes ok :: "('w \<Rightarrow> 'w) \<Rightarrow> bool"
    and hook :: "('w \<Rightarrow> 'w) \<Rightarrow> 's \<Rightarrow> 'w \<Rightarrow> 'w"
  assumes ok_idle: "ok (\<lambda>w. w)"
    and ok_hook: "ok other \<Longrightarrow> ok (hook other step)"
    and ok_seq: "ok f \<Longrightarrow> ok g \<Longrightarrow> ok (\<lambda>w. g (f w))"
    and ok_choice: "(\<And>w. ok (schedule w)) \<Longrightarrow> ok (\<lambda>w. schedule w w)"
begin

lemma interleaved_ok: "interleaved hook run \<Longrightarrow> ok run"
  by (induction rule: interleaved.induct) (auto intro: ok_idle ok_hook ok_seq ok_choice)

end

end
