(* ===== verification/Gateway_Properties.thy ===== *)
theory Gateway_Properties
  imports Gateway_Safety Interleaving
begin

text \<open>
  The gateway as a whole: its hooks and timers in any interleaving, and what holds of every run.
  \<open>interleaving\<close> is the closure of the hooks: a hook runs while others run at each of its awaits,
  runs follow one another, and which comes next may depend on anything that happened.
\<close>

section \<open>Interleavings\<close>

datatype gw_step =
    StepVerify hook_context "string option"
  | StepCancel hook_context
  | StepBeforeSettle hook_context
  | StepAfterSettle hook_context settle_response json
  | StepRetry
  | StepRecover
  | StepPrune

fun run_step :: "gateway_config \<Rightarrow> gw_world gateway_services \<Rightarrow> gw_step \<Rightarrow> gw_world \<Rightarrow> gw_world" where
  "run_step cfg d (StepVerify context payer) w = snd (onAfterVerify cfg d context payer w)"
| "run_step cfg d (StepCancel context) w = snd (onVerifiedPaymentCanceled cfg d context w)"
| "run_step cfg d (StepBeforeSettle context) w = snd (onBeforeSettle cfg d context w)"
| "run_step cfg d (StepAfterSettle context result raw) w = snd (onAfterSettle cfg d context result raw w)"
| "run_step cfg d StepRetry w = snd (retryPendingSettlements d w)"
| "run_step cfg d StepRecover w = snd (reconcileDueChainAttempts cfg d w)"
| "run_step cfg d StepPrune w = snd (prune_gateway d w)"

abbreviation interleaving :: "gateway_config \<Rightarrow> gw_env \<Rightarrow> nat \<Rightarrow> bool \<Rightarrow> (gw_world \<Rightarrow> gw_world) \<Rightarrow> bool" where
  "interleaving cfg env n queue \<equiv> interleaved (\<lambda>other. run_step cfg (logged_gateway env other n queue))"

section \<open>Hooks only extend the log\<close>

abbreviation grown :: "gw_log \<Rightarrow> gw_world \<Rightarrow> bool" where
  "grown h w \<equiv> extends h (snd w)"

lemma keeps_grown_pmod: "(\<And>w. snd (f w) = snd w) \<Longrightarrow> keeps (grown h) (pmod f)"
  by (rule keepsI) (simp add: wp_simps)

lemma keeps_grown_inside: "keeps (grown h) (inside m)"
  by (rule keepsI) (auto simp: wp_def inside_def split: prod.splits sum.splits)

lemma keeps_pfinally [keeps_intros]: "keeps J m \<Longrightarrow> keeps J c \<Longrightarrow> keeps J (pfinally m c)"
  by (rule keepsI, simp only: wp_pfinally, rule wp_mono [OF keepsD [of J m]]) (auto dest: keepsD)

locale growing =
  fixes other :: "gw_world \<Rightarrow> gw_world"
  assumes grows: "extends (snd w) (snd (other w))"
begin

lemma keeps_grown_await: "keeps (grown h) (await ans other ev)"
proof (rule keepsI)
  fix w :: gw_world assume "grown h w"
  then have "grown h (other (fst w, snd w @ [ev]))"
    using extends_trans [OF extends_append grows [of "(fst w, snd w @ [ev])", simplified]] by simp
  then show "wp (await ans other ev) (\<lambda>_. grown h) (\<lambda>_. grown h) w"
    by (auto simp: wp_def await_def split: sum.splits)
qed

lemma keeps_grown_rpc: "keeps (grown h) (gateway_rpc env other i m ps)"
  unfolding gateway_rpc_def by (rule keeps_grown_await)

lemma keeps_grown_rpcs: "rpc \<in> set (map (gateway_rpc env other) [0 ..< n]) \<Longrightarrow> keeps (grown h) (rpc m ps)"
  by (auto intro: keeps_grown_rpc)

lemmas grown_rules = keeps_intros keeps_grown_await keeps_grown_rpc keeps_grown_inside keeps_grown_pmod

lemma grown_verify: "keeps (grown h) (onAfterVerify cfg (logged_gateway env other n queue) context payer)"
  unfolding onAfterVerify_def claim_verified_def getQuote_def loadQuote_def claimPaymentAttempt_def remember_claimed_def
    releasePaymentAttempt_def on_tracker_def on_guard_def logged_gateway_sel
  by (intro grown_rules)

lemma grown_cancel: "keeps (grown h) (onVerifiedPaymentCanceled cfg (logged_gateway env other n queue) context)"
  unfolding onVerifiedPaymentCanceled_def releaseVerifiedPaymentAttempt_def releasePaymentAttempt_def forget_attempt_def
    on_tracker_def logged_gateway_sel
  by (intro grown_rules)

lemma grown_attempt: "keeps (grown h) (paymentAttemptForSettlement cfg (logged_gateway env other n queue) context a)"
  unfolding paymentAttemptForSettlement_def loadQuote_def logged_gateway_sel by (intro grown_rules)

lemma grown_before: "keeps (grown h) (onBeforeSettle cfg (logged_gateway env other n queue) context)"
  unfolding onBeforeSettle_def settleWithIndependentFinality_def gate_dependencies.simps logged_gateway_sel
  by (intro grown_rules grown_attempt keeps_gate_polls)
    (auto intro!: grown_rules keeps_verifyExact keeps_grown_rpcs)

lemma grown_sink: "keeps (grown h) sink \<Longrightarrow> keeps (grown h) (try_sink sink (pmod (drop_pending signature)) released)"
  unfolding try_sink_pmod by (intro grown_rules) (auto simp: drop_pending_def)

lemma grown_reconcile: "keeps (grown h) (reconcileSettlement (logged_gateway env other n queue) s)"
proof -
  have "keeps (grown h) (recordSettlement (logged_gateway env other n queue) s)"
    unfolding recordSettlement_def triggerResearchJob_def logged_gateway_sel
    by (intro grown_rules) (simp_all add: drop_pending_def)
  then show ?thesis
    unfolding reconcileSettlement_def persistSettlementDurably_def logged_gateway_sel
    by (cases queue) (auto intro!: grown_rules grown_sink)
qed

lemma grown_forget: "keeps (grown h) (forget_attempt a)"
  unfolding forget_attempt_def on_tracker_def by (rule keeps_grown_inside)

lemma grown_hand_over: "keeps (grown h) (hand_over (logged_gateway env other n queue) s)"
  unfolding hand_over_def by (intro grown_rules grown_reconcile grown_forget) (simp add: set_pending_def)

lemma grown_after: "keeps (grown h) (onAfterSettle cfg (logged_gateway env other n queue) context result raw)"
  unfolding onAfterSettle_def on_guard_def logged_gateway_sel
  by (intro grown_rules grown_attempt grown_hand_over)

lemma grown_retry: "keeps (grown h) (retryPendingSettlements (logged_gateway env other n queue))"
  unfolding retryPendingSettlements_def retry_settlement_def by (intro grown_rules grown_reconcile grown_forget)

lemma grown_defer: "keeps (grown h) (deferPaymentAttemptReconciliation (logged_gateway env other n queue) attempt b)"
  unfolding deferPaymentAttemptReconciliation_def logged_gateway_sel
  by (intro grown_rules) (auto simp: keeps_pret keeps_praise split: js_error.splits)

lemma grown_due: "keeps (grown h) (reconcile_due cfg (logged_gateway env other n queue) attempt c)"
proof -
  have find: "keeps (grown h) (findUnanimousFinalizedChainSettlement lib attempt (map (gateway_rpc env other) [0 ..< n]) net pages now)"
    for lib net pages now
    unfolding findUnanimousFinalizedChainSettlement_def by (intro grown_rules keeps_findFinalized keeps_grown_rpcs)
  have absent: "keeps (grown h) (reconcile_absent cfg (logged_gateway env other n queue) attempt scans c)" for scans
    unfolding reconcile_absent_def noting_def releaseReconciledPaymentAttempt_def
    by (intro grown_rules) (auto split: absence_decision.splits
      intro: grown_defer keeps_blockhash_view [OF keeps_grown_rpc] keeps_grown_await simp: logged_gateway_sel)
  have "keeps (grown h) (reconcile_exact cfg (logged_gateway env other n queue) attempt c)"
    unfolding reconcile_exact_def noting_def
    by (intro grown_rules absent grown_hand_over grown_defer) (auto intro: keeps_exact_view [OF keeps_grown_rpc] simp: logged_gateway_sel)
  moreover have "keeps (grown h) (reconcile_legacy cfg (logged_gateway env other n queue) attempt c)"
    unfolding reconcile_legacy_def noting_def
    by (intro grown_rules grown_hand_over grown_defer) (auto intro: find keeps_grown_await simp: logged_gateway_sel)
  ultimately show ?thesis
    unfolding reconcile_due_def defer_failed_def by (intro grown_rules grown_defer)
qed

lemma grown_recover: "keeps (grown h) (reconcileDueChainAttempts cfg (logged_gateway env other n queue))"
proof -
  have "keeps (grown h) (reconcile_all cfg (logged_gateway env other n queue) attempts c)" for attempts c
    by (induction attempts arbitrary: c) (auto intro!: grown_rules grown_due)
  note all = this
  show ?thesis
    unfolding reconcileDueChainAttempts_def reconcile_cycle_def in_gateway_def logged_gateway_sel
    by (intro grown_rules all) auto
qed

lemma grown_prune: "keeps (grown h) (prune_gateway (logged_gateway env other n queue))"
  unfolding prune_gateway_def on_guard_def on_tracker_def logged_gateway_sel by (intro grown_rules)

lemma run_step_grows: "extends (snd w) (snd (run_step cfg (logged_gateway env other n queue) step w))"
proof -
  have grown: "extends (snd w) (snd (snd (m w)))" if "keeps (grown (snd w)) m" for m :: "(gw_world, 'a) proc"
    using keepsD [OF that, of w] by (auto simp: wp_def split: prod.splits sum.splits)
  show ?thesis
    by (cases step; simp; rule grown)
      (rule grown_verify grown_cancel grown_before grown_after grown_retry grown_recover grown_prune)+
qed

end

section \<open>Every run keeps the invariant\<close>

context gateway_run
begin

lemma run_step_ok:
  assumes "gateway_inv cfg env n w"
  shows "step_ok cfg env n w (run_step cfg (logged_gateway env other n queue) step w)"
proof -
  have ok: "step_ok cfg env n w (snd (m w))" if "spec cfg env n (\<lambda>_. True) m (\<lambda>_ _. True)" for m :: "(gw_world, 'a) proc"
    using specD [OF that assms] by (auto simp: wp_def split: prod.splits sum.splits)
  show ?thesis
    by (cases step; simp only: run_step.simps; rule ok)
      (rule spec_onAfterVerify spec_onVerifiedPaymentCanceled spec_onBeforeSettle spec_onAfterSettle spec_retry spec_recover spec_prune)+
qed

end

interpretation gateway_runs: interference "well_behaved cfg env n" "\<lambda>other. run_step cfg (logged_gateway env other n queue)"
  for cfg env n queue
proof unfold_locales
  show "well_behaved cfg env n (\<lambda>w. w)" by (auto simp: well_behaved_def intro: step_ok_refl)
next
  fix other step assume "well_behaved cfg env n other"
  then have "growing other" "gateway_run cfg env n other" by (simp_all add: growing_def gateway_run_def well_behaved_def)
  then show "well_behaved cfg env n (run_step cfg (logged_gateway env other n queue) step)"
    unfolding well_behaved_def by (intro conjI allI impI growing.run_step_grows gateway_run.run_step_ok)
next
  fix f g assume "well_behaved cfg env n f" "well_behaved cfg env n g"
  then show "well_behaved cfg env n (\<lambda>w. g (f w))"
    unfolding well_behaved_def by (blast intro: extends_trans step_ok_trans dest: step_ok_inv)
next
  fix schedule :: "gw_world \<Rightarrow> gw_world \<Rightarrow> gw_world" assume "\<And>w. well_behaved cfg env n (schedule w)"
  then show "well_behaved cfg env n (\<lambda>w. schedule w w)" unfolding well_behaved_def by blast
qed

lemma gateway_start_inv: "gateway_inv cfg env n (gateway_start, [])"
  by (simp add: gateway_inv_def gateway_start_def tracker_inv_empty handed_def) (simp add: tracker_empty_def)

lemma interleaving_inv:
  assumes "interleaving cfg env n queue run" "run (gateway_start, []) = w"
  shows "gateway_inv cfg env n w"
  using gateway_runs.interleaved_ok [OF assms(1)] gateway_start_inv assms(2)
  unfolding well_behaved_def by (blast dest: step_ok_inv)

lemma interleaving_event:
  assumes "interleaving cfg env n queue run" "run (gateway_start, []) = (s, pre @ ev # post)"
  shows "gw_ok cfg env n pre ev"
  using interleaving_inv [OF assms] by (auto simp: gateway_inv_def dest: log_invD)

text \<open>The locales hold of the hooks themselves: alone, and beside any other hook.\<close>

interpretation alone: growing "\<lambda>w. w"
  by unfold_locales simp

interpretation beside: gateway_run cfg env n "run_step cfg (logged_gateway env (\<lambda>w. w) n queue) step" for cfg env n queue step
  by unfold_locales (rule gateway_runs.interleaved_ok [OF interleaved.handler [OF interleaved.idle]])

section \<open>A concrete gateway\<close>

text \<open>For closed instances of the properties: two RPC origins, a ledger that accepts everything and
  answers with one quote and its attempt, and a facilitator that throws.\<close>

definition demo_quote :: payable_quote where
  "demo_quote = \<lparr> pyq_id = ''q'', pyq_payTo = ''o'', pyq_network = ''net'', pyq_asset = ''mint'', pyq_amountAtomic = ''5'',
     pyq_state = \<lparr> pqs_expiresAt = Num 100, pqs_status = ''quoted'', pqs_requiresPayment = None \<rparr> \<rparr>"

definition demo_config :: gateway_config where
  "demo_config = \<lparr> gc_lib = demo_lib, gc_url_pathname = (\<lambda>_. None), gc_network = ''net'', gc_finalityTimeoutMs = 1000,
     gc_pollIntervalMs = 100, gc_signaturePages = 1, gc_batchSize = 10 \<rparr>"

definition demo_context :: hook_context where
  "demo_context = \<lparr> hk_requestPath = Some ''/api/v1/paid-quotes/q'', hk_resourceUrl = None,
     hk_payload = JObj [(''transaction'', JStr ''tx'')], hk_network = ''net'', hk_payTo = ''o'', hk_asset = ''mint'',
     hk_amount = ''5'' \<rparr>"

definition demo_answers :: gw_env where
  "demo_answers = \<lparr> gwe_int = (\<lambda>_ _. Inr 5), gwe_unit = (\<lambda>_ _. Inr ()), gwe_quote = (\<lambda>_ _. Inr demo_quote),
     gwe_attempt = (\<lambda>_ _. Inr demo_attempt), gwe_due = (\<lambda>_ _. Inr []), gwe_http = (\<lambda>_ _. Inl (Err ''no answer'')),
     gwe_settle = (\<lambda>_ _. Inl (Err ''no answer'')), gwe_json = (\<lambda>_ _. Inl (Err ''no answer'')) \<rparr>"

definition demo_result :: settle_response where
  "demo_result = \<lparr> sr_success = True, sr_transaction = ''sig2'', sr_network = ''net'', sr_payer = Some ''p'',
     sr_amount = None, sr_errorReason = None, sr_errorMessage = None \<rparr>"

abbreviation demo_run :: "gw_step \<Rightarrow> gw_world \<Rightarrow> gw_world" where
  "demo_run \<equiv> run_step demo_config (logged_gateway demo_answers (\<lambda>w. w) 2 False)"

abbreviation demo_attempt_id :: string where
  "demo_attempt_id \<equiv> replicate 64 (CHR ''a'')"

lemma demo_hook: "interleaving demo_config demo_answers 2 False (demo_run step)"
  by (rule interleaved.handler [OF interleaved.idle])

lemma demo_route:
  "paymentIdentityFromPath (\<lambda>_. None) ''/api/v1/paid-quotes/q'' = Inr (DocumentQuote ''q'' (''document_quote'' @ [nul] @ ''q''))"
  by code_simp

lemma demo_identity: "identityFromPaymentHook demo_config demo_context = Inr (DocumentQuote ''q'' (''document_quote'' @ [nul] @ ''q''))"
  using demo_route by (simp add: identityFromPaymentHook_def demo_config_def demo_context_def str_or_def truthy_def)

lemma demo_attemptId: "attempt_id demo_config demo_context = Inr demo_attempt_id"
  by (simp add: attempt_id_def paymentAttemptId_def demo_config_def demo_context_def demo_lib_def)

lemma demo_signed: "signed_transaction demo_context = ''tx''"
  by (simp add: signed_transaction_def demo_context_def str_or_def json_or_def)

lemma demo_blockhash: "recentBlockhashFromTransaction demo_lib tx = Inr ''h''"
  by (simp add: recentBlockhashFromTransaction_def demo_lib_def demo_tx_def truthy_def)

lemma demo_claim:
  "hasExactPreparedPaymentSemantics demo_lib
     (attempt_evidence (DocumentQuote ''q'' key) demo_quote demo_attempt_id ''p'' ''tx'' ''h'' t1 t2) bs"
  by (simp add: lib_messageBytes_def hasExactPreparedPaymentSemantics_def demo_lib_def attempt_evidence_def demo_quote_def prepared_view_def demo_tx_def zero_or_missing_def
    legacy_signature_bytes_def reconciliationIdentity_def demo_memo str_or_def nth_opt_def less_Suc_eq exact_token_ix_def demo_amount
    token_program_def memo_program_def nth_append utf8_decode_char utf8_decode_last)

lemma demo_config_sel [simp]:
  "gc_lib demo_config = demo_lib" "gc_network demo_config = ''net''" "gc_finalityTimeoutMs demo_config = 1000"
  "gc_pollIntervalMs demo_config = 100"
  by (simp_all add: demo_config_def)

lemma demo_quote_sel [simp]: "pyq_id demo_quote = ''q''" "pyq_network demo_quote = ''net''" "pyq_state demo_quote = \<lparr> pqs_expiresAt = Num 100, pqs_status = ''quoted'', pqs_requiresPayment = None \<rparr>"
  by (simp_all add: demo_quote_def)

lemma demo_context_sel [simp]:
  "hk_network demo_context = ''net''" "hk_payTo demo_context = ''o''" "hk_asset demo_context = ''mint''" "hk_amount demo_context = ''5''"
  by (simp_all add: demo_context_def)

lemma demo_answers_sel [simp]:
  "gwe_int demo_answers = (\<lambda>_ _. Inr 5)" "gwe_unit demo_answers = (\<lambda>_ _. Inr ())" "gwe_quote demo_answers = (\<lambda>_ _. Inr demo_quote)"
  "gwe_attempt demo_answers = (\<lambda>_ _. Inr demo_attempt)" "gwe_due demo_answers = (\<lambda>_ _. Inr [])"
  "gwe_settle demo_answers = (\<lambda>_ _. Inl (Err ''no answer''))"
  by (simp_all add: demo_answers_def)

lemma demo_payable:
  "assertPaymentQuotePayable \<lparr> pqs_expiresAt = Num 100, pqs_status = ''quoted'', pqs_requiresPayment = None \<rparr> 5 = Inr ()"
  by code_simp

lemmas demo_simps = demo_payable pbind_def pcatch_def pret_def praise_def plift_def pget_def pmod_def pfinally_def await_def
  logged_gateway_sel inside_def on_tracker_def on_guard_def gateway_start_def tracker_empty_def
  demo_identity demo_attemptId loadQuote_def getQuote_def

lemma demo_verify:
  "demo_run (StepVerify demo_context (Some ''p'')) (gateway_start, []) =
     (gateway_start\<lparr> gs_tracker := snd (trk_remember demo_attempt_id (DocumentQuote ''q'' (''document_quote'' @ [nul] @ ''q''))
         demo_quote 5 tracker_empty) \<rparr>,
      [GwNow, GwCall (GetX402Quote ''q''), GwNow, GwNow, GwNow]
        @ GwCall (PostAttempt ''document'' ''q'' demo_attempt_id ''p'' ''tx'' ''h'') # [GwNow])"
  by (simp add: demo_claim demo_simps onAfterVerify_def claim_verified_def claimPaymentAttempt_def remember_claimed_def
    demo_signed demo_blockhash truthy_def srg_assertNotSettled_def trk_remember_def)

lemma demo_cancel:
  "demo_run (StepCancel demo_context) (demo_run (StepVerify demo_context (Some ''p'')) (gateway_start, [])) =
     (gateway_start,
      [GwNow, GwCall (GetX402Quote ''q''), GwNow, GwNow, GwNow,
       GwCall (PostAttempt ''document'' ''q'' demo_attempt_id ''p'' ''tx'' ''h''), GwNow]
        @ GwCall (PostRelease ''document'' ''q'' demo_attempt_id) # [])"
  unfolding demo_verify
  by (simp add: demo_simps onVerifiedPaymentCanceled_def releaseVerifiedPaymentAttempt_def releasePaymentAttempt_def forget_attempt_def
    trk_remember_def trk_forAttempt_def trk_forget_def)


definition demo_settled :: durable_settlement where
  "demo_settled = settlement_of demo_context (DocumentQuote ''q'' (''document_quote'' @ [nul] @ ''q'')) demo_quote
     demo_attempt_id demo_result (JObj [])"

lemma demo_after:
  "demo_run (StepAfterSettle demo_context demo_result (JObj [])) (gateway_start, []) =
     (gateway_start\<lparr> gs_guard := srg_markSettled (''document_quote'' @ [nul] @ ''q'') (Num 100) 5 [] \<rparr>,
      [GwCall (GetAttempt demo_attempt_id), GwCall (GetX402Quote ''q''), GwNow] @ GwCall (PostSettlement demo_settled) # [])"
  by (simp add: demo_simps onAfterSettle_def hand_over_def reconcileSettlement_def persistSettlementDurably_def try_sink_def
    recordSettlement_def set_pending_def drop_pending_def forget_attempt_def trk_forget_def
    paymentAttemptForSettlement_def trk_forAttempt_def local_quote_def demo_attempt_def demo_result_def demo_settled_def
    settlement_of_def truthy_def)

section \<open>Properties of every run\<close>




text \<open>C2: The gateway claims an attempt in the ledger only for a quote it loaded for some route, which
  is of its network and payable, and only when the signed transaction pays exactly that quote; the
  attempt id is the transaction's digest and the blockhash the transaction's own.\<close>

theorem gateway_claims_exact_payments:
  assumes "interleaving cfg env n queue run"
    and "run (gateway_start, []) = (s, pre @ GwCall (PostAttempt kind quoteId attemptId payer tx blockhash) # post)"
  shows "\<exists>identity quote t t1 t2. answered (gwe_quote env) pre (GwCall (quote_call identity)) quote
    \<and> kind = pri_kind identity \<and> quoteId = pyq_id quote \<and> pyq_network quote = gc_network cfg
    \<and> assertPaymentQuotePayable (pyq_state quote) t = Inr ()
    \<and> attemptId = lib_sha256_hex (gc_lib cfg) tx
    \<and> recentBlockhashFromTransaction (gc_lib cfg) tx = Inr blockhash
    \<and> hasExactPreparedPaymentSemantics (gc_lib cfg)
        (attempt_evidence identity quote attemptId payer tx blockhash t1 t2) (base64_decode tx)"
  using interleaving_event [OF assms] by (auto simp: claim_justified_def)

theorem gateway_claims_exact_payments_witness:
  "\<exists>identity quote t t1 t2.
     answered (gwe_quote demo_answers) [GwNow, GwCall (GetX402Quote ''q''), GwNow, GwNow, GwNow] (GwCall (quote_call identity)) quote
    \<and> ''document'' = pri_kind identity \<and> ''q'' = pyq_id quote \<and> pyq_network quote = gc_network demo_config
    \<and> assertPaymentQuotePayable (pyq_state quote) t = Inr ()
    \<and> demo_attempt_id = lib_sha256_hex (gc_lib demo_config) ''tx''
    \<and> recentBlockhashFromTransaction (gc_lib demo_config) ''tx'' = Inr ''h''
    \<and> hasExactPreparedPaymentSemantics (gc_lib demo_config)
        (attempt_evidence identity quote demo_attempt_id ''p'' ''tx'' ''h'' t1 t2) (base64_decode ''tx'')"
  by (rule gateway_claims_exact_payments [OF demo_hook demo_verify])


text \<open>C3: The gateway releases an attempt in the ledger only after the ledger acknowledged the claim it
  made of that very attempt, and a due attempt only when the ledger listed it with an earlier observation of its
  absence and every one of at least two RPC origins scanned it as absent or failed and reported its
  blockhash expired.\<close>

theorem gateway_releases_on_evidence:
  assumes "interleaving cfg env n queue run" "run (gateway_start, []) = (s, pre @ GwCall call # post)"
  shows "case call of
      PostRelease kind quoteId attemptId \<Rightarrow>
        (\<exists>payer tx blockhash. answered (gwe_unit env) pre (GwCall (PostAttempt kind quoteId attemptId payer tx blockhash)) ())
    | PostReconciledRelease kind quoteId attemptId \<Rightarrow>
        (\<exists>due attempt. answered (gwe_due env) pre (GwCall (GetDueAttempts (gc_batchSize cfg))) due \<and> attempt \<in> set due
           \<and> ra_settlementKind attempt = kind \<and> ra_quoteId attempt = quoteId \<and> ra_attemptId attempt = attemptId
           \<and> ra_absenceObservedAt attempt \<noteq> None \<and> absence_evidence cfg env n pre attempt)
    | _ \<Rightarrow> True"
  using interleaving_event [OF assms] by (cases call) (auto simp: claimed_def listed_def)

theorem gateway_releases_on_evidence_witness:
  "\<exists>payer tx blockhash. answered (gwe_unit demo_answers)
     [GwNow, GwCall (GetX402Quote ''q''), GwNow, GwNow, GwNow,
      GwCall (PostAttempt ''document'' ''q'' demo_attempt_id ''p'' ''tx'' ''h''), GwNow]
     (GwCall (PostAttempt ''document'' ''q'' demo_attempt_id payer tx blockhash)) ()"
  using gateway_releases_on_evidence [OF interleaved.seq [OF demo_hook demo_hook] demo_cancel] by simp


text \<open>C4: Every settlement the gateway hands to the ledger or the queue is one of a durable attempt of
  the same id, kind and quote, or of a listed attempt that every one of at least two origins scanned
  as settled under its signature or found in the recipient's history.\<close>

theorem gateway_records_settlements_with_evidence:
  assumes "interleaving cfg env n queue run" "run (gateway_start, []) = (s, pre @ ev # post)"
    and "ev = GwCall (PostSettlement t) \<or> ev = GwEnqueue t"
  shows "settled_attempt env pre t \<or> recovered_exactly cfg env n pre t \<or> recovered_from_history cfg env n pre t"
  using interleaving_event [OF assms(1,2)] assms(3) by (auto simp: provenance_def)

theorem gateway_records_settlements_with_evidence_witness:
  "settled_attempt demo_answers [GwCall (GetAttempt demo_attempt_id), GwCall (GetX402Quote ''q''), GwNow] demo_settled
   \<or> recovered_exactly demo_config demo_answers 2 [GwCall (GetAttempt demo_attempt_id), GwCall (GetX402Quote ''q''), GwNow] demo_settled
   \<or> recovered_from_history demo_config demo_answers 2 [GwCall (GetAttempt demo_attempt_id), GwCall (GetX402Quote ''q''), GwNow] demo_settled"
  by (rule gateway_records_settlements_with_evidence [OF demo_hook demo_after]) simp





section \<open>Two deliveries of one payment\<close>







end
