(* ===== verification/Top_Up_Safety.thy ===== *)
theory Top_Up_Safety
  imports Gateway_Safety Gateway_Top_Up Interleaving
begin

text \<open>
  What the top-up hooks guarantee in any interleaving: whatever is credited was verified as an exact
  payment of a quote, and a credit is neither lost nor given up without a permanent refusal.
\<close>

section \<open>The log of the top-up\<close>

datatype tu_event =
    TuNow
  | TuMonotonic
  | TuSleep int
  | TuDeposit prepaid_deposit
  | TuFacilitator hook_context
  | TuRpc nat string "json list"

type_synonym tu_log = "tu_event list"
type_synonym tu_world = "top_up_state \<times> tu_log"

record tu_env =
  tue_int :: "tu_log \<Rightarrow> tu_event \<Rightarrow> int outcome"
  tue_unit :: "tu_log \<Rightarrow> tu_event \<Rightarrow> unit outcome"
  tue_settle :: "tu_log \<Rightarrow> tu_event \<Rightarrow> settle_response outcome"
  tue_json :: "tu_log \<Rightarrow> tu_event \<Rightarrow> json outcome"

definition logged_top_up :: "tu_env \<Rightarrow> (tu_world \<Rightarrow> tu_world) \<Rightarrow> nat \<Rightarrow> tu_world top_up_services" where
  "logged_top_up env other n =
     \<lparr> tx_now = await (tue_int env) other TuNow, tx_monotonic = await (tue_int env) other TuMonotonic,
       tx_sleep = (\<lambda>t. await (tue_unit env) other (TuSleep t)),
       tx_deposit = (\<lambda>d. await (tue_unit env) other (TuDeposit d)),
       tx_facilitator = (\<lambda>c. await (tue_settle env) other (TuFacilitator c)),
       tx_rpcs = map (\<lambda>i m ps. await (tue_json env) other (TuRpc i m ps)) [0 ..< n] \<rparr>"

lemma logged_top_up_sel:
  "tx_now (logged_top_up env other n) = await (tue_int env) other TuNow"
  "tx_monotonic (logged_top_up env other n) = await (tue_int env) other TuMonotonic"
  "tx_sleep (logged_top_up env other n) t = await (tue_unit env) other (TuSleep t)"
  "tx_deposit (logged_top_up env other n) d = await (tue_unit env) other (TuDeposit d)"
  "tx_facilitator (logged_top_up env other n) ctx = await (tue_settle env) other (TuFacilitator ctx)"
  "tx_rpcs (logged_top_up env other n) = map (\<lambda>i m ps. await (tue_json env) other (TuRpc i m ps)) [0 ..< n]"
  by (simp_all add: logged_top_up_def)

datatype tu_hook =
    TopUpVerify hook_context "string option"
  | TopUpCancel hook_context
  | TopUpBeforeSettle hook_context
  | TopUpAfterSettle hook_context settle_response
  | TopUpPrepare string string int json int string
  | TopUpRetry
  | TopUpPrune

fun run_top_up :: "gateway_config \<Rightarrow> tu_world top_up_services \<Rightarrow> tu_hook \<Rightarrow> tu_world \<Rightarrow> tu_world" where
  "run_top_up cfg d (TopUpVerify context payer) w = snd (topUpOnAfterVerify cfg d context payer w)"
| "run_top_up cfg d (TopUpCancel context) w = snd (topUpOnVerifiedPaymentCanceled cfg context w)"
| "run_top_up cfg d (TopUpBeforeSettle context) w = snd (topUpOnBeforeSettle cfg d context w)"
| "run_top_up cfg d (TopUpAfterSettle context result) w = snd (topUpOnAfterSettle cfg d context result w)"
| "run_top_up cfg d (TopUpPrepare receiver asset ttl amount now id') w =
     ((fst w)\<lparr> tu_quotes := snd (prepareTopUp cfg receiver asset ttl amount now id' (tu_quotes (fst w))) \<rparr>, snd w)"
| "run_top_up cfg d TopUpRetry w = snd (retryPendingTopUpDeposits d w)"
| "run_top_up cfg d TopUpPrune w = snd (prune_top_up d w)"


section \<open>Invariant and steps\<close>

text \<open>An attempt was verified for a quote; a deposit is one of a verified quote; a deposit of a
  signature was acknowledged, refused for good, or is kept for a retry.\<close>

definition top_up_verified :: "gateway_config \<Rightarrow> string \<Rightarrow> top_up_quote \<Rightarrow> bool" where
  "top_up_verified cfg attemptId quote \<longleftrightarrow>
     (\<exists>payer tx blockhash t t1 t2. attemptId = lib_sha256_hex (gc_lib cfg) tx
        \<and> assertPaymentQuotePayable (top_up_payment_state quote) t = Inr ()
        \<and> recentBlockhashFromTransaction (gc_lib cfg) tx = Inr blockhash
        \<and> hasExactPreparedPaymentSemantics (gc_lib cfg)
            (top_up_evidence quote attemptId payer tx blockhash t1 t2) (base64_decode tx))"

definition deposit_verified :: "gateway_config \<Rightarrow> prepaid_deposit \<Rightarrow> bool" where
  "deposit_verified cfg deposit \<longleftrightarrow>
     (\<exists>attemptId quote settled. top_up_verified cfg attemptId quote
        \<and> topUpDepositFromSettlement quote settled = Inr deposit)"

definition refused :: "tu_env \<Rightarrow> tu_log \<Rightarrow> prepaid_deposit \<Rightarrow> bool" where
  "refused env h deposit \<longleftrightarrow>
     (\<exists>pre post e. h = pre @ TuDeposit deposit # post \<and> tue_unit env pre (TuDeposit deposit) = Inl e \<and> permanent e)"

definition credit_kept :: "tu_env \<Rightarrow> tu_world \<Rightarrow> string \<Rightarrow> bool" where
  "credit_kept env w signature \<longleftrightarrow>
     map_of (tu_pending (fst w)) signature \<noteq> None
     \<or> (\<exists>deposit. pd_transactionSignature deposit = signature
          \<and> (answered (tue_unit env) (snd w) (TuDeposit deposit) () \<or> refused env (snd w) deposit))"

fun tu_ok :: "gateway_config \<Rightarrow> nat \<Rightarrow> tu_log \<Rightarrow> tu_event \<Rightarrow> bool" where
  "tu_ok cfg n h (TuDeposit deposit) \<longleftrightarrow> deposit_verified cfg deposit"
| "tu_ok cfg n h (TuFacilitator context) \<longleftrightarrow> 2 \<le> n
     \<and> (\<exists>attemptId quote. attempt_id cfg context = Inr attemptId \<and> top_up_verified cfg attemptId quote
        \<and> hk_network context = tuq_network quote \<and> hk_payTo context = tuq_payTo quote
        \<and> hk_asset context = tuq_asset quote \<and> hk_amount context = tuq_amountAtomic quote)"
| "tu_ok cfg n h _ \<longleftrightarrow> True"

definition tu_inv :: "gateway_config \<Rightarrow> nat \<Rightarrow> tu_world \<Rightarrow> bool" where
  "tu_inv cfg n w \<longleftrightarrow>
     (\<forall>attemptId a. map_of (trk_byAttempt (tu_tracker (fst w))) attemptId = Some a \<longrightarrow> top_up_verified cfg attemptId (vpa_quote a))
     \<and> tracker_inv (tu_tracker (fst w))
     \<and> (\<forall>signature deposit. map_of (tu_pending (fst w)) signature = Some deposit \<longrightarrow>
          pd_transactionSignature deposit = signature \<and> deposit_verified cfg deposit)
     \<and> log_inv (tu_ok cfg n) (snd w)"

definition tu_step :: "gateway_config \<Rightarrow> tu_env \<Rightarrow> nat \<Rightarrow> tu_world \<Rightarrow> tu_world \<Rightarrow> bool" where
  "tu_step cfg env n w w' \<longleftrightarrow>
     tu_inv cfg n w' \<and> extends (snd w) (snd w') \<and> (\<forall>signature. credit_kept env w signature \<longrightarrow> credit_kept env w' signature)"

definition tu_behaved :: "gateway_config \<Rightarrow> tu_env \<Rightarrow> nat \<Rightarrow> (tu_world \<Rightarrow> tu_world) \<Rightarrow> bool" where
  "tu_behaved cfg env n other \<longleftrightarrow> (\<forall>w. tu_inv cfg n w \<longrightarrow> tu_step cfg env n w (other w))"

lemma tu_step_refl: "tu_inv cfg n w \<Longrightarrow> tu_step cfg env n w w"
  by (simp add: tu_step_def)

lemma tu_step_trans: "tu_step cfg env n u v \<Longrightarrow> tu_step cfg env n v w \<Longrightarrow> tu_step cfg env n u w"
  by (auto simp: tu_step_def intro: extends_trans)

lemma tu_step_inv: "tu_step cfg env n u v \<Longrightarrow> tu_inv cfg n v"
  by (simp add: tu_step_def)

lemma refused_extends: "refused env h deposit \<Longrightarrow> extends h h' \<Longrightarrow> refused env h' deposit"
  by (simp add: refused_def extends_def) (metis append_Cons append_assoc)

lemma refused_last: "tue_unit env h (TuDeposit deposit) = Inl e \<Longrightarrow> permanent e \<Longrightarrow> refused env (h @ [TuDeposit deposit]) deposit"
  by (auto simp: refused_def)

lemma credit_kept_extends:
  "credit_kept env (s, h) signature \<Longrightarrow> extends h h' \<Longrightarrow> credit_kept env (s, h') signature"
  unfolding credit_kept_def by (auto intro: answered_extends refused_extends)

lemma tu_step_event:
  assumes "tu_inv cfg n w" "tu_ok cfg n (snd w) ev"
  shows "tu_step cfg env n w (fst w, snd w @ [ev])"
  using assms by (cases w) (auto simp: tu_step_def tu_inv_def intro: credit_kept_extends)

lemma wp_tu_await:
  assumes "tu_behaved cfg env n other" "tu_step cfg env n w0 w" "tu_ok cfg n (snd w) ev"
    and "\<And>r w'. tu_step cfg env n w0 w' \<Longrightarrow> answered ans (snd w') ev r \<Longrightarrow> Q r w'"
    and "\<And>e w'. tu_step cfg env n w0 w' \<Longrightarrow> ans (snd w) ev = Inl e \<Longrightarrow> extends (snd w @ [ev]) (snd w') \<Longrightarrow> E e w'"
  shows "wp (await ans other ev) Q E w"
proof -
  let ?v = "(fst w, snd w @ [ev])"
  have v: "tu_step cfg env n w ?v" by (rule tu_step_event [OF tu_step_inv [OF assms(2)] assms(3)])
  then have o': "tu_step cfg env n ?v (other ?v)" using assms(1) by (auto simp: tu_behaved_def tu_step_def)
  have w: "tu_step cfg env n w0 (other ?v)" by (rule tu_step_trans [OF tu_step_trans [OF assms(2) v] o'])
  have e: "extends (snd w @ [ev]) (snd (other ?v))" using o' by (simp add: tu_step_def)
  have "answered ans (snd (other ?v)) ev r" if "ans (snd w) ev = Inr r" for r
    using answered_last [of ans "snd w" ev r] that e by (auto intro: answered_extends)
  then show ?thesis using assms(4,5) w e by (auto simp: wp_def await_def split: sum.splits)
qed

lemma keeps_tu_await:
  assumes "tu_behaved cfg env n other" "\<And>h. tu_ok cfg n h ev"
  shows "keeps (tu_step cfg env n w0) (await ans other ev)"
  by (rule keepsI) (rule wp_tu_await [OF assms(1) _ assms(2)])

section \<open>Procedures that keep the steps and return what they established\<close>

definition keeps_ret :: "('w \<Rightarrow> bool) \<Rightarrow> ('w, 'a) proc \<Rightarrow> ('a \<Rightarrow> bool) \<Rightarrow> bool" where
  "keeps_ret J m P \<longleftrightarrow> (\<forall>w. J w \<longrightarrow> wp m (\<lambda>a w'. J w' \<and> P a) (\<lambda>_. J) w)"

named_theorems ret_intros \<open>procedures that keep a predicate and return a fact\<close>

lemma keeps_retI: "(\<And>w. J w \<Longrightarrow> wp m (\<lambda>a w'. J w' \<and> P a) (\<lambda>_. J) w) \<Longrightarrow> keeps_ret J m P"
  by (simp add: keeps_ret_def)

lemma keeps_retD: "keeps_ret J m P \<Longrightarrow> J w \<Longrightarrow> wp m (\<lambda>a w'. J w' \<and> P a) (\<lambda>_. J) w"
  by (simp add: keeps_ret_def)

lemma keeps_of_ret: "keeps_ret J m P \<Longrightarrow> keeps J m"
  by (rule keepsI, rule wp_mono [OF keeps_retD]) auto

lemma ret_of_keeps: "keeps J m \<Longrightarrow> keeps_ret J m (\<lambda>_. True)"
  by (rule keeps_retI, rule wp_mono [OF keepsD]) auto

lemma ret_pbind: "keeps_ret J m P \<Longrightarrow> (\<And>a. P a \<Longrightarrow> keeps_ret J (f a) Q) \<Longrightarrow> keeps_ret J (pbind m f) Q"
  by (rule keeps_retI, rule wp_pbindI, rule wp_mono [OF keeps_retD [of J m P]]) (auto intro: keeps_retD)

lemma keeps_pbind_ret: "keeps_ret J m P \<Longrightarrow> (\<And>a. P a \<Longrightarrow> keeps J (f a)) \<Longrightarrow> keeps J (pbind m f)"
  by (rule keepsI, rule wp_pbindI, rule wp_mono [OF keeps_retD [of J m P]]) (auto intro: keepsD)

lemma ret_pbind_keeps: "keeps J m \<Longrightarrow> (\<And>a. keeps_ret J (f a) Q) \<Longrightarrow> keeps_ret J (pbind m f) Q"
  by (rule ret_pbind [OF ret_of_keeps])

lemma ret_pret: "P a \<Longrightarrow> keeps_ret J (pret a) P"
  by (rule keeps_retI) (simp add: wp_simps)

lemma ret_praise: "keeps_ret J (praise e) P"
  by (rule keeps_retI) (simp add: wp_simps)

lemma ret_plift: "keeps_ret J (plift r) (\<lambda>a. r = Inr a)"
  by (rule keeps_retI) (auto simp: wp_simps split: sum.splits)

lemma ret_pget: "(\<And>w. J w \<Longrightarrow> P (f w)) \<Longrightarrow> keeps_ret J (pget f) P"
  by (rule keeps_retI) (simp add: wp_simps)

lemma ret_option: "(x = None \<Longrightarrow> keeps_ret J m P) \<Longrightarrow> (\<And>a. x = Some a \<Longrightarrow> keeps_ret J (f a) P) \<Longrightarrow>
  keeps_ret J (case x of None \<Rightarrow> m | Some a \<Rightarrow> f a) P"
  by (simp split: option.splits)

lemma ret_if: "(b \<Longrightarrow> keeps_ret J m P) \<Longrightarrow> (\<not> b \<Longrightarrow> keeps_ret J m' P) \<Longrightarrow> keeps_ret J (if b then m else m') P"
  by simp

section \<open>The hooks\<close>

lemma tu_step_same:
  assumes "tu_inv cfg n w" "tu_tracker s = tu_tracker (fst w)" "tu_pending s = tu_pending (fst w)"
  shows "tu_step cfg env n w (s, snd w)"
  using assms by (auto simp: tu_step_def tu_inv_def credit_kept_def)

lemma tu_step_tracker:
  assumes "tu_inv cfg n w" "tracker_inv (tu_tracker s)" "tu_pending s = tu_pending (fst w)"
    and "\<And>attemptId a. map_of (trk_byAttempt (tu_tracker s)) attemptId = Some a \<Longrightarrow> top_up_verified cfg attemptId (vpa_quote a)"
  shows "tu_step cfg env n w (s, snd w)"
  using assms by (auto simp: tu_step_def tu_inv_def credit_kept_def)

lemma keeps_in_top_up:
  assumes "\<And>w. tu_inv cfg n w \<Longrightarrow> tu_step cfg env n w (f (fst w), snd w)"
  shows "keeps (tu_step cfg env n w0) (in_top_up f)"
  by (rule keepsI) (auto simp: in_top_up_def wp_simps intro: tu_step_trans assms tu_step_inv)

lemma keeps_top_up_guard [keeps_intros]: "keeps (tu_step cfg env n w0) (top_up_guard m)"
proof (rule keepsI)
  fix w assume w: "tu_step cfg env n w0 w"
  have "tu_step cfg env n w0 ((fst w)\<lparr> tu_guard := g \<rparr>, snd w)" for g
    by (rule tu_step_trans [OF w tu_step_same [OF tu_step_inv [OF w]]]) auto
  then show "wp (top_up_guard m) (\<lambda>_. tu_step cfg env n w0) (\<lambda>_. tu_step cfg env n w0) w"
    by (auto simp: wp_def top_up_guard_def inside_def split: prod.splits sum.splits)
qed

lemma keeps_remember:
  assumes "top_up_verified cfg attemptId quote"
  shows "keeps (tu_step cfg env n w0) (top_up_tracker (trk_remember attemptId identity quote now))"
proof (rule keepsI)
  fix w assume w: "tu_step cfg env n w0 w"
  let ?t = "snd (trk_remember attemptId identity quote now (tu_tracker (fst w)))"
  have "tracker_inv ?t"
    using tu_step_inv [OF w] by (auto simp: tu_inv_def intro: tracker_inv_remember prod.collapse [symmetric])
  moreover have "top_up_verified cfg a (vpa_quote v)" if "map_of (trk_byAttempt ?t) a = Some v" for a v
    using that assms tu_step_inv [OF w]
    by (auto simp: tu_inv_def trk_remember_def simp del: map_of_eq_Some_iff split: if_splits)
  ultimately have "tu_step cfg env n w ((fst w)\<lparr> tu_tracker := ?t \<rparr>, snd w)"
    by (intro tu_step_tracker [OF tu_step_inv [OF w]]) auto
  then have "tu_step cfg env n w0 ((fst w)\<lparr> tu_tracker := ?t \<rparr>, snd w)" by (rule tu_step_trans [OF w])
  then show "wp (top_up_tracker (trk_remember attemptId identity quote now)) (\<lambda>_. tu_step cfg env n w0) (\<lambda>_. tu_step cfg env n w0) w"
    by (auto simp: wp_def top_up_tracker_def inside_def split: prod.splits sum.splits)
qed

lemma keeps_forget_top_up [keeps_intros]: "keeps (tu_step cfg env n w0) (forget_top_up attemptId)"
  unfolding forget_top_up_def
  by (rule keeps_in_top_up, rule tu_step_tracker)
    (auto simp: tu_inv_def tracker_inv_forget map_of_forget simp del: map_of_eq_Some_iff split: if_splits)

lemma keeps_prune_tracker: "keeps (tu_step cfg env n w0) (top_up_tracker (pmod (trk_prune now)))"
proof (rule keepsI)
  fix w assume w: "tu_step cfg env n w0 w"
  have "tu_step cfg env n w ((fst w)\<lparr> tu_tracker := trk_prune now (tu_tracker (fst w)) \<rparr>, snd w)"
    using tu_step_inv [OF w] by (intro tu_step_tracker)
      (auto simp: tu_inv_def tracker_inv_prune map_of_prune simp del: map_of_eq_Some_iff split: option.splits if_splits)
  from tu_step_trans [OF w this] show
    "wp (top_up_tracker (pmod (trk_prune now))) (\<lambda>_. tu_step cfg env n w0) (\<lambda>_. tu_step cfg env n w0) w"
    by (simp add: wp_def top_up_tracker_def inside_def pmod_def)
qed

text \<open>A copy in memory is dropped when its deposit was acknowledged or refused for good.\<close>

lemma tu_step_drop:
  assumes "tu_inv cfg n w" "pd_transactionSignature deposit = signature"
    and "answered (tue_unit env) (snd w) (TuDeposit deposit) () \<or> refused env (snd w) deposit"
  shows "tu_step cfg env n w ((fst w)\<lparr> tu_pending := AList.delete signature (tu_pending (fst w)) \<rparr>, snd w)"
  using assms by (auto simp: tu_step_def tu_inv_def credit_kept_def)

lemma tu_step_keep:
  assumes "tu_inv cfg n w" "deposit_verified cfg deposit"
  shows "tu_step cfg env n w ((fst w)\<lparr> tu_pending := AList.update (pd_transactionSignature deposit) deposit (tu_pending (fst w)) \<rparr>, snd w)"
  using assms by (auto simp: tu_step_def tu_inv_def credit_kept_def)

lemma pbind_plift_Inr: "pbind (plift (Inr x)) f = f x"
  by (rule ext) (simp add: pbind_def plift_def)

locale top_up_run =
  fixes cfg :: gateway_config and env :: tu_env and n :: nat and other :: "tu_world \<Rightarrow> tu_world"
  assumes behaved: "tu_behaved cfg env n other"
begin

abbreviation J :: "tu_world \<Rightarrow> tu_world \<Rightarrow> bool" where
  "J \<equiv> tu_step cfg env n"

abbreviation services :: "tu_world top_up_services" where
  "services \<equiv> logged_top_up env other n"

lemma keeps_quiet [keeps_intros]:
  "keeps (J w0) (await ans other TuNow)" "keeps (J w0) (await ans other TuMonotonic)"
  "keeps (J w0) (await ans other (TuSleep t))" "keeps (J w0) (await ans other (TuRpc i m ps))"
  by (rule keeps_tu_await [OF behaved]; simp)+

lemma wp_credit:
  assumes "J w0 w" "deposit_verified cfg deposit"
  shows "wp (creditPrepaidTopUp services deposit)
    (\<lambda>_ w'. J w0 w' \<and> credit_kept env w' (pd_transactionSignature deposit))
    (\<lambda>_ w'. J w0 w' \<and> credit_kept env w' (pd_transactionSignature deposit)) w"
proof -
  have refused: "refused env (snd w') deposit"
    if "tue_unit env (snd w) (TuDeposit deposit) = Inl e" "permanent e" "extends (snd w @ [TuDeposit deposit]) (snd w')" for e w'
    using refused_extends [OF refused_last [OF that(1,2)] that(3)] .
  show ?thesis
    unfolding creditPrepaidTopUp_def drop_deposit_def keep_deposit_def in_top_up_def logged_top_up_sel
    by (intro wp_intros wp_tu_await [OF behaved assms(1)])
      (auto simp: wp_simps assms(2) credit_kept_def
        intro: tu_step_trans tu_step_drop tu_step_keep tu_step_inv assms(2) dest: refused)
qed

lemma keeps_retry: "keeps (J w0) (retry_deposit services signature)"
proof (rule keepsI)
  fix w assume w: "J w0 w"
  have refused: "refused env (snd w') deposit"
    if "tue_unit env (snd w) (TuDeposit deposit) = Inl e" "permanent e" "extends (snd w @ [TuDeposit deposit]) (snd w')" for e w' deposit
    using refused_extends [OF refused_last [OF that(1,2)] that(3)] .
  have known: "pd_transactionSignature deposit = signature" "deposit_verified cfg deposit"
    if "map_of (tu_pending (fst w)) signature = Some deposit" for deposit
    using that tu_step_inv [OF w] by (auto simp: tu_inv_def)
  have drop: "J w0 (s\<lparr> tu_pending := AList.delete signature (tu_pending s) \<rparr>, h)"
    if "J w0 (s, h)" "map_of (tu_pending (fst w)) signature = Some deposit"
      "answered (tue_unit env) h (TuDeposit deposit) () \<or> refused env h deposit" for s h deposit
    using tu_step_trans [OF that(1) tu_step_drop [OF tu_step_inv [OF that(1)] known(1) [OF that(2)]]] that(3) by simp
  have refused': "refused env h deposit"
    if "tue_unit env (snd w) (TuDeposit deposit) = Inl e" "permanent e" "extends (snd w @ [TuDeposit deposit]) h" for e h deposit
    using refused [of deposit e "(s, h)"] that by simp
  show "wp (retry_deposit services signature) (\<lambda>_. J w0) (\<lambda>_. J w0) w"
    unfolding retry_deposit_def drop_deposit_def in_top_up_def logged_top_up_sel
    by (simp only: wp_pbind wp_pget, intro wp_intros wp_tu_await [OF behaved w])
      (auto simp: wp_simps known simp del: map_of_eq_Some_iff intro: w drop refused')
qed

lemma keeps_retry_all: "keeps (J w0) (retryPendingTopUpDeposits services)"
  unfolding retryPendingTopUpDeposits_def by (intro keeps_intros keeps_retry)

lemma ret_quote:
  "keeps_ret (J w0) (getTopUpQuoteForIdentity services identity)
     (\<lambda>quote. \<exists>t. assertPaymentQuotePayable (top_up_payment_state quote) t = Inr ())"
  unfolding getTopUpQuoteForIdentity_def logged_top_up_sel
  by (rule ret_pbind [OF ret_plift] ret_pbind_keeps ret_option ret_praise keeps_intros | (rule ret_pret; auto))+

lemma keeps_verify: "keeps (J w0) (topUpOnAfterVerify cfg services context payer)"
proof -
  have remember: "keeps (J w0) (remember_top_up services attemptId identity quote p)"
    if "top_up_verified cfg attemptId quote" for attemptId identity quote p
    unfolding remember_top_up_def logged_top_up_sel
    by (intro keeps_intros keeps_remember that keeps_in_top_up tu_step_same) auto
  have "keeps (J w0) (verify_top_up cfg services context p)" for p
    unfolding verify_top_up_def Let_def logged_top_up_sel
  proof (rule keeps_pbind_ret [OF ret_plift])
    fix attemptId assume "attempt_id cfg context = Inr attemptId"
    note id' = paid_transaction [OF this]
    have verified: "top_up_verified cfg attemptId quote"
      if "\<exists>t. assertPaymentQuotePayable (top_up_payment_state quote) t = Inr ()"
        "recentBlockhashFromTransaction (gc_lib cfg) (signed_transaction context) = Inr blockhash"
        "\<not> \<not> hasExactPreparedPaymentSemantics (gc_lib cfg)
           (top_up_evidence quote attemptId p (signed_transaction context) blockhash reconcileAfter createdAt)
           (base64_decode (signed_transaction context))" for quote blockhash reconcileAfter createdAt
      using that id' unfolding top_up_verified_def by blast
    show "keeps (J w0) (pbind (plift (topUpIdentityFromPaymentHook cfg context)) (\<lambda>identity.
      pbind (getTopUpQuoteForIdentity services identity) (\<lambda>quote.
      pbind (await (tue_int env) other TuNow) (\<lambda>reconcileAfter.
      pbind (await (tue_int env) other TuNow) (\<lambda>createdAt.
      pbind (plift (recentBlockhashFromTransaction (gc_lib cfg) (signed_transaction context))) (\<lambda>blockhash.
        if \<not> hasExactPreparedPaymentSemantics (gc_lib cfg)
            (top_up_evidence quote attemptId p (signed_transaction context) blockhash reconcileAfter createdAt)
            (base64_decode (signed_transaction context))
        then praise (PaymentQuoteErr 409 ''payment_not_payable'')
        else remember_top_up services attemptId identity quote p))))))"
      by (rule keeps_pbind_ret [OF ret_quote] keeps_pbind_ret [OF ret_plift] keeps_intros remember verified | assumption)+
  qed
  then show ?thesis unfolding topUpOnAfterVerify_def by (intro keeps_intros)
qed

lemma ret_load:
  "keeps_ret (J w0) (load_top_up cfg services context)
     (\<lambda>attempt. \<exists>attemptId quote payer tx blockhash t1 t2. attempt_id cfg context = Inr attemptId
        \<and> top_up_verified cfg attemptId quote \<and> attempt = top_up_evidence quote attemptId payer tx blockhash t1 t2)"
proof -
  have known: "keeps_ret (J w0) (pget (\<lambda>w. (trk_forAttempt (tu_tracker (fst w)) attemptId, map_of (tu_payers (fst w)) attemptId)))
      (\<lambda>(remembered, payer). \<forall>a. remembered = Some a \<longrightarrow> top_up_verified cfg attemptId (vpa_quote a))" for attemptId
    by (rule ret_pget) (auto simp: trk_forAttempt_def tu_inv_def dest!: tu_step_inv)
  have rest: "keeps_ret (J w0) (pbind (plift (recentBlockhashFromTransaction (gc_lib cfg) tx)) (\<lambda>blockhash.
      pret (top_up_evidence quote attemptId payer tx blockhash t1 t2)))
     (\<lambda>attempt. \<exists>attemptId quote payer tx blockhash t1 t2. attempt_id cfg context = Inr attemptId
        \<and> top_up_verified cfg attemptId quote \<and> attempt = top_up_evidence quote attemptId payer tx blockhash t1 t2)"
    if "attempt_id cfg context = Inr attemptId" "top_up_verified cfg attemptId quote" for attemptId quote payer tx t1 t2
    using that by (intro ret_pbind [OF ret_plift] ret_pret) blast
  show ?thesis
    unfolding load_top_up_def logged_top_up_sel
  proof (rule ret_pbind [OF ret_plift], rule ret_pbind [OF known], clarify)
    fix attemptId remembered payer
    assume a: "attempt_id cfg context = Inr attemptId" "\<forall>a. remembered = Some a \<longrightarrow> top_up_verified cfg attemptId (vpa_quote a)"
    then have "top_up_verified cfg attemptId (vpa_quote (the remembered))" if "\<not> (remembered = None \<or> \<not> truthy payer)"
      using that by auto
    note rest = rest [OF a(1) this]
    show "keeps_ret (J w0)
      (if remembered = None \<or> \<not> truthy payer then praise (Err ''verified top-up attempt is unavailable'')
       else pbind (await (tue_int env) other TuNow) (\<lambda>reconcileAfter. pbind (await (tue_int env) other TuNow) (\<lambda>createdAt.
         pbind (plift (recentBlockhashFromTransaction (gc_lib cfg) (signed_transaction context))) (\<lambda>blockhash.
           pret (top_up_evidence (vpa_quote (the remembered)) attemptId (the payer) (signed_transaction context)
             blockhash reconcileAfter createdAt)))))
      (\<lambda>attempt. \<exists>attemptId quote payer tx blockhash t1 t2. attempt_id cfg context = Inr attemptId
        \<and> top_up_verified cfg attemptId quote \<and> attempt = top_up_evidence quote attemptId payer tx blockhash t1 t2)"
      by (rule rest ret_if ret_praise ret_pbind_keeps keeps_intros | assumption)+
  qed
qed

lemma keeps_before: "keeps (J w0) (topUpOnBeforeSettle cfg services context)"
proof -
  have settle: "keeps (J w0) (await (tue_settle env) other (TuFacilitator context))"
    if "\<exists>attemptId quote payer tx blockhash t1 t2. attempt_id cfg context = Inr attemptId
          \<and> top_up_verified cfg attemptId quote \<and> attempt = top_up_evidence quote attemptId payer tx blockhash t1 t2"
      "2 \<le> n" "hk_network context = ra_network attempt" "hk_payTo context = ra_payTo attempt"
      "hk_asset context = ra_asset attempt" "hk_amount context = ra_amountAtomic attempt" for attempt
    by (rule keeps_tu_await [OF behaved]) (use that in \<open>auto simp: top_up_evidence_def\<close>)
  show ?thesis
    unfolding topUpOnBeforeSettle_def settleWithIndependentFinality_def requirements_match_def gate_dependencies.simps
      logged_top_up_sel
    by (rule keeps_pcatch keeps_pbind_ret [OF ret_load] keeps_if keeps_pret keeps_pbind keeps_gate_polls settle
      | (auto intro!: keeps_intros keeps_verifyExact; fail))+
qed

lemma keeps_cancel: "keeps (J w0) (topUpOnVerifiedPaymentCanceled cfg context)"
  unfolding topUpOnVerifiedPaymentCanceled_def by (intro keeps_intros)

lemma keeps_prune: "keeps (J w0) (prune_top_up services)"
  unfolding prune_top_up_def logged_top_up_sel
  by (intro keeps_intros keeps_prune_tracker keeps_in_top_up tu_step_same) auto

text \<open>The end of the hook: the attempt, its payer and the quote are forgotten, no copy in memory is.\<close>

definition settled_up :: "string \<Rightarrow> string \<Rightarrow> (tu_world, unit) proc" where
  "settled_up attemptId quoteId =
     pbind (forget_top_up attemptId) (\<lambda>_. in_top_up (\<lambda>s. s\<lparr> tu_quotes := tus_delete quoteId (tu_quotes s) \<rparr>))"

lemma keeps_settled_up: "keeps (J w0) (settled_up attemptId quoteId)"
  unfolding settled_up_def by (intro keeps_intros keeps_in_top_up tu_step_same) auto

lemma wp_settled_up:
  assumes "J w0 w" "credit_kept env w signature"
  shows "wp (settled_up attemptId quoteId) (\<lambda>_ w'. J w0 w' \<and> credit_kept env w' signature) (\<lambda>_ _. False) w"
proof -
  have "wp (settled_up attemptId quoteId) (\<lambda>_. J w) (\<lambda>_ _. False) w"
    using keepsD [OF keeps_settled_up tu_step_refl [OF tu_step_inv [OF assms(1)]]]
    by (auto simp: settled_up_def forget_top_up_def in_top_up_def wp_simps)
  then show ?thesis
    by (rule wp_mono) (use assms in \<open>auto simp: tu_step_def intro: extends_trans\<close>)
qed

lemma wp_top_up_now:
  assumes "J w0 w" "\<And>h. succeeds (tue_int env h TuNow)" "\<And>t w'. J w0 w' \<Longrightarrow> Q t w'"
  shows "wp (await (tue_int env) other TuNow) Q E w"
  by (rule wp_tu_await [OF behaved assms(1)]) (use assms(2) [of "snd w"] assms(3) in auto)

lemma wp_guarded:
  assumes "J w0 w" "\<And>w'. J w0 w' \<Longrightarrow> Q () w'"
  shows "wp (top_up_guard (pmod f)) Q E w"
  using keepsD [OF keeps_top_up_guard assms(1), of "pmod f"] assms(2)
  by (auto simp: wp_def top_up_guard_def inside_def pmod_def split: prod.splits)

lemma wp_after_settle:
  assumes "J w0 w" "\<And>h. succeeds (tue_int env h TuNow)"
    and "sr_success result" "truthy (sr_payer result)" "attempt_id cfg context = Inr attemptId"
    and a: "trk_forAttempt (tu_tracker (fst w)) attemptId = Some a" "is_top_up (vpa_identity a)"
    and d: "topUpDepositFromSettlement (vpa_quote a) (top_up_result result) = Inr deposit"
  shows "wp (topUpOnAfterSettle cfg services context result)
    (\<lambda>_ w'. J w0 w' \<and> credit_kept env w' (pd_transactionSignature deposit)) (\<lambda>_ _. False) w"
proof -
  have "top_up_verified cfg attemptId (vpa_quote a)"
    using a(1) tu_step_inv [OF assms(1)] by (auto simp: trk_forAttempt_def tu_inv_def)
  with d have "deposit_verified cfg deposit" by (auto simp: deposit_verified_def)
  note credit = wp_credit [OF _ this]
  let ?rest = "pbind (await (tue_int env) other TuNow) (\<lambda>now.
    pbind (top_up_guard (pmod (srg_markSettled (pri_key (vpa_identity a)) (Num (tuq_expiresAt (vpa_quote a))) now))) (\<lambda>_.
    pbind (pcatch (creditPrepaidTopUp services deposit) (\<lambda>_. pret ())) (\<lambda>_. settled_up attemptId (tuq_id (vpa_quote a)))))"
  have "topUpOnAfterSettle cfg services context result w = ?rest w"
    using assms(3-5) a d by (simp add: pbind_plift_Inr topUpOnAfterSettle_def logged_top_up_sel settled_up_def pbind_def plift_def pget_def)
  moreover have "wp ?rest (\<lambda>_ w'. J w0 w' \<and> credit_kept env w' (pd_transactionSignature deposit)) (\<lambda>_ _. False) w"
    by (intro wp_pbindI wp_pcatchI wp_top_up_now [OF assms(1,2)] wp_guarded wp_mono [OF credit])
      (auto simp: wp_simps intro: wp_settled_up)
  ultimately show ?thesis by (simp add: wp_def)
qed

lemma keeps_after: "keeps (J w0) (topUpOnAfterSettle cfg services context result)"
proof -
  have attempt: "keeps_ret (J w0) (pget (\<lambda>w. trk_forAttempt (tu_tracker (fst w)) attemptId))
      (\<lambda>attempt. \<forall>a. attempt = Some a \<longrightarrow> top_up_verified cfg attemptId (vpa_quote a))" for attemptId
    by (rule ret_pget) (auto simp: trk_forAttempt_def tu_inv_def dest!: tu_step_inv)
  have credit: "keeps (J w0) (pbind (plift (topUpDepositFromSettlement quote settled)) (\<lambda>deposit. creditPrepaidTopUp services deposit))"
    if "top_up_verified cfg attemptId quote" for attemptId quote settled
    by (rule keeps_pbind_ret [OF ret_plift], rule keepsI, rule wp_mono [OF wp_credit])
      (use that in \<open>auto simp: deposit_verified_def\<close>)
  show ?thesis
    unfolding topUpOnAfterSettle_def logged_top_up_sel
    by (intro keeps_if keeps_pret keeps_pbind_ret [OF attempt] keeps_pbind [OF keeps_plift])
      (auto split: option.splits intro!: keeps_intros keeps_in_top_up tu_step_same credit)
qed

lemma run_top_up_behaved: "tu_behaved cfg env n (run_top_up cfg services step)"
  unfolding tu_behaved_def
proof (intro allI impI)
  fix w assume w: "tu_inv cfg n w"
  have kept: "J w (snd (m w))" if "keeps (J w) m" for m :: "(tu_world, 'a) proc"
    using keepsD [OF that tu_step_refl [OF w]] by (auto simp: wp_def split: prod.splits sum.splits)
  show "J w (run_top_up cfg services step w)"
    by (cases step; simp only: run_top_up.simps)
      (rule kept, rule keeps_verify keeps_cancel keeps_before keeps_after keeps_retry_all keeps_prune
        | (rule tu_step_same [OF w]; simp))+
qed

end

interpretation top_ups: interference "tu_behaved cfg env n" "\<lambda>other. run_top_up cfg (logged_top_up env other n)"
  for cfg env n
proof unfold_locales
  show "tu_behaved cfg env n (\<lambda>w. w)" by (simp add: tu_behaved_def tu_step_refl)
next
  fix other step assume "tu_behaved cfg env n other"
  then show "tu_behaved cfg env n (run_top_up cfg (logged_top_up env other n) step)"
    by (intro top_up_run.run_top_up_behaved top_up_run.intro)
next
  fix f g assume "tu_behaved cfg env n f" "tu_behaved cfg env n g"
  then show "tu_behaved cfg env n (\<lambda>w. g (f w))"
    unfolding tu_behaved_def by (blast intro: tu_step_trans dest: tu_step_inv)
next
  fix schedule :: "tu_world \<Rightarrow> tu_world \<Rightarrow> tu_world" assume "\<And>w. tu_behaved cfg env n (schedule w)"
  then show "tu_behaved cfg env n (\<lambda>w. schedule w w)" unfolding tu_behaved_def by blast
qed

interpretation lone_top_up: top_up_run cfg env n "\<lambda>w. w" for cfg env n
  by unfold_locales (rule top_ups.ok_idle)




section \<open>A concrete top-up\<close>

text \<open>For closed instances of the properties: one USDC, prepared, verified and settled.\<close>

definition demo_top_up_lib :: svm_lib where
  "demo_top_up_lib = demo_lib\<lparr> lib_legacy_from := (\<lambda>_. Some (demo_tx\<lparr> lt_instructions :=
     [\<lparr> ix_program = token_program, ix_accounts = [''p-ata'', ''mint'', ''o-ata'', ''p''],
        ix_data = 12 # le_bytes 8 1000000 @ [6] \<rparr>,
      \<lparr> ix_program = ''MemoSq4gqABAXKb96qnH8TysNcWxMyWCqXgDLGmfcHr'', ix_accounts = [],
        ix_data = utf8_encode ''openshelf:v1:topup:q'' \<rparr>] \<rparr>)) \<rparr>"

definition demo_top_up_config :: gateway_config where
  "demo_top_up_config = \<lparr> gc_lib = demo_top_up_lib, gc_url_pathname = (\<lambda>_. None), gc_network = ''net'',
     gc_finalityTimeoutMs = 1000, gc_pollIntervalMs = 100, gc_signaturePages = 1, gc_batchSize = 10 \<rparr>"

definition demo_top_up_context :: hook_context where
  "demo_top_up_context = \<lparr> hk_requestPath = Some ''/api/v1/paid-top-ups/q'', hk_resourceUrl = None,
     hk_payload = JObj [(''transaction'', JStr ''tx'')], hk_network = ''net'', hk_payTo = ''o'', hk_asset = ''mint'',
     hk_amount = ''1000000'' \<rparr>"

definition demo_top_up_answers :: tu_env where
  "demo_top_up_answers = \<lparr> tue_int = (\<lambda>_ _. Inr 5), tue_unit = (\<lambda>_ _. Inr ()), tue_settle = (\<lambda>_ _. Inl (Err ''no answer'')),
     tue_json = (\<lambda>_ _. Inl (Err ''no answer'')) \<rparr>"

definition demo_one_usdc :: top_up_quote where
  "demo_one_usdc = \<lparr> tuq_id = ''q'', tuq_payTo = ''o'', tuq_network = ''net'', tuq_asset = ''mint'', tuq_amountUsdc = 1,
     tuq_amountAtomic = ''1000000'', tuq_expiresAt = 1005, tuq_resourcePath = ''/api/v1/paid-top-ups/q'' \<rparr>"



abbreviation demo_id :: string where
  "demo_id \<equiv> replicate 64 (CHR ''a'')"

abbreviation demo_key :: string where
  "demo_key \<equiv> ''topup'' @ [nul] @ ''q''"

abbreviation demo_held :: top_up_state where
  "demo_held \<equiv> top_up_start\<lparr> tu_quotes := [(''q'', demo_one_usdc)],
     tu_tracker := snd (trk_remember demo_id (TopUp ''q'' demo_key) demo_one_usdc 5 tracker_empty), tu_payers := [(demo_id, ''p'')] \<rparr>"



lemma demo_top_up_sel [simp]:
  "gc_lib demo_top_up_config = demo_top_up_lib" "gc_network demo_top_up_config = ''net''"
  "tue_int demo_top_up_answers = (\<lambda>_ _. Inr 5)" "tue_unit demo_top_up_answers = (\<lambda>_ _. Inr ())"
  "tuq_id demo_one_usdc = ''q''" "hk_payTo demo_top_up_context = ''o''" "tuq_expiresAt demo_one_usdc = 1005"
  by (simp_all add: demo_top_up_config_def demo_top_up_answers_def demo_one_usdc_def demo_top_up_context_def)






lemma demo_top_up_id: "attempt_id demo_top_up_config demo_top_up_context = Inr demo_id"
  by (simp add: attempt_id_def paymentAttemptId_def demo_top_up_context_def demo_top_up_lib_def demo_lib_def)











section \<open>Properties\<close>







section \<open>A retry of a remembered payment\<close>

definition refuses :: "('w \<Rightarrow> bool) \<Rightarrow> ('w, 'a) proc \<Rightarrow> bool" where
  "refuses K m \<longleftrightarrow> (\<forall>w. K w \<longrightarrow> wp m (\<lambda>_ _. False) (\<lambda>_ _. True) w)"

lemma refuses_pbind: "keeps K m \<Longrightarrow> (\<And>a. refuses K (f a)) \<Longrightarrow> refuses K (pbind m f)"
  unfolding refuses_def by (intro allI impI wp_pbindI, rule wp_mono [OF keepsD [of K m]]) auto

lemma refuses_first: "refuses K m \<Longrightarrow> refuses K (pbind m f)"
  unfolding refuses_def wp_def pbind_def by (auto split: prod.splits sum.splits)

lemma refuses_basic: "refuses K (praise e)" "(b \<Longrightarrow> refuses K m) \<Longrightarrow> (\<not> b \<Longrightarrow> refuses K m') \<Longrightarrow> refuses K (if b then m else m')"
  by (simp_all add: refuses_def wp_simps)

text \<open>C36: A payment whose attempt is still remembered is refused when it is presented again, whatever
  became of its settlement and whatever runs at the awaits of the verification, as long as the attempt
  is not forgotten meanwhile.\<close>

theorem top_up_retry_refused:
  assumes "attempt_id cfg context = Inr attemptId" "map_of (trk_byAttempt (tu_tracker s)) attemptId = Some a"
    and other: "\<And>w. map_of (trk_byAttempt (tu_tracker (fst w))) attemptId \<noteq> None
      \<Longrightarrow> map_of (trk_byAttempt (tu_tracker (fst (other w)))) attemptId \<noteq> None"
  shows "\<exists>reason s' h'. topUpOnAfterVerify cfg (logged_top_up env other n) context payer (s, h) = (Inr (Some reason), s', h')"
proof -
  let ?K = "\<lambda>w. map_of (trk_byAttempt (tu_tracker (fst w))) attemptId \<noteq> None"
  have wait: "keeps ?K (await ans other ev)" for ans :: "tu_log \<Rightarrow> tu_event \<Rightarrow> 'a outcome" and ev
    by (rule keepsI) (use other in \<open>auto simp: wp_def await_def split: sum.splits\<close>)
  have guard: "keeps ?K (top_up_guard m)" for m :: "(replay_guard, unit) proc"
    by (rule keepsI) (auto simp: wp_def top_up_guard_def inside_def split: prod.splits sum.splits)
  have remember: "refuses ?K (top_up_tracker (trk_remember attemptId identity quote now))" for identity quote now
    by (auto simp: refuses_def wp_def top_up_tracker_def inside_def trk_remember_def)
  have quote: "keeps ?K (getTopUpQuoteForIdentity (logged_top_up env other n) identity)" for identity
    unfolding getTopUpQuoteForIdentity_def logged_top_up_sel by (intro keeps_intros wait guard)
  have verify: "refuses ?K (verify_top_up cfg (logged_top_up env other n) context p)" for p
    unfolding verify_top_up_def remember_top_up_def logged_top_up_sel Let_def assms(1) pbind_plift_Inr
    by (rule refuses_first [OF remember] refuses_pbind refuses_basic keeps_intros wait quote)+
  show ?thesis
  proof (cases "truthy payer \<and> payer \<noteq> Some (hk_payTo context)")
    case True
    then show ?thesis
      using verify [of "the payer"] assms(2)
      by (auto simp: refuses_def topUpOnAfterVerify_def pcatch_def pbind_def pret_def wp_def split: prod.splits sum.splits)
  qed (auto simp: topUpOnAfterVerify_def pret_def)
qed

theorem top_up_retry_refused_witness:
  "\<exists>reason s' h'. topUpOnAfterVerify demo_top_up_config (logged_top_up demo_top_up_answers (\<lambda>w. w) 2) demo_top_up_context
     (Some ''p'') (demo_held, []) = (Inr (Some reason), s', h')"
  by (rule top_up_retry_refused [OF demo_top_up_id]) (simp_all add: trk_remember_def tracker_empty_def)


end
