(* ===== verification/Routing_Refinement.thy ===== *)
theory Routing_Refinement
  imports Payment_Routing
begin

text \<open>
  The tracker of verified attempts (\<open>VerifiedPaymentAttemptTracker\<close> of
  \<open>payment-gateway/src/payment-routing.ts\<close>) against its abstract specification: one map from
  attempt ids to attempts, with resources found by search. The code's second map is an index of it.
\<close>

section \<open>The specification\<close>

type_synonym 'q attempts = "string \<rightharpoonup> 'q verified_payment_attempt"

definition owns :: "'q attempts \<Rightarrow> string \<Rightarrow> string \<Rightarrow> bool" where
  "owns m key a \<longleftrightarrow> (\<exists>v. m a = Some v \<and> pri_key (vpa_identity v) = key)"

definition spec_remember :: "string \<Rightarrow> payment_route_identity \<Rightarrow> 'q \<Rightarrow> int \<Rightarrow> 'q attempts \<Rightarrow> unit outcome \<times> 'q attempts" where
  "spec_remember a i q now m =
     (if m a \<noteq> None \<or> (\<exists>b. owns m (pri_key i) b) then (Inl (PaymentQuoteErr 409 ''payment_not_payable''), m)
      else (Inr (), m(a \<mapsto> \<lparr> vpa_attemptId = a, vpa_identity = i, vpa_quote = q,
                             vpa_retainedUntil = now + verified_attempt_retention_ms \<rparr>)))"

definition spec_prune :: "int \<Rightarrow> 'q attempts \<Rightarrow> 'q attempts" where
  "spec_prune now m = (\<lambda>a. case m a of Some v \<Rightarrow> if now < vpa_retainedUntil v then Some v else None | None \<Rightarrow> None)"

fun run_spec_op :: "'q tracker_op \<Rightarrow> int \<Rightarrow> 'q attempts \<Rightarrow> 'q attempts" where
  "run_spec_op (OpRemember a i q) now m = snd (spec_remember a i q now m)"
| "run_spec_op (OpForget a key) now m = (if owns m key a then m(a := None) else m)"
| "run_spec_op OpPrune now m = spec_prune now m"

section \<open>Simulation\<close>

definition abs_tracker :: "'q tracker \<Rightarrow> 'q attempts" where
  "abs_tracker s = map_of (trk_byAttempt s)"

lemma tracker_inv_index:
  "tracker_inv s \<Longrightarrow> map_of (trk_attemptByIdentity s) key = Some a \<longleftrightarrow> owns (abs_tracker s) key a"
  by (auto simp: tracker_inv_def key_index_def owns_def abs_tracker_def)

lemma tracker_inv_unowned:
  "tracker_inv s \<Longrightarrow> map_of (trk_attemptByIdentity s) key = None \<longleftrightarrow> (\<forall>a. \<not> owns (abs_tracker s) key a)"
  by (metis not_None_eq tracker_inv_index)

lemma abs_tracker_remember:
  assumes "tracker_inv s"
  shows "map_prod id abs_tracker (trk_remember a i q now s) = spec_remember a i q now (abs_tracker s)"
  using tracker_inv_unowned [OF assms, of "pri_key i"]
  by (auto simp: trk_remember_def spec_remember_def abs_tracker_def map_of_AList_update)

lemma abs_tracker_forget: "abs_tracker (trk_forget a s) = (abs_tracker s)(a := None)"
  by (rule ext) (simp add: abs_tracker_def map_of_forget)

lemma abs_tracker_prune: "tracker_inv s \<Longrightarrow> abs_tracker (trk_prune now s) = spec_prune now (abs_tracker s)"
  by (rule ext) (auto simp: abs_tracker_def spec_prune_def map_of_prune split: option.splits)

lemma abs_tracker_op:
  assumes "tracker_inv s"
  shows "abs_tracker (run_tracker_op op now s) = run_spec_op op now (abs_tracker s)"
proof (cases op)
  case (OpRemember a i q)
  with abs_tracker_remember [OF assms, of a i q now] show ?thesis by (metis run_spec_op.simps(1) run_tracker_op.simps(1) snd_map_prod)
qed (use assms in \<open>simp_all add: abs_tracker_forget abs_tracker_prune tracker_inv_index\<close>)

fun run_spec :: "('q tracker_op \<times> int) list \<Rightarrow> 'q attempts \<Rightarrow> 'q attempts" where
  "run_spec [] m = m"
| "run_spec ((op, now) # tr) m = run_spec tr (run_spec_op op now m)"

lemma tracker_simulation:
  assumes "tracker_inv s"
  shows "abs_tracker (tracker_fence.run_all tr s) = run_spec tr (abs_tracker s)"
  using assms
proof (induction tr arbitrary: s)
  case (Cons x tr)
  obtain op now where "x = (op, now)" by (cases x)
  with Cons show ?case by (simp add: abs_tracker_op tracker_fence.keeps_ok)
qed simp

lemma trk_forIdentity_iff:
  assumes "tracker_inv s"
  shows "trk_forIdentity s key = Some v \<longleftrightarrow>
    (\<exists>a. a \<noteq> [] \<and> abs_tracker s a = Some v \<and> pri_key (vpa_identity v) = key)"
proof (cases "map_of (trk_attemptByIdentity s) key")
  case None
  then have "\<not> owns (abs_tracker s) key a" for a using tracker_inv_unowned [OF assms, of key] by blast
  with None show ?thesis by (simp add: trk_forIdentity_def truthy_def owns_def)
next
  case (Some a)
  then have "owns (abs_tracker s) key a" using tracker_inv_index [OF assms, of key a] by blast
  then obtain w where w: "map_of (trk_byAttempt s) a = Some w" "pri_key (vpa_identity w) = key"
    by (auto simp: owns_def abs_tracker_def)
  have only: "b = a" if "map_of (trk_byAttempt s) b = Some v" "pri_key (vpa_identity v) = key" for b
    using that tracker_inv_index [OF assms, of key b] Some by (simp add: owns_def abs_tracker_def)
  have "trk_forIdentity s key = (if a = [] then None else Some w)"
    using Some w by (simp add: trk_forIdentity_def truthy_def)
  then show ?thesis
    unfolding abs_tracker_def using w only by (cases "a = []") auto
qed

section \<open>Refinement\<close>

text \<open>C34: After any sequence of operations the tracker with its two maps is the abstract map: the
  same attempts, the same answer of \<open>remember\<close>, and an attempt found for a resource exactly when the
  map holds one for it under a nonempty id.\<close>

theorem tracker_refines_map:
  "abs_tracker (tracker_fence.run_all tr tracker_empty) = run_spec tr Map.empty
   \<and> map_prod id abs_tracker (trk_remember a i q now (tracker_fence.run_all tr tracker_empty))
       = spec_remember a i q now (run_spec tr Map.empty)
   \<and> trk_forAttempt (tracker_fence.run_all tr tracker_empty) a = run_spec tr Map.empty a
   \<and> (trk_forIdentity (tracker_fence.run_all tr tracker_empty) key = Some v
        \<longleftrightarrow> (\<exists>b. b \<noteq> [] \<and> run_spec tr Map.empty b = Some v \<and> pri_key (vpa_identity v) = key))"
proof -
  let ?s = "tracker_fence.run_all tr tracker_empty"
  have inv: "tracker_inv ?s" by (rule tracker_fence.ok_run_all [OF tracker_inv_empty])
  have m: "abs_tracker ?s = run_spec tr Map.empty"
    unfolding tracker_simulation [OF tracker_inv_empty] by (simp add: abs_tracker_def tracker_empty_def)
  show ?thesis
    unfolding abs_tracker_remember [OF inv] trk_forIdentity_iff [OF inv] m
    using m by (simp add: trk_forAttempt_def abs_tracker_def)
qed

end
