(* ===== verification/Pay_Sh_Credential.thy ===== *)
theory Pay_Sh_Credential
  imports Configuration Chain_Reconciler
begin

text \<open>
  What \<open>payment-gateway/src/direct-pay-sh-proxy.ts\<close> reads: the paid route and its quote, the
  challenges Pay.sh offers, the credential a buyer returns and the signed transaction inside it.
  The \<open>mppx\<close> package's codecs, \<open>new URL\<close> and \<open>Date.parse\<close> are the parameter \<open>mpp_lib\<close>.
\<close>

section \<open>Data\<close>

record direct_quote =
  dq_id :: string
  dq_queryId :: string
  dq_documentHandle :: string
  dq_payTo :: string
  dq_network :: string
  dq_asset :: string
  dq_amountAtomic :: string
  dq_priceKrw :: int
  dq_expiresAt :: jnum
  dq_status :: string

record prepared_credential =
  pc_quoteId :: string
  pc_payer :: string
  pc_platformRecipientWallet :: string
  pc_challengeId :: json
  pc_externalId :: string
  pc_signedTransactionBase64 :: string
  pc_recentBlockhash :: string
  pc_challengeExpiresAt :: jnum

record challenge_binding =
  cb_challengeId :: string
  cb_externalId :: string
  cb_challengeExpiresAt :: jnum

record paid_route =
  pr_priceKrw :: int
  pr_queryId :: string
  pr_handle :: string
  pr_quoteId :: string
  pr_ownerWallet :: string
  pr_researchJobId :: "string option"
  pr_paymentAttemptId :: "string option"

text \<open>The parts of a parsed URL that are read, and the values of \<open>mppx\<close>: \<open>request\<close> and \<open>payload\<close>
  are JSON of unknown shape.\<close>

record route_url =
  ru_href :: string
  ru_pathname :: string
  ru_searchParams :: "(string \<times> string) list"

record mpp_challenge =
  mc_id :: json
  mc_method :: string
  mc_intent :: string
  mc_request :: json
  mc_expires :: "string option"

record mpp_credential =
  mcr_challenge :: mpp_challenge
  mcr_payload :: json

record mpp_receipt =
  mr_method :: string
  mr_status :: string
  mr_externalId :: "string option"
  mr_reference :: string

record mpp_lib =
  ml_extractPaymentScheme :: "string \<Rightarrow> string option"
  ml_credential :: "string \<Rightarrow> mpp_credential option"
  ml_challenges :: "string \<Rightarrow> mpp_challenge list option"
  ml_receipt :: "string \<Rightarrow> mpp_receipt option"
  ml_date_parse :: "string \<Rightarrow> jnum"
  ml_new_url :: "string \<Rightarrow> string \<Rightarrow> route_url option"

definition devnet_usdc :: string where
  "devnet_usdc = ''4zMMC9srt5Ri5X14GAgXhaHii3GnPAEERYPJgZJDncDU''"

section \<open>The paid route\<close>

definition assertOriginFormTarget :: "string \<Rightarrow> unit outcome" where
  "assertOriginFormTarget pathAndQuery =
     (if \<not> starts_with ''/'' pathAndQuery \<or> starts_with ''//'' pathAndQuery
         \<or> CHR 0x5C \<in> set pathAndQuery \<or> CHR ''#'' \<in> set pathAndQuery
      then Inl (PayShProxyErr 400 ''invalid_proxy_target'') else Inr ())"

definition singleQueryParameter :: "route_url \<Rightarrow> string \<Rightarrow> string option outcome" where
  "singleQueryParameter url name =
     (let values = map snd (filter (\<lambda>(k, v). k = name) (ru_searchParams url)) in
      if 1 < length values then Inl (PayShProxyErr 400 ''invalid_pay_sh_url'')
      else Inr (nth_opt values 0))"

definition decodePathSegment :: "string \<Rightarrow> string outcome" where
  "decodePathSegment v = of_opt (PayShProxyErr 400 ''invalid_pay_sh_url'') (decode_uri v)"

text \<open>\<open>value?.trim () || undefined\<close>\<close>

definition trim_or_undefined :: "string option \<Rightarrow> string option" where
  "trim_or_undefined m = (case map_option trim m of None \<Rightarrow> None | Some s \<Rightarrow> if s = [] then None else Some s)"

definition paid_segments :: "string \<Rightarrow> (string \<times> string \<times> string) option" where
  "paid_segments pathname =
     (case split_at CHR ''/'' pathname of
        [e, api, v2, paysh, documents, price, query, handle] \<Rightarrow>
          if e = [] \<and> api = ''api'' \<and> v2 = ''v2'' \<and> paysh = ''pay-sh'' \<and> documents = ''documents''
            \<and> re_digits price \<and> query \<noteq> [] \<and> handle \<noteq> []
          then Some (price, query, handle) else None
      | _ \<Rightarrow> None)"

definition parsePaidRoute :: "mpp_lib \<Rightarrow> string \<Rightarrow> paid_route option outcome" where
  "parsePaidRoute mpp pathAndQuery =
     rbind (of_opt (Err ''Invalid URL'') (ml_new_url mpp pathAndQuery ''https://openshelf.invalid'')) (\<lambda>url.
     case paid_segments (ru_pathname url) of
       None \<Rightarrow> Inr None
     | Some (price, query, handle) \<Rightarrow>
         let priceKrw = int (dec_value price) in
         rbind (singleQueryParameter url ''quote_id'') (\<lambda>quote_id.
         rbind (singleQueryParameter url ''owner_wallet'') (\<lambda>owner_wallet.
         let quoteId = map_option trim quote_id; ownerWallet = map_option trim owner_wallet in
         if \<not> is_safe_integer (Num priceKrw) \<or> priceKrw \<le> 0 \<or> price \<noteq> show_int priceKrw
            \<or> \<not> truthy quoteId \<or> \<not> truthy ownerWallet
         then Inl (PayShProxyErr 400 ''invalid_pay_sh_url'')
         else
           rbind (decodePathSegment query) (\<lambda>queryId.
           rbind (decodePathSegment handle) (\<lambda>documentHandle.
           rbind (singleQueryParameter url ''research_job_id'') (\<lambda>job.
           rbind (singleQueryParameter url ''payment_attempt_id'') (\<lambda>attempt.
             Inr (Some \<lparr> pr_priceKrw = priceKrw, pr_queryId = queryId, pr_handle = documentHandle,
               pr_quoteId = the quoteId, pr_ownerWallet = the ownerWallet,
               pr_researchJobId = trim_or_undefined job,
               pr_paymentAttemptId = trim_or_undefined attempt \<rparr>))))))))"

definition validateRouteQuote :: "paid_route \<Rightarrow> direct_quote \<Rightarrow> unit outcome" where
  "validateRouteQuote route quote =
     (if dq_id quote \<noteq> pr_quoteId route \<or> dq_queryId quote \<noteq> pr_queryId route
         \<or> dq_documentHandle quote \<noteq> pr_handle route \<or> dq_priceKrw quote \<noteq> pr_priceKrw route
         \<or> dq_payTo quote \<noteq> pr_ownerWallet route
      then Inl (PayShProxyErr 409 ''quote_mismatch'')
      else if dq_status quote \<noteq> ''quoted'' then Inl (PayShProxyErr 409 ''quote_not_payable'')
      else Inr ())"

section \<open>Challenges\<close>

definition quote_devnet :: "direct_quote \<Rightarrow> bool" where
  "quote_devnet quote \<longleftrightarrow> str_includes ''EtWTRAB'' (dq_network quote) \<or> dq_network quote = ''devnet''"

definition challenge_expiry :: "mpp_lib \<Rightarrow> mpp_challenge \<Rightarrow> jnum" where
  "challenge_expiry mpp challenge =
     (if truthy (mc_expires challenge) then ml_date_parse mpp (the (mc_expires challenge)) else NaN)"

definition external_id_prefix :: "direct_quote \<Rightarrow> string" where
  "external_id_prefix quote = ''human-document-krw-'' @ show_int (dq_priceKrw quote) @ ''#''"

definition external_id_ok :: "direct_quote \<Rightarrow> string \<Rightarrow> bool" where
  "external_id_ok quote externalId \<longleftrightarrow>
     starts_with (external_id_prefix quote) externalId
     \<and> length (external_id_prefix quote) < length externalId
     \<and> length externalId \<le> length (external_id_prefix quote) + 32"

text \<open>\<open>(BigInt (quote.amountAtomic) - 1n).toString ()\<close>\<close>

definition owner_amount :: "direct_quote \<Rightarrow> string outcome" where
  "owner_amount quote =
     rbind (of_opt (Err ''Cannot convert to a BigInt'') (bigint_of (dq_amountAtomic quote))) (\<lambda>a. Inr (show_int (a - 1)))"

text \<open>\<open>details.feePayer === true && typeof details.feePayerKey === "string" && ...\<close>, and the one
  split, of the owner. An unconfigured key is \<open>None\<close>.\<close>

definition fee_payer_ok :: "json \<Rightarrow> string option \<Rightarrow> bool" where
  "fee_payer_ok details configured \<longleftrightarrow>
     prop_of details ''feePayer'' = JBool True
     \<and> (\<exists>k. prop_of details ''feePayerKey'' = JStr k \<and> (case configured of None \<Rightarrow> True | Some c \<Rightarrow> k = c))"

definition owner_split_ok :: "direct_quote \<Rightarrow> string \<Rightarrow> json list \<Rightarrow> bool" where
  "owner_split_ok quote ownerAmount splits \<longleftrightarrow>
     prop_of (elem splits 0) ''recipient'' = JStr (dq_payTo quote)
     \<and> js_string (prop_of (elem splits 0) ''amount'') = Some ownerAmount"

definition network_ok :: "direct_quote \<Rightarrow> json \<Rightarrow> bool" where
  "network_ok quote details \<longleftrightarrow>
     quote_devnet quote = (js_string (json_or (prop_of details ''network'') (JStr ''mainnet'')) = Some ''devnet'')"

definition challenge_ok ::
    "mpp_lib \<Rightarrow> direct_quote \<Rightarrow> int \<Rightarrow> string option \<Rightarrow> string option \<Rightarrow> string \<Rightarrow> string set \<Rightarrow> mpp_challenge
     \<Rightarrow> challenge_binding option" where
  "challenge_ok mpp quote now operatorWallet feePayerKey ownerAmount seen challenge =
     (let request = mc_request challenge; details = prop_of request ''methodDetails'';
          splits = arr_or_empty (prop_of details ''splits''); expiresAt = challenge_expiry mpp challenge in
      case (mc_id challenge, prop_of request ''externalId'') of
        (JStr i, JStr externalId) \<Rightarrow>
          if i = [] \<or> 256 < length i \<or> i \<in> seen
             \<or> prop_of request ''amount'' \<noteq> JStr (dq_amountAtomic quote)
             \<or> prop_of request ''currency'' \<noteq> JStr (dq_asset quote)
             \<or> \<not> external_id_ok quote externalId
             \<or> \<not> is_safe_integer expiresAt \<or> jle expiresAt (Num now) \<or> jlt (Num (now + 15 * 60000)) expiresAt
             \<or> \<not> network_ok quote details
             \<or> (\<exists>w. operatorWallet = Some w \<and> prop_of request ''recipient'' \<noteq> JStr w)
             \<or> \<not> fee_payer_ok details feePayerKey
             \<or> length splits \<noteq> 1 \<or> \<not> owner_split_ok quote ownerAmount splits
          then None
          else Some \<lparr> cb_challengeId = i, cb_externalId = externalId, cb_challengeExpiresAt = expiresAt \<rparr>
      | _ \<Rightarrow> None)"

fun bind_challenges ::
    "(string set \<Rightarrow> mpp_challenge \<Rightarrow> challenge_binding option) \<Rightarrow> string set \<Rightarrow> mpp_challenge list
     \<Rightarrow> challenge_binding list outcome" where
  "bind_challenges ok seen [] = Inr []"
| "bind_challenges ok seen (challenge # rest) =
     (case ok seen challenge of
        None \<Rightarrow> Inl (PayShProxyErr 502 ''invalid_payment_challenge'')
      | Some b \<Rightarrow> rbind (bind_challenges ok (insert (cb_challengeId b) seen) rest) (\<lambda>bs. Inr (b # bs)))"

definition inspectPayShChallenges ::
    "mpp_lib \<Rightarrow> string option \<Rightarrow> direct_quote \<Rightarrow> int \<Rightarrow> string option \<Rightarrow> string option
     \<Rightarrow> challenge_binding list outcome" where
  "inspectPayShChallenges mpp header quote now operatorWallet feePayerKey =
     (if \<not> truthy header then Inl (PayShProxyErr 502 ''missing_payment_challenge'')
      else rbind (of_opt (PayShProxyErr 502 ''invalid_payment_challenge'') (ml_challenges mpp (the header))) (\<lambda>parsed.
        let challenges = filter (\<lambda>c. mc_method c = ''solana'' \<and> mc_intent c = ''charge'') parsed in
        if length challenges = 0 \<or> 8 < length challenges
        then Inl (PayShProxyErr 502 ''invalid_payment_challenge'')
        else rbind (owner_amount quote) (\<lambda>ownerAmount.
          bind_challenges (challenge_ok mpp quote now operatorWallet feePayerKey ownerAmount) {} challenges)))"

section \<open>The prepared transaction\<close>

record prepared_pay_sh_transaction =
  pp_recentBlockhash :: string
  pp_signerAddresses :: "string list"
  pp_signatures :: "bytes list"
  pp_messageBytes :: bytes
  pp_instructions :: "instruction list"

definition invalidPayShTransaction :: js_error where
  "invalidPayShTransaction = PayShProxyErr 409 ''invalid_payment_transaction''"

definition legacy_pay_sh :: "bytes \<Rightarrow> legacy_tx \<Rightarrow> prepared_pay_sh_transaction option" where
  "legacy_pay_sh messageBytes transaction =
     (if \<not> truthy (lt_recentBlockhash transaction) \<or> lt_feePayer transaction = None then None
      else Some \<lparr> pp_recentBlockhash = the (lt_recentBlockhash transaction),
        pp_signerAddresses = map fst (lt_signatures transaction),
        pp_signatures = map (\<lambda>item. legacy_signature_bytes (snd item)) (lt_signatures transaction),
        pp_messageBytes = messageBytes, pp_instructions = lt_instructions transaction \<rparr>)"

definition versioned_pay_sh :: "bytes \<Rightarrow> versioned_tx \<Rightarrow> prepared_pay_sh_transaction option" where
  "versioned_pay_sh messageBytes transaction =
     (if vt_addressTableLookups transaction \<noteq> 0 then None
      else map_option (\<lambda>instrs.
        \<lparr> pp_recentBlockhash = vt_recentBlockhash transaction,
          pp_signerAddresses = take (vt_numRequiredSignatures transaction) (vt_staticAccountKeys transaction),
          pp_signatures = vt_signatures transaction, pp_messageBytes = messageBytes, pp_instructions = instrs \<rparr>)
        (resolve_ixs (vt_staticAccountKeys transaction) (vt_compiledInstructions transaction)))"

definition parsePreparedPayShTransaction :: "svm_lib \<Rightarrow> bytes \<Rightarrow> prepared_pay_sh_transaction outcome" where
  "parsePreparedPayShTransaction lib bs =
     (case lib_messageBytes lib bs of
        None \<Rightarrow> Inl invalidPayShTransaction
      | Some messageBytes \<Rightarrow>
          (case Option.bind (lib_legacy_from lib bs) (legacy_pay_sh messageBytes) of
             Some t \<Rightarrow> Inr t
           | None \<Rightarrow> of_opt invalidPayShTransaction
               (Option.bind (lib_versioned_from lib bs) (versioned_pay_sh messageBytes))))"

definition validPayShComputeBudget :: "instruction \<Rightarrow> bool" where
  "validPayShComputeBudget ix =
     (if length (ix_accounts ix) \<noteq> 0 then False
      else if length (ix_data ix) = 5 \<and> ix_data ix ! 0 = 2 then read_u32_le 1 (ix_data ix) \<le> 200000
      else if length (ix_data ix) = 9 \<and> ix_data ix ! 0 = 3 then read_u64_le 1 (ix_data ix) \<le> 10000
      else False)"

definition directPayShRecipientTokenAccount :: "svm_lib \<Rightarrow> string \<Rightarrow> string \<Rightarrow> string option" where
  "directPayShRecipientTokenAccount lib asset owner =
     (if lib_address lib asset \<and> lib_address lib owner then lib_ata lib asset owner token_program else None)"

text \<open>A transfer is the text of its destination, a NUL and the amount.\<close>

definition transfer_text :: "string \<Rightarrow> int \<Rightarrow> string" where
  "transfer_text destination amount = destination @ [nul] @ show_int amount"

definition pay_sh_transfer_ok :: "string \<Rightarrow> string \<Rightarrow> string \<Rightarrow> instruction \<Rightarrow> bool" where
  "pay_sh_transfer_ok source asset payer ix \<longleftrightarrow>
     length (ix_accounts ix) = 4 \<and> ix_accounts ix ! 0 = source \<and> ix_accounts ix ! 1 = asset
     \<and> ix_accounts ix ! 3 = payer \<and> length (ix_data ix) = 10 \<and> ix_data ix ! 0 = 12 \<and> ix_data ix ! 9 = 6"

fun pay_sh_ix_loop ::
    "string \<Rightarrow> string \<Rightarrow> string \<Rightarrow> string \<Rightarrow> instruction list \<Rightarrow> string list \<Rightarrow> bool \<Rightarrow> (string list \<times> bool) option" where
  "pay_sh_ix_loop source asset payer externalId [] transfers memo = Some (transfers, memo)"
| "pay_sh_ix_loop source asset payer externalId (ix # rest) transfers memo =
     (if ix_program ix = token_program then
        if pay_sh_transfer_ok source asset payer ix
        then pay_sh_ix_loop source asset payer externalId rest
          (transfers @ [transfer_text (ix_accounts ix ! 2) (int (read_u64_le 1 (ix_data ix)))]) memo
        else None
      else if ix_program ix = memo_program then
        pay_sh_ix_loop source asset payer externalId rest transfers
          (memo \<or> utf8_decode (ix_data ix) = Some externalId)
      else if ix_program ix = compute_budget_program then
        if validPayShComputeBudget ix then pay_sh_ix_loop source asset payer externalId rest transfers memo else None
      else None)"

text \<open>The input of \<open>validatePreparedPayShTransaction\<close>, and the check; the comparison of the two
  sorted lists is equality of their lengths and of every entry.\<close>

record pay_sh_expectation =
  px_feePayer :: string
  px_asset :: string
  px_primaryRecipient :: string
  px_ownerRecipient :: string
  px_totalAmountAtomic :: string
  px_ownerAmountAtomic :: string
  px_externalId :: string

definition validatePreparedPayShTransaction ::
    "svm_lib \<Rightarrow> pay_sh_expectation \<Rightarrow> prepared_pay_sh_transaction \<Rightarrow> string outcome" where
  "validatePreparedPayShTransaction lib x transaction =
     (case (pp_signerAddresses transaction, pp_signatures transaction) of
        ([feePayer, payer], [feePayerSignature, payerSignature]) \<Rightarrow>
          require (feePayer = px_feePayer x \<and> is_zero feePayerSignature \<and> \<not> is_zero payerSignature)
            invalidPayShTransaction
          (require (lib_address lib payer \<and> length payerSignature = 64
              \<and> lib_verify lib payer payerSignature (pp_messageBytes transaction) = Some True)
            invalidPayShTransaction
          (rbind (of_opt invalidPayShTransaction (directPayShRecipientTokenAccount lib (px_asset x) payer)) (\<lambda>source.
          rbind (of_opt invalidPayShTransaction
            (directPayShRecipientTokenAccount lib (px_asset x) (px_primaryRecipient x))) (\<lambda>primaryDestination.
          rbind (of_opt invalidPayShTransaction
            (directPayShRecipientTokenAccount lib (px_asset x) (px_ownerRecipient x))) (\<lambda>ownerDestination.
          rbind (of_opt (Err ''Cannot convert to a BigInt'') (bigint_of (px_totalAmountAtomic x))) (\<lambda>totalAmount.
          rbind (of_opt (Err ''Cannot convert to a BigInt'') (bigint_of (px_ownerAmountAtomic x))) (\<lambda>ownerAmount.
          let platformAmount = totalAmount - ownerAmount in
          require (\<not> (ownerAmount \<le> 0 \<or> platformAmount \<le> 0)) invalidPayShTransaction
          (rbind (of_opt invalidPayShTransaction (pay_sh_ix_loop source (px_asset x) payer (px_externalId x)
              (pp_instructions transaction) [] False)) (\<lambda>(actualTransfers, exactResourceMemo).
          require (exactResourceMemo \<and> sort actualTransfers =
              sort [transfer_text primaryDestination platformAmount, transfer_text ownerDestination ownerAmount])
            invalidPayShTransaction (Inr payer))))))))))
      | _ \<Rightarrow> Inl invalidPayShTransaction)"

section \<open>The credential\<close>

definition inspectMppCredential ::
    "svm_lib \<Rightarrow> mpp_lib \<Rightarrow> string \<Rightarrow> direct_quote \<Rightarrow> int \<Rightarrow> string option \<Rightarrow> string option
     \<Rightarrow> prepared_credential outcome" where
  "inspectMppCredential lib mpp authorization quote now operatorWallet feePayerKey =
     rbind (of_opt (PayShProxyErr 400 ''malformed_credential'') (ml_credential mpp authorization)) (\<lambda>credential.
     let challenge = mcr_challenge credential; request = mc_request challenge;
         details = prop_of request ''methodDetails''; payload = mcr_payload credential in
     require (mc_method challenge = ''solana'' \<and> mc_intent challenge = ''charge'')
       (PayShProxyErr 400 ''invalid_challenge'')
     (rbind (of_opt (PayShProxyErr 400 ''invalid_credential_payload'')
         (if prop_of payload ''type'' = JStr ''transaction'' then as_str (prop_of payload ''transaction'') else None)) (\<lambda>tx.
     let transactionBytes = base64_decode tx in
     require (\<not> (length transactionBytes < 100 \<or> 2048 < length transactionBytes))
       (PayShProxyErr 400 ''invalid_credential_payload'')
     (rbind (parsePreparedPayShTransaction lib transactionBytes) (\<lambda>transaction.
     let challengeExpiresAt = challenge_expiry mpp challenge in
     require (prop_of request ''amount'' = JStr (dq_amountAtomic quote)) (PayShProxyErr 409 ''amount_mismatch'')
     (require (prop_of request ''currency'' = JStr (dq_asset quote)) (PayShProxyErr 409 ''currency_mismatch'')
     (require (\<not> (quote_devnet quote \<and> dq_asset quote \<noteq> devnet_usdc)) (PayShProxyErr 409 ''asset_mismatch'')
     (rbind (of_opt (PayShProxyErr 409 ''resource_mismatch'') (as_str (prop_of request ''externalId''))) (\<lambda>externalId.
     rbind (of_opt (PayShProxyErr 409 ''missing_recent_blockhash'') (as_str (prop_of details ''recentBlockhash''))) (\<lambda>recentBlockhash.
     require (recentBlockhash = pp_recentBlockhash transaction) (PayShProxyErr 409 ''recent_blockhash_mismatch'')
     (require (is_safe_integer challengeExpiresAt \<and> \<not> jle challengeExpiresAt (Num now))
       (PayShProxyErr 409 ''expired_challenge'')
     (require (\<not> jle (dq_expiresAt quote) (Num now)) (PayShProxyErr 409 ''expired_quote'')
     (require (network_ok quote details) (PayShProxyErr 409 ''network_mismatch'')
     (rbind (of_opt (PayShProxyErr 409 ''recipient_mismatch'') (as_str (prop_of request ''recipient''))) (\<lambda>recipient.
     require (\<not> (truthy operatorWallet \<and> Some recipient \<noteq> operatorWallet))
       (PayShProxyErr 409 ''recipient_mismatch'')
     (require (fee_payer_ok details (if truthy feePayerKey then feePayerKey else None))
       (PayShProxyErr 409 ''fee_payer_mismatch'')
     (require (external_id_ok quote externalId) (PayShProxyErr 409 ''resource_mismatch'')
     (let splits = arr_or_empty (prop_of details ''splits'') in
     require (length splits = 1) (PayShProxyErr 409 ''split_mismatch'')
     (rbind (owner_amount quote) (\<lambda>ownerAmount.
     require (owner_split_ok quote ownerAmount splits) (PayShProxyErr 409 ''split_mismatch'')
     (rbind (validatePreparedPayShTransaction lib
         \<lparr> px_feePayer = the (as_str (prop_of details ''feePayerKey'')), px_asset = dq_asset quote,
           px_primaryRecipient = recipient, px_ownerRecipient = dq_payTo quote,
           px_totalAmountAtomic = dq_amountAtomic quote, px_ownerAmountAtomic = ownerAmount,
           px_externalId = externalId \<rparr> transaction) (\<lambda>payer.
     Inr \<lparr> pc_quoteId = dq_id quote, pc_payer = payer, pc_platformRecipientWallet = recipient,
           pc_challengeId = mc_id challenge, pc_externalId = externalId, pc_signedTransactionBase64 = tx,
           pc_recentBlockhash = recentBlockhash, pc_challengeExpiresAt = challengeExpiresAt \<rparr>))))))))))))))))))))))"

section \<open>The receipt's signature\<close>

text \<open>One slot: slot 0 carries the receipt's signature; \<open>verifySignature\<close> runs on every signature of
  64 bytes, and throws (is false here) on any other length.\<close>

definition receipt_slot_ok :: "svm_lib \<Rightarrow> bytes \<Rightarrow> bytes \<Rightarrow> nat \<Rightarrow> string \<times> bytes option \<Rightarrow> bool" where
  "receipt_slot_ok lib receiptSignature messageBytes index entry =
     (case entry of (signer, preparedSignature) \<Rightarrow>
        (case (if index = 0 then Some receiptSignature else preparedSignature) of
           None \<Rightarrow> False
         | Some signature \<Rightarrow>
             \<not> is_zero signature
             \<and> (case preparedSignature of None \<Rightarrow> True | Some p \<Rightarrow>
                  is_zero p \<or> (\<forall>i < length p. nth_opt signature i = Some (p ! i)))
             \<and> length signature = 64 \<and> lib_address lib signer
             \<and> lib_verify lib signer signature messageBytes = Some True))"

definition receiptSignsPreparedTransaction :: "svm_lib \<Rightarrow> string \<Rightarrow> string \<Rightarrow> bool" where
  "receiptSignsPreparedTransaction lib transactionBase64 receiptReference =
     (case (lib_decode_tx lib (base64_decode transactionBase64), lib_base58_decode lib receiptReference) of
        (Some transaction, Some receiptSignature) \<Rightarrow>
          if length (dt_signatures transaction) = 0 \<or> length receiptSignature \<noteq> 64 then False
          else list_all (\<lambda>(i, entry). receipt_slot_ok lib receiptSignature (dt_messageBytes transaction) i entry)
            (enumerate 0 (dt_signatures transaction))
      | _ \<Rightarrow> False)"

definition createDirectPayShRecipientAccountProbe ::
    "svm_lib \<Rightarrow> 'w solana_rpc \<Rightarrow> direct_quote \<Rightarrow> ('w, bool) proc" where
  "createDirectPayShRecipientAccountProbe lib rpc quote =
     pbind (plift (of_opt (Err ''invalid address'')
       (directPayShRecipientTokenAccount lib (dq_asset quote) (dq_payTo quote)))) (\<lambda>tokenAccount.
     pbind (rpc ''getAccountInfo'' [JStr tokenAccount,
         JObj [(''commitment'', JStr ''confirmed''), (''encoding'', JStr ''base64'')]]) (\<lambda>result.
       pret (prop_of (prop_of result ''value'') ''owner'' = JStr token_program)))"

section \<open>Lemmas\<close>

lemma transfer_text_inj: "transfer_text d a = transfer_text e b \<longleftrightarrow> d = e \<and> a = b"
proof
  assume "transfer_text d a = transfer_text e b"
  then have "rev (show_int a) @ nul # rev d = rev (show_int b) @ nul # rev e"
    by (metis transfer_text_def append.assoc append_Cons append_Nil rev_append rev_rev_ident singleton_rev_conv)
  then show "d = e \<and> a = b"
    using append_sep_inj [of nul "rev (show_int a)" "rev (show_int b)" "rev d" "rev e"]
    by (auto simp: nul_notin_show_int show_int_inj)
qed simp

text \<open>An instruction the loop accepts: a transfer of the payer's tokens, a memo, or a bounded
  compute budget.\<close>

definition pay_sh_ix_ok :: "string \<Rightarrow> string \<Rightarrow> string \<Rightarrow> instruction \<Rightarrow> bool" where
  "pay_sh_ix_ok source asset payer ix \<longleftrightarrow>
     (ix_program ix = token_program \<and> pay_sh_transfer_ok source asset payer ix)
     \<or> ix_program ix = memo_program
     \<or> (ix_program ix = compute_budget_program \<and> validPayShComputeBudget ix)"

definition token_transfers :: "instruction list \<Rightarrow> (string \<times> nat) list" where
  "token_transfers ixs = map (\<lambda>ix. (ix_accounts ix ! 2, read_u64_le 1 (ix_data ix)))
     (filter (\<lambda>ix. ix_program ix = token_program) ixs)"

lemma token_transfers_simps [simp]:
  "token_transfers [] = []"
  "token_transfers (ix # ixs) = (if ix_program ix = token_program
     then (ix_accounts ix ! 2, read_u64_le 1 (ix_data ix)) # token_transfers ixs else token_transfers ixs)"
  by (simp_all add: token_transfers_def)

lemma pay_sh_ix_loop_Some:
  "pay_sh_ix_loop source asset payer e ixs ts m = Some (ts', m') \<Longrightarrow>
     ts' = ts @ map (\<lambda>(d, a). transfer_text d (int a)) (token_transfers ixs)
     \<and> (m' \<longleftrightarrow> m \<or> (\<exists>ix \<in> set ixs. ix_program ix = memo_program \<and> utf8_decode (ix_data ix) = Some e))
     \<and> list_all (pay_sh_ix_ok source asset payer) ixs"
proof (induction ixs arbitrary: ts m)
  case (Cons ix ixs)
  consider (transfer) "ix_program ix = token_program" | (memo) "ix_program ix = memo_program"
    | (other) "ix_program ix \<noteq> token_program" "ix_program ix \<noteq> memo_program" by blast
  then show ?case
  proof cases
    case transfer
    with Cons.prems have p: "pay_sh_transfer_ok source asset payer ix"
      and l: "pay_sh_ix_loop source asset payer e ixs
        (ts @ [transfer_text (ix_accounts ix ! 2) (int (read_u64_le 1 (ix_data ix)))]) m = Some (ts', m')"
      by (auto split: if_splits)
    from Cons.IH [OF l] transfer p programs_distinct show ?thesis
      by (simp add: pay_sh_ix_ok_def)
  next
    case memo
    with Cons.prems programs_distinct
    have l: "pay_sh_ix_loop source asset payer e ixs ts (m \<or> utf8_decode (ix_data ix) = Some e) = Some (ts', m')"
      by auto
    from Cons.IH [OF l] memo programs_distinct show ?thesis
      by (auto simp: pay_sh_ix_ok_def)
  next
    case other
    with Cons.prems have "ix_program ix = compute_budget_program" "validPayShComputeBudget ix"
      and l: "pay_sh_ix_loop source asset payer e ixs ts m = Some (ts', m')"
      by (auto split: if_splits)
    with Cons.IH [OF l] other show ?thesis
      by (simp add: pay_sh_ix_ok_def)
  qed
qed simp

text \<open>What a validated transaction pays.\<close>

definition pays_exactly :: "svm_lib \<Rightarrow> pay_sh_expectation \<Rightarrow> int \<Rightarrow> int \<Rightarrow> string \<Rightarrow> prepared_pay_sh_transaction \<Rightarrow> bool" where
  "pays_exactly lib x platformAmount ownerAmount payer t \<longleftrightarrow>
     (\<exists>source platform owner s0 s1.
        directPayShRecipientTokenAccount lib (px_asset x) payer = Some source
        \<and> directPayShRecipientTokenAccount lib (px_asset x) (px_primaryRecipient x) = Some platform
        \<and> directPayShRecipientTokenAccount lib (px_asset x) (px_ownerRecipient x) = Some owner
        \<and> pp_signerAddresses t = [px_feePayer x, payer] \<and> pp_signatures t = [s0, s1] \<and> is_zero s0
        \<and> lib_verify lib payer s1 (pp_messageBytes t) = Some True
        \<and> list_all (pay_sh_ix_ok source (px_asset x) payer) (pp_instructions t)
        \<and> image_mset (\<lambda>(d, a). (d, int a)) (mset (token_transfers (pp_instructions t)))
            = {#(platform, platformAmount), (owner, ownerAmount)#}
        \<and> (\<exists>ix \<in> set (pp_instructions t). ix_program ix = memo_program
             \<and> utf8_decode (ix_data ix) = Some (px_externalId x)))"

lemma validate_signers:
  assumes "validatePreparedPayShTransaction lib x t = Inr payer"
  obtains s0 s1 where "pp_signerAddresses t = [px_feePayer x, payer]" "pp_signatures t = [s0, s1]"
  using assms unfolding validatePreparedPayShTransaction_def
  by (auto simp: rbind_Inr_iff Let_def split: list.splits)

lemma sorted_transfers:
  assumes "sort (map (\<lambda>(d, a). transfer_text d (int a)) ts) = sort [transfer_text p m, transfer_text q n]"
  shows "image_mset (\<lambda>(d, a). (d, int a)) (mset ts) = {#(p, m), (q, n)#}"
proof -
  let ?f = "\<lambda>(d, a). transfer_text d a"
  have i: "inj ?f" by (auto simp: inj_def transfer_text_inj)
  have "image_mset ?f (image_mset (\<lambda>(d, a). (d, int a)) (mset ts)) = image_mset ?f {#(p, m), (q, n)#}"
    using assms unfolding sort_eq_iff_mset by (simp add: multiset.map_comp comp_def case_prod_beta' add_mset_commute)
  then show ?thesis using i by (metis multiset.inj_map injD)
qed

lemma validate_pays:
  assumes "validatePreparedPayShTransaction lib x t = Inr payer"
  obtains total' owner where "bigint_of (px_totalAmountAtomic x) = Some total'"
    "bigint_of (px_ownerAmountAtomic x) = Some owner" "0 < owner" "owner < total'"
    "pays_exactly lib x (total' - owner) owner payer t"
proof -
  obtain s0 s1 where s: "pp_signerAddresses t = [px_feePayer x, payer]" "pp_signatures t = [s0, s1]"
    using validate_signers [OF assms] .
  from assms obtain source p q total' owner ts m where
    v: "is_zero s0" "lib_verify lib payer s1 (pp_messageBytes t) = Some True"
    and d: "directPayShRecipientTokenAccount lib (px_asset x) payer = Some source"
      "directPayShRecipientTokenAccount lib (px_asset x) (px_primaryRecipient x) = Some p"
      "directPayShRecipientTokenAccount lib (px_asset x) (px_ownerRecipient x) = Some q"
    and b: "bigint_of (px_totalAmountAtomic x) = Some total'" "bigint_of (px_ownerAmountAtomic x) = Some owner"
      "0 < owner" "owner < total'"
    and l: "pay_sh_ix_loop source (px_asset x) payer (px_externalId x) (pp_instructions t) [] False = Some (ts, m)"
      "m" "sort ts = sort [transfer_text p (total' - owner), transfer_text q owner]"
    unfolding validatePreparedPayShTransaction_def s
    by (auto simp: rbind_Inr_iff Let_def)
  note r = pay_sh_ix_loop_Some [OF l(1)]
  have "image_mset (\<lambda>(d, a). (d, int a)) (mset (token_transfers (pp_instructions t))) = {#(p, total' - owner), (q, owner)#}"
    using l(3) r by (intro sorted_transfers) simp
  then have "pays_exactly lib x (total' - owner) owner payer t"
    using s v d r l(2) unfolding pays_exactly_def by auto
  with b that show ?thesis by blast
qed

section \<open>Properties\<close>

text \<open>C18: A credential the proxy accepts carries a transaction that pays the immutable quote and
  nothing else: signed by the buyer and not yet by the configured fee payer, its only token
  movements are one atomic unit to the platform and the rest of the quoted amount to the quoted
  recipient, from the buyer's own account, and it carries the challenge's resource id as memo.\<close>

theorem pay_sh_credential_pays_quote:
  assumes "inspectMppCredential lib mpp authorization quote now operatorWallet feePayerKey = Inr p"
  shows "\<exists>t amount feePayer. parsePreparedPayShTransaction lib (base64_decode (pc_signedTransactionBase64 p)) = Inr t
    \<and> bigint_of (dq_amountAtomic quote) = Some amount \<and> 2 \<le> amount
    \<and> pays_exactly lib
        \<lparr> px_feePayer = feePayer, px_asset = dq_asset quote, px_primaryRecipient = pc_platformRecipientWallet p,
          px_ownerRecipient = dq_payTo quote, px_totalAmountAtomic = dq_amountAtomic quote,
          px_ownerAmountAtomic = show_int (amount - 1), px_externalId = pc_externalId p \<rparr>
        1 (amount - 1) (pc_payer p) t
    \<and> pc_quoteId p = dq_id quote \<and> pc_recentBlockhash p = pp_recentBlockhash t
    \<and> external_id_ok quote (pc_externalId p)
    \<and> \<not> jle (pc_challengeExpiresAt p) (Num now) \<and> \<not> jle (dq_expiresAt quote) (Num now)
    \<and> (truthy operatorWallet \<longrightarrow> operatorWallet = Some (pc_platformRecipientWallet p))
    \<and> (truthy feePayerKey \<longrightarrow> feePayerKey = Some feePayer)"
proof -
  let ?details = "prop_of (mc_request (mcr_challenge (the (ml_credential mpp authorization)))) ''methodDetails''"
  define feePayer where "feePayer = the (as_str (prop_of ?details ''feePayerKey''))"
  define t where "t = projr (parsePreparedPayShTransaction lib (base64_decode (pc_signedTransactionBase64 p)))"
  define amount where "amount = the (bigint_of (dq_amountAtomic quote))"
  have facts: "parsePreparedPayShTransaction lib (base64_decode (pc_signedTransactionBase64 p)) = Inr t
    \<and> bigint_of (dq_amountAtomic quote) = Some amount
    \<and> validatePreparedPayShTransaction lib
        \<lparr> px_feePayer = feePayer, px_asset = dq_asset quote, px_primaryRecipient = pc_platformRecipientWallet p,
          px_ownerRecipient = dq_payTo quote, px_totalAmountAtomic = dq_amountAtomic quote,
          px_ownerAmountAtomic = show_int (amount - 1), px_externalId = pc_externalId p \<rparr> t = Inr (pc_payer p)
    \<and> pc_quoteId p = dq_id quote \<and> pc_recentBlockhash p = pp_recentBlockhash t
    \<and> external_id_ok quote (pc_externalId p) \<and> \<not> jle (pc_challengeExpiresAt p) (Num now)
    \<and> \<not> jle (dq_expiresAt quote) (Num now)
    \<and> (truthy operatorWallet \<longrightarrow> operatorWallet = Some (pc_platformRecipientWallet p))
    \<and> (truthy feePayerKey \<longrightarrow> feePayerKey = Some feePayer)"
    using assms unfolding inspectMppCredential_def owner_amount_def Let_def feePayer_def t_def amount_def
    by (clarsimp simp: rbind_Inr_iff fee_payer_ok_def) (auto simp: truthy_iff split: option.splits)
  then have t: "parsePreparedPayShTransaction lib (base64_decode (pc_signedTransactionBase64 p)) = Inr t"
    and a: "bigint_of (dq_amountAtomic quote) = Some amount"
    and v: "validatePreparedPayShTransaction lib
        \<lparr> px_feePayer = feePayer, px_asset = dq_asset quote, px_primaryRecipient = pc_platformRecipientWallet p,
          px_ownerRecipient = dq_payTo quote, px_totalAmountAtomic = dq_amountAtomic quote,
          px_ownerAmountAtomic = show_int (amount - 1), px_externalId = pc_externalId p \<rparr> t = Inr (pc_payer p)"
    and r: "pc_quoteId p = dq_id quote" "pc_recentBlockhash p = pp_recentBlockhash t"
      "external_id_ok quote (pc_externalId p)" "\<not> jle (pc_challengeExpiresAt p) (Num now)"
      "\<not> jle (dq_expiresAt quote) (Num now)"
      "truthy operatorWallet \<longrightarrow> operatorWallet = Some (pc_platformRecipientWallet p)"
      "truthy feePayerKey \<longrightarrow> feePayerKey = Some feePayer"
    by - (elim conjE, assumption)+
  have pays: "2 \<le> amount \<and> pays_exactly lib
        \<lparr> px_feePayer = feePayer, px_asset = dq_asset quote, px_primaryRecipient = pc_platformRecipientWallet p,
          px_ownerRecipient = dq_payTo quote, px_totalAmountAtomic = dq_amountAtomic quote,
          px_ownerAmountAtomic = show_int (amount - 1), px_externalId = pc_externalId p \<rparr>
        1 (amount - 1) (pc_payer p) t" (is "_ \<and> pays_exactly lib ?x _ _ _ _")
  proof (rule validate_pays [OF v])
    fix total' owner
    assume b: "bigint_of (px_totalAmountAtomic ?x) = Some total'"
      "bigint_of (px_ownerAmountAtomic ?x) = Some owner" "0 < owner" "owner < total'"
      and w: "pays_exactly lib ?x (total' - owner) owner (pc_payer p) t"
    from b(1,2) a have "total' - owner = 1" "owner = amount - 1" by simp_all
    with b(3) w show "2 \<le> amount \<and> pays_exactly lib ?x 1 (amount - 1) (pc_payer p) t" by simp
  qed
  show ?thesis
    by (intro exI [of _ t] exI [of _ amount] exI [of _ feePayer] conjI t a r pays [THEN conjunct1] pays [THEN conjunct2])
qed

definition demo_pay_sh_tx :: legacy_tx where
  "demo_pay_sh_tx = demo_tx\<lparr> lt_instructions :=
     [\<lparr> ix_program = token_program, ix_accounts = [''p-ata'', ''mint'', ''op-ata'', ''p''],
        ix_data = 12 # le_bytes 8 1 @ [6] \<rparr>,
      \<lparr> ix_program = token_program, ix_accounts = [''p-ata'', ''mint'', ''o-ata'', ''p''],
        ix_data = 12 # le_bytes 8 4 @ [6] \<rparr>,
      \<lparr> ix_program = memo_program, ix_accounts = [], ix_data = utf8_encode ''human-document-krw-7#a'' \<rparr>] \<rparr>"

definition demo_pay_sh_lib :: svm_lib where
  "demo_pay_sh_lib = demo_lib\<lparr> lib_legacy_from := (\<lambda>_. Some demo_pay_sh_tx) \<rparr>"

definition demo_direct_quote :: direct_quote where
  "demo_direct_quote = \<lparr> dq_id = ''q'', dq_queryId = ''query'', dq_documentHandle = ''doc'', dq_payTo = ''o'',
     dq_network = ''net'', dq_asset = ''mint'', dq_amountAtomic = ''5'', dq_priceKrw = 7,
     dq_expiresAt = Num 2000, dq_status = ''quoted'' \<rparr>"

definition demo_challenge :: mpp_challenge where
  "demo_challenge = \<lparr> mc_id = JStr ''c'', mc_method = ''solana'', mc_intent = ''charge'',
     mc_request = JObj [(''amount'', JStr ''5''), (''currency'', JStr ''mint''),
       (''externalId'', JStr ''human-document-krw-7#a''), (''recipient'', JStr ''op''),
       (''methodDetails'', JObj [(''feePayer'', JBool True), (''feePayerKey'', JStr ''f''),
          (''recentBlockhash'', JStr ''h''),
          (''splits'', JArr [JObj [(''recipient'', JStr ''o''), (''amount'', JStr ''4'')]])])],
     mc_expires = Some ''soon'' \<rparr>"

definition demo_mpp :: mpp_lib where
  "demo_mpp = \<lparr> ml_extractPaymentScheme = Some, ml_credential = (\<lambda>_. Some \<lparr> mcr_challenge = demo_challenge,
       mcr_payload = JObj [(''type'', JStr ''transaction''), (''transaction'', JStr (base64_encode demo_prepared))] \<rparr>),
     ml_challenges = (\<lambda>_. Some [demo_challenge]),
     ml_receipt = (\<lambda>_. Some \<lparr> mr_method = ''solana'', mr_status = ''success'', mr_externalId = None, mr_reference = replicate 64 (CHR ''2'') \<rparr>),
     ml_date_parse = (\<lambda>_. Num 1500),
     ml_new_url = (\<lambda>p b. Some \<lparr> ru_href = b @ p, ru_pathname = takeWhile (\<lambda>c. c \<noteq> CHR ''?'') p, ru_searchParams = [(''quote_id'', ''q''), (''owner_wallet'', ''o'')] \<rparr>) \<rparr>"

definition demo_credential :: prepared_credential where
  "demo_credential = \<lparr> pc_quoteId = ''q'', pc_payer = ''p'', pc_platformRecipientWallet = ''op'', pc_challengeId = JStr ''c'',
     pc_externalId = ''human-document-krw-7#a'', pc_signedTransactionBase64 = base64_encode demo_prepared,
     pc_recentBlockhash = ''h'', pc_challengeExpiresAt = Num 1500 \<rparr>"

lemma demo_parsed:
  "parsePreparedPayShTransaction demo_pay_sh_lib bs = Inr \<lparr> pp_recentBlockhash = ''h'', pp_signerAddresses = [''f'', ''p''],
     pp_signatures = [replicate 64 0, replicate 64 1], pp_messageBytes = drop 129 bs,
     pp_instructions = lt_instructions demo_pay_sh_tx \<rparr>"
  by (simp add: parsePreparedPayShTransaction_def demo_pay_sh_lib_def lib_messageBytes_def demo_lib_def legacy_pay_sh_def
      demo_pay_sh_tx_def demo_tx_def legacy_signature_bytes_def truthy_def)

lemma demo_inspect:
  "inspectMppCredential demo_pay_sh_lib demo_mpp ''MPP x'' demo_direct_quote 1000 (Some ''op'') (Some ''f'') = Inr demo_credential"
proof -
  have e: "external_id_ok demo_direct_quote ''human-document-krw-7#a''"
    "\<not> quote_devnet demo_direct_quote"
    by code_simp+
  then have net: "prop_of d ''network'' = JUndef \<Longrightarrow> network_ok demo_direct_quote d" for d
    by (simp add: network_ok_def json_or_def)
  have b: "bigint_of ''5'' = Some 5" "bigint_of ''4'' = Some 4" "show_int 4 = ''4''" by code_simp+
  have k: "directPayShRecipientTokenAccount demo_pay_sh_lib m w = (if m \<noteq> [] \<and> w \<noteq> [] then Some (w @ ''-ata'') else None)" for m w
    by (simp add: directPayShRecipientTokenAccount_def demo_pay_sh_lib_def demo_lib_def)
  have l: "pay_sh_ix_loop ''p-ata'' ''mint'' ''p'' ''human-document-krw-7#a'' (lt_instructions demo_pay_sh_tx) [] False
     = Some ([transfer_text ''op-ata'' 1, transfer_text ''o-ata'' 4], True)"
    by code_simp
  have q: "dq_amountAtomic demo_direct_quote = ''5''" "dq_asset demo_direct_quote = ''mint''" "dq_payTo demo_direct_quote = ''o''"
    "dq_id demo_direct_quote = ''q''" "dq_expiresAt demo_direct_quote = Num 2000"
    by (simp_all add: demo_direct_quote_def)
  have v: "validatePreparedPayShTransaction demo_pay_sh_lib
        \<lparr> px_feePayer = ''f'', px_asset = ''mint'', px_primaryRecipient = ''op'', px_ownerRecipient = ''o'',
          px_totalAmountAtomic = ''5'', px_ownerAmountAtomic = ''4'', px_externalId = ''human-document-krw-7#a'' \<rparr>
        \<lparr> pp_recentBlockhash = ''h'', pp_signerAddresses = [''f'', ''p''],
           pp_signatures = [replicate 64 0, replicate 64 1], pp_messageBytes = m,
           pp_instructions = lt_instructions demo_pay_sh_tx \<rparr> = Inr ''p''" for m
    by (simp add: validatePreparedPayShTransaction_def k b l is_zero_replicate_iff)
      (simp add: demo_pay_sh_lib_def demo_lib_def)
  have n: "length demo_prepared = 130" by (simp add: demo_prepared_def)
  show ?thesis
    unfolding inspectMppCredential_def
    by (simp add: demo_parsed demo_mpp_def demo_challenge_def Let_def q e net v n owner_amount_def b truthy_def
        challenge_expiry_def fee_payer_ok_def owner_split_ok_def elem_def arr_or_empty_def demo_credential_def max_safe_integer_def)
qed

theorem pay_sh_credential_pays_quote_witness:
  "\<exists>t. parsePreparedPayShTransaction demo_pay_sh_lib demo_prepared = Inr t \<and> pp_recentBlockhash t = ''h''"
  using pay_sh_credential_pays_quote [OF demo_inspect] by (auto simp: demo_credential_def)

end
