(* ===== verification/Direct_Proxy.thy ===== *)
theory Direct_Proxy
  imports Pay_Sh_Credential
begin

text \<open>
  \<open>proxyPayShRequest\<close> of \<open>payment-gateway/src/direct-pay-sh-proxy.ts\<close>: the boundary in front of
  the Pay.sh gate, step by step, over procedures for the ledger, the RPC views and the upstream
  request. Header names are lower case and unique, as \<open>Headers\<close> keeps them. Cancelling the body of
  a response that is dropped is not modelled.
\<close>

section \<open>Headers and secrets\<close>

type_synonym headers = "(string \<times> string) list"

definition direct_pay_attempt_header :: string where
  "direct_pay_attempt_header = ''x-openshelf-pay-attempt''"

definition pay_sh_front_token_header :: string where
  "pay_sh_front_token_header = ''x-openshelf-pay-front-token''"

definition stripped_headers :: "string list" where
  "stripped_headers = [''host'', ''connection'', ''keep-alive'', ''content-length'', ''transfer-encoding'',
     ''upgrade'', ''proxy-authenticate'', ''proxy-authorization'', ''te'', ''trailer'', ''accept-encoding'',
     ''cookie'', ''payment-signature'', ''payment-required'', ''payment-response'', ''x-payment'',
     ''x-payment-response'', direct_pay_attempt_header, pay_sh_front_token_header,
     ''x-openshelf-internal-token'']"

definition forwardedHeaders :: "headers \<Rightarrow> headers" where
  "forwardedHeaders source =
     filter (\<lambda>(name, _). \<not> starts_with ''x-forwarded-'' name) (fold AList.delete stripped_headers source)"

definition sameSecret :: "string option \<Rightarrow> string option \<Rightarrow> bool" where
  "sameSecret candidate expected =
     (if \<not> truthy candidate \<or> \<not> truthy expected then False
      else utf8_encode (the candidate) = utf8_encode (the expected))"

section \<open>Dependencies\<close>

record proxy_request =
  rq_method :: string
  rq_pathAndQuery :: string
  rq_headers :: headers
  rq_body :: "bytes option"

record upstream_request =
  ur_url :: string
  ur_method :: string
  ur_headers :: headers
  ur_body :: "bytes option"

record upstream_response =
  up_status :: nat
  up_headers :: headers
  up_body :: bytes

definition up_ok :: "upstream_response \<Rightarrow> bool" where
  "up_ok response \<longleftrightarrow> 200 \<le> up_status response \<and> up_status response \<le> 299"

text \<open>\<open>bindChallenges\<close> and \<open>prepareDirect\<close> send fields of the route beside their own data. An absent
  \<open>afterDirectPrepare\<close> or \<open>afterDirectReceipt\<close> is the procedure that does nothing.\<close>

record 'w proxy_dependencies =
  dd_privatePayShBase :: string
  dd_frontToken :: string
  dd_operatorWallet :: "string option"
  dd_feePayerKey :: "string option"
  dd_researchAuthorizationToken :: "string option"
  dd_fetch :: "upstream_request \<Rightarrow> ('w, upstream_response) proc"
  dd_now :: "('w, int) proc"
  dd_loadQuote :: "string \<Rightarrow> ('w, direct_quote) proc"
  dd_recipientAssetAccountReady :: "direct_quote \<Rightarrow> ('w, bool) proc"
  dd_bindChallenges :: "string option \<Rightarrow> paid_route \<Rightarrow> challenge_binding list \<Rightarrow> ('w, unit) proc"
  dd_prepareDirect :: "string \<Rightarrow> string \<Rightarrow> prepared_credential \<Rightarrow> paid_route \<Rightarrow> ('w, unit) proc"
  dd_prepareResearch :: "string \<Rightarrow> string \<Rightarrow> prepared_credential \<Rightarrow> ('w, unit) proc"
  dd_recordDirectReceipt :: "string \<Rightarrow> string \<Rightarrow> ('w, unit) proc"
  dd_recordResearchReceipt :: "string \<Rightarrow> string \<Rightarrow> string \<Rightarrow> ('w, unit) proc"
  dd_receiptFinalized :: "receipt_evidence \<Rightarrow> ('w, bool) proc"
  dd_afterDirectPrepare :: "string \<Rightarrow> ('w, unit) proc"
  dd_afterDirectReceipt :: "string \<Rightarrow> ('w, unit) proc"

datatype receipt_binding =
    DirectReceipt string prepared_credential
  | ResearchReceipt string string prepared_credential

fun rb_prepared :: "receipt_binding \<Rightarrow> prepared_credential" where
  "rb_prepared (DirectReceipt a p) = p"
| "rb_prepared (ResearchReceipt j a p) = p"

section \<open>The request\<close>

text \<open>The checks of a paid route, up to its quote.\<close>

definition admit_paid_route ::
    "'w proxy_dependencies \<Rightarrow> headers \<Rightarrow> string option \<Rightarrow> paid_route \<Rightarrow> ('w, direct_quote) proc" where
  "admit_paid_route d headers queryToken route =
     (if pr_researchJobId route \<noteq> None
         \<and> \<not> sameSecret (map_of headers ''x-openshelf-internal-token'') (dd_researchAuthorizationToken d)
      then praise (PayShProxyErr 401 ''research_proxy_unauthorized'')
      else if pr_researchJobId route = None \<and> \<not> truthy queryToken
      then praise (PayShProxyErr 401 ''missing_query_token'')
      else if pr_researchJobId route \<noteq> None
         \<and> (case pr_paymentAttemptId route of None \<Rightarrow> True | Some a \<Rightarrow> \<not> re_hex64 a)
      then praise (PayShProxyErr 409 ''research_attempt_mismatch'')
      else
        pbind (dd_loadQuote d (pr_quoteId route)) (\<lambda>quote.
        pbind (plift (validateRouteQuote route quote)) (\<lambda>_.
        pbind (dd_recipientAssetAccountReady d quote) (\<lambda>ready.
          if \<not> ready then praise (PayShProxyErr 409 ''recipient_asset_account_missing'')
          else pret quote))))"

text \<open>Make the presented credential durable before it can be forwarded.\<close>

definition prepare_credential ::
    "svm_lib \<Rightarrow> mpp_lib \<Rightarrow> 'w proxy_dependencies \<Rightarrow> string \<Rightarrow> string option \<Rightarrow> paid_route \<Rightarrow> direct_quote
     \<Rightarrow> headers \<Rightarrow> ('w, headers \<times> receipt_binding option) proc" where
  "prepare_credential lib mpp d authorization queryToken route quote headers =
     pbind (dd_now d) (\<lambda>now.
     pbind (plift (inspectMppCredential lib mpp authorization quote now (dd_operatorWallet d) (dd_feePayerKey d))) (\<lambda>prepared.
     let attemptId = lib_sha256_bytes_hex lib (base64_decode (pc_signedTransactionBase64 prepared)) in
     case pr_researchJobId route of
       Some job \<Rightarrow>
         pbind (dd_prepareResearch d job (str_or (pr_paymentAttemptId route) []) prepared) (\<lambda>_.
           pret (headers, Some (ResearchReceipt job (str_or (pr_paymentAttemptId route) []) prepared)))
     | None \<Rightarrow>
         pbind (dd_prepareDirect d attemptId (str_or queryToken []) prepared route) (\<lambda>_.
         pbind (dd_afterDirectPrepare d attemptId) (\<lambda>_.
           pret (AList.update direct_pay_attempt_header attemptId headers,
             Some (DirectReceipt attemptId prepared))))))"

definition bind_unpaid_challenges ::
    "mpp_lib \<Rightarrow> 'w proxy_dependencies \<Rightarrow> string option \<Rightarrow> paid_route \<Rightarrow> direct_quote \<Rightarrow> upstream_response \<Rightarrow> ('w, unit) proc" where
  "bind_unpaid_challenges mpp d queryToken route quote upstream =
     pbind (dd_now d) (\<lambda>now.
     pbind (plift (inspectPayShChallenges mpp (map_of (up_headers upstream) ''www-authenticate'') quote now
         (dd_operatorWallet d) (dd_feePayerKey d))) (\<lambda>challenges.
       dd_bindChallenges d queryToken route challenges))"

definition receipt_acceptable :: "svm_lib \<Rightarrow> prepared_credential \<Rightarrow> mpp_receipt \<Rightarrow> bool" where
  "receipt_acceptable lib prepared receipt \<longleftrightarrow>
     mr_method receipt = ''solana'' \<and> mr_status receipt = ''success''
     \<and> (mr_externalId receipt = None \<or> mr_externalId receipt = Some (pc_externalId prepared))
     \<and> list_all is_base58 (mr_reference receipt)
     \<and> 64 \<le> length (mr_reference receipt) \<and> length (mr_reference receipt) \<le> 128
     \<and> receiptSignsPreparedTransaction lib (pc_signedTransactionBase64 prepared) (mr_reference receipt)"

definition accept_receipt ::
    "svm_lib \<Rightarrow> mpp_lib \<Rightarrow> 'w proxy_dependencies \<Rightarrow> receipt_binding \<Rightarrow> upstream_response \<Rightarrow> ('w, unit) proc" where
  "accept_receipt lib mpp d binding upstream =
     (let receiptHeader = map_of (up_headers upstream) ''payment-receipt''; prepared = rb_prepared binding in
      if \<not> truthy receiptHeader then praise (PayShProxyErr 502 ''missing_payment_receipt'')
      else case ml_receipt mpp (the receiptHeader) of
        None \<Rightarrow> praise (PayShProxyErr 502 ''invalid_payment_receipt'')
      | Some receipt \<Rightarrow>
          if \<not> receipt_acceptable lib prepared receipt
          then praise (PayShProxyErr 502 ''invalid_payment_receipt'')
          else (case completePayShReceiptTransaction lib (pc_signedTransactionBase64 prepared) (mr_reference receipt) of
              None \<Rightarrow> praise (PayShProxyErr 502 ''invalid_payment_receipt'')
            | Some evidence \<Rightarrow>
                pbind (case binding of DirectReceipt a _ \<Rightarrow> dd_afterDirectReceipt d a | ResearchReceipt _ _ _ \<Rightarrow> pret ()) (\<lambda>_.
                pbind (dd_receiptFinalized d evidence) (\<lambda>finalized.
                  if \<not> finalized then praise (PayShProxyErr 503 ''payment_finality_pending'')
                  else (case binding of
                      DirectReceipt a _ \<Rightarrow> dd_recordDirectReceipt d a (mr_reference receipt)
                    | ResearchReceipt j a _ \<Rightarrow> dd_recordResearchReceipt d j a (mr_reference receipt))))))"

text \<open>The steps after admission: prepare, forward, bind or accept.\<close>

definition present_credential ::
    "svm_lib \<Rightarrow> mpp_lib \<Rightarrow> 'w proxy_dependencies \<Rightarrow> string option \<Rightarrow> string option
     \<Rightarrow> (paid_route \<times> direct_quote) option \<Rightarrow> headers \<Rightarrow> ('w, headers \<times> receipt_binding option) proc" where
  "present_credential lib mpp d authorization queryToken paid headers =
     (case paid of
        None \<Rightarrow> pret (headers, None)
      | Some (route, quote) \<Rightarrow>
          if truthy authorization
          then prepare_credential lib mpp d (the authorization) queryToken route quote headers
          else pret (headers, None))"

definition after_response ::
    "svm_lib \<Rightarrow> mpp_lib \<Rightarrow> 'w proxy_dependencies \<Rightarrow> string option \<Rightarrow> string option
     \<Rightarrow> (paid_route \<times> direct_quote) option \<Rightarrow> receipt_binding option \<Rightarrow> upstream_response
     \<Rightarrow> ('w, upstream_response) proc" where
  "after_response lib mpp d authorization queryToken paid receiptBinding upstream =
     pbind (case paid of
         None \<Rightarrow> pret ()
       | Some (route, quote) \<Rightarrow>
           if \<not> truthy authorization \<and> up_status upstream = 402
           then bind_unpaid_challenges mpp d queryToken route quote upstream else pret ()) (\<lambda>_.
     pbind (case receiptBinding of
         None \<Rightarrow> pret ()
       | Some binding \<Rightarrow> if up_ok upstream then accept_receipt lib mpp d binding upstream else pret ()) (\<lambda>_.
     pret upstream))"

definition forward_request ::
    "svm_lib \<Rightarrow> mpp_lib \<Rightarrow> 'w proxy_dependencies \<Rightarrow> proxy_request \<Rightarrow> string option \<Rightarrow> string option
     \<Rightarrow> (paid_route \<times> direct_quote) option \<Rightarrow> headers \<Rightarrow> ('w, upstream_response) proc" where
  "forward_request lib mpp d request authorization queryToken paid headers0 =
     pbind (present_credential lib mpp d authorization queryToken paid headers0) (\<lambda>(headers, receiptBinding).
     pbind (plift (of_opt (Err ''Invalid URL'')
         (ml_new_url mpp (rq_pathAndQuery request) (dd_privatePayShBase d @ ''/'')))) (\<lambda>upstreamUrl.
     pbind (dd_fetch d \<lparr> ur_url = ru_href upstreamUrl, ur_method = rq_method request, ur_headers = headers,
         ur_body = rq_body request \<rparr>) (\<lambda>upstream.
     after_response lib mpp d authorization queryToken paid receiptBinding upstream)))"

definition proxyPayShRequest ::
    "svm_lib \<Rightarrow> mpp_lib \<Rightarrow> proxy_request \<Rightarrow> 'w proxy_dependencies \<Rightarrow> ('w, upstream_response) proc" where
  "proxyPayShRequest lib mpp request d =
     pbind (plift (assertOriginFormTarget (rq_pathAndQuery request))) (\<lambda>_.
     let headers = AList.update pay_sh_front_token_header (dd_frontToken d) (forwardedHeaders (rq_headers request));
         authorization = map_of (rq_headers request) ''authorization'' in
     pbind (plift (parsePaidRoute mpp (rq_pathAndQuery request))) (\<lambda>paidRoute.
     if paidRoute \<noteq> None \<and> truthy authorization \<and> \<not> truthy (ml_extractPaymentScheme mpp (the authorization))
     then praise (PayShProxyErr 400 ''unrecognized_payment_credential'')
     else
       let queryToken = map_option trim (map_of (rq_headers request) ''x-openshelf-query-token'') in
       case paidRoute of
         None \<Rightarrow>
           forward_request lib mpp d request authorization queryToken None (AList.delete ''authorization'' headers)
       | Some route \<Rightarrow>
           pbind (admit_paid_route d (rq_headers request) queryToken route) (\<lambda>quote.
             forward_request lib mpp d request authorization queryToken (Some (route, quote)) headers)))"

section \<open>The log of a request\<close>

datatype proxy_event =
    PNow
  | PLoadQuote string
  | PAccountReady direct_quote
  | PBind "string option" paid_route "challenge_binding list"
  | PPrepareDirect string string prepared_credential paid_route
  | PPrepareResearch string string prepared_credential
  | PFetch upstream_request
  | PRecordDirect string string
  | PRecordResearch string string string
  | PFinalized receipt_evidence
  | PAfterPrepare string
  | PAfterReceipt string

record proxy_env =
  pe_now :: "proxy_event list \<Rightarrow> int outcome"
  pe_quote :: "proxy_event list \<Rightarrow> string \<Rightarrow> direct_quote outcome"
  pe_fetch :: "proxy_event list \<Rightarrow> upstream_request \<Rightarrow> upstream_response outcome"
  pe_bool :: "proxy_event list \<Rightarrow> proxy_event \<Rightarrow> bool outcome"
  pe_unit :: "proxy_event list \<Rightarrow> proxy_event \<Rightarrow> unit outcome"

record proxy_config =
  pcf_base :: string
  pcf_frontToken :: string
  pcf_operator :: "string option"
  pcf_payerKey :: "string option"
  pcf_researchToken :: "string option"

definition logged_proxy :: "proxy_env \<Rightarrow> proxy_config \<Rightarrow> proxy_event list proxy_dependencies" where
  "logged_proxy env c =
     \<lparr> dd_privatePayShBase = pcf_base c, dd_frontToken = pcf_frontToken c, dd_operatorWallet = pcf_operator c,
       dd_feePayerKey = pcf_payerKey c, dd_researchAuthorizationToken = pcf_researchToken c,
       dd_fetch = (\<lambda>r. ask (\<lambda>h _. pe_fetch env h r) (PFetch r)), dd_now = ask (\<lambda>h _. pe_now env h) PNow,
       dd_loadQuote = (\<lambda>i. ask (\<lambda>h _. pe_quote env h i) (PLoadQuote i)),
       dd_recipientAssetAccountReady = (\<lambda>q. ask (pe_bool env) (PAccountReady q)),
       dd_bindChallenges = (\<lambda>t r b. ask (pe_unit env) (PBind t r b)),
       dd_prepareDirect = (\<lambda>a t p r. ask (pe_unit env) (PPrepareDirect a t p r)),
       dd_prepareResearch = (\<lambda>j a p. ask (pe_unit env) (PPrepareResearch j a p)),
       dd_recordDirectReceipt = (\<lambda>a s. ask (pe_unit env) (PRecordDirect a s)),
       dd_recordResearchReceipt = (\<lambda>j a s. ask (pe_unit env) (PRecordResearch j a s)),
       dd_receiptFinalized = (\<lambda>e. ask (pe_bool env) (PFinalized e)),
       dd_afterDirectPrepare = (\<lambda>a. ask (pe_unit env) (PAfterPrepare a)),
       dd_afterDirectReceipt = (\<lambda>a. ask (pe_unit env) (PAfterReceipt a)) \<rparr>"

text \<open>
  What the log may hold. \<open>acked env h ev\<close>: the ledger acknowledged \<open>ev\<close>. \<open>loaded env h quote\<close>: it was asked
  for a quote and answered \<open>quote\<close>. \<open>prepared_for\<close>: the credential passed inspection under a loaded quote, at
  a time the clock gave, and the ledger acknowledged its preparation.
\<close>

abbreviation acked :: "proxy_env \<Rightarrow> proxy_event list \<Rightarrow> proxy_event \<Rightarrow> bool" where
  "acked env h ev \<equiv> answered (pe_unit env) h ev ()"

definition loaded :: "proxy_env \<Rightarrow> proxy_event list \<Rightarrow> direct_quote \<Rightarrow> bool" where
  "loaded env h quote \<longleftrightarrow> (\<exists>i. answered (\<lambda>h _. pe_quote env h i) h (PLoadQuote i) quote)"

definition prepared_for ::
    "svm_lib \<Rightarrow> mpp_lib \<Rightarrow> proxy_env \<Rightarrow> proxy_config \<Rightarrow> string \<Rightarrow> proxy_event list \<Rightarrow> receipt_binding \<Rightarrow> bool" where
  "prepared_for lib mpp env c auth h b \<longleftrightarrow>
     (\<exists>quote now. loaded env h quote \<and> answered (\<lambda>h _. pe_now env h) h PNow now
        \<and> inspectMppCredential lib mpp auth quote now (pcf_operator c) (pcf_payerKey c) = Inr (rb_prepared b))
     \<and> (case b of
          DirectReceipt a p \<Rightarrow> a = lib_sha256_bytes_hex lib (base64_decode (pc_signedTransactionBase64 p))
            \<and> (\<exists>token route. acked env h (PPrepareDirect a token p route))
        | ResearchReceipt j a p \<Rightarrow> acked env h (PPrepareResearch j a p))"

fun is_fetch :: "proxy_event \<Rightarrow> bool" where
  "is_fetch (PFetch r) = True"
| "is_fetch _ = False"

definition no_fetch :: "proxy_event list \<Rightarrow> bool" where
  "no_fetch h \<longleftrightarrow> list_all (\<lambda>e. \<not> is_fetch e) h"

definition fetch_ok ::
    "svm_lib \<Rightarrow> mpp_lib \<Rightarrow> proxy_env \<Rightarrow> proxy_config \<Rightarrow> proxy_event list \<Rightarrow> upstream_request \<Rightarrow> bool" where
  "fetch_ok lib mpp env c pre r \<longleftrightarrow>
     no_fetch pre
     \<and> map_of (ur_headers r) pay_sh_front_token_header = Some (pcf_frontToken c)
     \<and> (\<forall>name \<in> set stripped_headers - {pay_sh_front_token_header, direct_pay_attempt_header}. map_of (ur_headers r) name = None)
     \<and> (\<forall>name. starts_with ''x-forwarded-'' name \<longrightarrow> map_of (ur_headers r) name = None)
     \<and> (\<forall>a. map_of (ur_headers r) direct_pay_attempt_header = Some a
          \<longrightarrow> (\<exists>token p route. acked env pre (PPrepareDirect a token p route)))
     \<and> (\<forall>auth. map_of (ur_headers r) ''authorization'' = Some auth \<and> auth \<noteq> [] \<longrightarrow> (\<exists>b. prepared_for lib mpp env c auth pre b))"

definition receipt_ok ::
    "svm_lib \<Rightarrow> mpp_lib \<Rightarrow> proxy_env \<Rightarrow> proxy_config \<Rightarrow> proxy_event list \<Rightarrow> receipt_binding \<Rightarrow> string \<Rightarrow> bool" where
  "receipt_ok lib mpp env c pre b s \<longleftrightarrow>
     (\<exists>auth. prepared_for lib mpp env c auth pre b)
     \<and> receiptSignsPreparedTransaction lib (pc_signedTransactionBase64 (rb_prepared b)) s
     \<and> (\<exists>evidence. completePayShReceiptTransaction lib (pc_signedTransactionBase64 (rb_prepared b)) s = Some evidence
          \<and> answered (pe_bool env) pre (PFinalized evidence) True)"

fun event_ok ::
    "svm_lib \<Rightarrow> mpp_lib \<Rightarrow> proxy_env \<Rightarrow> proxy_config \<Rightarrow> proxy_event list \<Rightarrow> proxy_event \<Rightarrow> bool" where
  "event_ok lib mpp env c pre (PFetch r) = fetch_ok lib mpp env c pre r"
| "event_ok lib mpp env c pre (PRecordDirect a s) = (\<exists>p. receipt_ok lib mpp env c pre (DirectReceipt a p) s)"
| "event_ok lib mpp env c pre (PRecordResearch j a s) = (\<exists>p. receipt_ok lib mpp env c pre (ResearchReceipt j a p) s)"
| "event_ok lib mpp env c pre _ = True"

abbreviation log_ok :: "svm_lib \<Rightarrow> mpp_lib \<Rightarrow> proxy_env \<Rightarrow> proxy_config \<Rightarrow> proxy_event list \<Rightarrow> bool" where
  "log_ok lib mpp env c \<equiv> log_inv (event_ok lib mpp env c)"

section \<open>Lemmas\<close>

lemma no_fetch_simps [simp]: "no_fetch []" "no_fetch (h @ h') \<longleftrightarrow> no_fetch h \<and> no_fetch h'"
    "no_fetch (e # h) \<longleftrightarrow> \<not> is_fetch e \<and> no_fetch h"
  by (auto simp: no_fetch_def)

lemma loaded_append: "loaded env h quote \<Longrightarrow> loaded env (h @ h') quote"
  unfolding loaded_def by (blast intro: answered_append)

lemma loaded_last: "pe_quote env h i = Inr quote \<Longrightarrow> loaded env (h @ [PLoadQuote i]) quote"
  unfolding loaded_def by (auto intro: answered_last)

lemma clock_last: "pe_now env h = Inr now \<Longrightarrow> answered (\<lambda>h _. pe_now env h) (h @ [PNow]) PNow now"
  by (rule answered_last)

lemma prepared_for_append: "prepared_for lib mpp env c auth h b \<Longrightarrow> prepared_for lib mpp env c auth (h @ h') b"
  by (cases b) (auto simp: prepared_for_def intro: answered_append loaded_append)

lemma map_of_forwarded:
  "map_of (forwardedHeaders hs) name =
     (if name \<in> set stripped_headers \<or> starts_with ''x-forwarded-'' name then None else map_of hs name)"
proof -
  have f: "map_of (filter (\<lambda>(k, _). P k) xs) name = (if P name then map_of xs name else None)"
    for P and xs :: headers by (induction xs) auto
  have d: "map_of (fold AList.delete ns xs) name = (if name \<in> set ns then None else map_of xs name)"
    for ns and xs :: headers by (induction ns arbitrary: xs) auto
  show ?thesis by (simp add: forwardedHeaders_def f d)
qed

lemma logged_proxy_sel:
  "dd_privatePayShBase (logged_proxy env c) = pcf_base c" "dd_frontToken (logged_proxy env c) = pcf_frontToken c"
  "dd_operatorWallet (logged_proxy env c) = pcf_operator c" "dd_feePayerKey (logged_proxy env c) = pcf_payerKey c"
  "dd_researchAuthorizationToken (logged_proxy env c) = pcf_researchToken c"
  "dd_fetch (logged_proxy env c) = (\<lambda>r. ask (\<lambda>h _. pe_fetch env h r) (PFetch r))"
  "dd_now (logged_proxy env c) = ask (\<lambda>h _. pe_now env h) PNow"
  "dd_loadQuote (logged_proxy env c) = (\<lambda>i. ask (\<lambda>h _. pe_quote env h i) (PLoadQuote i))"
  "dd_recipientAssetAccountReady (logged_proxy env c) = (\<lambda>q. ask (pe_bool env) (PAccountReady q))"
  "dd_bindChallenges (logged_proxy env c) = (\<lambda>t r b. ask (pe_unit env) (PBind t r b))"
  "dd_prepareDirect (logged_proxy env c) = (\<lambda>a t p r. ask (pe_unit env) (PPrepareDirect a t p r))"
  "dd_prepareResearch (logged_proxy env c) = (\<lambda>j a p. ask (pe_unit env) (PPrepareResearch j a p))"
  "dd_recordDirectReceipt (logged_proxy env c) = (\<lambda>a s. ask (pe_unit env) (PRecordDirect a s))"
  "dd_recordResearchReceipt (logged_proxy env c) = (\<lambda>j a s. ask (pe_unit env) (PRecordResearch j a s))"
  "dd_receiptFinalized (logged_proxy env c) = (\<lambda>e. ask (pe_bool env) (PFinalized e))"
  "dd_afterDirectPrepare (logged_proxy env c) = (\<lambda>a. ask (pe_unit env) (PAfterPrepare a))"
  "dd_afterDirectReceipt (logged_proxy env c) = (\<lambda>a. ask (pe_unit env) (PAfterReceipt a))"
  by (simp_all add: logged_proxy_def)

lemma wp_admit:
  assumes "log_ok lib mpp env c h" "no_fetch h"
  shows "wp (admit_paid_route (logged_proxy env c) hs qt route)
     (\<lambda>q h'. log_ok lib mpp env c h' \<and> no_fetch h' \<and> loaded env h' q)
     (\<lambda>_. log_ok lib mpp env c) h"
  unfolding admit_paid_route_def logged_proxy_sel
  by (intro wp_intros) (use assms in \<open>auto intro: loaded_append loaded_last simp del: append_assoc\<close>)

lemma wp_prepare:
  assumes "log_ok lib mpp env c h" "no_fetch h" "loaded env h quote"
  shows "wp (prepare_credential lib mpp (logged_proxy env c) auth qt route quote hs)
     (\<lambda>(hs', rb) h'. log_ok lib mpp env c h' \<and> no_fetch h' \<and> (\<exists>b. rb = Some b \<and> prepared_for lib mpp env c auth h' b
        \<and> hs' = (case b of DirectReceipt a _ \<Rightarrow> AList.update direct_pay_attempt_header a hs | _ \<Rightarrow> hs)))
     (\<lambda>_. log_ok lib mpp env c) h"
  unfolding prepare_credential_def logged_proxy_sel
  by (intro wp_intros)
    (use assms in \<open>auto simp: prepared_for_def simp del: append_assoc
      intro!: exI [of _ quote] intro: answered_last answered_append loaded_append clock_last\<close>)

lemma wp_bind:
  assumes "log_ok lib mpp env c h"
  shows "wp (bind_unpaid_challenges mpp (logged_proxy env c) qt route quote up)
     (\<lambda>_. log_ok lib mpp env c) (\<lambda>_. log_ok lib mpp env c) h"
  unfolding bind_unpaid_challenges_def logged_proxy_sel
  by (intro wp_intros) (use assms in \<open>auto simp del: append_assoc\<close>)

lemma receipt_okI:
  assumes "prepared_for lib mpp env c auth h b"
    and "receiptSignsPreparedTransaction lib (pc_signedTransactionBase64 (rb_prepared b)) s"
    and "completePayShReceiptTransaction lib (pc_signedTransactionBase64 (rb_prepared b)) s = Some evidence"
    and "pe_bool env h (PFinalized evidence) = Inr True"
  shows "receipt_ok lib mpp env c (h @ [PFinalized evidence]) b s"
  using assms prepared_for_append [OF assms(1), of "[PFinalized evidence]"] unfolding receipt_ok_def by (blast intro: answered_last)

lemma wp_accept:
  assumes "log_ok lib mpp env c h" "prepared_for lib mpp env c auth h b"
  shows "wp (accept_receipt lib mpp (logged_proxy env c) b up)
     (\<lambda>_. log_ok lib mpp env c) (\<lambda>_. log_ok lib mpp env c) h"
proof (cases b)
  case (DirectReceipt a q)
  show ?thesis
    unfolding accept_receipt_def logged_proxy_sel DirectReceipt receipt_binding.case
    by (intro wp_intros)
      (use assms DirectReceipt in \<open>auto simp: receipt_acceptable_def simp del: append_assoc
        intro!: exI [of _ q] receipt_okI prepared_for_append\<close>)
next
  case (ResearchReceipt j a q)
  show ?thesis
    unfolding accept_receipt_def logged_proxy_sel ResearchReceipt receipt_binding.case
    by (intro wp_intros)
      (use assms ResearchReceipt in \<open>auto simp: receipt_acceptable_def simp del: append_assoc
        intro!: exI [of _ q] receipt_okI prepared_for_append\<close>)
qed

lemma wp_after:
  assumes "log_ok lib mpp env c h" "case rb of None \<Rightarrow> True | Some b \<Rightarrow> \<exists>auth. prepared_for lib mpp env c auth h b"
    and "rb = None \<or> truthy authorization"
  shows "wp (after_response lib mpp (logged_proxy env c) authorization qt paid rb up)
     (\<lambda>_. log_ok lib mpp env c) (\<lambda>_. log_ok lib mpp env c) h"
proof (cases rb)
  case None
  then show ?thesis
    unfolding after_response_def
    by (intro wp_intros wp_mono [OF wp_bind]) (use assms in auto)
next
  case (Some b)
  with assms obtain auth where p: "prepared_for lib mpp env c auth h b" "truthy authorization" by auto
  with Some show ?thesis
    unfolding after_response_def
    by (intro wp_intros wp_mono [OF wp_accept]) (use assms(1) in auto)
qed

text \<open>Headers that may be sent as they are, when no credential is among them.\<close>

definition clean_headers :: "proxy_config \<Rightarrow> headers \<Rightarrow> bool" where
  "clean_headers c hs \<longleftrightarrow>
     map_of hs pay_sh_front_token_header = Some (pcf_frontToken c)
     \<and> (\<forall>name \<in> set stripped_headers - {pay_sh_front_token_header}. map_of hs name = None)
     \<and> (\<forall>name. starts_with ''x-forwarded-'' name \<longrightarrow> map_of hs name = None)"

lemma header_names:
  "direct_pay_attempt_header \<noteq> pay_sh_front_token_header" "direct_pay_attempt_header \<noteq> ''authorization''"
  "pay_sh_front_token_header \<noteq> ''authorization''" "''authorization'' \<notin> set stripped_headers"
  "direct_pay_attempt_header \<in> set stripped_headers" "pay_sh_front_token_header \<in> set stripped_headers"
  "\<not> starts_with ''x-forwarded-'' direct_pay_attempt_header" "\<not> starts_with ''x-forwarded-'' pay_sh_front_token_header"
  by (simp_all add: direct_pay_attempt_header_def pay_sh_front_token_header_def stripped_headers_def starts_with_def)

text \<open>The headers of a caller that never reach the gate, beside the two the proxy sets itself.\<close>

definition withheld_headers :: "string set" where
  "withheld_headers = {''host'', ''connection'', ''keep-alive'', ''content-length'', ''transfer-encoding'',
     ''upgrade'', ''proxy-authenticate'', ''proxy-authorization'', ''te'', ''trailer'', ''accept-encoding'',
     ''cookie'', ''payment-signature'', ''payment-required'', ''payment-response'', ''x-payment'',
     ''x-payment-response'', ''x-openshelf-internal-token''}"

lemma withheld_stripped:
  "withheld_headers \<subseteq> set stripped_headers - {pay_sh_front_token_header, direct_pay_attempt_header}"
  by (simp add: withheld_headers_def stripped_headers_def pay_sh_front_token_header_def direct_pay_attempt_header_def)

lemma wp_present:
  assumes "log_ok lib mpp env c h" "no_fetch h" "clean_headers c hs"
    and auth: "case paid of None \<Rightarrow> map_of hs ''authorization'' = None
       | Some (route, quote) \<Rightarrow> map_of hs ''authorization'' = auth \<and> loaded env h quote"
  shows "wp (present_credential lib mpp (logged_proxy env c) auth qt paid hs)
     (\<lambda>(hs', rb) h'. log_ok lib mpp env c h'
        \<and> (\<forall>url m body. fetch_ok lib mpp env c h' \<lparr> ur_url = url, ur_method = m, ur_headers = hs', ur_body = body \<rparr>)
        \<and> (case rb of None \<Rightarrow> True | Some b \<Rightarrow> \<exists>auth. prepared_for lib mpp env c auth h' b)
        \<and> (rb = None \<or> truthy auth))
     (\<lambda>_. log_ok lib mpp env c) h"
proof -
  have plain: "fetch_ok lib mpp env c h \<lparr> ur_url = url, ur_method = m, ur_headers = hs, ur_body = body \<rparr>"
    if "\<not> truthy (map_of hs ''authorization'')" for url m body
    using that assms(2,3) header_names by (auto simp: fetch_ok_def clean_headers_def truthy_def)
  have sent: "fetch_ok lib mpp env c h' \<lparr> ur_url = url, ur_method = m,
       ur_headers = (case b of DirectReceipt a _ \<Rightarrow> AList.update direct_pay_attempt_header a hs | _ \<Rightarrow> hs), ur_body = body \<rparr>"
    if "no_fetch h'" "prepared_for lib mpp env c (the auth) h' b" "map_of hs ''authorization'' = auth" for h' b url m body
  proof (cases b)
    case (DirectReceipt a p)
    with that(2) have "\<exists>token route. acked env h' (PPrepareDirect a token p route)"
      by (auto simp: prepared_for_def)
    with that assms(3) header_names DirectReceipt show ?thesis
      by (auto simp: fetch_ok_def clean_headers_def)
  next
    case (ResearchReceipt j a p)
    with that assms(3) header_names show ?thesis
      by (auto simp: fetch_ok_def clean_headers_def)
  qed
  show ?thesis
  proof (cases paid)
    case None
    with assms plain show ?thesis
      by (auto simp: present_credential_def wp_simps truthy_def)
  next
    case (Some rq)
    then obtain route quote where q: "paid = Some (route, quote)" "map_of hs ''authorization'' = auth"
      "loaded env h quote" using auth by (cases rq) auto
    show ?thesis
    proof (cases "truthy auth")
      case True
      then show ?thesis
        unfolding present_credential_def q option.case prod.case
        by (simp, intro wp_mono [OF wp_prepare [OF assms(1,2) q(3)]])
          (use sent [OF _ _ q(2)] in auto)
    next
      case False
      with assms plain q show ?thesis
        by (simp add: present_credential_def wp_simps)
    qed
  qed
qed

lemma wp_forward:
  assumes "log_ok lib mpp env c h" "no_fetch h" "clean_headers c hs"
    and "case paid of None \<Rightarrow> map_of hs ''authorization'' = None
       | Some (route, quote) \<Rightarrow> map_of hs ''authorization'' = auth \<and> loaded env h quote"
  shows "wp (forward_request lib mpp (logged_proxy env c) rq auth qt paid hs)
     (\<lambda>_. log_ok lib mpp env c) (\<lambda>_. log_ok lib mpp env c) h"
  unfolding forward_request_def logged_proxy_sel
  by (intro wp_intros wp_mono [OF wp_present [OF assms]] wp_after)
    (auto split: option.splits intro: prepared_for_append)

lemma wp_proxy:
  "wp (proxyPayShRequest lib mpp rq (logged_proxy env c)) (\<lambda>_. log_ok lib mpp env c) (\<lambda>_. log_ok lib mpp env c) []"
proof -
  let ?hs = "AList.update pay_sh_front_token_header (pcf_frontToken c) (forwardedHeaders (rq_headers rq))"
  have clean: "clean_headers c ?hs" "clean_headers c (AList.delete ''authorization'' ?hs)"
    using header_names by (auto simp: clean_headers_def map_of_forwarded)
  have auth: "map_of ?hs ''authorization'' = map_of (rq_headers rq) ''authorization''"
    using header_names by (auto simp: map_of_forwarded starts_with_def)
  show ?thesis
    unfolding proxyPayShRequest_def logged_proxy_sel
    by (intro wp_intros wp_mono [OF wp_admit] wp_mono [OF wp_forward]) (use clean auth in auto)
qed

section \<open>Properties\<close>

text \<open>C16: A request reaches the Pay.sh gate at most once, with the proxy's own token and without any of the
  caller's internal, payment, cookie, hop-by-hop or \<open>x-forwarded-\<close> headers; a credential goes with it only
  after it was inspected against a quote the ledger had answered and the ledger acknowledged the exact
  signed transaction, and an attempt header only after the ledger acknowledged that attempt.\<close>

theorem pay_sh_credential_fenced:
  assumes "proxyPayShRequest lib mpp rq (logged_proxy env c) [] = (r, hist)" "hist = pre @ PFetch ur # post"
  shows "no_fetch pre \<and> no_fetch post
    \<and> map_of (ur_headers ur) pay_sh_front_token_header = Some (pcf_frontToken c)
    \<and> (\<forall>name. name \<in> withheld_headers \<or> starts_with ''x-forwarded-'' name \<longrightarrow> map_of (ur_headers ur) name = None)
    \<and> (\<forall>a. map_of (ur_headers ur) direct_pay_attempt_header = Some a
         \<longrightarrow> (\<exists>token p route. acked env pre (PPrepareDirect a token p route)))
    \<and> (\<forall>auth. map_of (ur_headers ur) ''authorization'' = Some auth \<and> auth \<noteq> [] \<longrightarrow> (\<exists>b. prepared_for lib mpp env c auth pre b))"
proof -
  have l: "log_ok lib mpp env c hist"
    using wp_proxy [of lib mpp rq env c] assms(1) by (cases r) (auto simp: wp_def)
  have "fetch_ok lib mpp env c pre ur"
    using log_invD [OF l [unfolded assms(2)]] by simp
  moreover have "no_fetch post"
  proof (rule ccontr)
    assume "\<not> no_fetch post"
    then obtain e where "e \<in> set post" and f: "is_fetch e" by (auto simp: no_fetch_def list_all_iff)
    then obtain p1 p2 where "post = p1 @ e # p2" by (meson split_list)
    moreover obtain ur' where "e = PFetch ur'" using f by (cases e) auto
    ultimately have "post = p1 @ PFetch ur' # p2" by simp
    with l assms(2) have "event_ok lib mpp env c (pre @ PFetch ur # p1) (PFetch ur')"
      using log_invD [of "event_ok lib mpp env c" "pre @ PFetch ur # p1" "PFetch ur'" p2] by simp
    then show False by (simp add: fetch_ok_def)
  qed
  ultimately show ?thesis using withheld_stripped by (auto simp: fetch_ok_def)
qed

text \<open>C19: A receipt is recorded in the ledger only for a prepared credential, under the attempt it was
  prepared with, when its signature verifies over the prepared transaction and every independent
  view reported the completed transaction finalized.\<close>

theorem pay_sh_receipt_recorded_when_final:
  assumes "proxyPayShRequest lib mpp rq (logged_proxy env c) [] = (r, hist)" "hist = pre @ ev # post"
  shows "case ev of
      PRecordDirect a s \<Rightarrow> \<exists>p. receipt_ok lib mpp env c pre (DirectReceipt a p) s
    | PRecordResearch j a s \<Rightarrow> \<exists>p. receipt_ok lib mpp env c pre (ResearchReceipt j a p) s
    | _ \<Rightarrow> True"
proof -
  have "log_ok lib mpp env c hist"
    using wp_proxy [of lib mpp rq env c] assms(1) by (cases r) (auto simp: wp_def)
  with assms(2) have "event_ok lib mpp env c pre ev" by (auto dest: log_invD)
  then show ?thesis by (cases ev) simp_all
qed

definition demo_proxy_request :: proxy_request where
  "demo_proxy_request = \<lparr> rq_method = ''GET'', rq_pathAndQuery = ''/api/v2/pay-sh/documents/7/query/doc'',
     rq_headers = [(''authorization'', ''MPP x''), (''x-openshelf-query-token'', ''t''), (''cookie'', ''c''),
       (''x-forwarded-for'', ''10.0.0.7'')], rq_body = None \<rparr>"

definition demo_proxy_env :: proxy_env where
  "demo_proxy_env = \<lparr> pe_now = (\<lambda>_. Inr 1000), pe_quote = (\<lambda>_ _. Inr demo_direct_quote),
     pe_fetch = (\<lambda>_ _. Inr \<lparr> up_status = 200, up_headers = [(''payment-receipt'', ''r'')], up_body = [] \<rparr>),
     pe_bool = (\<lambda>_ _. Inr True), pe_unit = (\<lambda>_ _. Inr ()) \<rparr>"

definition demo_proxy_config :: proxy_config where
  "demo_proxy_config = \<lparr> pcf_base = ''http://g'', pcf_frontToken = ''secret'', pcf_operator = Some ''op'',
     pcf_payerKey = Some ''f'', pcf_researchToken = None \<rparr>"

definition demo_route :: paid_route where
  "demo_route = \<lparr> pr_priceKrw = 7, pr_queryId = ''query'', pr_handle = ''doc'', pr_quoteId = ''q'', pr_ownerWallet = ''o'',
     pr_researchJobId = None, pr_paymentAttemptId = None \<rparr>"

definition demo_upstream :: upstream_request where
  "demo_upstream = \<lparr> ur_url = ''http://g//api/v2/pay-sh/documents/7/query/doc'', ur_method = ''GET'',
     ur_headers = [(''authorization'', ''MPP x''), (''x-openshelf-query-token'', ''t''), (pay_sh_front_token_header, ''secret''),
        (direct_pay_attempt_header, replicate 64 (CHR ''b''))], ur_body = None \<rparr>"

definition demo_log :: "proxy_event list" where
  "demo_log = [PLoadQuote ''q'', PAccountReady demo_direct_quote, PNow,
     PPrepareDirect (replicate 64 (CHR ''b'')) ''t'' demo_credential demo_route, PAfterPrepare (replicate 64 (CHR ''b'')),
     PFetch demo_upstream, PAfterReceipt (replicate 64 (CHR ''b'')),
     PFinalized \<lparr> re_transactionSignature = replicate 64 (CHR ''2''), re_finalizedTransactionBase64 = base64_encode demo_candidate \<rparr>,
     PRecordDirect (replicate 64 (CHR ''b'')) (replicate 64 (CHR ''2''))]"

lemma demo_parse_route: "parsePaidRoute demo_mpp ''/api/v2/pay-sh/documents/7/query/doc'' = Inr (Some demo_route)"
  by code_simp

lemma demo_receipt_acceptable:
  "receipt_acceptable demo_pay_sh_lib demo_credential
     \<lparr> mr_method = ''solana'', mr_status = ''success'', mr_externalId = None, mr_reference = replicate 64 (CHR ''2'') \<rparr>"
proof -
  have "list_all is_base58 (replicate 64 (CHR ''2''))" by code_simp
  moreover have "receiptSignsPreparedTransaction demo_pay_sh_lib (base64_encode demo_prepared) s" for s
    by (simp add: receiptSignsPreparedTransaction_def demo_pay_sh_lib_def demo_lib_def receipt_slot_ok_def enumerate_eq_zip byte_of_def)
  ultimately show ?thesis
    by (simp add: receipt_acceptable_def demo_credential_def)
qed

lemma demo_proxy_run:
  "\<exists>r. proxyPayShRequest demo_pay_sh_lib demo_mpp demo_proxy_request (logged_proxy demo_proxy_env demo_proxy_config) [] = (r, demo_log)"
proof -
  have hs: "AList.update pay_sh_front_token_header ''secret'' (forwardedHeaders (rq_headers demo_proxy_request))
     = [(''authorization'', ''MPP x''), (''x-openshelf-query-token'', ''t''), (pay_sh_front_token_header, ''secret'')]"
    "map_of (rq_headers demo_proxy_request) ''authorization'' = Some ''MPP x''"
    "map_option trim (map_of (rq_headers demo_proxy_request) ''x-openshelf-query-token'') = Some ''t''"
    "assertOriginFormTarget (rq_pathAndQuery demo_proxy_request) = Inr ()"
    "validateRouteQuote demo_route demo_direct_quote = Inr ()"
    "AList.update direct_pay_attempt_header a [(''authorization'', ''MPP x''), (''x-openshelf-query-token'', ''t''), (pay_sh_front_token_header, ''secret'')]
      = [(''authorization'', ''MPP x''), (''x-openshelf-query-token'', ''t''), (pay_sh_front_token_header, ''secret''), (direct_pay_attempt_header, a)]" for a
    by code_simp+
  have sha: "lib_sha256_bytes_hex demo_pay_sh_lib bs = replicate 64 (CHR ''b'')" for bs
    by (simp add: demo_pay_sh_lib_def demo_lib_def)
  have complete: "completePayShReceiptTransaction demo_pay_sh_lib (base64_encode demo_prepared) s =
      Some \<lparr> re_transactionSignature = s, re_finalizedTransactionBase64 = base64_encode demo_candidate \<rparr>" for s
    by (simp add: demo_pay_sh_lib_def demo_complete_any)
  have tx: "pc_signedTransactionBase64 demo_credential = base64_encode demo_prepared"
    by (simp add: demo_credential_def)
  have accept: "accept_receipt demo_pay_sh_lib demo_mpp (logged_proxy demo_proxy_env demo_proxy_config)
      (DirectReceipt a demo_credential) \<lparr> up_status = 200, up_headers = [(''payment-receipt'', ''r'')], up_body = [] \<rparr> h =
    (Inr (), h @ [PAfterReceipt a, PFinalized \<lparr> re_transactionSignature = replicate 64 (CHR ''2''), re_finalizedTransactionBase64 = base64_encode demo_candidate \<rparr>,
       PRecordDirect a (replicate 64 (CHR ''2''))])" for a h
    using demo_receipt_acceptable
    by (simp add: accept_receipt_def truthy_def demo_mpp_def tx complete logged_proxy_sel pbind_def ask_def demo_proxy_env_def)
  have route: "pr_researchJobId demo_route = None" "pr_quoteId demo_route = ''q''"
    by (simp_all add: demo_route_def)
  have admit: "admit_paid_route (logged_proxy demo_proxy_env demo_proxy_config) hs' (Some ''t'') demo_route []
    = (Inr demo_direct_quote, [PLoadQuote ''q'', PAccountReady demo_direct_quote])" for hs'
    by (simp add: admit_paid_route_def logged_proxy_sel route truthy_def pbind_def ask_def plift_def pret_def hs demo_proxy_env_def)
  have prepare: "prepare_credential demo_pay_sh_lib demo_mpp (logged_proxy demo_proxy_env demo_proxy_config) ''MPP x'' (Some ''t'')
       demo_route demo_direct_quote hs' h
    = (Inr (AList.update direct_pay_attempt_header (replicate 64 (CHR ''b'')) hs',
         Some (DirectReceipt (replicate 64 (CHR ''b'')) demo_credential)),
       h @ [PNow, PPrepareDirect (replicate 64 (CHR ''b'')) ''t'' demo_credential demo_route, PAfterPrepare (replicate 64 (CHR ''b''))])"
    for hs' h
    using demo_inspect
    by (simp add: prepare_credential_def logged_proxy_sel route pbind_def ask_def plift_def pret_def sha tx str_or_def
        demo_proxy_env_def demo_proxy_config_def Let_def del: replicate.simps)
  have url: "ml_new_url demo_mpp p b = Some \<lparr> ru_href = b @ p, ru_pathname = takeWhile (\<lambda>c. c \<noteq> CHR ''?'') p,
     ru_searchParams = [(''quote_id'', ''q''), (''owner_wallet'', ''o'')] \<rparr>" for p b
    by (simp add: demo_mpp_def)
  have cfg: "pcf_frontToken demo_proxy_config = ''secret''" "pcf_base demo_proxy_config = ''http://g''"
    "rq_pathAndQuery demo_proxy_request = ''/api/v2/pay-sh/documents/7/query/doc''" "rq_method demo_proxy_request = ''GET''"
    "rq_body demo_proxy_request = None" "pe_fetch demo_proxy_env h u = Inr \<lparr> up_status = 200, up_headers = [(''payment-receipt'', ''r'')], up_body = [] \<rparr>" for h u
    by (simp_all add: demo_proxy_config_def demo_proxy_request_def demo_proxy_env_def)
  have forward: "\<exists>r. forward_request demo_pay_sh_lib demo_mpp (logged_proxy demo_proxy_env demo_proxy_config) demo_proxy_request
      (Some ''MPP x'') (Some ''t'') (Some (demo_route, demo_direct_quote))
      [(''authorization'', ''MPP x''), (''x-openshelf-query-token'', ''t''), (pay_sh_front_token_header, ''secret'')]
      [PLoadQuote ''q'', PAccountReady demo_direct_quote] = (r, demo_log)"
    unfolding forward_request_def present_credential_def after_response_def
    by (simp add: truthy_def prepare pbind_def url plift_def logged_proxy_sel cfg ask_def pret_def up_ok_def accept demo_log_def demo_upstream_def hs
        del: replicate.simps AList.update.simps)
  have scheme: "ml_extractPaymentScheme demo_mpp = Some" by (simp add: demo_mpp_def)
  show ?thesis
    unfolding proxyPayShRequest_def Let_def logged_proxy_sel cfg(1) hs
    by (simp add: cfg demo_parse_route scheme pbind_def plift_def truthy_def admit forward)
qed

theorem pay_sh_credential_fenced_witness:
  "\<exists>pre post. demo_log = pre @ PFetch demo_upstream # post \<and> no_fetch pre \<and> no_fetch post
     \<and> (\<exists>b. prepared_for demo_pay_sh_lib demo_mpp demo_proxy_env demo_proxy_config ''MPP x'' pre b)"
proof -
  obtain r where run: "proxyPayShRequest demo_pay_sh_lib demo_mpp demo_proxy_request
    (logged_proxy demo_proxy_env demo_proxy_config) [] = (r, demo_log)" using demo_proxy_run by blast
  have split: "demo_log = take 5 demo_log @ PFetch demo_upstream # drop 6 demo_log"
    by (simp add: demo_log_def)
  from pay_sh_credential_fenced [OF run split] show ?thesis
    by (intro exI [of _ "take 5 demo_log"] exI [of _ "drop 6 demo_log"] conjI split) (simp_all add: demo_upstream_def)
qed

theorem pay_sh_receipt_recorded_when_final_witness:
  "\<exists>p. receipt_ok demo_pay_sh_lib demo_mpp demo_proxy_env demo_proxy_config (take 8 demo_log)
     (DirectReceipt (replicate 64 (CHR ''b'')) p) (replicate 64 (CHR ''2''))"
proof -
  obtain r where run: "proxyPayShRequest demo_pay_sh_lib demo_mpp demo_proxy_request
    (logged_proxy demo_proxy_env demo_proxy_config) [] = (r, demo_log)" using demo_proxy_run by blast
  have split: "demo_log = take 8 demo_log @ PRecordDirect (replicate 64 (CHR ''b'')) (replicate 64 (CHR ''2'')) # []"
    by (simp add: demo_log_def)
  from pay_sh_receipt_recorded_when_final [OF run split] show ?thesis by simp
qed

end
