(* ===== verification/Payout.thy ===== *)
theory Payout
  imports Configuration Chain_Reconciler
begin

text \<open>
  A payout claim and its observation on chain, in the two copies the repository has:
  \<open>payment-gateway/src/payout-reconciliation.ts\<close> (the local escrow worker, with the ledger client
  of \<open>payout-ledger-client.ts\<close>) and \<open>agent-orchestrator/src/refunds.ts\<close> (the KMS worker). HTTP is a
  procedure \<open>post url timeout body\<close>, \<open>JSON.parse\<close> the parameter \<open>json_parse\<close>; the counter the code
  numbers its RPC requests with is the argument \<open>rpcId\<close>.
\<close>

section \<open>Claims\<close>

definition devnet_network :: string where
  "devnet_network = ''solana:EtWTRABZaYq6iMfeYKouRu166VU2xqa1''"

definition payout_usdc :: string where
  "payout_usdc = ''4zMMC9srt5Ri5X14GAgXhaHii3GnPAEERYPJgZJDncDU''"

definition max_payout_atomic :: int where
  "max_payout_atomic = 9223372036854775807"

record payout_claim =
  pcl_id :: string
  pcl_escrowWallet :: string
  pcl_recipientWallet :: string
  pcl_asset :: string
  pcl_network :: string
  pcl_amountAtomic :: string
  pcl_status :: string
  pcl_transactionSignature :: "string option"
  pcl_signedTransactionBase64 :: "string option"
  pcl_recentBlockhash :: "string option"
  pcl_lastValidBlockHeight :: "jnum option"

datatype block_height = HeightNumber jnum | HeightBigint int

fun ledgerBlockHeight :: "block_height \<Rightarrow> int outcome" where
  "ledgerBlockHeight (HeightBigint v) =
     (if v \<le> 0 \<or> max_safe_integer < v
      then Inl (Err ''payout block height is outside the JSON safe-integer range'') else Inr v)"
| "ledgerBlockHeight (HeightNumber x) =
     (if \<not> is_safe_integer x \<or> jle x (Num 0)
      then Inl (Err ''payout block height is not a positive safe integer'') else Inr (jint x))"

text \<open>\<open>/^[A-Za-z0-9:_-]{3,128}$/\<close>\<close>

definition re_claim_id :: "string \<Rightarrow> bool" where
  "re_claim_id s \<longleftrightarrow> 3 \<le> length s \<and> length s \<le> 128
     \<and> list_all (\<lambda>c. is_alnum c \<or> c \<in> {CHR '':'', CHR ''_'', CHR ''-''}) s"

text \<open>Evidence: signature, bytes, blockhash and height, each present or not.\<close>

definition claim_evidence :: "payout_claim \<Rightarrow> bool list" where
  "claim_evidence claim =
     [pcl_transactionSignature claim \<noteq> None, pcl_signedTransactionBase64 claim \<noteq> None,
      pcl_recentBlockhash claim \<noteq> None, pcl_lastValidBlockHeight claim \<noteq> None]"

text \<open>The pattern of the source is implied by its second test, that the text is the encoding of
  the bytes it decodes to.\<close>

text \<open>The pattern of padded base64: groups of four, the last one padded with one or two equals signs.\<close>

definition b64_letter :: "char \<Rightarrow> bool" where
  "b64_letter c \<longleftrightarrow> is_alnum c \<or> c = CHR ''+'' \<or> c = CHR ''/''"

fun re_base64_groups :: "string \<Rightarrow> bool" where
  "re_base64_groups [] \<longleftrightarrow> True"
| "re_base64_groups [a, b, c, d] \<longleftrightarrow> b64_letter a \<and> b64_letter b
     \<and> (b64_letter c \<and> b64_letter d \<or> b64_letter c \<and> d = CHR ''='' \<or> c = CHR ''='' \<and> d = CHR ''='')"
| "re_base64_groups (a # b # c # d # rest) \<longleftrightarrow> b64_letter a \<and> b64_letter b \<and> b64_letter c \<and> b64_letter d \<and> re_base64_groups rest"
| "re_base64_groups _ \<longleftrightarrow> False"

definition canonical_payout_bytes :: "string \<Rightarrow> bool" where
  "canonical_payout_bytes encoded \<longleftrightarrow>
     32 \<le> length encoded \<and> length encoded \<le> 32768 \<and> re_base64_groups encoded \<and> canonical_base64 encoded"

text \<open>\<open>unsafe_height\<close> is the last test, on a height that is there.\<close>

definition unsafe_height :: "jnum option \<Rightarrow> bool" where
  "unsafe_height h = (case h of None \<Rightarrow> True | Some x \<Rightarrow> \<not> is_safe_integer x \<or> jle x (Num 0))"

definition validateLocalPayoutClaim :: "svm_lib \<Rightarrow> payout_claim \<Rightarrow> string \<Rightarrow> unit outcome" where
  "validateLocalPayoutClaim lib claim signerAddress =
     require (re_claim_id (pcl_id claim)) (Err ''unsafe payout memo id'')
    (require (pcl_escrowWallet claim = signerAddress) (Err ''payout escrow signer mismatch'')
    (require (pcl_network claim = devnet_network) (Err ''payout network mismatch'')
    (require (pcl_asset claim = payout_usdc) (Err ''payout asset mismatch'')
    (require (lib_address lib (pcl_escrowWallet claim)) (Err ''invalid address'')
    (require (lib_address lib (pcl_recipientWallet claim)) (Err ''invalid address'')
    (require (re_positive (pcl_amountAtomic claim)) (Err ''payout amount is not a canonical positive integer'')
    (require (int (dec_value (pcl_amountAtomic claim)) \<le> max_payout_atomic)
      (Err ''payout amount exceeds the ledger range'')
    (require (pcl_status claim = ''leased'' \<or> pcl_status claim = ''prepared'')
      (Err ''payout status is not worker-owned'')
    (if pcl_status claim = ''leased'' then
       require (list_all Not (claim_evidence claim)) (Err ''leased payout has partial evidence'') (Inr ())
     else
       require (list_all id (claim_evidence claim)) (Err ''prepared payout evidence is incomplete'')
      (require (lib_signature lib (the (pcl_transactionSignature claim))) (Err ''invalid signature'')
      (require (lib_address lib (the (pcl_recentBlockhash claim))) (Err ''invalid address'')
      (require (canonical_payout_bytes (the (pcl_signedTransactionBase64 claim)))
        (Err ''prepared payout bytes are not canonical base64'')
      (require (\<not> unsafe_height (pcl_lastValidBlockHeight claim))
        (Err ''prepared payout block height is invalid'') (Inr ()))))))))))))))"

text \<open>The orchestrator's copy makes the same tests with messages of its own.\<close>

definition validatePayoutClaim :: "svm_lib \<Rightarrow> payout_claim \<Rightarrow> string \<Rightarrow> unit outcome" where
  "validatePayoutClaim lib claim signerAddress =
     require (re_claim_id (pcl_id claim)) (Err ''payout claim id is not safe for the on-chain memo'')
    (require (pcl_escrowWallet claim = signerAddress) (Err ''payout claim belongs to another escrow signer'')
    (require (pcl_network claim = devnet_network) (Err (''payout worker rejected network '' @ pcl_network claim))
    (require (pcl_asset claim = payout_usdc) (Err (''payout worker rejected asset '' @ pcl_asset claim))
    (require (lib_address lib (pcl_escrowWallet claim)) (Err ''invalid address'')
    (require (lib_address lib (pcl_recipientWallet claim)) (Err ''invalid address'')
    (require (re_positive (pcl_amountAtomic claim)) (Err ''payout amount must be a canonical positive integer'')
    (require (int (dec_value (pcl_amountAtomic claim)) \<le> max_payout_atomic)
      (Err ''payout amount exceeds the ledger range'')
    (require (pcl_status claim = ''leased'' \<or> pcl_status claim = ''prepared'')
      (Err (''payout worker rejected status '' @ pcl_status claim))
    (if pcl_status claim = ''leased'' then
       require (list_all Not (claim_evidence claim)) (Err ''unprepared payout contains partial transaction evidence'') (Inr ())
     else
       require (list_all id (claim_evidence claim)) (Err ''prepared payout is missing exact transaction evidence'')
      (require (lib_signature lib (the (pcl_transactionSignature claim))) (Err ''invalid signature'')
      (require (lib_address lib (the (pcl_recentBlockhash claim))) (Err ''invalid address'')
      (require (canonical_payout_bytes (the (pcl_signedTransactionBase64 claim)))
        (Err ''prepared payout has non-canonical transaction bytes'')
      (require (\<not> unsafe_height (pcl_lastValidBlockHeight claim))
        (Err ''prepared payout has an invalid last valid block height'') (Inr ()))))))))))))))"

section \<open>RPC\<close>

definition max_payout_rpc_bytes :: int where
  "max_payout_rpc_bytes = 1024 * 1024"

definition payoutSafeTimeout :: "int option \<Rightarrow> int" where
  "payoutSafeTimeout v =
     (case v of None \<Rightarrow> 10000
      | Some t \<Rightarrow> if is_safe_integer (Num t) \<and> 0 < t \<and> t \<le> 60000 then t else 10000)"

definition rpcCall ::
    "(bytes \<Rightarrow> json option) \<Rightarrow> (string \<Rightarrow> int \<Rightarrow> json \<Rightarrow> ('w, http_response) proc) \<Rightarrow> int
     \<Rightarrow> string \<Rightarrow> string \<Rightarrow> json list \<Rightarrow> int \<Rightarrow> ('w, json) proc" where
  "rpcCall json_parse post rpcId rpcUrl meth params timeoutMs =
     pbind (post rpcUrl timeoutMs (JObj [(''jsonrpc'', JStr ''2.0''), (''id'', JNum (Num rpcId)),
         (''method'', JStr meth), (''params'', JArr params)])) (\<lambda>response.
     pbind (plift (boundedResponseText_checked response max_payout_rpc_bytes)) (\<lambda>text.
       if \<not> hr_ok response then praise (Err ''Solana RPC failed'')
       else case json_parse text of
         None \<Rightarrow> praise (Err ''invalid JSON'')
       | Some body \<Rightarrow>
           if json_truthy (prop_of body ''error'') \<or> \<not> has_prop body ''result''
           then praise (Err ''Solana RPC failed: missing result'')
           else pret (prop_of body ''result'')))"

section \<open>Observation\<close>

datatype payout_observation = PayoutFinalized | PayoutAbsentOrFailed | PayoutInconclusive

text \<open>A view: the status (\<open>JNull\<close> for an unknown signature) and the finalized height.\<close>

type_synonym payout_view = "json \<times> int"

definition payout_view_of ::
    "(string \<Rightarrow> json list \<Rightarrow> ('w, json) proc) \<Rightarrow> string \<Rightarrow> ('w, payout_view option) proc" where
  "payout_view_of call signature =
     pcatch
       (pbind (call ''getSignatureStatuses''
           [JArr [JStr signature], JObj [(''searchTransactionHistory'', JBool True)]]) (\<lambda>statuses.
        case prop_of statuses ''value'' of
          JArr [status] \<Rightarrow>
            if status \<noteq> JNull \<and> \<not> has_prop status ''err'' then pret None
            else pbind (call ''getBlockHeight'' [JObj [(''commitment'', JStr ''finalized'')]]) (\<lambda>height.
              if \<not> json_safe_integer height \<or> json_int height < 0 then pret None
              else pret (Some (status, json_int height)))
        | _ \<Rightarrow> pret None))
       (\<lambda>_. pret None)"

definition status_commitment :: "string set \<Rightarrow> json \<Rightarrow> bool" where
  "status_commitment levels status \<longleftrightarrow>
     prop_of status ''err'' = JNull \<and> prop_of status ''confirmationStatus'' \<in> JStr ` levels"

text \<open>The gateway's decision over complete views, and the orchestrator's, which has one more case.\<close>

definition decide_payout :: "jnum \<Rightarrow> payout_view list \<Rightarrow> payout_observation" where
  "decide_payout lastValid views =
     (if list_all (\<lambda>(status, _). status_commitment {''finalized''} status) views then PayoutFinalized
      else if list_ex (\<lambda>(status, _). status_commitment {''confirmed'', ''finalized''} status) views
      then PayoutInconclusive
      else if list_all (\<lambda>(_, height). jlt lastValid (Num height)) views then PayoutAbsentOrFailed
      else PayoutInconclusive)"

definition decide_refund :: "jnum \<Rightarrow> payout_view list \<Rightarrow> payout_observation" where
  "decide_refund lastValid views =
     (if list_all (\<lambda>(status, _). status_commitment {''finalized''} status) views then PayoutFinalized
      else if list_ex (\<lambda>(status, _). status_commitment {''confirmed'', ''finalized''} status) views
      then PayoutInconclusive
      else if list_ex (\<lambda>(status, _). status \<noteq> JNull \<and> prop_of status ''err'' = JNull) views
      then PayoutInconclusive
      else if list_all (\<lambda>(_, height). jlt lastValid (Num height)) views then PayoutAbsentOrFailed
      else PayoutInconclusive)"

text \<open>\<open>!signature || !lastValidBlockHeight\<close>\<close>

definition no_evidence :: "string option \<Rightarrow> jnum option \<Rightarrow> bool" where
  "no_evidence signature height \<longleftrightarrow>
     \<not> truthy signature \<or> (case height of None \<Rightarrow> True | Some x \<Rightarrow> \<not> json_truthy (JNum x))"

definition observe_views ::
    "(jnum \<Rightarrow> payout_view list \<Rightarrow> payout_observation) \<Rightarrow> (string \<Rightarrow> string \<Rightarrow> json list \<Rightarrow> ('w, json) proc)
     \<Rightarrow> string \<Rightarrow> jnum \<Rightarrow> string list \<Rightarrow> ('w, payout_observation) proc" where
  "observe_views decide call signature lastValid rpcUrls =
     (if length rpcUrls < 2 then pret PayoutInconclusive
      else pbind (pmapM (\<lambda>rpcUrl. payout_view_of (call rpcUrl) signature) rpcUrls) (\<lambda>views.
        if \<not> list_all (\<lambda>v. v \<noteq> None) views then pret PayoutInconclusive
        else pret (decide lastValid (map the views))))"

definition observePreparedPayout ::
    "url_parser \<Rightarrow> (string \<Rightarrow> string \<Rightarrow> json list \<Rightarrow> int \<Rightarrow> ('w, json) proc)
     \<Rightarrow> string option \<Rightarrow> jnum option \<Rightarrow> string list \<Rightarrow> int option \<Rightarrow> ('w, payout_observation) proc" where
  "observePreparedPayout new_url call signature lastValid urls rpcTimeoutMs =
     (if no_evidence signature lastValid then pret PayoutInconclusive
      else pbind (plift (independentRpcUrls new_url urls)) (\<lambda>rpcUrls.
        observe_views decide_payout (\<lambda>u m ps. call u m ps (payoutSafeTimeout rpcTimeoutMs))
          (the signature) (the lastValid) rpcUrls))"

text \<open>The orchestrator's own \<open>independentRpcUrls\<close> skips an endpoint that does not parse.\<close>

fun refundRpcUrls :: "url_parser \<Rightarrow> (string \<times> string) list \<Rightarrow> string list \<Rightarrow> string list" where
  "refundRpcUrls new_url byOrigin [] = map snd byOrigin"
| "refundRpcUrls new_url byOrigin (v # vs) =
     (case new_url v of
        None \<Rightarrow> refundRpcUrls new_url byOrigin vs
      | Some url \<Rightarrow> refundRpcUrls new_url
          (if map_of byOrigin (url_origin url) = None then byOrigin @ [(url_origin url, url_href url)] else byOrigin) vs)"

definition observePreparedRefund ::
    "url_parser \<Rightarrow> (string \<Rightarrow> string \<Rightarrow> json list \<Rightarrow> int \<Rightarrow> ('w, json) proc)
     \<Rightarrow> payout_claim \<Rightarrow> string list \<Rightarrow> int option \<Rightarrow> ('w, payout_observation) proc" where
  "observePreparedRefund new_url call claim urls rpcTimeoutMs =
     (if no_evidence (pcl_transactionSignature claim) (pcl_lastValidBlockHeight claim) then pret PayoutInconclusive
      else observe_views decide_refund (\<lambda>u m ps. call u m ps (payoutSafeTimeout rpcTimeoutMs))
        (the (pcl_transactionSignature claim)) (the (pcl_lastValidBlockHeight claim)) (refundRpcUrls new_url [] urls))"

section \<open>The ledger client\<close>

definition max_ledger_response_bytes :: int where
  "max_ledger_response_bytes = 1024 * 1024"

definition ledgerSafeTimeout :: "int option \<Rightarrow> int" where
  "ledgerSafeTimeout v =
     (case v of None \<Rightarrow> 20000
      | Some t \<Rightarrow> if is_safe_integer (Num t) \<and> 0 < t \<and> t \<le> 60000 then t else 20000)"

definition payoutLedgerJson ::
    "(bytes \<Rightarrow> json option) \<Rightarrow> (string \<Rightarrow> int \<Rightarrow> (string \<times> string) list \<Rightarrow> json \<Rightarrow> ('w, http_response) proc)
     \<Rightarrow> string \<Rightarrow> string \<Rightarrow> int option \<Rightarrow> string \<Rightarrow> (string \<times> string) list \<Rightarrow> json \<Rightarrow> ('w, json) proc" where
  "payoutLedgerJson json_parse request baseUrl internalToken timeoutMs path headers body =
     pbind (request (baseUrl @ path) (ledgerSafeTimeout timeoutMs)
       (fold (\<lambda>(k, v). AList.update k v) headers
         [(''content-type'', ''application/json''), (''x-openshelf-internal-token'', internalToken),
          (''x-openshelf-payout-protocol'', ''exact-payout-v1'')]) body) (\<lambda>response.
     pbind (plift (boundedResponseText_checked response max_ledger_response_bytes)) (\<lambda>text.
       if \<not> hr_ok response then praise (Err ''Rust API error'')
       else case json_parse text of
         None \<Rightarrow> praise (Err ''invalid JSON'')
       | Some v \<Rightarrow> pret v))"

section \<open>What an observation rests on\<close>

type_synonym payout_query = "string \<times> string \<times> json list \<times> int"

abbreviation logged_call :: "(payout_query list \<Rightarrow> payout_query \<Rightarrow> json outcome)
    \<Rightarrow> string \<Rightarrow> string \<Rightarrow> json list \<Rightarrow> int \<Rightarrow> (payout_query list, json) proc" where
  "logged_call env u m ps t \<equiv> ask env (u, m, ps, t)"

text \<open>The endpoint \<open>u\<close> reported this view: one status for the signature, and a finalized height.\<close>

definition view_reported ::
    "(payout_query list \<Rightarrow> payout_query \<Rightarrow> json outcome) \<Rightarrow> int \<Rightarrow> string \<Rightarrow> string \<Rightarrow> payout_view \<Rightarrow> bool" where
  "view_reported env t signature u view \<longleftrightarrow>
     (\<exists>pre ans pre' height.
        env pre (u, ''getSignatureStatuses'', [JArr [JStr signature], JObj [(''searchTransactionHistory'', JBool True)]], t) = Inr ans
        \<and> prop_of ans ''value'' = JArr [fst view]
        \<and> env pre' (u, ''getBlockHeight'', [JObj [(''commitment'', JStr ''finalized'')]], t) = Inr height
        \<and> json_safe_integer height \<and> json_int height = snd view \<and> 0 \<le> snd view)"

lemma wp_payout_view:
  "wp (payout_view_of (\<lambda>m ps. logged_call env u m ps t) signature)
     (\<lambda>v _. \<forall>view. v = Some view \<longrightarrow> view_reported env t signature u view) (\<lambda>_ _. False) h"
proof -
  have r: "view_reported env t signature u (status, json_int height)"
    if "env pre (u, ''getSignatureStatuses'', [JArr [JStr signature], JObj [(''searchTransactionHistory'', JBool True)]], t) = Inr ans"
      "prop_of ans ''value'' = JArr [status]"
      "env pre' (u, ''getBlockHeight'', [JObj [(''commitment'', JStr ''finalized'')]], t) = Inr height"
      "json_safe_integer height" "\<not> json_int height < 0" for pre pre' ans status height
    using that unfolding view_reported_def by (simp, blast)
  show ?thesis
    unfolding payout_view_of_def
    apply (intro wp_intros)
    subgoal for ans
      apply (cases "prop_of ans ''value''"; simp add: wp_simps)
      subgoal for xs
        by (cases xs rule: remdups_adj.cases) (auto simp: wp_simps split: sum.splits intro!: r)
      done
    by simp
qed

text \<open>
  The contract of a decision, and what an observation that keeps it is worth: a \<open>finalized\<close> verdict
  has at least two views and each reported the signature finalized without error; an
  \<open>absent_or_failed\<close> verdict has at least two, each past the last valid height, none confirming.
\<close>

locale payout_decision =
  fixes decide :: "jnum \<Rightarrow> payout_view list \<Rightarrow> payout_observation"
  assumes decide_finalized: "decide h views = PayoutFinalized \<Longrightarrow> (status, b) \<in> set views \<Longrightarrow>
      status_commitment {''finalized''} status"
    and decide_absent: "decide h views = PayoutAbsentOrFailed \<Longrightarrow> (status, b) \<in> set views \<Longrightarrow>
      jlt h (Num b) \<and> \<not> status_commitment {''confirmed'', ''finalized''} status"
begin

lemma wp_observe:
  "wp (observe_views decide (\<lambda>u m ps. logged_call env u m ps t) signature h urls)
     (\<lambda>r _. (r = PayoutFinalized \<longrightarrow> 2 \<le> length urls \<and> (\<forall>u \<in> set urls. \<exists>status b.
               view_reported env t signature u (status, b) \<and> status_commitment {''finalized''} status))
          \<and> (r = PayoutAbsentOrFailed \<longrightarrow> 2 \<le> length urls \<and> (\<forall>u \<in> set urls. \<exists>status b.
               view_reported env t signature u (status, b) \<and> jlt h (Num b)
               \<and> \<not> status_commitment {''confirmed'', ''finalized''} status)))
     (\<lambda>_ _. False) w"
proof -
  let ?R = "\<lambda>u v. \<forall>view. v = Some view \<longrightarrow> view_reported env t signature u view"
  have post: "(decide h (map the vs) = PayoutFinalized \<longrightarrow> (\<forall>u \<in> set urls. \<exists>status b.
            view_reported env t signature u (status, b) \<and> status_commitment {''finalized''} status))
      \<and> (decide h (map the vs) = PayoutAbsentOrFailed \<longrightarrow> (\<forall>u \<in> set urls. \<exists>status b.
            view_reported env t signature u (status, b) \<and> jlt h (Num b)
            \<and> \<not> status_commitment {''confirmed'', ''finalized''} status))"
    if r: "list_all2 ?R urls vs" and c: "list_all (\<lambda>v. v \<noteq> None) vs" for vs
  proof -
    have e: "\<exists>status b. view_reported env t signature u (status, b) \<and> (status, b) \<in> set (map the vs)"
      if "u \<in> set urls" for u
    proof -
      from that obtain i where i: "i < length urls" "u = urls ! i" by (metis in_set_conv_nth)
      with r have l: "i < length vs" "?R u (vs ! i)" by (auto simp: list_all2_conv_all_nth)
      with c obtain status b where v: "vs ! i = Some (status, b)" by (cases "vs ! i") (auto simp: list_all_length)
      then have "(status, b) \<in> set (map the vs)" using l(1) by (metis length_map nth_map nth_mem option.sel)
      with l v show ?thesis by auto
    qed
    show ?thesis
      using e decide_finalized [of h "map the vs"] decide_absent [of h "map the vs"] by blast
  qed
  show ?thesis
    unfolding observe_views_def
    by (intro wp_intros wp_mono [OF wp_pmapM_total [where R = ?R]] wp_mono [OF wp_payout_view])
      (use post in auto)
qed

end

lemma status_levels_mono: "A \<subseteq> B \<Longrightarrow> status_commitment A s \<Longrightarrow> status_commitment B s"
  by (auto simp: status_commitment_def)

interpretation gateway_payout: payout_decision decide_payout
  by unfold_locales (auto simp: decide_payout_def list_all_iff list_ex_iff split: if_splits)

interpretation refund_payout: payout_decision decide_refund
  by unfold_locales (auto simp: decide_refund_def list_all_iff list_ex_iff split: if_splits)

section \<open>Properties\<close>

text \<open>A prepared payout is reported finalized only when at least two RPC origins each reported its
  signature finalized without error, and reported absent or failed only when at least two origins
  are each past its last valid block height and none reports it confirmed.\<close>

theorem payout_observation_unanimous:
  assumes "observePreparedPayout new_url (logged_call env) signature lastValid urls timeout w = (Inr r, w')"
    and "r \<noteq> PayoutInconclusive"
  shows "\<exists>us sig h. independentRpcUrls new_url urls = Inr us \<and> 2 \<le> length us
    \<and> signature = Some sig \<and> lastValid = Some h
    \<and> (\<forall>u \<in> set us. \<exists>status b. view_reported env (payoutSafeTimeout timeout) sig u (status, b)
         \<and> (if r = PayoutFinalized then status_commitment {''finalized''} status
            else jlt h (Num b) \<and> \<not> status_commitment {''confirmed'', ''finalized''} status))"
proof -
  from assms have e: "\<not> no_evidence signature lastValid"
    by (auto simp: observePreparedPayout_def pret_def split: if_splits)
  then obtain sig h where sh: "signature = Some sig" "lastValid = Some h"
    by (auto simp: no_evidence_def truthy_iff split: option.splits)
  from assms e obtain us where us: "independentRpcUrls new_url urls = Inr us"
    by (cases "independentRpcUrls new_url urls") (auto simp: observePreparedPayout_def pbind_def plift_def)
  from assms(1) e us sh have o: "observe_views decide_payout
      (\<lambda>u m ps. logged_call env u m ps (payoutSafeTimeout timeout)) sig h us w = (Inr r, w')"
    by (simp add: observePreparedPayout_def pbind_def plift_def)
  show ?thesis
    using wpD [OF gateway_payout.wp_observe o] assms(2) us sh
    by (cases r) auto
qed

definition demo_payout_env :: "payout_query list \<Rightarrow> payout_query \<Rightarrow> json outcome" where
  "demo_payout_env h q = (case q of (u, m, ps, t) \<Rightarrow>
     if m = ''getBlockHeight'' then Inr (JNum (Num 90))
     else Inr (JObj [(''value'', JArr [JObj [(''err'', JNull), (''confirmationStatus'', JStr ''finalized'')]])]))"

lemma demo_observe:
  "\<exists>h. observePreparedPayout demo_url (logged_call demo_payout_env) (Some ''sig'') (Some (Num 100)) [''a'', ''b''] None []
     = (Inr PayoutFinalized, h)"
proof -
  have u: "independentRpcUrls demo_url [''a'', ''b''] = Inr [''a'', ''b'']"
    by (simp add: independentRpcUrls_def secureRpcUrl_def secure_url_def demo_url_def)
  have v: "\<exists>h'. payout_view_of (\<lambda>m ps. logged_call demo_payout_env u m ps t) ''sig'' h =
      (Inr (Some (JObj [(''err'', JNull), (''confirmationStatus'', JStr ''finalized'')], 90)), h')" for u t h
    by (simp add: payout_view_of_def pcatch_def pbind_def ask_def demo_payout_env_def pret_def max_safe_integer_def)
  obtain h1 where h1: "payout_view_of (\<lambda>m ps. logged_call demo_payout_env ''a'' m ps 10000) ''sig'' [] =
      (Inr (Some (JObj [(''err'', JNull), (''confirmationStatus'', JStr ''finalized'')], 90)), h1)" using v by blast
  obtain h2 where h2: "payout_view_of (\<lambda>m ps. logged_call demo_payout_env ''b'' m ps 10000) ''sig'' h1 =
      (Inr (Some (JObj [(''err'', JNull), (''confirmationStatus'', JStr ''finalized'')], 90)), h2)" using v by blast
  show ?thesis
    by (simp add: observePreparedPayout_def no_evidence_def truthy_def pbind_def plift_def u observe_views_def payoutSafeTimeout_def
        h1 h2 pret_def decide_payout_def status_commitment_def)
qed

theorem payout_observation_unanimous_witness:
  "view_reported demo_payout_env 10000 ''sig'' ''a''
     (JObj [(''err'', JNull), (''confirmationStatus'', JStr ''finalized'')], 90)
   \<and> (\<exists>status b. view_reported demo_payout_env 10000 ''sig'' ''a'' (status, b) \<and> status_commitment {''finalized''} status)"
proof -
  obtain h where h: "observePreparedPayout demo_url (logged_call demo_payout_env) (Some ''sig'') (Some (Num 100)) [''a'', ''b''] None []
     = (Inr PayoutFinalized, h)" using demo_observe by blast
  have u: "independentRpcUrls demo_url [''a'', ''b''] = Inr [''a'', ''b'']"
    by (simp add: independentRpcUrls_def secureRpcUrl_def secure_url_def demo_url_def)
  have "\<exists>status b. view_reported demo_payout_env 10000 ''sig'' ''a'' (status, b) \<and> status_commitment {''finalized''} status"
    using payout_observation_unanimous [OF h] u by (simp add: payoutSafeTimeout_def)
  then show ?thesis
    by (simp add: view_reported_def demo_payout_env_def max_safe_integer_def)
qed

text \<open>C31: The two workers decide a prepared payout alike, except that the gateway's reports it absent or
  failed although a view holds it landed without error, only not yet confirmed; it does so on two
  views that both report the payout processed, where the orchestrator's waits.\<close>

theorem payout_decisions_differ_on_processed:
  "(decide_payout h views \<noteq> decide_refund h views \<longleftrightarrow>
      decide_payout h views = PayoutAbsentOrFailed
      \<and> list_ex (\<lambda>(status, _). status \<noteq> JNull \<and> prop_of status ''err'' = JNull) views)
   \<and> (let processed = JObj [(''err'', JNull), (''confirmationStatus'', JStr ''processed'')];
          two = [(processed, 101), (processed, 102)] in
      decide_payout (Num 100) two = PayoutAbsentOrFailed \<and> decide_refund (Num 100) two = PayoutInconclusive)"
  by (auto simp: decide_payout_def decide_refund_def status_commitment_def)

text \<open>A claim the gateway's worker accepts is one the orchestrator's accepts, pays a canonical amount
  between 1 and the ledger's maximum from the worker's own escrow in the pinned asset, fits a memo,
  and carries all of its evidence or none.\<close>

theorem payout_claim_bounds:
  assumes "validateLocalPayoutClaim lib claim signer = Inr ()"
  shows "validatePayoutClaim lib claim signer = Inr ()
    \<and> 1 \<le> dec_value (pcl_amountAtomic claim) \<and> dec_value (pcl_amountAtomic claim) < 2 ^ 63
    \<and> show_nat (dec_value (pcl_amountAtomic claim)) = pcl_amountAtomic claim
    \<and> pcl_escrowWallet claim = signer \<and> pcl_asset claim = payout_usdc \<and> pcl_network claim = devnet_network
    \<and> length (''openshelf:payout:'' @ pcl_id claim) \<le> 145
    \<and> (if pcl_status claim = ''leased'' then claim_evidence claim = [False, False, False, False]
       else claim_evidence claim = [True, True, True, True]
         \<and> base64_encode (base64_decode (the (pcl_signedTransactionBase64 claim))) = the (pcl_signedTransactionBase64 claim))"
proof -
  have p: "re_positive (pcl_amountAtomic claim)"
    using assms by (simp add: validateLocalPayoutClaim_def)
  then have v: "1 \<le> dec_value (pcl_amountAtomic claim)" "show_nat (dec_value (pcl_amountAtomic claim)) = pcl_amountAtomic claim"
    using dec_value_positive [OF p] show_nat_dec_value [OF p] by auto
  with assms show ?thesis
    by (auto simp: validateLocalPayoutClaim_def validatePayoutClaim_def claim_evidence_def max_payout_atomic_def
        re_claim_id_def canonical_payout_bytes_def canonical_base64_def split: if_splits)
qed

definition demo_claim :: payout_claim where
  "demo_claim = \<lparr> pcl_id = ''claim-1'', pcl_escrowWallet = ''e'', pcl_recipientWallet = ''r'', pcl_asset = payout_usdc,
     pcl_network = devnet_network, pcl_amountAtomic = ''250'', pcl_status = ''leased'', pcl_transactionSignature = None,
     pcl_signedTransactionBase64 = None, pcl_recentBlockhash = None, pcl_lastValidBlockHeight = None \<rparr>"

lemma demo_claim_valid: "validateLocalPayoutClaim demo_lib demo_claim ''e'' = Inr ()"
  by code_simp

theorem payout_claim_bounds_witness:
  "validatePayoutClaim demo_lib demo_claim ''e'' = Inr () \<and> show_nat (dec_value ''250'') = ''250''"
  using payout_claim_bounds [OF demo_claim_valid] by (simp add: demo_claim_def)

end
