(* ===== verification/Payout_Worker.thy ===== *)
theory Payout_Worker
  imports Payout
begin

text \<open>
  The two workers that pay claims out: \<open>payment-gateway/src/payout-worker.ts\<close> and
  \<open>processRefundClaims\<close> of \<open>agent-orchestrator/src/refunds.ts\<close>. The ledger, the RPC, the signer of
  \<open>@solana/kit\<close> and the clock (whole milliseconds) are procedures. The \<open>while\<close> loop that waits for
  finality has a fuel of \<open>payout_wait_rounds\<close> rounds; running out would be \<open>OutOfFuel\<close>, which
  \<open>payout_wait_terminates\<close> excludes for any clock that moves as its delays ask.
\<close>

unbundle bit_operations_syntax

section \<open>The transaction\<close>

datatype payout_instruction =
    CreateAssociatedTokenIdempotent (ci_payer: string) (ci_ata: string) (ci_owner: string) (ci_mint: string)
  | TransferChecked (ti_source: string) (ti_mint: string) (ti_destination: string) (ti_authority: string)
      (ti_amount: int) (ti_decimals: int)
  | MemoInstruction bytes

record payout_message =
  pm_feePayer :: string
  pm_blockhash :: string
  pm_instructions :: "payout_instruction list"

text \<open>The token accounts of the escrow and of the recipient.\<close>

definition payout_accounts :: "svm_lib \<Rightarrow> payout_claim \<Rightarrow> string \<Rightarrow> (string \<times> string) outcome" where
  "payout_accounts lib claim escrow =
     rbind (of_opt (Err ''invalid address'') (lib_ata lib (pcl_asset claim) escrow token_program)) (\<lambda>source.
     rbind (of_opt (Err ''invalid address'') (lib_ata lib (pcl_asset claim) (pcl_recipientWallet claim) token_program)) (\<lambda>destination.
       Inr (source, destination)))"

definition payout_amount :: "payout_claim \<Rightarrow> int" where
  "payout_amount claim = int (dec_value (pcl_amountAtomic claim))"

definition payout_message_of :: "payout_claim \<Rightarrow> string \<Rightarrow> string \<Rightarrow> string \<Rightarrow> int \<Rightarrow> string \<Rightarrow> payout_message" where
  "payout_message_of claim escrow source destination decimals blockhash =
     \<lparr> pm_feePayer = escrow, pm_blockhash = blockhash, pm_instructions =
        [CreateAssociatedTokenIdempotent escrow destination (pcl_recipientWallet claim) (pcl_asset claim),
         TransferChecked source (pcl_asset claim) destination escrow (payout_amount claim) decimals,
         MemoInstruction (utf8_encode (''openshelf:payout:'' @ pcl_id claim))] \<rparr>"

section \<open>Services\<close>

record 'w payout_services =
  pw_signer :: string
  pw_lease :: "('w, payout_claim list) proc"
  pw_prepare :: "string \<Rightarrow> string \<Rightarrow> string \<Rightarrow> string \<Rightarrow> int \<Rightarrow> ('w, payout_claim) proc"
  pw_complete :: "string \<Rightarrow> string \<Rightarrow> ('w, unit) proc"
  pw_fail :: "string \<Rightarrow> string \<Rightarrow> bool \<Rightarrow> ('w, unit) proc"
  pw_observe :: "payout_claim \<Rightarrow> ('w, payout_observation) proc"
  pw_decimals :: "string \<Rightarrow> ('w, int) proc"
  pw_blockhash :: "('w, string \<times> block_height) proc"
  pw_sign :: "payout_message \<Rightarrow> ('w, string \<times> string) proc"
  pw_send :: "string \<Rightarrow> ('w, string) proc"
  pw_now :: "('w, int) proc"
  pw_delay :: "int \<Rightarrow> ('w, unit) proc"

definition payout_wait_rounds :: nat where
  "payout_wait_rounds = 46"

definition absent_message :: string where
  "absent_message = ''two independent finalized RPC views found no successful prepared payout''"

definition has_height :: "payout_claim \<Rightarrow> bool" where
  "has_height claim \<longleftrightarrow> (case pcl_lastValidBlockHeight claim of None \<Rightarrow> False | Some x \<Rightarrow> json_truthy (JNum x))"

section \<open>The gateway's worker\<close>

definition markComplete :: "'w payout_services \<Rightarrow> payout_claim \<Rightarrow> string \<Rightarrow> ('w, unit) proc" where
  "markComplete d claim signature = pw_complete d (pcl_id claim) signature"

definition markPreparedAbsent :: "'w payout_services \<Rightarrow> payout_claim \<Rightarrow> ('w, unit) proc" where
  "markPreparedAbsent d claim = pw_fail d (pcl_id claim) absent_message True"

fun waitForFinalizedOutcome :: "'w payout_services \<Rightarrow> payout_claim \<Rightarrow> int \<Rightarrow> nat \<Rightarrow> ('w, payout_observation) proc" where
  "waitForFinalizedOutcome d claim deadline 0 = praise OutOfFuel"
| "waitForFinalizedOutcome d claim deadline (Suc rounds) =
     pbind (pw_now d) (\<lambda>now.
       if \<not> now < deadline
       then praise (Err ''payout finalization timed out with inconclusive independent RPC views'')
       else pbind (pw_observe d claim) (\<lambda>observation.
         if observation \<noteq> PayoutInconclusive then pret observation
         else pbind (pw_now d) (\<lambda>now'.
           let remaining = deadline - now' in
           pbind (if 0 < remaining then pw_delay d (min 1000 remaining) else pret ()) (\<lambda>_.
             waitForFinalizedOutcome d claim deadline rounds))))"

definition broadcastAndConfirm :: "'w payout_services \<Rightarrow> payout_claim \<Rightarrow> ('w, unit) proc" where
  "broadcastAndConfirm d claim =
     (if \<not> truthy (pcl_transactionSignature claim) \<or> \<not> truthy (pcl_signedTransactionBase64 claim)
         \<or> \<not> truthy (pcl_recentBlockhash claim) \<or> \<not> has_height claim
      then praise (Err ''prepared payout is missing its durable signed transaction'')
      else pbind (pw_send d (the (pcl_signedTransactionBase64 claim))) (\<lambda>sentSignature.
        if Some sentSignature \<noteq> pcl_transactionSignature claim
        then praise (Err ''RPC returned a signature different from the prepared payout'')
        else pbind (pw_now d) (\<lambda>now.
          pbind (waitForFinalizedOutcome d claim (now + 45000) payout_wait_rounds) (\<lambda>outcome.
            if outcome = PayoutAbsentOrFailed then markPreparedAbsent d claim
            else markComplete d claim sentSignature))))"

definition resumePreparedClaim :: "'w payout_services \<Rightarrow> payout_claim \<Rightarrow> ('w, unit) proc" where
  "resumePreparedClaim d claim =
     pbind (pw_observe d claim) (\<lambda>observation.
       case observation of
         PayoutFinalized \<Rightarrow> markComplete d claim (str_or (pcl_transactionSignature claim) [])
       | PayoutAbsentOrFailed \<Rightarrow> markPreparedAbsent d claim
       | PayoutInconclusive \<Rightarrow> broadcastAndConfirm d claim)"

definition processClaim :: "svm_lib \<Rightarrow> 'w payout_services \<Rightarrow> payout_claim \<Rightarrow> ('w, unit) proc" where
  "processClaim lib d claim =
     pbind (plift (validateLocalPayoutClaim lib claim (pw_signer d))) (\<lambda>_.
       if pcl_network claim \<noteq> devnet_network then praise (Err ''payout worker is Devnet-only'')
       else if pcl_escrowWallet claim \<noteq> pw_signer d then praise (Err ''claim escrow does not match worker'')
       else if pcl_status claim = ''prepared'' \<and> truthy (pcl_transactionSignature claim)
          \<and> truthy (pcl_signedTransactionBase64 claim) \<and> truthy (pcl_recentBlockhash claim) \<and> has_height claim
       then resumePreparedClaim d claim
       else
         pbind (plift (payout_accounts lib claim (pw_signer d))) (\<lambda>(source, destination).
         pbind (pw_decimals d (pcl_asset claim)) (\<lambda>decimals.
         if payout_amount claim \<le> 0 then praise (Err ''payout amount must be positive'')
         else
         pbind (pw_blockhash d) (\<lambda>(blockhash, height).
         pbind (plift (ledgerBlockHeight height)) (\<lambda>lastValidBlockHeight.
         pbind (pw_sign d (payout_message_of claim (pw_signer d) source destination decimals blockhash)) (\<lambda>(preparedSignature, raw).
         pbind (pw_prepare d (pcl_id claim) preparedSignature raw blockhash lastValidBlockHeight) (\<lambda>prepared.
           broadcastAndConfirm d prepared)))))))"

text \<open>One turn of the worker's loop.\<close>

definition payout_cycle :: "svm_lib \<Rightarrow> 'w payout_services \<Rightarrow> ('w, unit) proc" where
  "payout_cycle lib d =
     pbind (pw_lease d) (\<lambda>claims.
       pforM claims (\<lambda>claim.
         pcatch (processClaim lib d claim) (\<lambda>e.
           pcatch (pw_fail d (pcl_id claim) (js_message e) False) (\<lambda>_. pret ()))))"

section \<open>The orchestrator's worker\<close>

fun refund_confirm_loop :: "'w payout_services \<Rightarrow> payout_claim \<Rightarrow> string \<Rightarrow> int \<Rightarrow> nat \<Rightarrow> ('w, unit) proc" where
  "refund_confirm_loop d claim sent deadline 0 = praise OutOfFuel"
| "refund_confirm_loop d claim sent deadline (Suc rounds) =
     pbind (pw_now d) (\<lambda>now.
       if \<not> now < deadline then praise (Err ''refund confirmation timed out'')
       else pbind (pw_observe d claim) (\<lambda>observation.
         case observation of
           PayoutFinalized \<Rightarrow> pw_complete d (pcl_id claim) sent
         | PayoutAbsentOrFailed \<Rightarrow> pw_fail d (pcl_id claim) absent_message True
         | PayoutInconclusive \<Rightarrow>
             pbind (pw_now d) (\<lambda>now'.
               let remaining = deadline - now' in
               pbind (if 0 < remaining then pw_delay d (min 1000 remaining) else pret ()) (\<lambda>_.
                 refund_confirm_loop d claim sent deadline rounds))))"

definition refundBroadcastAndConfirm :: "'w payout_services \<Rightarrow> payout_claim \<Rightarrow> ('w, unit) proc" where
  "refundBroadcastAndConfirm d claim =
     (if \<not> truthy (pcl_transactionSignature claim) \<or> \<not> truthy (pcl_signedTransactionBase64 claim)
      then praise (Err ''prepared refund is incomplete'')
      else pbind (pw_send d (the (pcl_signedTransactionBase64 claim))) (\<lambda>sent.
        if Some sent \<noteq> pcl_transactionSignature claim then praise (Err ''refund signature mismatch'')
        else pbind (pw_now d) (\<lambda>now. refund_confirm_loop d claim sent (now + 45000) payout_wait_rounds)))"

definition processRefundClaim :: "svm_lib \<Rightarrow> 'w payout_services \<Rightarrow> payout_claim \<Rightarrow> ('w, unit) proc" where
  "processRefundClaim lib d claim =
     pbind (plift (validatePayoutClaim lib claim (pw_signer d))) (\<lambda>_.
       if pcl_status claim = ''prepared'' \<and> truthy (pcl_transactionSignature claim)
          \<and> truthy (pcl_signedTransactionBase64 claim) \<and> has_height claim
       then
         pbind (pw_observe d claim) (\<lambda>observation.
           case observation of
             PayoutFinalized \<Rightarrow> pw_complete d (pcl_id claim) (str_or (pcl_transactionSignature claim) [])
           | PayoutAbsentOrFailed \<Rightarrow> pw_fail d (pcl_id claim) absent_message True
           | PayoutInconclusive \<Rightarrow> refundBroadcastAndConfirm d claim)
       else
         pbind (plift (payout_accounts lib claim (pw_signer d))) (\<lambda>(source, destination).
         pbind (pw_decimals d (pcl_asset claim)) (\<lambda>decimals.
         pbind (pw_blockhash d) (\<lambda>(blockhash, height).
         pbind (pw_sign d (payout_message_of claim (pw_signer d) source destination decimals blockhash)) (\<lambda>(preparedSignature, raw).
         pbind (plift (ledgerBlockHeight height)) (\<lambda>lastValidBlockHeight.
         pbind (pw_prepare d (pcl_id claim) preparedSignature raw blockhash lastValidBlockHeight) (\<lambda>prepared.
           refundBroadcastAndConfirm d prepared)))))))"

definition processRefundClaims :: "svm_lib \<Rightarrow> url_parser \<Rightarrow> string list \<Rightarrow> 'w payout_services \<Rightarrow> ('w, unit) proc" where
  "processRefundClaims lib new_url rpcUrls d =
     (if refundRpcUrls new_url [] rpcUrls = [] then praise (Err ''at least one payout RPC is required'')
      else pbind (pw_lease d) (\<lambda>claims.
        pforM claims (\<lambda>claim.
          pcatch (processRefundClaim lib d claim) (\<lambda>e.
            pcatch (pw_fail d (pcl_id claim) (take 1000 (js_message e)) False) (\<lambda>_. pret ())))))"

section \<open>The keypair file\<close>

text \<open>\<open>loadKeypair\<close>: the mode of the file and its parsed JSON; the secret bytes, or an error.\<close>

definition is_byte_value :: "json \<Rightarrow> bool" where
  "is_byte_value v = (case v of JNum x \<Rightarrow> is_integer x \<and> \<not> jlt x (Num 0) \<and> \<not> jlt (Num 255) x | _ \<Rightarrow> False)"

definition loadKeypair :: "nat \<Rightarrow> json option \<Rightarrow> bytes outcome" where
  "loadKeypair mode parsed0 =
     (if (of_nat mode :: 32 word) AND 63 \<noteq> 0
      then Inl (Err ''escrow keypair file must not be readable by group or other users (chmod 600)'')
      else rbind (of_opt (Err ''invalid JSON'') parsed0) (\<lambda>parsed.
        let bs = (case parsed of JArr xs \<Rightarrow> Some xs
           | _ \<Rightarrow> if is_obj parsed then as_arr (prop_of parsed ''secretKey'') else None) in
        case bs of
          None \<Rightarrow> Inl (Err ''escrow keypair must be a 32-byte seed or Solana CLI 64-byte JSON secret key'')
        | Some xs \<Rightarrow>
            if length xs \<notin> {32, 64} \<or> \<not> list_all is_byte_value xs
            then Inl (Err ''escrow keypair must be a 32-byte seed or Solana CLI 64-byte JSON secret key'')
            else Inr (map (\<lambda>v. byte_of (nat (json_int v))) xs)))"

section \<open>The log of a cycle\<close>

datatype payout_event =
    WLease
  | WPrepare string string string string int
  | WComplete string string
  | WFail string string bool
  | WObserve payout_claim
  | WDecimals string
  | WBlockhash
  | WSign payout_message
  | WSend string
  | WNow
  | WDelay int

record payout_env =
  pv_claims :: "payout_event list \<Rightarrow> payout_event \<Rightarrow> payout_claim list outcome"
  pv_claim :: "payout_event list \<Rightarrow> payout_event \<Rightarrow> payout_claim outcome"
  pv_unit :: "payout_event list \<Rightarrow> payout_event \<Rightarrow> unit outcome"
  pv_observe :: "payout_event list \<Rightarrow> payout_event \<Rightarrow> payout_observation outcome"
  pv_int :: "payout_event list \<Rightarrow> payout_event \<Rightarrow> int outcome"
  pv_blockhash :: "payout_event list \<Rightarrow> payout_event \<Rightarrow> (string \<times> block_height) outcome"
  pv_sign :: "payout_event list \<Rightarrow> payout_event \<Rightarrow> (string \<times> string) outcome"
  pv_send :: "payout_event list \<Rightarrow> payout_event \<Rightarrow> string outcome"

definition logged_payout :: "payout_env \<Rightarrow> string \<Rightarrow> payout_event list payout_services" where
  "logged_payout env signer =
     \<lparr> pw_signer = signer, pw_lease = ask (pv_claims env) WLease,
       pw_prepare = (\<lambda>i s r b h. ask (pv_claim env) (WPrepare i s r b h)),
       pw_complete = (\<lambda>i s. ask (pv_unit env) (WComplete i s)),
       pw_fail = (\<lambda>i m a. ask (pv_unit env) (WFail i m a)),
       pw_observe = (\<lambda>c. ask (pv_observe env) (WObserve c)),
       pw_decimals = (\<lambda>m. ask (pv_int env) (WDecimals m)), pw_blockhash = ask (pv_blockhash env) WBlockhash,
       pw_sign = (\<lambda>m. ask (pv_sign env) (WSign m)), pw_send = (\<lambda>r. ask (pv_send env) (WSend r)),
       pw_now = ask (pv_int env) WNow, pw_delay = (\<lambda>t. ask (pv_unit env) (WDelay t)) \<rparr>"

text \<open>\<open>durable env h claim\<close>: the ledger holds the claim's signed transaction, because it answered
  its preparation or leased it out as prepared.\<close>

definition durable :: "payout_env \<Rightarrow> payout_event list \<Rightarrow> payout_claim \<Rightarrow> bool" where
  "durable env h claim \<longleftrightarrow>
     (\<exists>i s r b height. answered (pv_claim env) h (WPrepare i s r b height) claim)
     \<or> (\<exists>cs. answered (pv_claims env) h WLease cs \<and> claim \<in> set cs \<and> pcl_status claim = ''prepared'')"

text \<open>What justifies an event. \<open>valid\<close> is the validation of the worker.\<close>

definition pays_claim :: "svm_lib \<Rightarrow> string \<Rightarrow> payout_claim \<Rightarrow> payout_message \<Rightarrow> bool" where
  "pays_claim lib signer claim m \<longleftrightarrow>
     pm_feePayer m = signer
     \<and> (\<exists>source destination amount decimals.
          lib_ata lib (pcl_asset claim) signer token_program = Some source
        \<and> lib_ata lib (pcl_asset claim) (pcl_recipientWallet claim) token_program = Some destination
        \<and> show_nat (nat amount) = pcl_amountAtomic claim \<and> 0 < amount
        \<and> pm_instructions m =
            [CreateAssociatedTokenIdempotent signer destination (pcl_recipientWallet claim) (pcl_asset claim),
             TransferChecked source (pcl_asset claim) destination signer amount decimals,
             MemoInstruction (utf8_encode (''openshelf:payout:'' @ pcl_id claim))])"

fun payout_ok :: "svm_lib \<Rightarrow> payout_env \<Rightarrow> string \<Rightarrow> payout_event list \<Rightarrow> payout_event \<Rightarrow> bool" where
  "payout_ok lib env signer pre (WSend raw) \<longleftrightarrow>
     (\<exists>claim. durable env pre claim \<and> pcl_signedTransactionBase64 claim = Some raw)"
| "payout_ok lib env signer pre (WComplete i s) \<longleftrightarrow>
     (\<exists>claim. durable env pre claim \<and> pcl_id claim = i \<and> pcl_transactionSignature claim = Some s
        \<and> answered (pv_observe env) pre (WObserve claim) PayoutFinalized)"
| "payout_ok lib env signer pre (WFail i m abandon) \<longleftrightarrow>
     \<not> abandon \<or> (\<exists>claim. durable env pre claim \<and> pcl_id claim = i
        \<and> answered (pv_observe env) pre (WObserve claim) PayoutAbsentOrFailed)"
| "payout_ok lib env signer pre (WSign m) \<longleftrightarrow>
     (\<exists>claim cs. answered (pv_claims env) pre WLease cs \<and> claim \<in> set cs \<and> pays_claim lib signer claim m)"
| "payout_ok lib env signer pre _ \<longleftrightarrow> True"

abbreviation payout_log :: "svm_lib \<Rightarrow> payout_env \<Rightarrow> string \<Rightarrow> payout_event list \<Rightarrow> bool" where
  "payout_log lib env signer \<equiv> log_inv (payout_ok lib env signer)"

lemma logged_payout_sel:
  "pw_signer (logged_payout env signer) = signer" "pw_lease (logged_payout env signer) = ask (pv_claims env) WLease"
  "pw_prepare (logged_payout env signer) = (\<lambda>i s r b h. ask (pv_claim env) (WPrepare i s r b h))"
  "pw_complete (logged_payout env signer) = (\<lambda>i s. ask (pv_unit env) (WComplete i s))"
  "pw_fail (logged_payout env signer) = (\<lambda>i m a. ask (pv_unit env) (WFail i m a))"
  "pw_observe (logged_payout env signer) = (\<lambda>c. ask (pv_observe env) (WObserve c))"
  "pw_decimals (logged_payout env signer) = (\<lambda>m. ask (pv_int env) (WDecimals m))"
  "pw_blockhash (logged_payout env signer) = ask (pv_blockhash env) WBlockhash"
  "pw_sign (logged_payout env signer) = (\<lambda>m. ask (pv_sign env) (WSign m))"
  "pw_send (logged_payout env signer) = (\<lambda>r. ask (pv_send env) (WSend r))"
  "pw_now (logged_payout env signer) = ask (pv_int env) WNow"
  "pw_delay (logged_payout env signer) = (\<lambda>t. ask (pv_unit env) (WDelay t))"
  by (simp_all add: logged_payout_def)

lemma durable_append: "durable env h c \<Longrightarrow> durable env (h @ h') c"
  unfolding durable_def by (blast intro: answered_append)

lemmas payout_hist = durable_append answered_append answered_last

lemma not_inconclusive: "r \<noteq> PayoutInconclusive \<longleftrightarrow> r = PayoutFinalized \<or> r = PayoutAbsentOrFailed"
  by (cases r) simp_all

abbreviation payout_inv ::
    "svm_lib \<Rightarrow> payout_env \<Rightarrow> string \<Rightarrow> payout_claim list \<Rightarrow> payout_event list \<Rightarrow> bool" where
  "payout_inv lib env signer cs \<equiv> (\<lambda>h. payout_log lib env signer h \<and> answered (pv_claims env) h WLease cs)"

lemma wp_wait:
  assumes "payout_inv lib env signer cs h" "durable env h c"
  shows "wp (waitForFinalizedOutcome (logged_payout env signer) c deadline n)
     (\<lambda>r h'. payout_inv lib env signer cs h' \<and> durable env h' c \<and> answered (pv_observe env) h' (WObserve c) r
        \<and> (r = PayoutFinalized \<or> r = PayoutAbsentOrFailed))
     (\<lambda>_. payout_inv lib env signer cs) h"
  using assms
proof (induction n arbitrary: h)
  case 0
  then show ?case by (simp add: wp_simps)
next
  case (Suc n)
  then show ?case
    unfolding waitForFinalizedOutcome.simps logged_payout_sel Let_def
    by (intro wp_intros Suc.IH) (auto simp: not_inconclusive simp del: append_assoc intro: payout_hist)
qed

lemma wp_broadcast:
  assumes "payout_inv lib env signer cs h" "durable env h c"
  shows "wp (broadcastAndConfirm (logged_payout env signer) c) (\<lambda>_. payout_inv lib env signer cs) (\<lambda>_. payout_inv lib env signer cs) h"
  unfolding broadcastAndConfirm_def markPreparedAbsent_def markComplete_def logged_payout_sel
  by (intro wp_intros wp_mono [OF wp_wait])
    (use assms in \<open>auto simp: truthy_iff simp del: append_assoc intro: payout_hist\<close>)

lemma wp_observationI [wp_intros]:
  "(r = PayoutFinalized \<Longrightarrow> wp f Q E w) \<Longrightarrow> (r = PayoutAbsentOrFailed \<Longrightarrow> wp a Q E w) \<Longrightarrow>
   (r = PayoutInconclusive \<Longrightarrow> wp i Q E w) \<Longrightarrow>
   wp (case r of PayoutFinalized \<Rightarrow> f | PayoutAbsentOrFailed \<Rightarrow> a | PayoutInconclusive \<Rightarrow> i) Q E w"
  by (cases r) simp_all

lemma wp_resume:
  assumes "payout_inv lib env signer cs h" "durable env h c" "truthy (pcl_transactionSignature c)"
  shows "wp (resumePreparedClaim (logged_payout env signer) c) (\<lambda>_. payout_inv lib env signer cs) (\<lambda>_. payout_inv lib env signer cs) h"
  unfolding resumePreparedClaim_def markPreparedAbsent_def markComplete_def logged_payout_sel
  by (intro wp_intros wp_broadcast)
    (use assms in \<open>auto simp: truthy_iff str_or_def simp del: append_assoc intro: payout_hist\<close>)

lemma payout_message_pays:
  assumes "validateLocalPayoutClaim lib c signer = Inr () \<or> validatePayoutClaim lib c signer = Inr ()"
    and "payout_accounts lib c signer = Inr (source, destination)"
  shows "pays_claim lib signer c (payout_message_of c signer source destination decimals blockhash)"
proof -
  have p: "re_positive (pcl_amountAtomic c)"
    using assms(1) by (auto simp: validateLocalPayoutClaim_def validatePayoutClaim_def)
  show ?thesis
    using assms(2) dec_value_positive [OF p] show_nat_dec_value [OF p]
    by (auto simp: payout_message_of_def payout_accounts_def payout_amount_def of_opt_def rbind_Inr_iff pays_claim_def split: option.splits)
qed

lemma wp_process:
  assumes "payout_inv lib env signer cs h" "c \<in> set cs"
  shows "wp (processClaim lib (logged_payout env signer) c) (\<lambda>_. payout_inv lib env signer cs) (\<lambda>_. payout_inv lib env signer cs) h"
proof -
  have d: "durable env h c" if "pcl_status c = ''prepared''"
    using assms that by (auto simp: durable_def)
  have p: "durable env (h' @ [WPrepare i s r b l]) c'" if "pv_claim env h' (WPrepare i s r b l) = Inr c'" for h' i s r b l c'
    using that unfolding durable_def by (blast intro: answered_last)
  have m: "payout_ok lib env s h' (WSign (payout_message_of c s source destination k b))"
    if "validateLocalPayoutClaim lib c s = Inr ()" "payout_accounts lib c s = Inr (source, destination)"
      "answered (pv_claims env) h' WLease cs" for s source destination k b h'
    using payout_message_pays [of lib c s source destination k b] that assms(2) by auto
  show ?thesis
    unfolding processClaim_def logged_payout_sel
    by (intro wp_intros wp_broadcast wp_resume)
      (use assms d p in \<open>auto simp del: append_assoc payout_ok.simps(4) intro: payout_hist m\<close>)
qed

lemma wp_pforM:
  assumes "\<And>x w. x \<in> set xs \<Longrightarrow> I w \<Longrightarrow> wp (f x) (\<lambda>_. I) (\<lambda>_. I) w" "I w"
  shows "wp (pforM xs f) (\<lambda>_. I) (\<lambda>_. I) w"
  using assms
proof (induction xs arbitrary: w)
  case (Cons x xs)
  show ?case
    unfolding pforM.simps
    by (intro wp_pbindI wp_mono [OF Cons.prems(1)] Cons.IH) (use Cons.prems in auto)
qed (simp add: wp_simps)

lemma wp_cycle:
  "wp (payout_cycle lib (logged_payout env signer)) (\<lambda>_. payout_log lib env signer) (\<lambda>_. payout_log lib env signer) []"
proof -
  have loop: "wp (pforM cs (\<lambda>claim.
         pcatch (processClaim lib (logged_payout env signer) claim) (\<lambda>e.
           pcatch (ask (pv_unit env) (WFail (pcl_id claim) (js_message e) False)) (\<lambda>_. pret ()))))
       (\<lambda>_. payout_inv lib env signer cs) (\<lambda>_. payout_inv lib env signer cs) h"
    if "payout_inv lib env signer cs h" for cs h
    by (intro wp_pforM wp_intros wp_mono [OF wp_process])
      (use that in \<open>auto simp del: append_assoc intro: payout_hist\<close>)
  show ?thesis
    unfolding payout_cycle_def logged_payout_sel
    by (intro wp_intros wp_mono [OF loop]) (auto simp: answered_def)
qed

text \<open>The same for the orchestrator's worker.\<close>

lemma wp_refund_loop:
  assumes "payout_inv lib env signer cs h" "durable env h c" "pcl_transactionSignature c = Some sent"
  shows "wp (refund_confirm_loop (logged_payout env signer) c sent deadline n)
     (\<lambda>_. payout_inv lib env signer cs) (\<lambda>_. payout_inv lib env signer cs) h"
  using assms
proof (induction n arbitrary: h)
  case 0
  then show ?case by (simp add: wp_simps)
next
  case (Suc n)
  then show ?case
    unfolding refund_confirm_loop.simps logged_payout_sel Let_def
    by (intro wp_intros Suc.IH) (auto simp del: append_assoc intro: payout_hist)
qed

lemma wp_refund_broadcast:
  assumes "payout_inv lib env signer cs h" "durable env h c"
  shows "wp (refundBroadcastAndConfirm (logged_payout env signer) c)
     (\<lambda>_. payout_inv lib env signer cs) (\<lambda>_. payout_inv lib env signer cs) h"
  unfolding refundBroadcastAndConfirm_def logged_payout_sel
  by (intro wp_intros wp_refund_loop)
    (use assms in \<open>auto simp: truthy_iff simp del: append_assoc intro: payout_hist\<close>)

lemma wp_refund_claim:
  assumes "payout_inv lib env signer cs h" "c \<in> set cs"
  shows "wp (processRefundClaim lib (logged_payout env signer) c)
     (\<lambda>_. payout_inv lib env signer cs) (\<lambda>_. payout_inv lib env signer cs) h"
proof -
  have d: "durable env h c" if "pcl_status c = ''prepared''"
    using assms that by (auto simp: durable_def)
  have p: "durable env (h' @ [WPrepare i s r b l]) c'" if "pv_claim env h' (WPrepare i s r b l) = Inr c'" for h' i s r b l c'
    using that unfolding durable_def by (blast intro: answered_last)
  have m: "payout_ok lib env s h' (WSign (payout_message_of c s source destination k b))"
    if "validatePayoutClaim lib c s = Inr ()" "payout_accounts lib c s = Inr (source, destination)"
      "answered (pv_claims env) h' WLease cs" for s source destination k b h'
    using payout_message_pays [of lib c s source destination k b] that assms(2) by auto
  show ?thesis
    unfolding processRefundClaim_def logged_payout_sel
    by (intro wp_intros wp_refund_broadcast)
      (use assms d p in \<open>auto simp: truthy_iff str_or_def simp del: append_assoc payout_ok.simps(4) intro: payout_hist m\<close>)
qed

lemma wp_refund_claims:
  "wp (processRefundClaims lib new_url urls (logged_payout env signer))
     (\<lambda>_. payout_log lib env signer) (\<lambda>_. payout_log lib env signer) []"
proof -
  have loop: "wp (pforM cs (\<lambda>claim.
         pcatch (processRefundClaim lib (logged_payout env signer) claim) (\<lambda>e.
           pcatch (ask (pv_unit env) (WFail (pcl_id claim) (take 1000 (js_message e)) False)) (\<lambda>_. pret ()))))
       (\<lambda>_. payout_inv lib env signer cs) (\<lambda>_. payout_inv lib env signer cs) h"
    if "payout_inv lib env signer cs h" for cs h
    by (intro wp_pforM wp_intros wp_mono [OF wp_refund_claim])
      (use that in \<open>auto simp del: append_assoc intro: payout_hist\<close>)
  show ?thesis
    unfolding processRefundClaims_def logged_payout_sel
    by (intro wp_intros wp_mono [OF loop]) (auto simp: answered_def)
qed

section \<open>Properties\<close>

text \<open>C20: Both workers sign only transfers of a leased claim's exact amount to its recipient, broadcast
  only transactions the ledger already holds, report a claim complete only when its prepared
  signature was observed finalized, and abandon one only when it was observed absent or failed.\<close>

theorem payout_workers_act_on_durable_claims:
  assumes "payout_cycle lib (logged_payout env signer) [] = (r, hist)
      \<or> processRefundClaims lib new_url urls (logged_payout env signer) [] = (r, hist)"
    and "hist = pre @ ev # post"
  shows "case ev of
      WSign m \<Rightarrow> \<exists>claim cs. answered (pv_claims env) pre WLease cs \<and> claim \<in> set cs \<and> pays_claim lib signer claim m
    | WSend raw \<Rightarrow> \<exists>claim. durable env pre claim \<and> pcl_signedTransactionBase64 claim = Some raw
    | WComplete i s \<Rightarrow> \<exists>claim. durable env pre claim \<and> pcl_id claim = i \<and> pcl_transactionSignature claim = Some s
        \<and> answered (pv_observe env) pre (WObserve claim) PayoutFinalized
    | WFail i m abandon \<Rightarrow> \<not> abandon \<or> (\<exists>claim. durable env pre claim \<and> pcl_id claim = i
        \<and> answered (pv_observe env) pre (WObserve claim) PayoutAbsentOrFailed)
    | _ \<Rightarrow> True"
proof -
  have "payout_log lib env signer hist"
    using assms(1) wp_cycle [of lib env signer] wp_refund_claims [of lib new_url urls env signer]
    by (cases r) (auto simp: wp_def)
  with assms(2) have "payout_ok lib env signer pre ev" by (auto dest: log_invD)
  then show ?thesis by (cases ev) simp_all
qed

text \<open>A clock that never goes back and moves at least as far as a delay asks; \<open>time w\<close> reads it.\<close>

definition clock_moves :: "('w \<Rightarrow> int) \<Rightarrow> 'w payout_services \<Rightarrow> bool" where
  "clock_moves time d \<longleftrightarrow>
     (\<forall>w. pw_now d w = (Inr (time w), w))
     \<and> (\<forall>ms w. fst (pw_delay d ms w) = Inr () \<and> time w + ms \<le> time (snd (pw_delay d ms w)))
     \<and> (\<forall>c w. fst (pw_observe d c w) \<noteq> Inl OutOfFuel \<and> time w \<le> time (snd (pw_observe d c w)))"

lemma wait_rounds:
  assumes "clock_moves time d" "deadline - time w \<le> 1000 * int k"
  shows "fst (waitForFinalizedOutcome d c deadline (Suc k) w) \<noteq> Inl OutOfFuel"
  using assms(2)
proof (induction k arbitrary: w)
  case 0
  with assms(1) show ?case by (simp add: clock_moves_def pbind_def praise_def)
next
  case (Suc k)
  obtain o' w' where ob: "pw_observe d c w = (o', w')" by fastforce
  have t: "time w \<le> time w'" "o' \<noteq> Inl OutOfFuel"
    using assms(1) ob unfolding clock_moves_def by (metis fst_conv snd_conv)+
  have dl: "fst (pw_delay d ms w') = Inr ()" "time w' + ms \<le> time (snd (pw_delay d ms w'))" for ms
    using assms(1) unfolding clock_moves_def by blast+
  have now: "pw_now d v = (Inr (time v), v)" for v
    using assms(1) unfolding clock_moves_def by blast
  show ?case
  proof (cases "time w < deadline \<and> o' = Inr PayoutInconclusive")
    case True
    show ?thesis
    proof (cases "0 < deadline - time w'")
      case pos: True
      obtain v where v: "pw_delay d (min 1000 (deadline - time w')) w' = (Inr (), v)"
        using dl(1) by (metis prod.collapse)
      then have "time w' + min 1000 (deadline - time w') \<le> time v"
        using dl(2) by (metis snd_conv)
      then have "deadline - time v \<le> 1000 * int k"
        using Suc.prems t(1) by (auto simp: min_def split: if_splits)
      from Suc.IH [OF this] True pos v ob show ?thesis
        by (subst waitForFinalizedOutcome.simps) (simp add: pbind_def now Let_def del: waitForFinalizedOutcome.simps)
    next
      case False
      then have "deadline - time w' \<le> 1000 * int k" by linarith
      from Suc.IH [OF this] True False ob show ?thesis
        by (subst waitForFinalizedOutcome.simps) (simp add: pbind_def now Let_def pret_def del: waitForFinalizedOutcome.simps)
    qed
  next
    case False
    with ob t(2) show ?thesis
      by (cases o') (auto simp: pbind_def now praise_def pret_def split: if_splits)
  qed
qed

text \<open>The ledger's own answers are not the model's exhausted fuel.\<close>

definition ledger_answers :: "'w payout_services \<Rightarrow> bool" where
  "ledger_answers d \<longleftrightarrow>
     (\<forall>i s w. fst (pw_complete d i s w) \<noteq> Inl OutOfFuel) \<and> (\<forall>i m a w. fst (pw_fail d i m a w) \<noteq> Inl OutOfFuel)"

lemma refund_fuel:
  assumes "ledger_answers d"
  shows "fst (refund_confirm_loop d c sent deadline n w) = Inl OutOfFuel
     \<Longrightarrow> fst (waitForFinalizedOutcome d c deadline n w) = Inl OutOfFuel"
proof (induction n arbitrary: w)
  case (Suc n)
  then show ?case
    using assms
    by (auto simp: pbind_def Let_def praise_def pret_def ledger_answers_def
      split: sum.splits prod.splits if_splits payout_observation.splits)
qed (simp add: praise_def)

text \<open>C32: Both waits for finality end: with a clock that moves as their delays ask, the rounds the model
  allows are never used up, whatever the RPC views answer.\<close>

theorem payout_wait_terminates:
  assumes "clock_moves time d"
  shows "fst (waitForFinalizedOutcome d claim (time w + 45000) payout_wait_rounds w) \<noteq> Inl OutOfFuel
    \<and> (ledger_answers d \<longrightarrow>
        fst (refund_confirm_loop d claim sent (time w + 45000) payout_wait_rounds w) \<noteq> Inl OutOfFuel)"
proof -
  have "fst (waitForFinalizedOutcome d claim (time w + 45000) payout_wait_rounds w) \<noteq> Inl OutOfFuel"
    using wait_rounds [OF assms, of "time w + 45000" w 45] by (simp add: payout_wait_rounds_def)
  with refund_fuel [of d claim sent "time w + 45000" payout_wait_rounds w] show ?thesis by (auto simp del: waitForFinalizedOutcome.simps refund_confirm_loop.simps)
qed

definition demo_clock :: "int payout_services" where
  "demo_clock = \<lparr> pw_signer = ''e'', pw_lease = pret [], pw_prepare = (\<lambda>_ _ _ _ _. praise (Err ''down'')),
     pw_complete = (\<lambda>_ _. pret ()), pw_fail = (\<lambda>_ _ _. pret ()), pw_observe = (\<lambda>_. pret PayoutInconclusive),
     pw_decimals = (\<lambda>_. pret 6), pw_blockhash = pret (''h'', HeightBigint 9), pw_sign = (\<lambda>_. pret (''s'', ''r'')),
     pw_send = (\<lambda>_. pret ''s''), pw_now = (\<lambda>t. (Inr t, t)), pw_delay = (\<lambda>ms t. (Inr (), t + ms)) \<rparr>"

theorem payout_wait_terminates_witness:
  "fst (waitForFinalizedOutcome demo_clock demo_claim 45007 payout_wait_rounds 7) \<noteq> Inl OutOfFuel
     \<and> fst (refund_confirm_loop demo_clock demo_claim ''s'' 45007 payout_wait_rounds 7) \<noteq> Inl OutOfFuel"
proof -
  have "clock_moves id demo_clock" "ledger_answers demo_clock"
    by (simp_all add: clock_moves_def ledger_answers_def demo_clock_def pret_def)
  with payout_wait_terminates [of id demo_clock demo_claim 7 "''s''"] show ?thesis by simp
qed

definition demo_prepared_claim :: payout_claim where
  "demo_prepared_claim = demo_claim\<lparr> pcl_status := ''prepared'', pcl_transactionSignature := Some ''sig'',
     pcl_signedTransactionBase64 := Some (replicate 32 (CHR ''A'')), pcl_recentBlockhash := Some ''h'',
     pcl_lastValidBlockHeight := Some (Num 9) \<rparr>"

definition demo_payout :: payout_env where
  "demo_payout = \<lparr> pv_claims = (\<lambda>_ _. Inr [demo_claim]), pv_claim = (\<lambda>_ _. Inr demo_prepared_claim), pv_unit = (\<lambda>_ _. Inr ()),
     pv_observe = (\<lambda>_ _. Inr PayoutFinalized), pv_int = (\<lambda>_ _. Inr 6), pv_blockhash = (\<lambda>_ _. Inr (''h'', HeightBigint 9)),
     pv_sign = (\<lambda>_ _. Inr (''sig'', replicate 32 (CHR ''A''))), pv_send = (\<lambda>_ _. Inr ''sig'') \<rparr>"

lemma demo_cycle:
  "payout_cycle demo_lib (logged_payout demo_payout ''e'') [] = (Inr (),
     [WLease, WDecimals payout_usdc, WBlockhash,
      WSign \<lparr> pm_feePayer = ''e'', pm_blockhash = ''h'', pm_instructions =
        [CreateAssociatedTokenIdempotent ''e'' ''r-ata'' ''r'' payout_usdc,
         TransferChecked ''e-ata'' payout_usdc ''r-ata'' ''e'' 250 6, MemoInstruction (utf8_encode ''openshelf:payout:claim-1'')] \<rparr>,
      WPrepare ''claim-1'' ''sig'' (replicate 32 (CHR ''A'')) ''h'' 9, WSend (replicate 32 (CHR ''A'')), WNow, WNow,
      WObserve demo_prepared_claim, WComplete ''claim-1'' ''sig''])"
  by code_simp

theorem payout_workers_act_on_durable_claims_witness:
  "\<exists>claim pre. durable demo_payout pre claim \<and> pcl_transactionSignature claim = Some ''sig''
     \<and> answered (pv_observe demo_payout) pre (WObserve claim) PayoutFinalized"
proof -
  let ?hist = "snd (payout_cycle demo_lib (logged_payout demo_payout ''e'') [])"
  have run: "payout_cycle demo_lib (logged_payout demo_payout ''e'') [] = (Inr (), ?hist)"
    unfolding demo_cycle by simp
  obtain pre where "?hist = pre @ WComplete ''claim-1'' ''sig'' # []"
    unfolding demo_cycle by simp
  from payout_workers_act_on_durable_claims [OF disjI1 [OF run] this] show ?thesis by auto
qed

end
