(* ===== verification/Pay_Sh_Reconciler.thy ===== *)
theory Pay_Sh_Reconciler
  imports Pay_Sh_Credential Payout Settlement_Gate
begin

text \<open>
  \<open>agent-orchestrator/src/pay-sh-reconciler.ts\<close>: what becomes of a research or direct-agent
  payment whose outcome was lost. The ledger's reconciliation interface and the RPC endpoints are
  procedures. \<open>decodeShortVec\<close>, \<open>hasValidTransactionEnvelope\<close>, \<open>fullySignedTransactionSignature\<close>,
  \<open>payShTokenAccount\<close> and the loop over a transaction's instructions are the gateway's functions of
  the same text, so their definitions are shared; the matcher is the orchestrator's own and is a
  second interpretation of \<open>prepared_matcher\<close>.
\<close>

section \<open>Attempts\<close>

record direct_attempt =
  rpa_quoteId :: string
  rpa_attemptId :: string
  rpa_status :: string
  rpa_reconcileAfter :: jnum
  rpa_createdAt :: jnum
  rpa_preparedAt :: "jnum option"
  rpa_payer :: string
  rpa_network :: string
  rpa_asset :: string
  rpa_amountAtomic :: string
  rpa_ownerAmountAtomic :: string
  rpa_platformAmountAtomic :: string
  rpa_recipientWallet :: string
  rpa_platformRecipientWallet :: "string option"
  rpa_signedTransactionBase64 :: "string option"
  rpa_recentBlockhash :: "string option"
  rpa_challengeId :: "string option"
  rpa_externalId :: "string option"
  rpa_challengeExpiresAt :: "jnum option"
  rpa_absenceObservedAt :: "jnum option"

record research_attempt = direct_attempt +
  rpa_jobId :: string

definition max_ledger_atomic :: int where
  "max_ledger_atomic = 9223372036854775807"

text \<open>\<open>/^[A-Za-z0-9:_-]{1,160}$/\<close>\<close>

definition re_scope_id :: "string \<Rightarrow> bool" where
  "re_scope_id s \<longleftrightarrow> s \<noteq> [] \<and> length s \<le> 160
     \<and> list_all (\<lambda>c. is_alnum c \<or> c = CHR '':'' \<or> c = CHR ''_'' \<or> c = CHR ''-'') s"

definition recon_time_ok :: "int \<Rightarrow> jnum \<Rightarrow> bool" where
  "recon_time_ok now v \<longleftrightarrow> is_safe_integer v \<and> \<not> jle v (Num 0) \<and> \<not> jlt (Num (now + recovery_clock_skew_ms)) v"

definition recon_mark_ok :: "int \<Rightarrow> jnum \<Rightarrow> jnum option \<Rightarrow> bool" where
  "recon_mark_ok now earliest mark \<longleftrightarrow>
     (case mark of None \<Rightarrow> True
      | Some v \<Rightarrow> is_safe_integer v \<and> \<not> jlt v earliest \<and> \<not> jlt (Num (now + recovery_clock_skew_ms)) v)"

definition partial_evidence :: "'a direct_attempt_scheme \<Rightarrow> bool" where
  "partial_evidence a \<longleftrightarrow>
     rpa_preparedAt a \<noteq> None \<or> rpa_signedTransactionBase64 a \<noteq> None \<or> rpa_recentBlockhash a \<noteq> None
     \<or> rpa_challengeId a \<noteq> None \<or> rpa_externalId a \<noteq> None \<or> rpa_challengeExpiresAt a \<noteq> None
     \<or> rpa_platformRecipientWallet a \<noteq> None"

definition validatePaymentReconciliationAttempt :: "svm_lib \<Rightarrow> int \<Rightarrow> research_attempt \<Rightarrow> unit outcome" where
  "validatePaymentReconciliationAttempt lib now a =
     require (re_scope_id (rpa_jobId a)) (Err ''Pay.sh reconciliation job id is invalid'')
    (require (re_scope_id (rpa_quoteId a)) (Err ''Pay.sh reconciliation quote id is invalid'')
    (require (re_hex64 (rpa_attemptId a)) (Err ''Pay.sh reconciliation attempt id is invalid'')
    (require (rpa_status a \<in> {''claimed'', ''prepared'', ''ambiguous''}) (Err ''Pay.sh reconciliation status is invalid'')
    (require (recon_time_ok now (rpa_createdAt a)) (Err ''Pay.sh reconciliation createdAt is invalid'')
    (require (recon_time_ok now (rpa_reconcileAfter a)) (Err ''Pay.sh reconciliation reconcileAfter is invalid'')
    (require (recon_mark_ok now (rpa_createdAt a) (rpa_preparedAt a)) (Err ''Pay.sh reconciliation preparedAt is invalid'')
    (require (recon_mark_ok now (case rpa_preparedAt a of None \<Rightarrow> rpa_createdAt a | Some p \<Rightarrow> p) (rpa_absenceObservedAt a))
      (Err ''Pay.sh reconciliation absence observation is invalid'')
    (require (re_decimal (rpa_amountAtomic a) \<and> re_decimal (rpa_ownerAmountAtomic a) \<and> re_decimal (rpa_platformAmountAtomic a))
      (Err ''Pay.sh reconciliation amount is not canonical'')
    (let total' = int (dec_value (rpa_amountAtomic a)); owner = int (dec_value (rpa_ownerAmountAtomic a));
         platform = int (dec_value (rpa_platformAmountAtomic a)) in
     require (\<not> (total' \<le> 0 \<or> max_ledger_atomic < total' \<or> owner + platform \<noteq> total'))
      (Err ''Pay.sh reconciliation amount split is invalid'')
    (require (rpa_status a \<noteq> ''claimed'' \<or> rpa_payer a = [])
      (Err ''claimed Pay.sh attempt unexpectedly contains a payer'')
    (require (rpa_status a = ''claimed'' \<or> lib_address lib (rpa_payer a)) (Err ''invalid address'')
    (require (lib_address lib (rpa_asset a) \<and> lib_address lib (rpa_recipientWallet a)) (Err ''invalid address'')
    (require (truthy (rpa_platformRecipientWallet a) \<longrightarrow> lib_address lib (the (rpa_platformRecipientWallet a)))
      (Err ''invalid address'')
    (require (\<not> (rpa_status a = ''claimed'' \<and> partial_evidence a))
      (Err ''claimed Pay.sh attempt contains partial prepared evidence'')
      (Inr ())))))))))))))))"

section \<open>The prepared transaction\<close>

definition decodeBase64_sized :: "string \<Rightarrow> bytes option" where
  "decodeBase64_sized v =
     (let bs = base64_decode v in if length bs < 100 \<or> 2048 < length bs then None else Some bs)"

definition parsePreparedPaymentTransaction ::
    "svm_lib \<Rightarrow> bytes \<Rightarrow> (string list \<times> bytes list \<times> bytes \<times> instruction list) option" where
  "parsePreparedPaymentTransaction lib bs =
     (case (lib_messageBytes lib bs, prepared_view lib bs) of
        (Some messageBytes, Some (signers, sigs, ixs)) \<Rightarrow> Some (signers, sigs, messageBytes, ixs)
      | _ \<Rightarrow> None)"

text \<open>One signer's slot: an empty one is skipped, any other must verify (a missing one throws).\<close>

definition signer_slot_ok :: "svm_lib \<Rightarrow> bytes \<Rightarrow> string \<Rightarrow> bytes option \<Rightarrow> bool" where
  "signer_slot_ok lib messageBytes signer slot' =
     (case slot' of
        None \<Rightarrow> False
      | Some signature \<Rightarrow>
          is_zero signature
          \<or> (lib_address lib signer \<and> length signature = 64
             \<and> lib_verify lib signer signature messageBytes = Some True))"

definition expected_transfers :: "svm_lib \<Rightarrow> 'a direct_attempt_scheme \<Rightarrow> (string \<times> string list) option" where
  "expected_transfers lib a =
     (case (directPayShRecipientTokenAccount lib (rpa_asset a) (rpa_payer a),
            directPayShRecipientTokenAccount lib (rpa_asset a) (the (rpa_platformRecipientWallet a)),
            directPayShRecipientTokenAccount lib (rpa_asset a) (rpa_recipientWallet a),
            bigint_of (rpa_platformAmountAtomic a), bigint_of (rpa_ownerAmountAtomic a),
            bigint_of (rpa_amountAtomic a)) of
        (Some source, Some platformDestination, Some ownerDestination, Some platform, Some owner, Some amount) \<Rightarrow>
          if owner + platform = amount
          then Some (source, [transfer_text platformDestination platform, transfer_text ownerDestination owner])
          else None
      | _ \<Rightarrow> None)"

definition isExactQuotedPayShTransaction :: "svm_lib \<Rightarrow> 'a direct_attempt_scheme \<Rightarrow> bool" where
  "isExactQuotedPayShTransaction lib a =
     (if \<not> truthy (rpa_externalId a) \<or> \<not> truthy (rpa_platformRecipientWallet a) then False
      else (case Option.bind (decodeBase64_sized (str_or (rpa_signedTransactionBase64 a) []))
              (parsePreparedPaymentTransaction lib) of
          None \<Rightarrow> False
        | Some (signers, sigs, messageBytes, ixs) \<Rightarrow>
            (case index_of (rpa_payer a) signers of
               None \<Rightarrow> False
             | Some payerIndex \<Rightarrow>
                 if zero_or_missing (nth_opt sigs payerIndex) then False
                 else if \<not> list_all (\<lambda>i. signer_slot_ok lib messageBytes (signers ! i) (nth_opt sigs i)) [0 ..< length signers]
                 then False
                 else (case expected_transfers lib a of
                     None \<Rightarrow> False
                   | Some (source, expected) \<Rightarrow>
                       (case pay_sh_ix_loop source (rpa_asset a) (rpa_payer a) (the (rpa_externalId a)) ixs [] False of
                          None \<Rightarrow> False
                        | Some (actual, exactResourceMemo) \<Rightarrow> exactResourceMemo \<and> sort actual = sort expected)))))"

definition transactionLifetimeToken :: "svm_lib \<Rightarrow> string \<Rightarrow> string option" where
  "transactionLifetimeToken lib transactionBase64 =
     Option.bind (decodeBase64_sized transactionBase64) (\<lambda>bs.
     Option.bind (lib_messageBytes lib bs) (lib_lifetimeToken lib))"

section \<open>Reading RPC answers\<close>

record rpc_signature =
  rs_signature :: string
  rs_err :: json
  rs_blockTime :: json

definition parseRpcSignature :: "svm_lib \<Rightarrow> json \<Rightarrow> rpc_signature outcome" where
  "parseRpcSignature lib item =
     require (is_obj item) (Err ''Solana RPC returned a malformed signature entry'')
     (case prop_of item ''signature'' of
        JStr signature \<Rightarrow>
          require (has_prop item ''err'') (Err ''Solana RPC signature entry omitted its identity or status'')
         (require ((case lib_base58_decode lib signature of None \<Rightarrow> False | Some d \<Rightarrow> length d = 64))
            (Err ''Solana RPC returned a malformed transaction signature'')
         (require (\<not> (prop_of item ''blockTime'' \<noteq> JNull
              \<and> (\<not> json_safe_integer (prop_of item ''blockTime'') \<or> json_int (prop_of item ''blockTime'') \<le> 0)))
            (Err ''Solana RPC returned a malformed transaction block time'')
           (Inr \<lparr> rs_signature = signature, rs_err = prop_of item ''err'', rs_blockTime = prop_of item ''blockTime'' \<rparr>)))
      | _ \<Rightarrow> Inl (Err ''Solana RPC signature entry omitted its identity or status''))"

definition parseRpcSignatures :: "svm_lib \<Rightarrow> json \<Rightarrow> rpc_signature list outcome" where
  "parseRpcSignatures lib value =
     (case value of
        JArr items \<Rightarrow> rmap (parseRpcSignature lib) items
      | _ \<Rightarrow> Inl (Err ''Solana RPC returned invalid signature history''))"

definition parseExactRpcTransaction :: "json \<Rightarrow> (bytes \<times> json) outcome" where
  "parseExactRpcTransaction value =
     require (is_obj value) (Err ''Solana RPC returned a malformed transaction response'')
     (case prop_of value ''transaction'' of
        JArr [JStr encoded, encoding] \<Rightarrow>
          require (encoding = JStr ''base64'' \<and> is_obj (prop_of value ''meta'') \<and> has_prop (prop_of value ''meta'') ''err'')
            (Err ''Solana RPC omitted exact transaction bytes or status'')
         (rbind (of_opt (Err ''persisted Pay.sh transaction has an invalid size'') (decodeBase64_sized encoded)) (\<lambda>bs.
            Inr (bs, prop_of (prop_of value ''meta'') ''err'')))
      | _ \<Rightarrow> Inl (Err ''Solana RPC omitted exact transaction bytes or status''))"

section \<open>The matcher\<close>

definition matchesPreparedTransaction :: "svm_lib \<Rightarrow> bytes \<Rightarrow> bytes \<Rightarrow> string \<Rightarrow> bool" where
  "matchesPreparedTransaction lib prepared candidate rpcSignature =
     (case (decodeShortVec prepared, decodeShortVec candidate) of
        (Some (n, k), Some (n', k')) \<Rightarrow>
          if n \<noteq> n' \<or> k \<noteq> k' \<or> length prepared \<noteq> length candidate \<or> n < 1 then False
          else if length prepared < k + n * 64 then False
          else if drop (k + n * 64) prepared \<noteq> drop (k + n * 64) candidate then False
          else list_all (\<lambda>i. if is_zero (slot k prepared i) then \<not> is_zero (slot k candidate i)
                 else slot k prepared i = slot k candidate i) [0 ..< n]
            \<and> lib_base58_encode lib (slot k' candidate 0) = rpcSignature
      | _ \<Rightarrow> False)"

definition hasValidTransactionSignatures :: "svm_lib \<Rightarrow> bytes \<Rightarrow> bool" where
  "hasValidTransactionSignatures lib transaction =
     (case lib_decode_tx lib transaction of
        None \<Rightarrow> False
      | Some decoded \<Rightarrow>
          dt_signatures decoded \<noteq> []
          \<and> list_all (\<lambda>(signer, signature). \<not> zero_or_missing signature \<and> lib_address lib signer
              \<and> lib_verify lib signer (the signature) (dt_messageBytes decoded) = Some True) (dt_signatures decoded))"

interpretation orchestrator_match: prepared_matcher matchesPreparedTransaction
proof unfold_locales
  fix lib p c sig
  assume m: "matchesPreparedTransaction lib p c sig"
  obtain n k n' k' where d: "decodeShortVec p = Some (n, k)" "decodeShortVec c = Some (n', k')"
    using m unfolding matchesPreparedTransaction_def
    by (cases "decodeShortVec p"; cases "decodeShortVec c") auto
  show "\<exists>n k. decodeShortVec p = Some (n, k) \<and> decodeShortVec c = Some (n, k) \<and> length p = length c
      \<and> drop (k + n * 64) p = drop (k + n * 64) c
      \<and> (\<forall>i < n. if is_zero (slot k p i) then \<not> is_zero (slot k c i) else slot k p i = slot k c i)
      \<and> lib_base58_encode lib (slot k c 0) = sig"
    using m d by (auto simp: matchesPreparedTransaction_def list_all_iff split: if_splits)
qed

section \<open>The scan of one provider\<close>

definition known_scan ::
    "svm_lib \<Rightarrow> bytes \<Rightarrow> 'w solana_rpc \<Rightarrow> string \<Rightarrow> ('w, exact_scan) proc" where
  "known_scan lib prepared rpc knownSignature =
     pbind (get_exact_transaction rpc knownSignature) (\<lambda>value.
       if value = JNull then pret ScanAbsent
       else pbind (plift (parseExactRpcTransaction value)) (\<lambda>(candidate, err).
         if \<not> hasValidTransactionEnvelope candidate \<or> prepared \<noteq> candidate
            \<or> fullySignedTransactionSignature lib candidate \<noteq> Inr (Some knownSignature)
         then pret ScanInconclusive
         else if \<not> hasValidTransactionSignatures lib candidate then pret ScanInconclusive
         else pret (exact_outcome knownSignature err)))"

text \<open>The candidates of one page; \<open>None\<close> when none of them is the prepared transaction.\<close>

fun page_candidates ::
    "svm_lib \<Rightarrow> bytes \<Rightarrow> 'w solana_rpc \<Rightarrow> rpc_signature list \<Rightarrow> ('w, exact_scan option) proc" where
  "page_candidates lib prepared rpc [] = pret None"
| "page_candidates lib prepared rpc (signatureInfo # rest) =
     pbind (get_exact_transaction rpc (rs_signature signatureInfo)) (\<lambda>value.
       if value = JNull then pret (Some ScanInconclusive)
       else pbind (plift (parseExactRpcTransaction value)) (\<lambda>(candidate, err).
         if (rs_err signatureInfo = JNull) \<noteq> (err = JNull) then pret (Some ScanInconclusive)
         else if \<not> hasValidTransactionEnvelope candidate then pret (Some ScanInconclusive)
         else if matchesPreparedTransaction lib prepared candidate (rs_signature signatureInfo)
         then if \<not> hasValidTransactionSignatures lib candidate then pret (Some ScanInconclusive)
           else pret (Some (exact_outcome (rs_signature signatureInfo) err))
         else page_candidates lib prepared rpc rest))"

fun page_loop ::
    "svm_lib \<Rightarrow> bytes \<Rightarrow> string \<Rightarrow> 'w solana_rpc \<Rightarrow> nat \<Rightarrow> string option \<Rightarrow> ('w, exact_scan) proc" where
  "page_loop lib prepared payer rpc 0 before = pret ScanInconclusive"
| "page_loop lib prepared payer rpc (Suc pages) before =
     pbind (get_signatures rpc payer before) (\<lambda>value.
     pbind (plift (parseRpcSignatures lib value)) (\<lambda>sigs.
       if sigs = [] then pret ScanAbsent
       else pbind (page_candidates lib prepared rpc sigs) (\<lambda>found.
         case found of
           Some r \<Rightarrow> pret r
         | None \<Rightarrow>
             if length sigs < signature_page_size then pret ScanAbsent
             else if rs_signature (last sigs) = [] then pret ScanInconclusive
             else page_loop lib prepared payer rpc pages (Some (rs_signature (last sigs))))))"

definition scanFinalizedTransactions ::
    "svm_lib \<Rightarrow> 'a direct_attempt_scheme \<Rightarrow> 'w solana_rpc \<Rightarrow> int \<Rightarrow> ('w, exact_scan) proc" where
  "scanFinalizedTransactions lib attempt rpc maxPages =
     pbind (plift (of_opt (Err ''persisted Pay.sh transaction has an invalid size'')
       (decodeBase64_sized (str_or (rpa_signedTransactionBase64 attempt) [])))) (\<lambda>prepared.
     if \<not> hasValidTransactionEnvelope prepared
     then praise (Err ''persisted Pay.sh transaction envelope is malformed'')
     else pbind (plift (fullySignedTransactionSignature lib prepared)) (\<lambda>knownSignature.
       if truthy knownSignature then known_scan lib prepared rpc (the knownSignature)
       else page_loop lib prepared (rpa_payer attempt) rpc (nat (max 1 maxPages)) None))"

definition scanExactFinalizedPayShPayment ::
    "svm_lib \<Rightarrow> research_attempt \<Rightarrow> 'w solana_rpc \<Rightarrow> int \<Rightarrow> int \<Rightarrow> ('w, exact_scan) proc" where
  "scanExactFinalizedPayShPayment lib attempt rpc maxPages now =
     pbind (plift (validatePaymentReconciliationAttempt lib now attempt)) (\<lambda>_.
       if rpa_status attempt = ''claimed''
          \<or> \<not> truthy (rpa_signedTransactionBase64 attempt) \<or> \<not> truthy (rpa_recentBlockhash attempt)
          \<or> \<not> isExactQuotedPayShTransaction lib attempt
          \<or> transactionLifetimeToken lib (the (rpa_signedTransactionBase64 attempt)) \<noteq> rpa_recentBlockhash attempt
       then pret ScanInconclusive
       else scanFinalizedTransactions lib attempt rpc maxPages)"

section \<open>One reconciliation run\<close>

text \<open>The options of \<open>processResearchPaymentAttempts\<close>: the ledger, the clock, and one RPC endpoint per
  URL. \<open>ro_list\<close> is the ledger's list limited to the batch size.\<close>

record 'w reconciliation_options =
  ro_list :: "('w, research_attempt list) proc"
  ro_defer :: "string \<Rightarrow> string \<Rightarrow> bool \<Rightarrow> ('w, unit) proc"
  ro_settle :: "string \<Rightarrow> string \<Rightarrow> string \<Rightarrow> ('w, unit) proc"
  ro_release :: "string \<Rightarrow> string \<Rightarrow> string \<Rightarrow> string \<Rightarrow> ('w, unit) proc"
  ro_now :: "('w, int) proc"
  ro_rpc :: "string \<Rightarrow> 'w solana_rpc"
  ro_maxPages :: int

fun distinct_rpc_urls :: "url_parser \<Rightarrow> (string \<times> string) list \<Rightarrow> string list \<Rightarrow> string list outcome" where
  "distinct_rpc_urls new_url byOrigin [] = Inr (map snd byOrigin)"
| "distinct_rpc_urls new_url byOrigin (v # vs) =
     (case new_url v of
        None \<Rightarrow> Inl (Err ''Invalid URL'')
      | Some url \<Rightarrow> distinct_rpc_urls new_url
          (if map_of byOrigin (url_origin url) = None then byOrigin @ [(url_origin url, url_href url)] else byOrigin) vs)"

definition unanimousSettlementSignature :: "exact_scan list \<Rightarrow> string option" where
  "unanimousSettlementSignature scans =
     (if length scans < 2 \<or> list_ex (\<lambda>scan. case scan of ScanSettled _ \<Rightarrow> False | _ \<Rightarrow> True) scans then None
      else (case (case scans ! 0 of ScanSettled s \<Rightarrow> Some s | _ \<Rightarrow> None) of
          None \<Rightarrow> None
        | Some signature \<Rightarrow>
            if signature \<noteq> [] \<and> list_all (\<lambda>scan. scan = ScanSettled signature) scans
            then Some signature else None))"

interpretation orchestrator_agreement: independent_views ScanSettled unanimousSettlementSignature
proof unfold_locales
  fix views and v :: string
  show "unanimousSettlementSignature views = Some v \<longleftrightarrow>
      2 \<le> length views \<and> v \<noteq> [] \<and> (\<forall>view \<in> set views. view = ScanSettled v)"
  proof (cases views)
    case (Cons x xs)
    then show ?thesis
      unfolding unanimousSettlementSignature_def
      by (auto simp: list_all_iff list_ex_iff Suc_le_eq split: exact_scan.splits if_splits)
  qed (simp add: unanimousSettlementSignature_def)
qed (simp add: inj_def)

definition confirmAbsenceOrRelease ::
    "'w reconciliation_options \<Rightarrow> research_attempt \<Rightarrow> string \<Rightarrow> ('w, unit) proc" where
  "confirmAbsenceOrRelease d attempt reason =
     (if rpa_absenceObservedAt attempt = None then ro_defer d (rpa_jobId attempt) (rpa_attemptId attempt) True
      else ro_release d (rpa_jobId attempt) (rpa_attemptId attempt) (rpa_status attempt) reason)"

definition scan_view :: "svm_lib \<Rightarrow> 'w reconciliation_options \<Rightarrow> research_attempt \<Rightarrow> string \<Rightarrow> ('w, exact_scan) proc" where
  "scan_view lib d attempt url =
     pcatch (scanFinalizedTransactions lib attempt (ro_rpc d url) (ro_maxPages d)) (\<lambda>_. pret ScanInconclusive)"

text \<open>\<open>result.value\<close>; \<open>JUndef\<close> stands for the \<open>null\<close> of a failed call too, since the source tests
  \<open>view == null\<close>.\<close>

definition blockhash_view :: "'w reconciliation_options \<Rightarrow> research_attempt \<Rightarrow> string \<Rightarrow> ('w, json) proc" where
  "blockhash_view d attempt url =
     pcatch (pbind (ro_rpc d url ''isBlockhashValid''
         [JStr (str_or (rpa_recentBlockhash attempt) []), JObj [(''commitment'', JStr ''finalized'')]])
       (\<lambda>result. pret (prop_of result ''value''))) (\<lambda>_. pret JUndef)"

definition no_view :: "json \<Rightarrow> bool" where
  "no_view v \<longleftrightarrow> v = JUndef \<or> v = JNull"

definition release_reason :: "exact_scan list \<Rightarrow> string" where
  "release_reason scans =
     (case List.find (\<lambda>scan. case scan of ScanFailed _ \<Rightarrow> True | _ \<Rightarrow> False) scans of
        Some (ScanFailed signature) \<Rightarrow> ''Exact Pay.sh transaction '' @ signature
          @ '' finalized with an error, and two independent RPC origins found no successful transfer.''
      | _ \<Rightarrow> ''Two independent RPC origins found no exact finalized transaction and agreed that the prepared recent blockhash is no longer valid.'')"

text \<open>The body of the loop over attempts; the result says whether the attempt is degraded.\<close>

definition defer_degraded :: "'w reconciliation_options \<Rightarrow> research_attempt \<Rightarrow> ('w, bool) proc" where
  "defer_degraded d attempt =
     pbind (ro_defer d (rpa_jobId attempt) (rpa_attemptId attempt) False) (\<lambda>_. pret True)"

definition decide_absence ::
    "'w reconciliation_options \<Rightarrow> string list \<Rightarrow> research_attempt \<Rightarrow> exact_scan list \<Rightarrow> ('w, bool) proc" where
  "decide_absence d urls attempt scans =
     pbind (pmapM (blockhash_view d attempt) urls) (\<lambda>views.
       if length urls < 2 \<or> list_ex (\<lambda>v. no_view v \<or> json_truthy v) views
       then pbind (ro_defer d (rpa_jobId attempt) (rpa_attemptId attempt) False) (\<lambda>_.
         pret (length urls < 2 \<or> list_ex no_view views))
       else pbind (confirmAbsenceOrRelease d attempt (release_reason scans)) (\<lambda>_. pret False))"

definition decide_scans ::
    "'w reconciliation_options \<Rightarrow> string list \<Rightarrow> research_attempt \<Rightarrow> exact_scan list \<Rightarrow> ('w, bool) proc" where
  "decide_scans d urls attempt scans =
     (case unanimousSettlementSignature scans of
        Some settled \<Rightarrow> pbind (ro_settle d (rpa_jobId attempt) (rpa_attemptId attempt) settled) (\<lambda>_. pret False)
      | None \<Rightarrow>
          if list_ex (\<lambda>scan. case scan of ScanSettled _ \<Rightarrow> True | ScanInconclusive \<Rightarrow> True | _ \<Rightarrow> False) scans
          then defer_degraded d attempt
          else decide_absence d urls attempt scans)"

definition reconcile_attempt ::
    "svm_lib \<Rightarrow> 'w reconciliation_options \<Rightarrow> string list \<Rightarrow> research_attempt \<Rightarrow> ('w, bool) proc" where
  "reconcile_attempt lib d urls attempt =
     pbind (ro_now d) (\<lambda>now.
     pbind (plift (validatePaymentReconciliationAttempt lib now attempt)) (\<lambda>_.
       if rpa_status attempt = ''claimed''
       then pbind (ro_release d (rpa_jobId attempt) (rpa_attemptId attempt) ''claimed''
           ''No signed Pay.sh credential was durably prepared before the claim deadline.'') (\<lambda>_. pret False)
       else if \<not> truthy (rpa_signedTransactionBase64 attempt) \<or> \<not> truthy (rpa_recentBlockhash attempt)
       then defer_degraded d attempt
       else if \<not> isExactQuotedPayShTransaction lib attempt then defer_degraded d attempt
       else if transactionLifetimeToken lib (the (rpa_signedTransactionBase64 attempt)) \<noteq> rpa_recentBlockhash attempt
       then defer_degraded d attempt
       else pbind (pmapM (scan_view lib d attempt) urls) (decide_scans d urls attempt)))"

text \<open>With the catch around it: \<open>Inl\<close> is an entry of \<open>failures\<close>.\<close>

definition reconcile_or_defer ::
    "svm_lib \<Rightarrow> 'w reconciliation_options \<Rightarrow> string list \<Rightarrow> research_attempt \<Rightarrow> ('w, js_error + bool) proc" where
  "reconcile_or_defer lib d urls attempt =
     pcatch (pbind (reconcile_attempt lib d urls attempt) (\<lambda>degraded. pret (Inr degraded)))
       (\<lambda>e. pcatch (pbind (defer_degraded d attempt) (\<lambda>degraded. pret (Inr degraded)))
         (\<lambda>deferError. pret (Inl (AggregateErr [e, deferError]))))"

definition failures_of :: "(js_error + bool) list \<Rightarrow> js_error list" where
  "failures_of rs = List.map_filter (\<lambda>r. case r of Inl e \<Rightarrow> Some e | Inr _ \<Rightarrow> None) rs"

definition degraded_of :: "research_attempt list \<Rightarrow> (js_error + bool) list \<Rightarrow> string list" where
  "degraded_of attempts rs = map (\<lambda>(a, _). rpa_attemptId a) (filter (\<lambda>(_, r). r = Inr True) (zip attempts rs))"

definition processResearchPaymentAttempts ::
    "svm_lib \<Rightarrow> url_parser \<Rightarrow> string list \<Rightarrow> 'w reconciliation_options \<Rightarrow> ('w, string list) proc" where
  "processResearchPaymentAttempts lib new_url rpcUrls d =
     pbind (plift (distinct_rpc_urls new_url [] rpcUrls)) (\<lambda>urls.
     if length urls = 0 then praise (Err ''at least one Solana reconciliation RPC is required'')
     else pbind (ro_list d) (\<lambda>attempts.
       pbind (pmapM (reconcile_or_defer lib d urls) attempts) (\<lambda>rs.
         if failures_of rs \<noteq> [] then praise (AggregateErr (failures_of rs))
         else pret (rev (remdups (rev (degraded_of attempts rs)))))))"

section \<open>Direct agents\<close>

record 'w direct_api =
  da_list :: "('w, direct_attempt list) proc"
  da_defer :: "string \<Rightarrow> bool \<Rightarrow> ('w, unit) proc"
  da_settle :: "string \<Rightarrow> string \<Rightarrow> ('w, unit) proc"
  da_release :: "string \<Rightarrow> string \<Rightarrow> string \<Rightarrow> ('w, unit) proc"

definition with_scope :: "direct_attempt \<Rightarrow> research_attempt" where
  "with_scope a = direct_attempt.extend a (research_attempt.fields (rpa_quoteId a))"

definition processDirectPayShPaymentAttempts ::
    "svm_lib \<Rightarrow> url_parser \<Rightarrow> string list \<Rightarrow> 'w direct_api \<Rightarrow> ('w, int) proc \<Rightarrow> (string \<Rightarrow> 'w solana_rpc) \<Rightarrow> int
     \<Rightarrow> ('w, string list) proc" where
  "processDirectPayShPaymentAttempts lib new_url rpcUrls direct now rpc maxPages =
     processResearchPaymentAttempts lib new_url rpcUrls
       \<lparr> ro_list = pbind (da_list direct) (\<lambda>attempts. pret (map with_scope attempts)),
         ro_defer = (\<lambda>_ attemptId absenceObserved. da_defer direct attemptId absenceObserved),
         ro_settle = (\<lambda>_ attemptId signature. da_settle direct attemptId signature),
         ro_release = (\<lambda>_ attemptId expectedStatus reason. da_release direct attemptId expectedStatus reason),
         ro_now = now, ro_rpc = rpc, ro_maxPages = maxPages \<rparr>"

section \<open>The RPC transport\<close>

text \<open>\<open>next_id\<close> increments the module's request counter; \<open>post url body\<close> is the fetch with its
  ten-second abort signal and \<open>redirect: "error"\<close>.\<close>

definition research_rpc ::
    "(bytes \<Rightarrow> json option) \<Rightarrow> ('w, int) proc \<Rightarrow> (string \<Rightarrow> json \<Rightarrow> ('w, http_response) proc) \<Rightarrow> string \<Rightarrow> 'w solana_rpc" where
  "research_rpc json_parse next_id post rpcUrl rpcMethod args =
     pbind next_id (\<lambda>rpcId.
     pbind (post rpcUrl (JObj [(''jsonrpc'', JStr ''2.0''), (''id'', JNum (Num rpcId)),
         (''method'', JStr rpcMethod), (''params'', JArr args)])) (\<lambda>response.
     pbind (plift (boundedResponseText response (1024 * 1024))) (\<lambda>text.
       if \<not> hr_ok response then praise (Err (''Solana RPC '' @ show_nat (hr_status response) @ '' during '' @ rpcMethod))
       else (case json_parse text of
           None \<Rightarrow> praise (Err ''SyntaxError'')
         | Some body \<Rightarrow>
             if json_truthy (prop_of body ''error'') \<or> \<not> has_prop body ''result''
             then praise (Err (''Solana RPC '' @ rpcMethod @ '' failed''))
             else pret (prop_of body ''result'')))))"

section \<open>Evidence in the request log\<close>

text \<open>\<open>tag\<close> embeds the requests of one endpoint in a larger log. The request for \<open>sig\<close> was answered
  by a transaction with no error that matches the prepared bytes and is validly signed.\<close>

abbreviation tagged_rpc :: "('e list \<Rightarrow> 'e \<Rightarrow> json outcome) \<Rightarrow> (rpc_request \<Rightarrow> 'e) \<Rightarrow> 'e list solana_rpc" where
  "tagged_rpc env tag \<equiv> (\<lambda>m ps. ask env (tag (m, ps)))"

definition exact_evidence ::
    "svm_lib \<Rightarrow> ('e list \<Rightarrow> 'e \<Rightarrow> json outcome) \<Rightarrow> (rpc_request \<Rightarrow> 'e) \<Rightarrow> bytes \<Rightarrow> string \<Rightarrow> 'e list \<Rightarrow> bool" where
  "exact_evidence lib env tag prepared sig h \<longleftrightarrow>
     (\<exists>value bs. answered env h (tag (exact_request sig)) value
        \<and> parseExactRpcTransaction value = Inr (bs, JNull)
        \<and> matchesPreparedTransaction lib prepared bs sig \<and> hasValidTransactionSignatures lib bs)"

lemma exact_evidence_append: "exact_evidence lib env tag p sig h \<Longrightarrow> exact_evidence lib env tag p sig (h @ h')"
  unfolding exact_evidence_def by (blast intro: answered_append)

definition scan_post ::
    "svm_lib \<Rightarrow> ('e list \<Rightarrow> 'e \<Rightarrow> json outcome) \<Rightarrow> (rpc_request \<Rightarrow> 'e) \<Rightarrow> bytes \<Rightarrow> 'e list \<Rightarrow> exact_scan \<Rightarrow> 'e list \<Rightarrow> bool" where
  "scan_post lib env tag prepared h r h' \<longleftrightarrow>
     (\<exists>ext. h' = h @ ext \<and> list_all (\<lambda>e. e \<in> range tag) ext)
     \<and> (\<forall>sig. r = ScanSettled sig \<longrightarrow> exact_evidence lib env tag prepared sig h')"

lemma scan_post_step:
  "scan_post lib env tag p (h @ [tag q]) r h' \<Longrightarrow> scan_post lib env tag p h r h'"
  unfolding scan_post_def by auto

lemma scan_post_other: "(\<And>sig. r \<noteq> ScanSettled sig) \<Longrightarrow> scan_post lib env tag p h r h"
  by (simp add: scan_post_def)

lemma exact_outcome_settled: "exact_outcome s err = ScanSettled sig \<longleftrightarrow> err = JNull \<and> sig = s"
  by (auto simp: exact_outcome_def)

lemma scan_post_found:
  assumes "env h (tag (exact_request s)) = Inr value" "parseExactRpcTransaction value = Inr (bs, err)"
    and "matchesPreparedTransaction lib p bs s" "hasValidTransactionSignatures lib bs"
  shows "scan_post lib env tag p h (exact_outcome s err) (h @ [tag (exact_request s)])"
  using assms unfolding scan_post_def exact_evidence_def
  by (auto simp: exact_outcome_settled intro: answered_last)

lemma get_exact_tagged: "get_exact_transaction (tagged_rpc env tag) s = ask env (tag (exact_request s))"
  by (rule ext) (simp add: get_exact_transaction_def exact_request_def)

lemma get_signatures_tagged: "get_signatures (tagged_rpc env tag) payer before = ask env (tag (page_request payer before))"
  by (rule ext) (simp add: get_signatures_def page_request_def)

abbreviation scan_grows :: "(rpc_request \<Rightarrow> 'e) \<Rightarrow> 'e list \<Rightarrow> 'e list \<Rightarrow> bool" where
  "scan_grows tag h h' \<equiv> \<exists>ext. h' = h @ ext \<and> list_all (\<lambda>e. e \<in> range tag) ext"

lemma scan_grows_step: "scan_grows tag (h @ [tag q]) h' \<Longrightarrow> scan_grows tag h h'"
  by auto

lemma scan_grows_one: "scan_grows tag h (h @ [tag q])" and scan_grows_refl: "scan_grows tag h h"
  by auto

text \<open>A fully signed transaction is matched by itself.\<close>

lemma known_matches:
  assumes "hasValidTransactionEnvelope bs" "fullySignedTransactionSignature lib bs = Inr (Some sig)"
  shows "matchesPreparedTransaction lib bs bs sig"
proof -
  obtain n k where d: "decodeShortVec bs = Some (n, k)"
    using assms(1) by (auto simp: hasValidTransactionEnvelope_def split: option.splits)
  with assms show ?thesis
    by (auto simp: hasValidTransactionEnvelope_def matchesPreparedTransaction_def
        fullySignedTransactionSignature_def list_all_iff split: if_splits)
qed

lemma wp_known_scan:
  assumes "hasValidTransactionEnvelope prepared"
  shows "wp (known_scan lib prepared (tagged_rpc env tag) s) (scan_post lib env tag prepared h)
    (\<lambda>_. scan_grows tag h) h"
  unfolding known_scan_def get_exact_tagged
  by (intro wp_intros scan_grows_one)
    (auto simp: wp_simps intro: scan_post_step [OF scan_post_other] scan_post_found known_matches
      split: sum.splits)

lemma wp_page_candidates:
  "wp (page_candidates lib prepared (tagged_rpc env tag) sigs)
    (\<lambda>r h'. case r of None \<Rightarrow> scan_grows tag h h' | Some x \<Rightarrow> scan_post lib env tag prepared h x h')
    (\<lambda>_. scan_grows tag h) h"
proof (induction sigs arbitrary: h)
  case (Cons s sigs)
  let ?h = "h @ [tag (exact_request (rs_signature s))]"
  have IH: "wp (page_candidates lib prepared (tagged_rpc env tag) sigs)
    (\<lambda>r h'. case r of None \<Rightarrow> scan_grows tag h h' | Some x \<Rightarrow> scan_post lib env tag prepared h x h')
    (\<lambda>_. scan_grows tag h) ?h"
    by (rule wp_mono [OF Cons.IH [of ?h]]) (auto split: option.splits intro: scan_post_step)
  show ?case
    unfolding page_candidates.simps get_exact_tagged
    by (intro wp_intros scan_grows_one IH)
      (auto intro: scan_post_step [OF scan_post_other] scan_post_found)
qed (simp add: wp_simps)

lemma wp_page_loop:
  "wp (page_loop lib prepared payer (tagged_rpc env tag) pages before)
    (scan_post lib env tag prepared h) (\<lambda>_. scan_grows tag h) h"
proof (induction pages arbitrary: before h)
  case (Suc pages)
  let ?h = "h @ [tag (page_request payer before)]"
  have IH: "wp (page_loop lib prepared payer (tagged_rpc env tag) pages b)
    (scan_post lib env tag prepared h) (\<lambda>_. scan_grows tag h) h'" if "scan_grows tag h h'" for b h'
    using that by (intro wp_mono [OF Suc.IH [of b h']]) (auto simp: scan_post_def)
  have C: "wp (page_candidates lib prepared (tagged_rpc env tag) sigs)
    (\<lambda>r h'. case r of None \<Rightarrow> scan_grows tag h h' | Some x \<Rightarrow> scan_post lib env tag prepared h x h')
    (\<lambda>_. scan_grows tag h) ?h" for sigs
    by (rule wp_mono [OF wp_page_candidates]) (auto split: option.splits intro: scan_post_step)
  show ?case
    unfolding page_loop.simps get_signatures_tagged
    by (intro wp_intros wp_mono [OF C] IH scan_grows_one)
      (auto simp: scan_post_def split: option.splits)
qed (simp add: wp_simps scan_post_other)

lemma wp_scan_finalized:
  "wp (scanFinalizedTransactions lib attempt (tagged_rpc env tag) maxPages)
    (scan_post lib env tag (base64_decode (str_or (rpa_signedTransactionBase64 attempt) [])) h)
    (\<lambda>_. scan_grows tag h) h"
  unfolding scanFinalizedTransactions_def
  by (intro wp_intros wp_page_loop wp_known_scan)
    (auto simp: decodeBase64_sized_def Let_def split: if_splits intro!: wp_known_scan wp_page_loop)

section \<open>What an attempt's transaction pays\<close>

definition pays_attempt :: "svm_lib \<Rightarrow> 'a direct_attempt_scheme \<Rightarrow> bytes \<Rightarrow> bool" where
  "pays_attempt lib a prepared \<longleftrightarrow>
     (\<exists>signers sigs messageBytes ixs source p q platform owner memo.
        parsePreparedPaymentTransaction lib prepared = Some (signers, sigs, messageBytes, ixs)
        \<and> rpa_payer a \<in> set signers
        \<and> (\<forall>i < length signers. \<exists>signature. nth_opt sigs i = Some signature
              \<and> (is_zero signature \<or> lib_verify lib (signers ! i) signature messageBytes = Some True))
        \<and> (\<exists>i < length signers. signers ! i = rpa_payer a \<and> \<not> zero_or_missing (nth_opt sigs i))
        \<and> directPayShRecipientTokenAccount lib (rpa_asset a) (rpa_payer a) = Some source
        \<and> rpa_platformRecipientWallet a \<noteq> None
        \<and> directPayShRecipientTokenAccount lib (rpa_asset a) (the (rpa_platformRecipientWallet a)) = Some p
        \<and> directPayShRecipientTokenAccount lib (rpa_asset a) (rpa_recipientWallet a) = Some q
        \<and> bigint_of (rpa_platformAmountAtomic a) = Some platform \<and> bigint_of (rpa_ownerAmountAtomic a) = Some owner
        \<and> bigint_of (rpa_amountAtomic a) = Some (owner + platform)
        \<and> list_all (pay_sh_ix_ok source (rpa_asset a) (rpa_payer a)) ixs
        \<and> image_mset (\<lambda>(d, x). (d, int x)) (mset (token_transfers ixs)) = {#(p, platform), (q, owner)#}
        \<and> memo \<in> set ixs \<and> ix_program memo = memo_program \<and> utf8_decode (ix_data memo) = rpa_externalId a)"

lemma expected_transfersE:
  assumes "expected_transfers lib a = Some (source, ts)"
  obtains p q platform owner where
    "directPayShRecipientTokenAccount lib (rpa_asset a) (rpa_payer a) = Some source"
    "directPayShRecipientTokenAccount lib (rpa_asset a) (the (rpa_platformRecipientWallet a)) = Some p"
    "directPayShRecipientTokenAccount lib (rpa_asset a) (rpa_recipientWallet a) = Some q"
    "bigint_of (rpa_platformAmountAtomic a) = Some platform" "bigint_of (rpa_ownerAmountAtomic a) = Some owner"
    "bigint_of (rpa_amountAtomic a) = Some (owner + platform)"
    "ts = [transfer_text p platform, transfer_text q owner]"
  using assms unfolding expected_transfers_def by (auto split: option.splits if_splits)

lemma exact_quoted_pays:
  assumes "isExactQuotedPayShTransaction lib a"
  shows "pays_attempt lib a (base64_decode (str_or (rpa_signedTransactionBase64 a) []))"
proof -
  from assms obtain bs signers sigs msg ixs i source ts actual where
    e: "truthy (rpa_externalId a)" "truthy (rpa_platformRecipientWallet a)"
    and d: "decodeBase64_sized (str_or (rpa_signedTransactionBase64 a) []) = Some bs"
      "parsePreparedPaymentTransaction lib bs = Some (signers, sigs, msg, ixs)"
      "index_of (rpa_payer a) signers = Some i"
    and v: "list_all (\<lambda>i. signer_slot_ok lib msg (signers ! i) (nth_opt sigs i)) [0 ..< length signers]"
      "\<not> zero_or_missing (nth_opt sigs i)"
    and t: "expected_transfers lib a = Some (source, ts)"
      "pay_sh_ix_loop source (rpa_asset a) (rpa_payer a) (the (rpa_externalId a)) ixs [] False = Some (actual, True)"
      "sort actual = sort ts"
    unfolding isExactQuotedPayShTransaction_def
    by (auto simp: case_option_False Option.bind_eq_Some_conv split: if_splits)
  from t(1) obtain p q platform owner where
    x: "directPayShRecipientTokenAccount lib (rpa_asset a) (rpa_payer a) = Some source"
      "directPayShRecipientTokenAccount lib (rpa_asset a) (the (rpa_platformRecipientWallet a)) = Some p"
      "directPayShRecipientTokenAccount lib (rpa_asset a) (rpa_recipientWallet a) = Some q"
      "bigint_of (rpa_platformAmountAtomic a) = Some platform" "bigint_of (rpa_ownerAmountAtomic a) = Some owner"
      "bigint_of (rpa_amountAtomic a) = Some (owner + platform)"
    and ts: "ts = [transfer_text p platform, transfer_text q owner]"
    by (rule expected_transfersE)
  have bs: "bs = base64_decode (str_or (rpa_signedTransactionBase64 a) [])"
    using d(1) by (auto simp: decodeBase64_sized_def Let_def split: if_splits)
  note r = pay_sh_ix_loop_Some [OF t(2)]
  have m: "image_mset (\<lambda>(d, x). (d, int x)) (mset (token_transfers ixs)) = {#(p, platform), (q, owner)#}"
    using t(3) r unfolding ts by (intro sorted_transfers) simp
  obtain memo where memo: "memo \<in> set ixs" "ix_program memo = memo_program" "utf8_decode (ix_data memo) = rpa_externalId a"
    using r e(1) by (auto simp: truthy_iff)
  have signer: "i < length signers" "signers ! i = rpa_payer a" "rpa_payer a \<in> set signers"
    using index_of_Some [OF d(3)] by (simp, simp, metis nth_mem)
  have slots: "\<forall>i < length signers. \<exists>signature. nth_opt sigs i = Some signature
      \<and> (is_zero signature \<or> lib_verify lib (signers ! i) signature msg = Some True)"
    using v(1) by (auto simp: list_all_iff signer_slot_ok_def split: option.splits)
  from d(2) signer slots v(2) x e(2) m r memo show ?thesis
    unfolding pays_attempt_def bs [symmetric]
    by (intro exI [of _ signers] exI [of _ sigs] exI [of _ msg] exI [of _ ixs] exI [of _ source] exI [of _ p]
        exI [of _ q] exI [of _ platform] exI [of _ owner] exI [of _ memo] conjI)
      (auto simp: truthy_iff)
qed

section \<open>Properties of the scan\<close>

lemma valid_signatures:
  "hasValidTransactionSignatures lib bs \<Longrightarrow>
    \<exists>decoded. lib_decode_tx lib bs = Some decoded \<and> (\<forall>(signer, signature) \<in> set (dt_signatures decoded).
      signature \<noteq> None \<and> lib_verify lib signer (the signature) (dt_messageBytes decoded) = Some True)"
  by (auto simp: hasValidTransactionSignatures_def list_all_iff zero_or_missing_def split: option.splits)

text \<open>C22: When one provider's scan reports a payment settled, that provider answered the finalized
  transaction of exactly this signature with no error; it is the prepared transaction with its empty
  slots filled, all its signatures verify, and what it pays is the attempt's quote: one transfer to
  the platform and one to the owner, of the quoted amounts, from the payer's account, with the
  resource's memo.\<close>

theorem pay_sh_scan_settled_sound:
  assumes "scanExactFinalizedPayShPayment lib attempt (logged_rpc env) pages now hist = (Inr (ScanSettled sig), hist')"
  shows "\<exists>value bs. answered env hist' (exact_request sig) value
    \<and> parseExactRpcTransaction value = Inr (bs, JNull)
    \<and> matchesPreparedTransaction lib (base64_decode (the (rpa_signedTransactionBase64 attempt))) bs sig
    \<and> (\<exists>decoded. lib_decode_tx lib bs = Some decoded \<and> (\<forall>(signer, signature) \<in> set (dt_signatures decoded).
          signature \<noteq> None \<and> lib_verify lib signer (the signature) (dt_messageBytes decoded) = Some True))
    \<and> pays_attempt lib attempt (base64_decode (the (rpa_signedTransactionBase64 attempt)))"
proof -
  have rpc: "logged_rpc env = tagged_rpc env (\<lambda>q. q)"
    by (intro ext) (simp add: logged_rpc_def)
  have "wp (scanExactFinalizedPayShPayment lib attempt (logged_rpc env) pages now)
    (\<lambda>r h. \<forall>sig. r = ScanSettled sig \<longrightarrow> isExactQuotedPayShTransaction lib attempt
       \<and> rpa_signedTransactionBase64 attempt \<noteq> None
       \<and> exact_evidence lib env (\<lambda>q. q) (base64_decode (str_or (rpa_signedTransactionBase64 attempt) [])) sig h)
    (\<lambda>_ _. True) hist"
    unfolding scanExactFinalizedPayShPayment_def rpc
    by (intro wp_intros wp_mono [OF wp_scan_finalized]) (auto simp: scan_post_def truthy_iff)
  from wpD [OF this assms] have q: "isExactQuotedPayShTransaction lib attempt"
    and s: "rpa_signedTransactionBase64 attempt \<noteq> None"
    and e: "exact_evidence lib env (\<lambda>q. q) (base64_decode (str_or (rpa_signedTransactionBase64 attempt) [])) sig hist'"
    by simp_all
  from s have "str_or (rpa_signedTransactionBase64 attempt) [] = the (rpa_signedTransactionBase64 attempt)"
    by (auto simp: str_or_def)
  note bytes = this
  from e obtain v bs where "answered env hist' (exact_request sig) v" "parseExactRpcTransaction v = Inr (bs, JNull)"
      "matchesPreparedTransaction lib (base64_decode (the (rpa_signedTransactionBase64 attempt))) bs sig"
    and signed: "hasValidTransactionSignatures lib bs"
    unfolding exact_evidence_def bytes by blast
  with valid_signatures [OF signed] exact_quoted_pays [OF q, unfolded bytes] show ?thesis by blast
qed

section \<open>The log of a run\<close>

datatype recon_event =
    RcList
  | RcDefer string string bool
  | RcSettle string string string
  | RcRelease string string string string
  | RcNow
  | RcRpc string rpc_request

record recon_env =
  rcv_list :: "recon_event list \<Rightarrow> recon_event \<Rightarrow> research_attempt list outcome"
  rcv_unit :: "recon_event list \<Rightarrow> recon_event \<Rightarrow> unit outcome"
  rcv_now :: "recon_event list \<Rightarrow> recon_event \<Rightarrow> int outcome"
  rcv_rpc :: "recon_event list \<Rightarrow> recon_event \<Rightarrow> json outcome"

definition logged_recon :: "recon_env \<Rightarrow> int \<Rightarrow> recon_event list reconciliation_options" where
  "logged_recon env maxPages =
     \<lparr> ro_list = ask (rcv_list env) RcList,
       ro_defer = (\<lambda>j a o'. ask (rcv_unit env) (RcDefer j a o')),
       ro_settle = (\<lambda>j a s. ask (rcv_unit env) (RcSettle j a s)),
       ro_release = (\<lambda>j a st r. ask (rcv_unit env) (RcRelease j a st r)),
       ro_now = ask (rcv_now env) RcNow,
       ro_rpc = (\<lambda>u. tagged_rpc (rcv_rpc env) (RcRpc u)), ro_maxPages = maxPages \<rparr>"

lemma logged_recon_sel:
  "ro_list (logged_recon env n) = ask (rcv_list env) RcList"
  "ro_defer (logged_recon env n) j a b = ask (rcv_unit env) (RcDefer j a b)"
  "ro_settle (logged_recon env n) j a s = ask (rcv_unit env) (RcSettle j a s)"
  "ro_release (logged_recon env n) j a st r = ask (rcv_unit env) (RcRelease j a st r)"
  "ro_now (logged_recon env n) = ask (rcv_now env) RcNow"
  "ro_rpc (logged_recon env n) u = tagged_rpc (rcv_rpc env) (RcRpc u)"
  "ro_maxPages (logged_recon env n) = n"
  by (simp_all add: logged_recon_def)

text \<open>What a view said: the scan of the URL's endpoint, run from some point of the log, gave \<open>r\<close>;
  and the endpoint answered that the blockhash is not valid.\<close>

definition scan_said ::
    "svm_lib \<Rightarrow> recon_env \<Rightarrow> int \<Rightarrow> research_attempt \<Rightarrow> string \<Rightarrow> recon_event list \<Rightarrow> exact_scan \<Rightarrow> bool" where
  "scan_said lib env n a url h r \<longleftrightarrow>
     (\<exists>pre ext post. h = pre @ ext @ post
        \<and> scanFinalizedTransactions lib a (tagged_rpc (rcv_rpc env) (RcRpc url)) n pre = (Inr r, pre @ ext))"

definition blockhash_request :: "'a direct_attempt_scheme \<Rightarrow> rpc_request" where
  "blockhash_request a = (''isBlockhashValid'',
     [JStr (str_or (rpa_recentBlockhash a) []), JObj [(''commitment'', JStr ''finalized'')]])"

definition said_expired :: "recon_env \<Rightarrow> research_attempt \<Rightarrow> string \<Rightarrow> recon_event list \<Rightarrow> bool" where
  "said_expired env a url h \<longleftrightarrow>
     (\<exists>result. answered (rcv_rpc env) h (RcRpc url (blockhash_request a)) result
        \<and> \<not> no_view (prop_of result ''value'') \<and> \<not> json_truthy (prop_of result ''value''))"

lemma scan_said_append: "scan_said lib env n a u h r \<Longrightarrow> scan_said lib env n a u (h @ h') r"
  unfolding scan_said_def by (metis append_assoc)

lemma said_expired_append: "said_expired env a u h \<Longrightarrow> said_expired env a u (h @ h')"
  unfolding said_expired_def by (blast intro: answered_append)

text \<open>What justifies a ledger call. \<open>exact\<close>: the attempt carries an exact quoted transaction with the
  blockhash it was prepared for.\<close>

definition exact_attempt :: "svm_lib \<Rightarrow> research_attempt \<Rightarrow> bool" where
  "exact_attempt lib a \<longleftrightarrow> truthy (rpa_signedTransactionBase64 a) \<and> truthy (rpa_recentBlockhash a)
     \<and> isExactQuotedPayShTransaction lib a
     \<and> transactionLifetimeToken lib (the (rpa_signedTransactionBase64 a)) = rpa_recentBlockhash a"

definition release_ok ::
    "svm_lib \<Rightarrow> recon_env \<Rightarrow> int \<Rightarrow> string list \<Rightarrow> research_attempt \<Rightarrow> string \<Rightarrow> recon_event list \<Rightarrow> bool" where
  "release_ok lib env n urls a st h \<longleftrightarrow> st = rpa_status a \<and>
     (if st = ''claimed'' then \<not> partial_evidence a
      else exact_attempt lib a \<and> rpa_absenceObservedAt a \<noteq> None \<and> 2 \<le> length urls
        \<and> (\<forall>u \<in> set urls. said_expired env a u h
             \<and> (\<exists>r \<in> {ScanAbsent} \<union> range ScanFailed. scan_said lib env n a u h r)))"

fun recon_ok ::
    "svm_lib \<Rightarrow> recon_env \<Rightarrow> int \<Rightarrow> string list \<Rightarrow> research_attempt list \<Rightarrow> recon_event list \<Rightarrow> recon_event \<Rightarrow> bool" where
  "recon_ok lib env n urls as h (RcSettle j i s) \<longleftrightarrow>
     (\<exists>a \<in> set as. rpa_jobId a = j \<and> rpa_attemptId a = i \<and> exact_attempt lib a \<and> 2 \<le> length urls
        \<and> (\<forall>u \<in> set urls. scan_said lib env n a u h (ScanSettled s)))"
| "recon_ok lib env n urls as h (RcRelease j i st r) \<longleftrightarrow>
     (\<exists>a \<in> set as. rpa_jobId a = j \<and> rpa_attemptId a = i \<and> release_ok lib env n urls a st h)"
| "recon_ok lib env n urls as h _ \<longleftrightarrow> True"

abbreviation recon_log where
  "recon_log lib env n urls as \<equiv> log_inv (recon_ok lib env n urls as)"

lemma recon_log_rpcs:
  "recon_log lib env n urls as h \<Longrightarrow> list_all (\<lambda>e. e \<in> range (RcRpc u)) ext \<Longrightarrow> recon_log lib env n urls as (h @ ext)"
proof (induction ext rule: rev_induct)
  case (snoc e ext)
  then have "recon_log lib env n urls as ((h @ ext) @ [e])"
    by (subst log_inv_simps(2)) auto
  then show ?case by simp
qed simp

text \<open>The views of all URLs, each keeping the evidence of those before it.\<close>

lemma wp_scan_view:
  assumes "recon_log lib env n urls as h"
  shows "wp (scan_view lib (logged_recon env n) a u)
      (\<lambda>r h'. recon_log lib env n urls as h' \<and> extends h h'
         \<and> (r \<noteq> ScanInconclusive \<longrightarrow> scan_said lib env n a u h' r)) (\<lambda>_ _. False) h"
proof -
  let ?rpc = "tagged_rpc (rcv_rpc env) (RcRpc u)"
  obtain res h' where run: "scanFinalizedTransactions lib a ?rpc n h = (res, h')" by force
  have "wp (scanFinalizedTransactions lib a ?rpc n) (\<lambda>_. scan_grows (RcRpc u) h) (\<lambda>_. scan_grows (RcRpc u) h) h"
    by (rule wp_mono [OF wp_scan_finalized]) (auto simp: scan_post_def)
  with run have g: "scan_grows (RcRpc u) h h'" by (cases res) (auto simp: wp_def)
  then have l: "recon_log lib env n urls as h'" "extends h h'"
    using assms by (auto intro: recon_log_rpcs)
  from g have "scan_said lib env n a u h' r" if "res = Inr r" for r
    unfolding scan_said_def using run that by (metis append_Nil2 append_assoc)
  with run l show ?thesis
    unfolding scan_view_def logged_recon_sel
    by (cases res) (auto simp: wp_simps wp_def)
qed

lemma wp_scan_views:
  assumes "recon_log lib env n urls as h"
  shows "wp (pmapM (scan_view lib (logged_recon env n) a) us)
     (\<lambda>rs h'. recon_log lib env n urls as h' \<and> extends h h'
        \<and> list_all2 (\<lambda>u r. r \<noteq> ScanInconclusive \<longrightarrow> scan_said lib env n a u h' r) us rs) (\<lambda>_ _. False) h"
  by (rule wp_pmapM_extends, rule wp_scan_view) (use assms in \<open>auto intro: scan_said_append\<close>)

lemma wp_blockhash_view:
  assumes "recon_log lib env n urls as h"
  shows "wp (blockhash_view (logged_recon env n) a u)
      (\<lambda>v h'. recon_log lib env n urls as h' \<and> extends h h'
         \<and> (\<not> no_view v \<and> \<not> json_truthy v \<longrightarrow> said_expired env a u h')) (\<lambda>_ _. False) h"
  unfolding blockhash_view_def logged_recon_sel blockhash_request_def [symmetric]
  by (intro wp_intros)
    (auto simp: assms said_expired_def no_view_def simp del: append_assoc intro: answered_last)

lemma wp_blockhash_views:
  assumes "recon_log lib env n urls as h"
  shows "wp (pmapM (blockhash_view (logged_recon env n) a) us)
     (\<lambda>vs h'. recon_log lib env n urls as h' \<and> extends h h'
        \<and> list_all2 (\<lambda>u v. \<not> no_view v \<and> \<not> json_truthy v \<longrightarrow> said_expired env a u h') us vs) (\<lambda>_ _. False) h"
  by (rule wp_pmapM_extends, rule wp_blockhash_view) (use assms in \<open>auto intro: said_expired_append\<close>)

lemma list_all2_not_ex:
  "list_all2 P xs ys \<Longrightarrow> \<not> list_ex Q ys \<Longrightarrow> (\<And>x y. P x y \<Longrightarrow> \<not> Q y \<Longrightarrow> R x) \<Longrightarrow> \<forall>x \<in> set xs. R x"
  by (induction rule: list_all2_induct) auto

text \<open>\<open>handled a h\<close>: the ledger acknowledged a call about the attempt.\<close>

definition ledger_call :: "research_attempt \<Rightarrow> recon_event \<Rightarrow> bool" where
  "ledger_call a ev \<longleftrightarrow> (case ev of
       RcDefer j i _ \<Rightarrow> j = rpa_jobId a \<and> i = rpa_attemptId a
     | RcSettle j i _ \<Rightarrow> j = rpa_jobId a \<and> i = rpa_attemptId a
     | RcRelease j i _ _ \<Rightarrow> j = rpa_jobId a \<and> i = rpa_attemptId a
     | _ \<Rightarrow> False)"

definition handled :: "recon_env \<Rightarrow> research_attempt \<Rightarrow> recon_event list \<Rightarrow> bool" where
  "handled env a h \<longleftrightarrow> (\<exists>ev. ledger_call a ev \<and> answered (rcv_unit env) h ev ())"

lemma handled_append: "handled env a h \<Longrightarrow> handled env a (h @ ext)"
  unfolding handled_def by (blast intro: answered_append)

lemma handled_last: "rcv_unit env h ev = Inr u \<Longrightarrow> ledger_call a ev \<Longrightarrow> handled env a (h @ [ev])"
  unfolding handled_def by (cases u) (blast intro: answered_last)

lemma ledger_call_simps [simp]:
  "ledger_call a (RcDefer (rpa_jobId a) (rpa_attemptId a) b)"
  "ledger_call a (RcSettle (rpa_jobId a) (rpa_attemptId a) s)"
  "ledger_call a (RcRelease (rpa_jobId a) (rpa_attemptId a) st r)"
  by (simp_all add: ledger_call_def)

text \<open>What every step establishes: the log is justified and longer, and after a normal return the
  attempt is handled.\<close>

abbreviation step_post where
  "step_post lib env n urls as a h h' \<equiv> recon_log lib env n urls as h' \<and> extends h h' \<and> handled env a h'"

abbreviation step_throw where
  "step_throw lib env n urls as h h' \<equiv> recon_log lib env n urls as h' \<and> extends h h'"

lemma wp_ledger_call:
  assumes "recon_log lib env n urls as h'" "extends h h'" "ledger_call a ev" "recon_ok lib env n urls as h' ev"
  shows "wp (pbind (ask (rcv_unit env) ev) (\<lambda>_. pret x)) (\<lambda>_. step_post lib env n urls as a h)
    (\<lambda>_. step_throw lib env n urls as h) h'"
  by (intro wp_intros) (use assms in \<open>auto intro: handled_last\<close>)

lemma wp_defer_degraded:
  assumes "recon_log lib env n urls as h'" "extends h h'"
  shows "wp (defer_degraded (logged_recon env n) a) (\<lambda>_. step_post lib env n urls as a h)
    (\<lambda>_. step_throw lib env n urls as h) h'"
  unfolding defer_degraded_def logged_recon_sel by (rule wp_ledger_call) (use assms in auto)

lemma wp_decide_absence:
  assumes "recon_log lib env n urls as h1" "extends h h1" "a \<in> set as" "exact_attempt lib a" "rpa_status a \<noteq> ''claimed''"
    and "\<forall>u \<in> set urls. \<exists>r \<in> {ScanAbsent} \<union> range ScanFailed. scan_said lib env n a u h1 r"
  shows "wp (decide_absence (logged_recon env n) urls a scans) (\<lambda>_. step_post lib env n urls as a h)
    (\<lambda>_. step_throw lib env n urls as h) h1"
  unfolding decide_absence_def logged_recon_sel
proof (intro wp_pbindI, rule wp_mono, rule wp_blockhash_views [OF assms(1)], goal_cases)
  case (1 vs h')
  then have l: "list_all2 (\<lambda>u v. \<not> no_view v \<and> \<not> json_truthy v \<longrightarrow> said_expired env a u h') urls vs"
    and h': "recon_log lib env n urls as h'" "extends h1 h'" by simp_all
  have e: "extends h h'" using assms(2) h'(2) by (rule extends_trans)
  have "release_ok lib env n urls a (rpa_status a) h'"
    if x: "\<not> (length urls < 2 \<or> list_ex (\<lambda>v. no_view v \<or> json_truthy v) vs)" "rpa_absenceObservedAt a \<noteq> None"
  proof -
    have "\<forall>u \<in> set urls. said_expired env a u h'"
      by (rule list_all2_not_ex [OF l, of "\<lambda>v. no_view v \<or> json_truthy v"]) (use x in auto)
    moreover have "\<forall>u \<in> set urls. \<exists>r \<in> {ScanAbsent} \<union> range ScanFailed. scan_said lib env n a u h' r"
      using assms(6) h'(2) unfolding extends_def by (blast intro: scan_said_append)
    ultimately show ?thesis using assms(4,5) x by (simp add: release_ok_def)
  qed
  with h' e assms(3) show ?case
    unfolding confirmAbsenceOrRelease_def logged_recon_sel
    by (auto intro!: wp_ledger_call wp_ifI bexI [of _ a])
qed simp_all

lemma validated_claimed:
  "validatePaymentReconciliationAttempt lib now a = Inr u \<Longrightarrow> rpa_status a = ''claimed'' \<Longrightarrow> \<not> partial_evidence a"
  by (simp add: validatePaymentReconciliationAttempt_def Let_def)

text \<open>The decision after the scans.\<close>

lemma unanimous_said:
  assumes l: "list_all2 (\<lambda>u r. r \<noteq> ScanInconclusive \<longrightarrow> scan_said lib env n a u h r) urls scans"
    and u: "unanimousSettlementSignature scans = Some sig"
  shows "2 \<le> length urls" "\<forall>u \<in> set urls. scan_said lib env n a u h (ScanSettled sig)"
proof -
  from u have v: "2 \<le> length scans" "\<forall>r \<in> set scans. r = ScanSettled sig"
    by (simp_all add: orchestrator_agreement.verdict_iff)
  then show "2 \<le> length urls" using list_all2_lengthD [OF l] by simp
  show "\<forall>u \<in> set urls. scan_said lib env n a u h (ScanSettled sig)"
    using v(2) by (intro list_all2_not_ex [OF l, of "\<lambda>r. r \<noteq> ScanSettled sig"]) (auto simp: list_ex_iff)
qed

lemma absent_said:
  assumes "list_all2 (\<lambda>u r. r \<noteq> ScanInconclusive \<longrightarrow> scan_said lib env n a u h r) urls scans"
    and "\<not> list_ex (\<lambda>scan. case scan of ScanSettled _ \<Rightarrow> True | ScanInconclusive \<Rightarrow> True | _ \<Rightarrow> False) scans"
  shows "\<forall>u \<in> set urls. \<exists>r \<in> {ScanAbsent} \<union> range ScanFailed. scan_said lib env n a u h r"
proof (rule list_all2_not_ex [OF assms])
  fix u r assume "r \<noteq> ScanInconclusive \<longrightarrow> scan_said lib env n a u h r"
    and "\<not> (case r of ScanSettled _ \<Rightarrow> True | ScanInconclusive \<Rightarrow> True | _ \<Rightarrow> False)"
  then show "\<exists>r \<in> {ScanAbsent} \<union> range ScanFailed. scan_said lib env n a u h r"
    by (cases r) auto
qed

lemma wp_decide_scans:
  assumes h: "recon_log lib env n urls as h'" "extends h h'"
    and l: "list_all2 (\<lambda>u r. r \<noteq> ScanInconclusive \<longrightarrow> scan_said lib env n a u h' r) urls scans"
    and e: "a \<in> set as" "exact_attempt lib a" "rpa_status a \<noteq> ''claimed''"
  shows "wp (decide_scans (logged_recon env n) urls a scans) (\<lambda>_. step_post lib env n urls as a h)
    (\<lambda>_. step_throw lib env n urls as h) h'"
  unfolding decide_scans_def logged_recon_sel
  by (intro wp_optionI wp_ifI wp_defer_degraded wp_decide_absence wp_ledger_call h e absent_said [OF l])
    (use e unanimous_said [OF l] in \<open>auto intro!: bexI [of _ a]\<close>)

lemma wp_reconcile_attempt:
  assumes "recon_log lib env n urls as h" "a \<in> set as"
  shows "wp (reconcile_attempt lib (logged_recon env n) urls a) (\<lambda>_. step_post lib env n urls as a h)
    (\<lambda>_. step_throw lib env n urls as h) h"
proof -
  have h: "recon_log lib env n urls as (h @ [RcNow])" "extends h (h @ [RcNow])"
    using assms by simp_all
  have scans: "wp (pmapM (scan_view lib (logged_recon env n) a) urls)
      (\<lambda>scans. wp (decide_scans (logged_recon env n) urls a scans) (\<lambda>_. step_post lib env n urls as a h)
         (\<lambda>_. step_throw lib env n urls as h)) (\<lambda>_. step_throw lib env n urls as h) (h @ [RcNow])"
    if "exact_attempt lib a" "rpa_status a \<noteq> ''claimed''"
    by (rule wp_mono [OF wp_scan_views [OF h(1)]])
      (use assms(2) that in \<open>auto intro!: wp_decide_scans extends_trans [OF h(2)]\<close>)
  show ?thesis
    unfolding reconcile_attempt_def logged_recon_sel
    by (intro wp_pbindI wp_askI wp_pliftI wp_ifI wp_defer_degraded wp_ledger_call scans)
      (use assms h in \<open>auto simp: release_ok_def exact_attempt_def dest: validated_claimed intro!: bexI [of _ a]\<close>)
qed

lemma wp_reconcile_or_defer:
  assumes "recon_log lib env n urls as h" "a \<in> set as"
  shows "wp (reconcile_or_defer lib (logged_recon env n) urls a)
     (\<lambda>r h'. recon_log lib env n urls as h' \<and> extends h h' \<and> (\<forall>d. r = Inr d \<longrightarrow> handled env a h')) (\<lambda>_ _. False) h"
  unfolding reconcile_or_defer_def
proof (intro wp_pcatchI wp_pbindI wp_mono [OF wp_reconcile_attempt [OF assms]])
  fix e h'
  assume "step_throw lib env n urls as h h'"
  then have h': "recon_log lib env n urls as h'" "extends h h'" by simp_all
  show "wp (defer_degraded (logged_recon env n) a)
     (\<lambda>d. wp (pret (Inr d)) (\<lambda>r h'. recon_log lib env n urls as h' \<and> extends h h' \<and> (\<forall>d. r = Inr d \<longrightarrow> handled env a h'))
        (\<lambda>e'. wp (pret (Inl (AggregateErr [e, e'])))
          (\<lambda>r h'. recon_log lib env n urls as h' \<and> extends h h' \<and> (\<forall>d. r = Inr d \<longrightarrow> handled env a h')) (\<lambda>_ _. False)))
     (\<lambda>e'. wp (pret (Inl (AggregateErr [e, e'])))
        (\<lambda>r h'. recon_log lib env n urls as h' \<and> extends h h' \<and> (\<forall>d. r = Inr d \<longrightarrow> handled env a h')) (\<lambda>_ _. False)) h'"
    by (rule wp_mono [OF wp_defer_degraded [OF h']]) (auto simp: wp_simps)
qed (auto simp: wp_simps)

text \<open>The URLs of a run have pairwise distinct origins.\<close>

definition independent_origins :: "url_parser \<Rightarrow> string list \<Rightarrow> string list \<Rightarrow> bool" where
  "independent_origins new_url rpcUrls urls \<longleftrightarrow>
     (\<exists>origins. distinct origins
        \<and> list_all2 (\<lambda>origin u. \<exists>v \<in> set rpcUrls. \<exists>url. new_url v = Some url \<and> url_origin url = origin \<and> url_href url = u)
            origins urls)"

lemma distinct_rpc_urls_Inr:
  assumes "distinct_rpc_urls new_url byOrigin vs = Inr urls" "distinct (map fst byOrigin)"
    and "list_all (\<lambda>(origin, u). \<exists>v \<in> S. \<exists>url. new_url v = Some url \<and> url_origin url = origin \<and> url_href url = u) byOrigin"
    and "set vs \<subseteq> S"
  shows "\<exists>origins. distinct origins
    \<and> list_all2 (\<lambda>origin u. \<exists>v \<in> S. \<exists>url. new_url v = Some url \<and> url_origin url = origin \<and> url_href url = u) origins urls"
  using assms
proof (induction new_url byOrigin vs rule: distinct_rpc_urls.induct)
  case (1 new_url byOrigin)
  then show ?case
    by (intro exI [of _ "map fst byOrigin"]) (auto simp: list_all2_conv_all_nth list_all_length split_def)
next
  case (2 new_url byOrigin v vs)
  then show ?case
    by (cases "new_url v") (auto simp: map_of_eq_None_iff split: if_splits)
qed

lemma independent_originsI:
  assumes "distinct_rpc_urls new_url [] rpcUrls = Inr urls"
  shows "independent_origins new_url rpcUrls urls"
  using distinct_rpc_urls_Inr [OF assms, of "set rpcUrls"] by (simp add: independent_origins_def)

text \<open>The whole run.\<close>

definition run_log :: "svm_lib \<Rightarrow> recon_env \<Rightarrow> int \<Rightarrow> url_parser \<Rightarrow> string list \<Rightarrow> recon_event list \<Rightarrow> bool" where
  "run_log lib env n new_url rpcUrls h \<longleftrightarrow>
     set h \<subseteq> {RcList} \<or>
     (\<exists>urls as. independent_origins new_url rpcUrls urls \<and> rcv_list env [] RcList = Inr as
        \<and> recon_log lib env n urls as h)"

lemma wp_run:
  "wp (processResearchPaymentAttempts lib new_url rpcUrls (logged_recon env n))
     (\<lambda>_ h. run_log lib env n new_url rpcUrls h
        \<and> (\<exists>as. rcv_list env [] RcList = Inr as \<and> (\<forall>a \<in> set as. handled env a h)))
     (\<lambda>_. run_log lib env n new_url rpcUrls) []"
proof -
  have loop: "wp (pmapM (reconcile_or_defer lib (logged_recon env n) urls) as)
      (\<lambda>rs h. run_log lib env n new_url rpcUrls h \<and> (failures_of rs = [] \<longrightarrow> (\<forall>a \<in> set as. handled env a h)))
      (\<lambda>_ _. False) ([] @ [RcList])"
    if u: "distinct_rpc_urls new_url [] rpcUrls = Inr urls" and as: "rcv_list env [] RcList = Inr as" for urls as
  proof (rule wp_mono)
    show "wp (pmapM (reconcile_or_defer lib (logged_recon env n) urls) as)
       (\<lambda>rs h. recon_log lib env n urls as h \<and> extends ([] @ [RcList]) h
          \<and> list_all2 (\<lambda>a r. \<forall>d. r = Inr d \<longrightarrow> handled env a h) as rs) (\<lambda>_ _. False) ([] @ [RcList])"
      by (rule wp_pmapM_extends, rule wp_reconcile_or_defer) (auto intro: handled_append)
  next
    fix rs :: "(js_error + bool) list" and h
    assume r: "recon_log lib env n urls as h \<and> extends ([] @ [RcList]) h
          \<and> list_all2 (\<lambda>a r. \<forall>d. r = Inr d \<longrightarrow> handled env a h) as rs"
    have "\<forall>a \<in> set as. handled env a h" if "failures_of rs = []"
    proof (rule list_all2_not_ex [of "\<lambda>a r. \<forall>d. r = Inr d \<longrightarrow> handled env a h" as rs "\<lambda>r. \<exists>e. r = Inl e"])
      show "\<not> list_ex (\<lambda>r. \<exists>e. r = Inl e) rs"
        using that by (induction rs) (auto simp: failures_of_def List.map_filter_def split: sum.splits)
    next
      fix a and r :: "js_error + bool"
      assume "\<forall>d. r = Inr d \<longrightarrow> handled env a h" "\<not> (\<exists>e. r = Inl e)"
      then show "handled env a h" by (cases r) auto
    qed (use r in simp)
    with r independent_originsI [OF u] as
    show "run_log lib env n new_url rpcUrls h \<and> (failures_of rs = [] \<longrightarrow> (\<forall>a \<in> set as. handled env a h))"
      by (auto simp: run_log_def)
  qed simp
  show ?thesis
    unfolding processResearchPaymentAttempts_def logged_recon_sel
    by (intro wp_intros wp_mono [OF loop]) (auto simp: wp_simps run_log_def)
qed

section \<open>Properties of a run\<close>

text \<open>C21: The recovery run reports a payment settled to the ledger only for an attempt the ledger
  listed, whose prepared transaction pays exactly its quote, and when the scans of at least two RPC
  origins all found the same finalized signature. It releases an attempt for another charge only
  when no credential was ever prepared for it, or when absence had been observed before, every scan
  of at least two origins found it absent or failed, and every origin said its blockhash expired.\<close>

theorem payment_recovery_acts_on_evidence:
  assumes "processResearchPaymentAttempts lib new_url rpcUrls (logged_recon env n) [] = (r, hist)"
    and "hist = pre @ ev # post"
  shows "case ev of
      RcSettle j i sig \<Rightarrow> \<exists>urls as a. independent_origins new_url rpcUrls urls \<and> 2 \<le> length urls
        \<and> rcv_list env [] RcList = Inr as \<and> a \<in> set as \<and> rpa_jobId a = j \<and> rpa_attemptId a = i
        \<and> exact_attempt lib a \<and> (\<forall>u \<in> set urls. scan_said lib env n a u pre (ScanSettled sig))
    | RcRelease j i st reason \<Rightarrow> \<exists>urls as a. independent_origins new_url rpcUrls urls
        \<and> rcv_list env [] RcList = Inr as \<and> a \<in> set as \<and> rpa_jobId a = j \<and> rpa_attemptId a = i
        \<and> release_ok lib env n urls a st pre
    | _ \<Rightarrow> True"
proof -
  have "run_log lib env n new_url rpcUrls hist"
    using wp_run [of lib new_url rpcUrls env n] assms(1) by (cases r) (auto simp: wp_def)
  then consider "set hist \<subseteq> {RcList}"
    | urls as where "independent_origins new_url rpcUrls urls" "rcv_list env [] RcList = Inr as"
        "recon_log lib env n urls as hist"
    unfolding run_log_def by blast
  then show ?thesis
  proof cases
    case (2 urls as)
    with assms(2) have "recon_ok lib env n urls as pre ev" by (auto dest: log_invD)
    with 2 show ?thesis by (cases ev) (auto intro!: exI [of _ urls] exI [of _ as])
  qed (use assms(2) in \<open>auto split: recon_event.splits\<close>)
qed

text \<open>C23: A recovery run that returns has settled, released or deferred every attempt the ledger
  listed, each with an acknowledged ledger call: no attempt is left in limbo by an RPC failure.\<close>

theorem payment_recovery_handles_every_attempt:
  assumes "processResearchPaymentAttempts lib new_url rpcUrls (logged_recon env n) [] = (Inr degraded, hist)"
    and "rcv_list env [] RcList = Inr as" "a \<in> set as"
  shows "\<exists>ev. ledger_call a ev \<and> answered (rcv_unit env) hist ev ()"
  using wpD [OF wp_run assms(1)] assms(2,3) by (auto simp: handled_def)

text \<open>An attempt that passes validation is well-formed: its ids are in their alphabets, its amounts
  are canonical numerals of a positive 63-bit total split without remainder, its times are in order,
  and it carries evidence exactly as its status allows.\<close>

theorem validated_attempt_well_formed:
  assumes "validatePaymentReconciliationAttempt lib now a = Inr u"
  shows "re_scope_id (rpa_jobId a) \<and> re_scope_id (rpa_quoteId a) \<and> re_hex64 (rpa_attemptId a)
    \<and> (\<exists>owner platform. rpa_ownerAmountAtomic a = show_nat owner \<and> rpa_platformAmountAtomic a = show_nat platform
        \<and> rpa_amountAtomic a = show_nat (owner + platform) \<and> 0 < owner + platform \<and> owner + platform < 2 ^ 63)
    \<and> (\<exists>created. rpa_createdAt a = Num created \<and> 0 < created \<and> created \<le> now + 60000
        \<and> (\<forall>observed. rpa_absenceObservedAt a = Some observed \<longrightarrow>
             (\<exists>t. observed = Num t \<and> created \<le> t \<and> t \<le> now + 60000)))
    \<and> (rpa_status a = ''claimed'' \<and> rpa_payer a = [] \<and> \<not> partial_evidence a
       \<or> rpa_status a \<in> {''prepared'', ''ambiguous''} \<and> lib_address lib (rpa_payer a))"
proof -
  note v = assms [unfolded validatePaymentReconciliationAttempt_def Let_def, simplified]
  have amounts: "\<exists>owner platform. rpa_ownerAmountAtomic a = show_nat owner \<and> rpa_platformAmountAtomic a = show_nat platform
      \<and> rpa_amountAtomic a = show_nat (owner + platform) \<and> 0 < owner + platform \<and> owner + platform < 2 ^ 63"
  proof (intro exI conjI)
    show "rpa_ownerAmountAtomic a = show_nat (dec_value (rpa_ownerAmountAtomic a))"
      "rpa_platformAmountAtomic a = show_nat (dec_value (rpa_platformAmountAtomic a))"
      using v by (simp_all add: show_nat_dec_value_decimal)
    have e: "dec_value (rpa_ownerAmountAtomic a) + dec_value (rpa_platformAmountAtomic a) = dec_value (rpa_amountAtomic a)"
      using v by linarith
    show "rpa_amountAtomic a = show_nat (dec_value (rpa_ownerAmountAtomic a) + dec_value (rpa_platformAmountAtomic a))"
      unfolding e using v by (simp add: show_nat_dec_value_decimal)
    show "0 < dec_value (rpa_ownerAmountAtomic a) + dec_value (rpa_platformAmountAtomic a)"
      "dec_value (rpa_ownerAmountAtomic a) + dec_value (rpa_platformAmountAtomic a) < 2 ^ 63"
      unfolding e using v by (simp_all add: max_ledger_atomic_def)
  qed
  obtain created where c: "rpa_createdAt a = Num created" "0 < created" "created \<le> now + 60000"
    using v by (auto simp: recon_time_ok_def recovery_clock_skew_ms_def elim!: is_safe_integerE)
  have p: "\<exists>t. p = Num t \<and> created \<le> t" if "rpa_preparedAt a = Some p" for p
    using v c that by (auto simp: recon_mark_ok_def elim!: is_safe_integerE)
  have o: "\<exists>t. observed = Num t \<and> created \<le> t \<and> t \<le> now + 60000" if "rpa_absenceObservedAt a = Some observed" for observed
  proof (cases "rpa_preparedAt a")
    case None
    then show ?thesis using v c that
      by (auto simp: recon_mark_ok_def recovery_clock_skew_ms_def elim!: is_safe_integerE)
  next
    case (Some p)
    with p obtain t where t: "p = Num t" "created \<le> t" by blast
    with Some show ?thesis using v c that
      by (auto simp: recon_mark_ok_def recovery_clock_skew_ms_def elim!: is_safe_integerE)
  qed
  from v amounts c o show ?thesis by auto
qed

section \<open>A concrete run\<close>

definition demo_recon_lib :: svm_lib where
  "demo_recon_lib = demo_pay_sh_lib\<lparr> lib_decode_tx := (\<lambda>bs. Some
     \<lparr> dt_signatures = [(''f'', Some (replicate 64 (byte_of 2))), (''p'', Some (replicate 64 1))],
       dt_messageBytes = drop 129 bs \<rparr>) \<rparr>"

definition demo_recon_attempt :: research_attempt where
  "demo_recon_attempt =
     \<lparr> rpa_quoteId = ''q'', rpa_attemptId = replicate 64 (CHR ''a''), rpa_status = ''prepared'',
       rpa_reconcileAfter = Num 5, rpa_createdAt = Num 5, rpa_preparedAt = Some (Num 6), rpa_payer = ''p'',
       rpa_network = ''net'', rpa_asset = ''mint'', rpa_amountAtomic = ''5'', rpa_ownerAmountAtomic = ''4'',
       rpa_platformAmountAtomic = ''1'', rpa_recipientWallet = ''o'', rpa_platformRecipientWallet = Some ''op'',
       rpa_signedTransactionBase64 = Some (base64_encode demo_prepared), rpa_recentBlockhash = Some ''h'',
       rpa_challengeId = Some ''c'', rpa_externalId = Some ''human-document-krw-7#a'',
       rpa_challengeExpiresAt = Some (Num 1500), rpa_absenceObservedAt = None, rpa_jobId = ''j'' \<rparr>"

definition demo_recon_env :: recon_env where
  "demo_recon_env =
     \<lparr> rcv_list = (\<lambda>_ _. Inr [demo_recon_attempt]), rcv_unit = (\<lambda>_ _. Inr ()), rcv_now = (\<lambda>_ _. Inr 1000),
       rcv_rpc = (\<lambda>_ ev. case ev of RcRpc u rq \<Rightarrow> demo_env [] rq | _ \<Rightarrow> Inr JNull) \<rparr>"

lemma demo_recon_quoted: "isExactQuotedPayShTransaction demo_recon_lib demo_recon_attempt"
proof -
  have n: "length demo_prepared = 130" by (simp add: demo_prepared_def)
  have b: "bigint_of ''5'' = Some 5" "bigint_of ''4'' = Some 4" "bigint_of ''1'' = Some 1" by code_simp+
  have k: "directPayShRecipientTokenAccount demo_recon_lib m w = (if m \<noteq> [] \<and> w \<noteq> [] then Some (w @ ''-ata'') else None)" for m w
    by (simp add: directPayShRecipientTokenAccount_def demo_recon_lib_def demo_pay_sh_lib_def demo_lib_def)
  have l: "pay_sh_ix_loop ''p-ata'' ''mint'' ''p'' ''human-document-krw-7#a'' (lt_instructions demo_pay_sh_tx) [] False
     = Some ([transfer_text ''op-ata'' 1, transfer_text ''o-ata'' 4], True)"
    by code_simp
  have t: "parsePreparedPaymentTransaction demo_recon_lib bs
     = Some ([''f'', ''p''], [replicate 64 0, replicate 64 1], drop 129 bs, lt_instructions demo_pay_sh_tx)" for bs
    by (simp add: parsePreparedPaymentTransaction_def demo_recon_lib_def lib_messageBytes_def prepared_view_def
        demo_pay_sh_lib_def demo_pay_sh_tx_def demo_tx_def legacy_signature_bytes_def)
  have g: "signer_slot_ok demo_recon_lib m ''p'' (Some (replicate 64 1))" "signer_slot_ok demo_recon_lib m f (Some (replicate 64 0))" for m f
    by (simp_all add: signer_slot_ok_def demo_recon_lib_def demo_pay_sh_lib_def demo_lib_def)
  show ?thesis
    unfolding isExactQuotedPayShTransaction_def expected_transfers_def
    by (simp add: demo_recon_attempt_def truthy_def str_or_def decodeBase64_sized_def n t k b l g zero_or_missing_def
        nth_opt_def upt_rec insort_key.simps)
qed

lemma demo_recon_page:
  "parseRpcSignatures demo_recon_lib demo_history = Inr [\<lparr> rs_signature = ''sig2'', rs_err = JNull, rs_blockTime = JNull \<rparr>]"
  by code_simp

lemma demo_recon_matches: "matchesPreparedTransaction demo_recon_lib demo_prepared demo_candidate ''sig2''"
  by code_simp

lemma demo_recon_unsigned: "fullySignedTransactionSignature demo_recon_lib demo_prepared = Inr None"
  by code_simp

lemma demo_recon_signed: "hasValidTransactionSignatures demo_recon_lib bs"
  by (simp add: hasValidTransactionSignatures_def demo_recon_lib_def demo_pay_sh_lib_def demo_lib_def zero_or_missing_def byte_of_def)

lemma demo_recon_exact: "parseExactRpcTransaction demo_transaction = Inr (demo_candidate, JNull)"
proof -
  have n: "length demo_candidate = 130" by (simp add: demo_candidate_def)
  show ?thesis by (simp add: parseExactRpcTransaction_def demo_transaction_def decodeBase64_sized_def n)
qed

lemma demo_recon_scan:
  assumes "\<And>h. env h (tag (page_request ''p'' None)) = Inr demo_history"
    and "\<And>h. env h (tag (exact_request ''sig2'')) = Inr demo_transaction"
  shows "scanFinalizedTransactions demo_recon_lib demo_recon_attempt (tagged_rpc env tag) 1 h
    = (Inr (ScanSettled ''sig2''), h @ [tag (page_request ''p'' None), tag (exact_request ''sig2'')])"
proof -
  have n: "length demo_prepared = 130" by (simp add: demo_prepared_def)
  have j: "demo_transaction \<noteq> JNull" by (simp add: demo_transaction_def)
  have a: "rpa_signedTransactionBase64 demo_recon_attempt = Some (base64_encode demo_prepared)" "rpa_payer demo_recon_attempt = ''p''"
    by (simp_all add: demo_recon_attempt_def)
  show ?thesis
    by (simp add: scanFinalizedTransactions_def a str_or_def decodeBase64_sized_def n demo_prepared_envelope truthy_def
        get_signatures_tagged get_exact_tagged plift_def pbind_def ask_def assms demo_recon_page j demo_recon_exact
        demo_candidate_envelope demo_recon_matches demo_recon_signed demo_recon_unsigned pret_def exact_outcome_def eval_nat_numeral)
qed

lemma demo_recon_env_rpc:
  "rcv_rpc demo_recon_env h (RcRpc u (page_request ''p'' None)) = Inr demo_history"
  "rcv_rpc demo_recon_env h (RcRpc u (exact_request ''sig2'')) = Inr demo_transaction"
  by (simp_all add: demo_recon_env_def demo_env_def page_request_def exact_request_def elem_def)

lemma demo_recon_valid: "validatePaymentReconciliationAttempt demo_recon_lib 1000 demo_recon_attempt = Inr ()"
proof -
  have "re_scope_id ''j''" "re_scope_id ''q''" "re_hex64 (replicate 64 (CHR ''a''))" "re_decimal ''5''" "re_decimal ''4''"
    "re_decimal ''1''" "dec_value ''5'' = 5" "dec_value ''4'' = 4" "dec_value ''1'' = 1"
    by code_simp+
  then show ?thesis
    by (simp add: validatePaymentReconciliationAttempt_def demo_recon_attempt_def recon_time_ok_def recon_mark_ok_def
        recovery_clock_skew_ms_def max_ledger_atomic_def max_safe_integer_def demo_recon_lib_def demo_pay_sh_lib_def demo_lib_def
        truthy_def)
qed

lemma demo_recon_token: "transactionLifetimeToken demo_recon_lib (base64_encode demo_prepared) = Some ''h''"
proof -
  have n: "length demo_prepared = 130" by (simp add: demo_prepared_def)
  show ?thesis
    by (simp add: transactionLifetimeToken_def decodeBase64_sized_def n lib_messageBytes_def demo_recon_lib_def
        demo_pay_sh_lib_def demo_lib_def)
qed

lemma demo_recon_fields:
  "rpa_signedTransactionBase64 demo_recon_attempt = Some (base64_encode demo_prepared)"
  "rpa_recentBlockhash demo_recon_attempt = Some ''h''" "rpa_status demo_recon_attempt = ''prepared''"
  "rpa_jobId demo_recon_attempt = ''j''" "rpa_attemptId demo_recon_attempt = replicate 64 (CHR ''a'')"
  by (simp_all add: demo_recon_attempt_def)

theorem pay_sh_scan_settled_sound_witness:
  "\<exists>bs. matchesPreparedTransaction demo_recon_lib demo_prepared bs ''sig2''
    \<and> pays_attempt demo_recon_lib demo_recon_attempt demo_prepared"
proof -
  have rpc: "logged_rpc demo_env = tagged_rpc demo_env (\<lambda>q. q)"
    by (intro ext) (simp add: logged_rpc_def)
  have scan: "scanFinalizedTransactions demo_recon_lib demo_recon_attempt (tagged_rpc demo_env (\<lambda>q. q)) 1 []
    = (Inr (ScanSettled ''sig2''), [] @ [page_request ''p'' None, exact_request ''sig2''])"
    by (rule demo_recon_scan) (simp_all add: demo_env_def page_request_def exact_request_def elem_def)
  have "scanExactFinalizedPayShPayment demo_recon_lib demo_recon_attempt (logged_rpc demo_env) 1 1000 []
    = (Inr (ScanSettled ''sig2''), [page_request ''p'' None, exact_request ''sig2''])"
    unfolding rpc using scan
    by (simp add: scanExactFinalizedPayShPayment_def demo_recon_valid plift_def pbind_def demo_recon_fields truthy_def
        demo_prepared_not_Nil demo_recon_quoted demo_recon_token)
  from pay_sh_scan_settled_sound [OF this] show ?thesis
    by (auto simp: demo_recon_fields)
qed

definition demo_recon_log :: "recon_event list" where
  "demo_recon_log = [RcList, RcNow, RcRpc ''a'' (page_request ''p'' None), RcRpc ''a'' (exact_request ''sig2''),
     RcRpc ''b'' (page_request ''p'' None), RcRpc ''b'' (exact_request ''sig2''),
     RcSettle ''j'' (replicate 64 (CHR ''a'')) ''sig2'']"

lemma demo_recon_view:
  "scan_view demo_recon_lib (logged_recon demo_recon_env 1) demo_recon_attempt u h
    = (Inr (ScanSettled ''sig2''), h @ [RcRpc u (page_request ''p'' None), RcRpc u (exact_request ''sig2'')])"
  unfolding scan_view_def logged_recon_sel pcatch_def
  by (subst demo_recon_scan) (simp_all add: demo_recon_env_rpc)

lemma demo_recon_run:
  "processResearchPaymentAttempts demo_recon_lib demo_url [''a'', ''b''] (logged_recon demo_recon_env 1) [] = (Inr [], demo_recon_log)"
proof -
  have u: "unanimousSettlementSignature [ScanSettled ''sig2'', ScanSettled ''sig2''] = Some ''sig2''"
    by (simp add: unanimousSettlementSignature_def)
  have e: "rcv_list demo_recon_env h ev = Inr [demo_recon_attempt]" "rcv_now demo_recon_env h ev = Inr 1000"
    "rcv_unit demo_recon_env h ev = Inr ()" for h ev
    by (simp_all add: demo_recon_env_def)
  have r: "reconcile_attempt demo_recon_lib (logged_recon demo_recon_env 1) [''a'', ''b''] demo_recon_attempt [RcList] = (Inr False, demo_recon_log)"
    by (simp add: reconcile_attempt_def logged_recon_sel ask_def e pbind_def demo_recon_valid plift_def demo_recon_fields
        truthy_def demo_prepared_not_Nil demo_recon_quoted demo_recon_token demo_recon_view pret_def decide_scans_def u demo_recon_log_def)
  show ?thesis
    by (simp add: processResearchPaymentAttempts_def logged_recon_sel demo_url_def pbind_def plift_def ask_def e reconcile_or_defer_def
        pcatch_def r pret_def failures_of_def degraded_of_def List.map_filter_def)
qed

theorem payment_recovery_acts_on_evidence_witness:
  "\<exists>urls. 2 \<le> length urls \<and> independent_origins demo_url [''a'', ''b''] urls
    \<and> list_all (\<lambda>u. scan_said demo_recon_lib demo_recon_env 1 demo_recon_attempt u (butlast demo_recon_log) (ScanSettled ''sig2'')) urls"
proof -
  have "demo_recon_log = butlast demo_recon_log @ RcSettle ''j'' (replicate 64 (CHR ''a'')) ''sig2'' # []"
    by (simp add: demo_recon_log_def)
  from payment_recovery_acts_on_evidence [OF demo_recon_run this] show ?thesis
    by (auto simp: demo_recon_env_def list_all_iff)
qed

theorem payment_recovery_handles_every_attempt_witness:
  "\<exists>ev. ledger_call demo_recon_attempt ev \<and> answered (rcv_unit demo_recon_env) demo_recon_log ev ()"
  by (rule payment_recovery_handles_every_attempt [OF demo_recon_run, of "[demo_recon_attempt]"])
    (simp_all add: demo_recon_env_def)

theorem validated_attempt_well_formed_witness:
  "re_hex64 (rpa_attemptId demo_recon_attempt)
    \<and> (\<exists>owner platform. rpa_amountAtomic demo_recon_attempt = show_nat (owner + platform) \<and> 0 < owner + platform)"
  using validated_attempt_well_formed [OF demo_recon_valid] by blast

end
