(* ===== verification/Settlement_Invoice.thy ===== *)
theory Settlement_Invoice
  imports Configuration Payment_Routing
begin

text \<open>
  \<open>agent-orchestrator/src/settlement-invoice.ts\<close> and the plan type of \<open>runner.ts\<close>: the invoice the
  Rust ledger commits to, the canonical JSON its hash is taken of, and the checks made before
  anything is signed. A plan is modelled at its TypeScript type. SHA-256 is the parameter \<open>sha256\<close>;
  \<open>num_text\<close> is \<open>JSON.stringify\<close> of a finite number.
\<close>

section \<open>Plans\<close>

record pay_sh_resource =
  psr_quoteId :: string
  psr_queryId :: string
  psr_documentHandle :: string
  psr_recipientWallet :: string
  psr_network :: string
  psr_asset :: string
  psr_amountAtomic :: string
  psr_ownerAmountAtomic :: string
  psr_platformAmountAtomic :: string
  psr_contentHash :: string
  psr_documentVersion :: jnum
  psr_consentVersion :: string
  psr_priceKrw :: jnum
  psr_expiresAt :: jnum
  psr_status :: string
  psr_resourcePath :: string

record invoice_line_item =
  ili_quoteId :: string
  ili_documentHandle :: string
  ili_documentHash :: string
  ili_documentVersion :: jnum
  ili_consentVersion :: string
  ili_recipientWallet :: string
  ili_amountAtomic :: string
  ili_ownerAmountAtomic :: string
  ili_platformAmountAtomic :: string

record settlement_invoice =
  inv_scheme :: string
  inv_settlementMode :: string
  inv_jobId :: string
  inv_payer :: string
  inv_authorization :: string
  inv_refundAddress :: string
  inv_queryHash :: string
  inv_documentBundleRoot :: string
  inv_network :: string
  inv_asset :: string
  inv_totalAmountAtomic :: string
  inv_platformFeeAtomic :: string
  inv_expiresAt :: jnum
  inv_deliveryPolicy :: string
  inv_lineItems :: "invoice_line_item list"

record research_job_plan =
  rjp_id :: string
  rjp_payer :: string
  rjp_payTo :: string
  rjp_network :: string
  rjp_asset :: string
  rjp_amountAtomic :: string
  rjp_status :: string
  rjp_resources :: "pay_sh_resource list"
  rjp_invoice :: settlement_invoice
  rjp_invoiceHash :: string

definition settlement_invoice_scheme :: string where
  "settlement_invoice_scheme = ''obulus-settlement-v1''"

definition hosted_pay_sh_mode :: string where
  "hosted_pay_sh_mode = ''hosted_pay_sh''"

definition max_protocol_fee_bps :: int where
  "max_protocol_fee_bps = 1000"

section \<open>Canonical JSON\<close>

text \<open>\<open>JSON.stringify\<close> of a string of the modelled range.\<close>

definition hex_char :: "nat \<Rightarrow> char" where
  "hex_char d = (if d < 10 then char_of (48 + d) else char_of (87 + d))"

definition quote_char :: "char \<Rightarrow> string" where
  "quote_char c =
     (let n = (of_char c :: nat) in
      if n = 34 then [CHR 0x5C, c] else if n = 92 then [c, c]
      else if n = 8 then [CHR 0x5C, CHR ''b''] else if n = 9 then [CHR 0x5C, CHR ''t'']
      else if n = 10 then [CHR 0x5C, CHR ''n''] else if n = 12 then [CHR 0x5C, CHR ''f'']
      else if n = 13 then [CHR 0x5C, CHR ''r'']
      else if n < 32 then CHR 0x5C # ''u00'' @ [hex_char (n div 16), hex_char (n mod 16)]
      else [c])"

definition json_quote :: "string \<Rightarrow> string" where
  "json_quote s = [CHR 0x22] @ concat (map quote_char s) @ [CHR 0x22]"

text \<open>The entries of an object come with their canonical texts; keys are sorted by code unit.\<close>

definition object_text :: "(string \<times> string) list \<Rightarrow> string" where
  "object_text entries =
     ''{'' @ join '','' (map (\<lambda>(k, t). json_quote k @ '':'' @ t) (sort_key fst entries)) @ ''}''"

fun canonicalJson :: "(jnum \<Rightarrow> string) \<Rightarrow> json \<Rightarrow> string outcome"
  and canonical_list :: "(jnum \<Rightarrow> string) \<Rightarrow> json list \<Rightarrow> string list outcome"
  and canonical_fields :: "(jnum \<Rightarrow> string) \<Rightarrow> (string \<times> json) list \<Rightarrow> (string \<times> string) list outcome" where
  "canonicalJson num_text JNull = Inr ''null''"
| "canonicalJson num_text (JStr s) = Inr (json_quote s)"
| "canonicalJson num_text (JBool b) = Inr (if b then ''true'' else ''false'')"
| "canonicalJson num_text (JNum x) =
     (if \<not> is_finite x then Inl (Err ''invoice contains a non-finite number'') else Inr (num_text x))"
| "canonicalJson num_text (JArr vs) =
     rbind (canonical_list num_text vs) (\<lambda>ts. Inr (''['' @ join '','' ts @ '']''))"
| "canonicalJson num_text (JObj fs) =
     rbind (canonical_fields num_text fs) (\<lambda>entries. Inr (object_text entries))"
| "canonicalJson num_text JUndef = Inl (Err ''invoice contains an unsupported value'')"
| "canonical_list num_text [] = Inr []"
| "canonical_list num_text (v # vs) =
     rbind (canonicalJson num_text v) (\<lambda>t. rbind (canonical_list num_text vs) (\<lambda>ts. Inr (t # ts)))"
| "canonical_fields num_text [] = Inr []"
| "canonical_fields num_text ((k, v) # fs) =
     rbind (canonicalJson num_text v) (\<lambda>t. rbind (canonical_fields num_text fs) (\<lambda>es. Inr ((k, t) # es)))"

definition line_item_json :: "invoice_line_item \<Rightarrow> json" where
  "line_item_json i = JObj
     [(''quoteId'', JStr (ili_quoteId i)), (''documentHandle'', JStr (ili_documentHandle i)),
      (''documentHash'', JStr (ili_documentHash i)), (''documentVersion'', JNum (ili_documentVersion i)),
      (''consentVersion'', JStr (ili_consentVersion i)), (''recipientWallet'', JStr (ili_recipientWallet i)),
      (''amountAtomic'', JStr (ili_amountAtomic i)), (''ownerAmountAtomic'', JStr (ili_ownerAmountAtomic i)),
      (''platformAmountAtomic'', JStr (ili_platformAmountAtomic i))]"

definition invoice_json :: "settlement_invoice \<Rightarrow> json" where
  "invoice_json v = JObj
     [(''scheme'', JStr (inv_scheme v)), (''settlementMode'', JStr (inv_settlementMode v)),
      (''jobId'', JStr (inv_jobId v)), (''payer'', JStr (inv_payer v)),
      (''authorization'', JStr (inv_authorization v)), (''refundAddress'', JStr (inv_refundAddress v)),
      (''queryHash'', JStr (inv_queryHash v)), (''documentBundleRoot'', JStr (inv_documentBundleRoot v)),
      (''network'', JStr (inv_network v)), (''asset'', JStr (inv_asset v)),
      (''totalAmountAtomic'', JStr (inv_totalAmountAtomic v)), (''platformFeeAtomic'', JStr (inv_platformFeeAtomic v)),
      (''expiresAt'', JNum (inv_expiresAt v)), (''deliveryPolicy'', JStr (inv_deliveryPolicy v)),
      (''lineItems'', JArr (map line_item_json (inv_lineItems v)))]"

definition hashSettlementInvoice :: "(string \<Rightarrow> string) \<Rightarrow> (jnum \<Rightarrow> string) \<Rightarrow> settlement_invoice \<Rightarrow> string outcome" where
  "hashSettlementInvoice sha256 num_text invoice =
     rbind (canonicalJson num_text (invoice_json invoice)) (\<lambda>text. Inr (sha256 text))"

section \<open>Amounts\<close>

definition parseAtomic :: "string \<Rightarrow> int outcome" where
  "parseAtomic v = require (re_decimal v) (Err ''invoice contains an invalid atomic amount'') (Inr (int (dec_value v)))"

fun sum_atomic :: "('a \<Rightarrow> string) \<Rightarrow> int \<Rightarrow> 'a list \<Rightarrow> int outcome" where
  "sum_atomic f acc [] = Inr acc"
| "sum_atomic f acc (x # xs) = rbind (parseAtomic (f x)) (\<lambda>v. sum_atomic f (acc + v) xs)"

section \<open>Making an invoice\<close>

definition resourceLineItem :: "pay_sh_resource \<Rightarrow> invoice_line_item" where
  "resourceLineItem r =
     \<lparr> ili_quoteId = psr_quoteId r, ili_documentHandle = psr_documentHandle r, ili_documentHash = psr_contentHash r,
       ili_documentVersion = psr_documentVersion r, ili_consentVersion = psr_consentVersion r,
       ili_recipientWallet = psr_recipientWallet r, ili_amountAtomic = psr_amountAtomic r,
       ili_ownerAmountAtomic = psr_ownerAmountAtomic r, ili_platformAmountAtomic = psr_platformAmountAtomic r \<rparr>"

text \<open>\<open>Math.min (...xs)\<close>\<close>

fun jmin_list :: "jnum list \<Rightarrow> jnum" where
  "jmin_list [] = PosInf"
| "jmin_list (x # xs) = (let m = jmin_list xs in if x = NaN \<or> m = NaN then NaN else if jle x m then x else m)"

definition createHostedSettlementInvoice ::
    "research_job_plan \<Rightarrow> string \<Rightarrow> string \<Rightarrow> settlement_invoice outcome" where
  "createHostedSettlementInvoice plan queryHash documentBundleRoot =
     rbind (sum_atomic psr_platformAmountAtomic 0 (rjp_resources plan)) (\<lambda>platformFee.
     rbind (sum_atomic psr_amountAtomic 0 (rjp_resources plan)) (\<lambda>total'.
     Inr \<lparr> inv_scheme = settlement_invoice_scheme, inv_settlementMode = hosted_pay_sh_mode, inv_jobId = rjp_id plan,
       inv_payer = rjp_payer plan, inv_authorization = rjp_payTo plan, inv_refundAddress = rjp_payer plan,
       inv_queryHash = queryHash, inv_documentBundleRoot = documentBundleRoot, inv_network = rjp_network plan,
       inv_asset = rjp_asset plan, inv_totalAmountAtomic = show_int total', inv_platformFeeAtomic = show_int platformFee,
       inv_expiresAt = (if length (rjp_resources plan) > 0 then jmin_list (map psr_expiresAt (rjp_resources plan))
          else Num 2000000000000),
       inv_deliveryPolicy = ''paid_snapshot_only'', inv_lineItems = map resourceLineItem (rjp_resources plan) \<rparr>))"

section \<open>Checking an invoice\<close>

definition plan_mismatch :: js_error where
  "plan_mismatch = Err ''invoice does not match the research plan''"

definition validateLineItem :: "invoice_line_item \<Rightarrow> pay_sh_resource \<Rightarrow> unit outcome" where
  "validateLineItem item resource =
     require (ili_documentHandle item = psr_documentHandle resource) plan_mismatch
    (require (ili_documentHash item = psr_contentHash resource) plan_mismatch
    (require (ili_documentVersion item \<noteq> NaN \<and> ili_documentVersion item = psr_documentVersion resource) plan_mismatch
    (require (ili_consentVersion item = psr_consentVersion resource) plan_mismatch
    (require (ili_recipientWallet item = psr_recipientWallet resource) plan_mismatch
    (require (ili_amountAtomic item = psr_amountAtomic resource) plan_mismatch
    (require (ili_ownerAmountAtomic item = psr_ownerAmountAtomic resource) plan_mismatch
    (require (ili_platformAmountAtomic item = psr_platformAmountAtomic resource) plan_mismatch
    (require (re_hex64 (ili_documentHash item)) (Err ''document hash must be 32 bytes of lowercase hex'')
    (rbind (parseAtomic (ili_amountAtomic item)) (\<lambda>amount.
     rbind (parseAtomic (ili_ownerAmountAtomic item)) (\<lambda>owner.
     rbind (parseAtomic (ili_platformAmountAtomic item)) (\<lambda>platform.
     require (0 < amount \<and> owner + platform = amount) (Err ''invoice split does not equal line-item amount'')
       (Inr ())))))))))))))"

fun check_line_items ::
    "(string \<times> pay_sh_resource) list \<Rightarrow> int \<Rightarrow> int \<Rightarrow> invoice_line_item list
     \<Rightarrow> ((string \<times> pay_sh_resource) list \<times> int \<times> int) outcome" where
  "check_line_items resources total' fee [] = Inr (resources, total', fee)"
| "check_line_items resources total' fee (item # rest) =
     (case map_of resources (ili_quoteId item) of
        None \<Rightarrow> Inl (Err ''invoice contains an unknown quote'')
      | Some resource \<Rightarrow>
          rbind (validateLineItem item resource) (\<lambda>_.
          rbind (parseAtomic (ili_amountAtomic item)) (\<lambda>amount.
          rbind (parseAtomic (ili_platformAmountAtomic item)) (\<lambda>platform.
            check_line_items (AList.delete (ili_quoteId item) resources) (total' + amount) (fee + platform) rest))))"

definition validateSettlementInvoice :: "(string \<Rightarrow> string) \<Rightarrow> (jnum \<Rightarrow> string) \<Rightarrow> research_job_plan \<Rightarrow> unit outcome" where
  "validateSettlementInvoice sha256 num_text plan =
     (let invoice = rjp_invoice plan; resources = rjp_resources plan in
     require (inv_scheme invoice = settlement_invoice_scheme) plan_mismatch
    (require (inv_settlementMode invoice = hosted_pay_sh_mode) plan_mismatch
    (require (inv_jobId invoice = rjp_id plan) plan_mismatch
    (require (inv_payer invoice = rjp_payer plan) plan_mismatch
    (require (inv_authorization invoice = rjp_payTo plan) plan_mismatch
    (require (inv_refundAddress invoice = rjp_payer plan) plan_mismatch
    (require (inv_network invoice = rjp_network plan) plan_mismatch
    (require (inv_asset invoice = rjp_asset plan) plan_mismatch
    (require (inv_deliveryPolicy invoice = ''paid_snapshot_only'') plan_mismatch
    (require (re_hex64 (inv_queryHash invoice)) (Err ''query hash must be 32 bytes of lowercase hex'')
    (require (re_hex64 (inv_documentBundleRoot invoice)) (Err ''document bundle root must be 32 bytes of lowercase hex'')
    (require (is_safe_integer (inv_expiresAt invoice) \<and> \<not> jle (inv_expiresAt invoice) (Num 0)) (Err ''invoice expiry is invalid'')
    (rbind (hashSettlementInvoice sha256 num_text invoice) (\<lambda>hash.
     require (hash = rjp_invoiceHash plan) (Err ''settlement invoice hash does not match the Rust commitment'')
    (rbind (parseAtomic (inv_totalAmountAtomic invoice)) (\<lambda>total'.
     rbind (parseAtomic (inv_platformFeeAtomic invoice)) (\<lambda>platformFee.
     rbind (sum_atomic psr_amountAtomic 0 resources) (\<lambda>pendingTotal.
     require (total' = pendingTotal) (Err ''invoice total does not match pending resources'')
    (require (platformFee \<le> max ((total' * max_protocol_fee_bps + 9999) div 10000) (int (length (inv_lineItems invoice))))
       (Err ''invoice platform fee exceeds the configured safety ceiling'')
    (require (distinct (map psr_quoteId resources) \<and> length (inv_lineItems invoice) = length resources)
       (Err ''invoice contains missing or duplicate evidence line items'')
    (rbind (check_line_items (map (\<lambda>r. (psr_quoteId r, r)) resources) 0 0 (inv_lineItems invoice)) (\<lambda>(left, invoiceTotal, invoiceFee).
     require (left = []) (Err ''invoice omitted a pending resource'')
    (require (invoiceTotal = total') (Err ''invoice line items do not equal its total'')
    (require (invoiceFee = platformFee) (Err ''invoice line-item fees do not equal its platform total'')
       (Inr ())))))))))))))))))))))))))"

section \<open>What an accepted invoice says\<close>

definition atomic_int :: "string \<Rightarrow> int" where
  "atomic_int v = int (dec_value v)"

text \<open>A resource whose amounts are canonical and split without remainder.\<close>

definition exact_split :: "pay_sh_resource \<Rightarrow> bool" where
  "exact_split r \<longleftrightarrow> re_decimal (psr_amountAtomic r) \<and> re_decimal (psr_ownerAmountAtomic r) \<and> re_decimal (psr_platformAmountAtomic r)
     \<and> 0 < atomic_int (psr_amountAtomic r)
     \<and> atomic_int (psr_ownerAmountAtomic r) + atomic_int (psr_platformAmountAtomic r) = atomic_int (psr_amountAtomic r)
     \<and> re_hex64 (psr_contentHash r)"

lemma parseAtomic_Inr [simp]: "parseAtomic v = Inr n \<longleftrightarrow> re_decimal v \<and> n = atomic_int v"
  by (auto simp: parseAtomic_def atomic_int_def)

lemma validateLineItem_Inr:
  assumes "validateLineItem item r = Inr u" "ili_quoteId item = psr_quoteId r"
  shows "item = resourceLineItem r" "exact_split r"
proof -
  note v = assms(1) [unfolded validateLineItem_def, simplified rbind_Inr_iff require_Inr_iff parseAtomic_Inr]
  show "item = resourceLineItem r"
    by (rule invoice_line_item.equality) (use v assms(2) in \<open>simp_all add: resourceLineItem_def\<close>)
  show "exact_split r"
    using v by (elim conjE exE) (simp add: exact_split_def)
qed

lemma mset_delete:
  assumes "map_of m k = Some v" "distinct (map fst m)"
  shows "mset (map snd m) = add_mset v (mset (map snd (AList.delete k m)))"
  using assms
proof (induction m)
  case (Cons kv m)
  have "AList.delete k m = m" if "k \<notin> set (map fst m)"
    using that by simp
  with Cons show ?case
    by (cases kv) (auto split: if_splits)
qed simp

lemma check_line_items_Inr:
  assumes "check_line_items rs t f items = Inr (left, t', f')" "distinct (map fst rs)"
    and "list_all (\<lambda>(q, r). psr_quoteId r = q) rs"
  shows "\<exists>ms. items = map resourceLineItem ms \<and> mset (map snd rs) = mset ms + mset (map snd left)
    \<and> list_all exact_split ms \<and> t' = t + (\<Sum>r\<leftarrow>ms. atomic_int (psr_amountAtomic r))
    \<and> f' = f + (\<Sum>r\<leftarrow>ms. atomic_int (psr_platformAmountAtomic r))"
  using assms
proof (induction items arbitrary: rs t f)
  case (Cons item items)
  let ?rs = "AList.delete (ili_quoteId item) rs"
  from Cons.prems(1) obtain r u where r: "map_of rs (ili_quoteId item) = Some r" and v: "validateLineItem item r = Inr u"
    and k: "check_line_items ?rs (t + atomic_int (ili_amountAtomic item)) (f + atomic_int (ili_platformAmountAtomic item)) items
      = Inr (left, t', f')"
    by (auto simp: rbind_Inr_iff split: option.splits)
  have q: "ili_quoteId item = psr_quoteId r"
    using map_of_SomeD [OF r] Cons.prems(3) by (auto simp: list_all_iff)
  note i = validateLineItem_Inr [OF v q]
  have d: "distinct (map fst ?rs)" "list_all (\<lambda>(q, r). psr_quoteId r = q) ?rs"
    using Cons.prems(2,3) distinct_delete by (auto simp: list_all_iff AList.delete_eq distinct_map_filter)
  from Cons.IH [OF k d] obtain ms where
    m: "items = map resourceLineItem ms" "mset (map snd ?rs) = mset ms + mset (map snd left)"
      "list_all exact_split ms" "t' = t + atomic_int (ili_amountAtomic item) + (\<Sum>r\<leftarrow>ms. atomic_int (psr_amountAtomic r))"
      "f' = f + atomic_int (ili_platformAmountAtomic item) + (\<Sum>r\<leftarrow>ms. atomic_int (psr_platformAmountAtomic r))"
    by blast
  have "ili_amountAtomic item = psr_amountAtomic r" "ili_platformAmountAtomic item = psr_platformAmountAtomic r"
    by (simp_all add: i(1) resourceLineItem_def)
  with m i mset_delete [OF r Cons.prems(2)] show ?case
    by (intro exI [of _ "r # ms"]) auto
qed simp

text \<open>C15: An invoice accepted before signing commits to the plan: its canonical JSON has the ledger's
  hash, its line items are exactly the pending resources, each with a positive amount split without
  remainder between owner and platform, its total and fee are the sums of theirs, and the fee is at
  most a tenth of the total, rounded up, or one unit per item.\<close>

theorem accepted_invoice_commits_to_plan:
  assumes "validateSettlementInvoice sha256 num_text plan = Inr u"
  shows "hashSettlementInvoice sha256 num_text (rjp_invoice plan) = Inr (rjp_invoiceHash plan)
    \<and> mset (inv_lineItems (rjp_invoice plan)) = mset (map resourceLineItem (rjp_resources plan))
    \<and> distinct (map psr_quoteId (rjp_resources plan)) \<and> list_all exact_split (rjp_resources plan)
    \<and> (\<exists>total' fee. inv_totalAmountAtomic (rjp_invoice plan) = show_nat total' \<and> inv_platformFeeAtomic (rjp_invoice plan) = show_nat fee
        \<and> int total' = (\<Sum>r\<leftarrow>rjp_resources plan. atomic_int (psr_amountAtomic r))
        \<and> int fee = (\<Sum>r\<leftarrow>rjp_resources plan. atomic_int (psr_platformAmountAtomic r))
        \<and> (10 * int fee < int total' + 10 \<or> fee \<le> length (rjp_resources plan)))
    \<and> inv_authorization (rjp_invoice plan) = rjp_payTo plan \<and> inv_refundAddress (rjp_invoice plan) = rjp_payer plan"
proof -
  let ?inv = "rjp_invoice plan" and ?rs = "rjp_resources plan"
  let ?total = "dec_value (inv_totalAmountAtomic ?inv)" and ?fee = "dec_value (inv_platformFeeAtomic ?inv)"
  from assms have hash: "hashSettlementInvoice sha256 num_text ?inv = Inr (rjp_invoiceHash plan)"
    and dec: "re_decimal (inv_totalAmountAtomic ?inv)" "re_decimal (inv_platformFeeAtomic ?inv)"
    and fee: "int ?fee \<le> max ((int ?total * max_protocol_fee_bps + 9999) div 10000) (int (length (inv_lineItems ?inv)))"
    and rs: "distinct (map psr_quoteId ?rs)" "length (inv_lineItems ?inv) = length ?rs"
    and parties: "inv_authorization ?inv = rjp_payTo plan" "inv_refundAddress ?inv = rjp_payer plan"
    and items: "check_line_items (map (\<lambda>r. (psr_quoteId r, r)) ?rs) 0 0 (inv_lineItems ?inv) = Inr ([], int ?total, int ?fee)"
    unfolding validateSettlementInvoice_def Let_def by (auto simp: rbind_Inr_iff atomic_int_def)
  obtain ms where m: "inv_lineItems ?inv = map resourceLineItem ms" "mset ?rs = mset ms" "list_all exact_split ms"
      "int ?total = (\<Sum>r\<leftarrow>ms. atomic_int (psr_amountAtomic r))" "int ?fee = (\<Sum>r\<leftarrow>ms. atomic_int (psr_platformAmountAtomic r))"
    using check_line_items_Inr [OF items] rs(1) by (auto simp: comp_def list_all_iff)
  have sums: "(\<Sum>r\<leftarrow>ms. f r) = (\<Sum>r\<leftarrow>?rs. f r)" for f :: "pay_sh_resource \<Rightarrow> int"
    using m(2) by (metis mset_map sum_mset_sum_list)
  have "10 * int ?fee < int ?total + 10 \<or> ?fee \<le> length ?rs"
    using fee rs(2) by (auto simp: max_protocol_fee_bps_def max_def split: if_splits)
  moreover have "mset (inv_lineItems ?inv) = mset (map resourceLineItem ?rs)" "list_all exact_split ?rs"
    using m by (simp_all add: list_all_iff flip: set_mset_mset)
  moreover have "inv_totalAmountAtomic ?inv = show_nat ?total" "inv_platformFeeAtomic ?inv = show_nat ?fee"
    using dec by (simp_all add: show_nat_dec_value_decimal)
  ultimately show ?thesis
    using hash rs(1) parties m(4,5) unfolding sums by blast
qed

section \<open>The hosted invoice\<close>

lemma sum_atomic_total:
  "list_all (\<lambda>x. re_decimal (f x)) xs \<Longrightarrow> sum_atomic f acc xs = Inr (acc + (\<Sum>x\<leftarrow>xs. atomic_int (f x)))"
  by (induction xs arbitrary: acc) (auto simp: parseAtomic_def atomic_int_def)

lemma parse_show_int: "0 \<le> i \<Longrightarrow> parseAtomic (show_int i) = Inr i"
  by (simp add: parseAtomic_def show_int_def)

lemma validate_own_line:
  "exact_split r \<Longrightarrow> psr_documentVersion r \<noteq> NaN \<Longrightarrow> validateLineItem (resourceLineItem r) r = Inr ()"
  by (simp add: validateLineItem_def resourceLineItem_def exact_split_def parseAtomic_def atomic_int_def)

lemma check_own_lines:
  assumes "list_all exact_split rs" "list_all (\<lambda>r. psr_documentVersion r \<noteq> NaN) rs" "distinct (map psr_quoteId rs)"
  shows "check_line_items (map (\<lambda>r. (psr_quoteId r, r)) rs) t f (map resourceLineItem rs)
    = Inr ([], t + (\<Sum>r\<leftarrow>rs. atomic_int (psr_amountAtomic r)), f + (\<Sum>r\<leftarrow>rs. atomic_int (psr_platformAmountAtomic r)))"
  using assms
proof (induction rs arbitrary: t f)
  case (Cons r rs)
  then have "AList.delete (psr_quoteId r) (map (\<lambda>r. (psr_quoteId r, r)) rs) = map (\<lambda>r. (psr_quoteId r, r)) rs"
    by (intro AList.delete_id) auto
  moreover have "ili_quoteId (resourceLineItem r) = psr_quoteId r" "ili_amountAtomic (resourceLineItem r) = psr_amountAtomic r"
    "ili_platformAmountAtomic (resourceLineItem r) = psr_platformAmountAtomic r"
    by (simp_all add: resourceLineItem_def)
  ultimately show ?case
    using Cons by (simp add: validate_own_line parseAtomic_def atomic_int_def exact_split_def)
qed simp

lemma canonical_line_items:
  "list_all (\<lambda>r. is_finite (psr_documentVersion r)) rs \<Longrightarrow>
   \<exists>ts. canonical_list num_text (map line_item_json (map resourceLineItem rs)) = Inr ts"
  by (induction rs) (auto simp: line_item_json_def resourceLineItem_def)

definition good_expiry :: "jnum \<Rightarrow> bool" where
  "good_expiry x \<longleftrightarrow> is_safe_integer x \<and> \<not> jle x (Num 0)"

lemma good_expiryE:
  assumes "good_expiry x"
  obtains i where "x = Num i" "0 < i" "i \<le> max_safe_integer"
  using assms by (auto simp: good_expiry_def elim!: is_safe_integerE)

lemma jmin_good:
  "list_all good_expiry xs \<Longrightarrow> xs \<noteq> [] \<Longrightarrow> good_expiry (jmin_list xs)"
proof (induction xs)
  case (Cons x xs)
  then show ?case
  proof (cases "xs = []")
    case True
    with Cons.prems obtain i where "x = Num i" by (auto elim: good_expiryE)
    moreover have "jle (Num i) PosInf" by (simp add: Num_def)
    ultimately show ?thesis using Cons.prems True by simp
  qed (use Cons in \<open>auto simp: Let_def elim!: good_expiryE\<close>)
qed simp

text \<open>C33: The invoice the orchestrator makes for a plan is one it accepts: with distinct quotes, exact
  splits, a fee within the ceiling and sound digests and expiries, the hosted invoice under its own
  hash passes validation.\<close>

theorem hosted_invoice_accepted:
  assumes "createHostedSettlementInvoice plan queryHash bundleRoot = Inr invoice"
    and "list_all exact_split (rjp_resources plan)" "distinct (map psr_quoteId (rjp_resources plan))"
    and "list_all (\<lambda>r. is_finite (psr_documentVersion r) \<and> good_expiry (psr_expiresAt r)) (rjp_resources plan)"
    and "re_hex64 queryHash" "re_hex64 bundleRoot"
    and "10 * (\<Sum>r\<leftarrow>rjp_resources plan. atomic_int (psr_platformAmountAtomic r))
        < (\<Sum>r\<leftarrow>rjp_resources plan. atomic_int (psr_amountAtomic r)) + 10"
  shows "\<exists>hash. hashSettlementInvoice sha256 num_text invoice = Inr hash
    \<and> validateSettlementInvoice sha256 num_text (plan\<lparr> rjp_invoice := invoice, rjp_invoiceHash := hash \<rparr>) = Inr ()"
proof -
  let ?rs = "rjp_resources plan"
  let ?fee = "\<Sum>r\<leftarrow>?rs. atomic_int (psr_platformAmountAtomic r)" and ?total = "\<Sum>r\<leftarrow>?rs. atomic_int (psr_amountAtomic r)"
  have dec: "list_all (\<lambda>r. re_decimal (psr_amountAtomic r)) ?rs" "list_all (\<lambda>r. re_decimal (psr_platformAmountAtomic r)) ?rs"
    using assms(2) by (auto simp: list_all_iff exact_split_def)
  have nonneg: "0 \<le> ?fee" "0 \<le> ?total"
    by (auto intro!: sum_list_nonneg simp: atomic_int_def)
  define expiry where "expiry = (if length ?rs > 0 then jmin_list (map psr_expiresAt ?rs) else Num 2000000000000)"
  have expiry: "good_expiry expiry"
  proof (cases "?rs = []")
    case True
    then show ?thesis by (simp add: expiry_def good_expiry_def max_safe_integer_def)
  next
    case False
    then show ?thesis using assms(4) jmin_good [of "map psr_expiresAt ?rs"]
      by (simp add: expiry_def list_all_iff)
  qed
  then have fin: "is_finite expiry" by (auto elim!: good_expiryE simp: Num_def)
  have inv: "invoice = \<lparr> inv_scheme = settlement_invoice_scheme, inv_settlementMode = hosted_pay_sh_mode, inv_jobId = rjp_id plan,
       inv_payer = rjp_payer plan, inv_authorization = rjp_payTo plan, inv_refundAddress = rjp_payer plan,
       inv_queryHash = queryHash, inv_documentBundleRoot = bundleRoot, inv_network = rjp_network plan,
       inv_asset = rjp_asset plan, inv_totalAmountAtomic = show_int ?total, inv_platformFeeAtomic = show_int ?fee,
       inv_expiresAt = expiry, inv_deliveryPolicy = ''paid_snapshot_only'', inv_lineItems = map resourceLineItem ?rs \<rparr>"
    using assms(1) dec by (simp add: createHostedSettlementInvoice_def sum_atomic_total expiry_def)
  obtain ts where ts: "canonical_list num_text (map line_item_json (map resourceLineItem ?rs)) = Inr ts"
    using canonical_line_items [of ?rs num_text] assms(4) by (auto simp: list_all_iff simp del: map_map)
  obtain hash where hash: "hashSettlementInvoice sha256 num_text invoice = Inr hash"
    using ts fin by (simp add: hashSettlementInvoice_def invoice_json_def inv)
  have ceiling: "?fee \<le> (?total * max_protocol_fee_bps + 9999) div 10000"
    using assms(7) by (simp add: max_protocol_fee_bps_def)
  have versions: "list_all (\<lambda>r. psr_documentVersion r \<noteq> NaN) ?rs"
    using assms(4) by (auto simp: list_all_iff)
  have e: "is_safe_integer expiry" "\<not> jle expiry (Num 0)" using expiry by (simp_all add: good_expiry_def)
  have lines: "check_line_items (map (\<lambda>r. (psr_quoteId r, r)) ?rs) 0 0 (map resourceLineItem ?rs) = Inr ([], ?total, ?fee)"
    using check_own_lines [OF assms(2) versions assms(3), of 0 0] by simp
  have "validateSettlementInvoice sha256 num_text (plan\<lparr> rjp_invoice := invoice, rjp_invoiceHash := hash \<rparr>) = Inr ()"
    unfolding validateSettlementInvoice_def Let_def
    using hash lines assms(3,5,6) e ceiling
    by (simp add: inv parse_show_int nonneg sum_atomic_total dec le_max_iff_disj)
  with hash show ?thesis by blast
qed

definition demo_resource :: pay_sh_resource where
  "demo_resource =
     \<lparr> psr_quoteId = ''q'', psr_queryId = ''query'', psr_documentHandle = ''doc'', psr_recipientWallet = ''o'',
       psr_network = ''devnet'', psr_asset = ''mint'', psr_amountAtomic = ''5'', psr_ownerAmountAtomic = ''4'',
       psr_platformAmountAtomic = ''1'', psr_contentHash = replicate 64 (CHR ''a''), psr_documentVersion = Num 1,
       psr_consentVersion = ''v1'', psr_priceKrw = Num 7, psr_expiresAt = Num 1500, psr_status = ''quoted'',
       psr_resourcePath = ''/p?research_job_id=job'' \<rparr>"

definition demo_invoice :: settlement_invoice where
  "demo_invoice =
     \<lparr> inv_scheme = settlement_invoice_scheme, inv_settlementMode = hosted_pay_sh_mode, inv_jobId = ''job'',
       inv_payer = ''p'', inv_authorization = ''kms'', inv_refundAddress = ''p'',
       inv_queryHash = replicate 64 (CHR ''b''), inv_documentBundleRoot = replicate 64 (CHR ''c''), inv_network = ''devnet'',
       inv_asset = ''mint'', inv_totalAmountAtomic = ''5'', inv_platformFeeAtomic = ''1'',
       inv_expiresAt = Num 1500, inv_deliveryPolicy = ''paid_snapshot_only'', inv_lineItems = [resourceLineItem demo_resource] \<rparr>"

definition demo_plan :: research_job_plan where
  "demo_plan =
     \<lparr> rjp_id = ''job'', rjp_payer = ''p'', rjp_payTo = ''kms'', rjp_network = ''devnet'', rjp_asset = ''mint'',
       rjp_amountAtomic = ''9'', rjp_status = ''funded'', rjp_resources = [demo_resource],
       rjp_invoice = demo_invoice, rjp_invoiceHash = ''hash'' \<rparr>"

lemma demo_numerals:
  "re_decimal ''5''" "re_decimal ''4''" "re_decimal ''1''" "atomic_int ''5'' = 5" "atomic_int ''4'' = 4" "atomic_int ''1'' = 1"
  "show_int 5 = ''5''" "show_int 1 = ''1''" "re_hex64 (replicate 64 (CHR ''a''))" "re_hex64 (replicate 64 (CHR ''b''))"
  "re_hex64 (replicate 64 (CHR ''c''))"
  by code_simp+

lemma demo_split: "exact_split demo_resource"
  by (simp add: exact_split_def demo_resource_def demo_numerals)

lemma demo_hosted:
  "createHostedSettlementInvoice demo_plan (replicate 64 (CHR ''b'')) (replicate 64 (CHR ''c'')) = Inr demo_invoice"
proof -
  have "jle (Num 1500) PosInf" by (simp add: Num_def)
  then show ?thesis
    by (simp add: createHostedSettlementInvoice_def demo_plan_def demo_invoice_def parseAtomic_def demo_resource_def
        demo_numerals flip: atomic_int_def)
qed

theorem hosted_invoice_accepted_witness:
  "\<exists>hash. hashSettlementInvoice (\<lambda>_. ''hash'') (\<lambda>_. ''1'') demo_invoice = Inr hash
    \<and> validateSettlementInvoice (\<lambda>_. ''hash'') (\<lambda>_. ''1'') (demo_plan\<lparr> rjp_invoice := demo_invoice, rjp_invoiceHash := hash \<rparr>) = Inr ()"
  by (rule hosted_invoice_accepted [OF demo_hosted])
    (simp_all add: demo_plan_def demo_split demo_numerals,
      simp_all add: demo_resource_def demo_numerals good_expiry_def max_safe_integer_def, simp add: Num_def)

lemma demo_plan_accepted: "validateSettlementInvoice (\<lambda>_. ''hash'') (\<lambda>_. ''1'') demo_plan = Inr ()"
proof -
  have h: "hashSettlementInvoice (\<lambda>_. ''hash'') (\<lambda>_. ''1'') demo_invoice = Inr ''hash''"
    by (simp add: hashSettlementInvoice_def invoice_json_def demo_invoice_def line_item_json_def resourceLineItem_def demo_resource_def Num_def)
  have l: "validateLineItem (resourceLineItem demo_resource) demo_resource = Inr ()"
    by (rule validate_own_line [OF demo_split]) (simp add: demo_resource_def)
  show ?thesis
    unfolding validateSettlementInvoice_def Let_def
    by (simp add: demo_plan_def h)
      (simp add: demo_invoice_def demo_numerals max_safe_integer_def parseAtomic_def resourceLineItem_def demo_resource_def
        max_protocol_fee_bps_def l [unfolded resourceLineItem_def demo_resource_def, simplified] flip: atomic_int_def)
qed

theorem accepted_invoice_commits_to_plan_witness:
  "mset (inv_lineItems demo_invoice) = mset (map resourceLineItem [demo_resource]) \<and> list_all exact_split [demo_resource]"
  using accepted_invoice_commits_to_plan [OF demo_plan_accepted] by (simp add: demo_plan_def)

end
