(* ===== verification/Research_Runner.thy ===== *)
theory Research_Runner
  imports Settlement_Invoice Pay_Sh_Credential Payout_Worker
begin

text \<open>
  The research worker: \<open>agent-orchestrator/src/runner.ts\<close> (one funded job, its plan, the challenge
  that is checked before signing, the one paid request per resource) and
  \<open>durable-pay-client.ts\<close> (the transport fence in front of it). The ledger, the pay client and the
  clock are procedures; \<open>with_query\<close> is \<open>new URL\<close> with \<open>searchParams.set\<close>.
\<close>

section \<open>The challenge\<close>

definition challenge_external_ok :: "pay_sh_resource \<Rightarrow> (jnum \<Rightarrow> string) \<Rightarrow> json \<Rightarrow> bool" where
  "challenge_external_ok resource num_text v \<longleftrightarrow>
     (case v of
        JStr s \<Rightarrow>
          let expected = ''human-document-krw-'' @ num_text (psr_priceKrw resource) @ ''#'' in
          starts_with expected s \<and> length expected < length s \<and> length s \<le> length expected + 32
      | _ \<Rightarrow> False)"

definition resource_devnet :: "pay_sh_resource \<Rightarrow> bool" where
  "resource_devnet resource \<longleftrightarrow> str_includes ''EtWTRAB'' (psr_network resource) \<or> psr_network resource = ''devnet''"

definition owner_split :: "pay_sh_resource \<Rightarrow> json \<Rightarrow> bool" where
  "owner_split resource item \<longleftrightarrow>
     prop_of item ''recipient'' = JStr (psr_recipientWallet resource)
     \<and> prop_of item ''amount'' = JStr (psr_ownerAmountAtomic resource)"

definition validatePayShChallenge ::
    "mpp_lib \<Rightarrow> (jnum \<Rightarrow> string) \<Rightarrow> int \<Rightarrow> mpp_challenge \<Rightarrow> pay_sh_resource \<Rightarrow> string option \<Rightarrow> string option \<Rightarrow> unit outcome" where
  "validatePayShChallenge mpp num_text now challenge resource operatorWallet feePayerKey =
     (let request = mc_request challenge; details = prop_of request ''methodDetails'';
          challengeDevnet = (js_string (json_or (prop_of details ''network'') (JStr ''mainnet'')) = Some ''devnet'');
          expiresAt = challenge_expiry mpp challenge; splits = arr_or_empty (prop_of details ''splits'') in
     require (mc_method challenge = ''solana'' \<and> mc_intent challenge = ''charge'') (Err ''Pay.sh did not offer a Solana MPP charge'')
    (require (prop_of request ''amount'' = JStr (psr_amountAtomic resource)) (Err ''Pay.sh amount does not match quote'')
    (require (prop_of request ''currency'' \<in> {JStr ''USDC'', JStr (psr_asset resource)})
       (Err ''Pay.sh challenge asset does not match the research quote'')
    (require (resource_devnet resource = challengeDevnet) (Err ''Pay.sh challenge network does not match the research quote'')
    (require (truthy operatorWallet \<longrightarrow> prop_of request ''recipient'' = JStr (the operatorWallet))
       (Err ''Pay.sh primary recipient does not match the configured operator wallet'')
    (require (truthy feePayerKey \<longrightarrow> prop_of details ''feePayer'' = JBool True \<and> prop_of details ''feePayerKey'' = JStr (the feePayerKey))
       (Err ''Pay.sh fee payer does not match the configured KMS signer'')
    (require (challenge_external_ok resource num_text (prop_of request ''externalId''))
       (Err ''Pay.sh external id does not match the quoted resource'')
    (require (case prop_of details ''recentBlockhash'' of JStr b \<Rightarrow> 32 \<le> length b \<and> length b \<le> 64 | _ \<Rightarrow> False)
       (Err ''Pay.sh challenge is missing a valid recent blockhash'')
    (require (is_safe_integer expiresAt \<and> \<not> jle expiresAt (Num now)) (Err ''Pay.sh challenge is missing a future expiry'')
    (require (list_ex (owner_split resource) splits) (Err ''Pay.sh owner split does not match the verified DB recipient'')
    (require (length splits = 1) (Err ''Pay.sh challenge contains an unexpected split'')
    (rbind (of_opt (Err ''Cannot convert to a BigInt'') (Option.bind (js_string (prop_of (elem splits 0) ''amount'')) bigint_of)) (\<lambda>splitTotal.
     rbind (of_opt (Err ''Cannot convert to a BigInt'') (bigint_of (psr_amountAtomic resource))) (\<lambda>amount.
     rbind (of_opt (Err ''Cannot convert to a BigInt'') (bigint_of (psr_platformAmountAtomic resource))) (\<lambda>platform.
     require (amount - splitTotal = platform) (Err ''Pay.sh platform remainder does not match the quote'')
       (Inr ()))))))))))))))))"

text \<open>\<open>get url\<close> is the unpaid request; \<open>from_response\<close> is \<open>Challenge.fromResponse\<close>.\<close>

definition verifyPayShChallenge ::
    "mpp_lib \<Rightarrow> (jnum \<Rightarrow> string) \<Rightarrow> (string \<Rightarrow> ('w, 'response) proc) \<Rightarrow> ('response \<Rightarrow> mpp_challenge option) \<Rightarrow> ('w, int) proc
     \<Rightarrow> string \<Rightarrow> pay_sh_resource \<Rightarrow> string option \<Rightarrow> string option \<Rightarrow> ('w, unit) proc" where
  "verifyPayShChallenge mpp num_text get from_response now_proc url resource operatorWallet feePayerKey =
     pbind (get url) (\<lambda>response.
     pbind (plift (of_opt (Err ''no payment challenge'') (from_response response))) (\<lambda>challenge.
     pbind now_proc (\<lambda>now.
       plift (validatePayShChallenge mpp num_text now challenge resource operatorWallet feePayerKey))))"

section \<open>The plan\<close>

record run_options =
  rop_jobId :: string
  rop_signerAddress :: string
  rop_payShGatewayBase :: string
  rop_retryDelays :: "int list"

fun sum_bigint :: "int \<Rightarrow> string list \<Rightarrow> int outcome" where
  "sum_bigint acc [] = Inr acc"
| "sum_bigint acc (v # vs) =
     rbind (of_opt (Err ''Cannot convert to a BigInt'') (bigint_of v)) (\<lambda>a. sum_bigint (acc + a) vs)"

definition assertPlan ::
    "(string \<Rightarrow> string) \<Rightarrow> (jnum \<Rightarrow> string) \<Rightarrow> run_options \<Rightarrow> research_job_plan \<Rightarrow> unit outcome" where
  "assertPlan sha256 num_text options plan =
     require (rjp_id plan = rop_jobId options) (Err ''research plan id mismatch'')
    (require (rjp_payTo plan = rop_signerAddress options) (Err ''research budget wallet does not match KMS signer'')
    (rbind (validateSettlementInvoice sha256 num_text plan) (\<lambda>_.
     rbind (of_opt (Err ''Cannot convert to a BigInt'') (bigint_of (rjp_amountAtomic plan))) (\<lambda>budget.
     rbind (sum_bigint 0 (map psr_amountAtomic (rjp_resources plan))) (\<lambda>total'.
     require (\<not> (budget \<le> 0 \<or> budget < total')) (Err ''research plan exceeds funded budget'')
    (require (list_all (\<lambda>r. starts_with ''/'' (psr_resourcePath r)
         \<and> str_includes (''research_job_id='' @ encode_uri (rjp_id plan)) (psr_resourcePath r)) (rjp_resources plan))
       (Err ''Pay.sh resource is not bound to the funded research job'')
       (Inr ())))))))"

section \<open>One job\<close>

record 'w research_services =
  rsv_plan :: "('w, research_job_plan) proc"
  rsv_random :: "('w, string) proc"
  rsv_verify :: "string \<Rightarrow> pay_sh_resource \<Rightarrow> ('w, unit) proc"
  rsv_begin :: "string \<Rightarrow> string \<Rightarrow> ('w, unit) proc"
  rsv_pay :: "string \<Rightarrow> string \<Rightarrow> pay_sh_resource \<Rightarrow> ('w, bool) proc"
  rsv_delay :: "int \<Rightarrow> ('w, unit) proc"
  rsv_complete :: "('w, unit) proc"
  rsv_fail :: "string \<Rightarrow> ('w, unit) proc"
  rsv_hold :: "string \<Rightarrow> ('w, unit) proc"

definition load_plan :: "(research_job_plan \<Rightarrow> unit outcome) \<Rightarrow> 'w research_services \<Rightarrow> ('w, research_job_plan) proc" where
  "load_plan check d = pbind (rsv_plan d) (\<lambda>plan. pbind (plift (check plan)) (\<lambda>_. pret plan))"

definition reloadPlanAfterPayment ::
    "(research_job_plan \<Rightarrow> unit outcome) \<Rightarrow> 'w research_services \<Rightarrow> ('w, research_job_plan) proc" where
  "reloadPlanAfterPayment check d = pcatch (load_plan check d) (\<lambda>_. praise AmbiguousPayShPaymentErr)"

definition pending_quote :: "pay_sh_resource \<Rightarrow> research_job_plan \<Rightarrow> bool" where
  "pending_quote resource plan \<longleftrightarrow> psr_quoteId resource \<in> set (map psr_quoteId (rjp_resources plan))"

text \<open>The paid request, with the error it threw, if any.\<close>

definition pay_request :: "'w research_services \<Rightarrow> string \<Rightarrow> string \<Rightarrow> pay_sh_resource \<Rightarrow> ('w, js_error option) proc" where
  "pay_request d paidUrl attemptId resource =
     pcatch (pbind (rsv_pay d paidUrl attemptId resource) (\<lambda>ok.
         if ok then pret None else praise (Err ''Pay.sh returned an HTTP error'')))
       (\<lambda>e. pret (Some e))"

definition pay_and_confirm ::
    "(research_job_plan \<Rightarrow> unit outcome) \<Rightarrow> 'w research_services \<Rightarrow> string \<Rightarrow> string \<Rightarrow> pay_sh_resource
     \<Rightarrow> ('w, research_job_plan) proc" where
  "pay_and_confirm check d paidUrl attemptId resource =
     pbind (rsv_begin d (psr_quoteId resource) attemptId) (\<lambda>_.
     pbind (pay_request d paidUrl attemptId resource) (\<lambda>failed.
       if failed = Some PayShPaymentNotSentErr then praise PayShPaymentNotSentErr
       else pbind (reloadPlanAfterPayment check d) (\<lambda>plan.
         if pending_quote resource plan then praise AmbiguousPayShPaymentErr else pret plan)))"

text \<open>The attempts for one resource, one more than there are delays: only a challenge that could not
  be verified is retried.\<close>

fun deliver ::
    "(research_job_plan \<Rightarrow> unit outcome) \<Rightarrow> 'w research_services \<Rightarrow> string \<Rightarrow> string \<Rightarrow> pay_sh_resource \<Rightarrow> int list
     \<Rightarrow> ('w, research_job_plan) proc" where
  "deliver check d paidUrl attemptId resource delays =
     pbind (pcatch (pbind (rsv_verify d paidUrl resource) (\<lambda>_. pret None)) (\<lambda>e. pret (Some e))) (\<lambda>refused.
       case refused of
         None \<Rightarrow> pay_and_confirm check d paidUrl attemptId resource
       | Some e \<Rightarrow>
           (case delays of
              [] \<Rightarrow> praise e
            | delay # rest \<Rightarrow> pbind (rsv_delay d delay) (\<lambda>_. deliver check d paidUrl attemptId resource rest)))"

declare deliver.simps [simp del]

text \<open>The loop over pending resources, with fuel for the number of resources delivered.\<close>

fun run_resources ::
    "(string \<Rightarrow> string \<Rightarrow> string option) \<Rightarrow> (research_job_plan \<Rightarrow> unit outcome) \<Rightarrow> run_options \<Rightarrow> 'w research_services
     \<Rightarrow> nat \<Rightarrow> research_job_plan \<Rightarrow> ('w, unit) proc" where
  "run_resources with_query check options d 0 plan = praise OutOfFuel"
| "run_resources with_query check options d (Suc fuel) plan =
     (case rjp_resources plan of
        [] \<Rightarrow> pret ()
      | resource # _ \<Rightarrow>
          pbind (rsv_random d) (\<lambda>attemptId.
          pbind (plift (of_opt (Err ''Invalid URL'')
            (with_query (rop_payShGatewayBase options @ psr_resourcePath resource) attemptId))) (\<lambda>paidUrl.
          pbind (deliver check d paidUrl attemptId resource (rop_retryDelays options)) (\<lambda>plan'.
            run_resources with_query check options d fuel plan'))))"

definition persist_failure :: "'w research_services \<Rightarrow> js_error \<Rightarrow> ('w, unit) proc" where
  "persist_failure d e =
     (if e = PayShPaymentNotSentErr \<or> e = OutOfFuel then praise e
      else pbind (pcatch
          (if e = AmbiguousPayShPaymentErr then rsv_hold d (take 1000 (js_message e)) else rsv_fail d (take 1000 (js_message e)))
          (\<lambda>persistError. praise (AggregateErr [e, persistError]))) (\<lambda>_. praise e))"

definition runResearchJob ::
    "(string \<Rightarrow> string \<Rightarrow> string option) \<Rightarrow> (research_job_plan \<Rightarrow> unit outcome) \<Rightarrow> run_options \<Rightarrow> 'w research_services
     \<Rightarrow> nat \<Rightarrow> ('w, unit) proc" where
  "runResearchJob with_query check options d fuel =
     pcatch (pbind (load_plan check d) (\<lambda>plan.
         pbind (run_resources with_query check options d fuel plan) (\<lambda>_. rsv_complete d)))
       (persist_failure d)"

section \<open>The transport fence\<close>

record payment_context =
  dpc_jobId :: string
  dpc_attemptId :: string
  dpc_resource :: pay_sh_resource
  dpc_signerAddress :: string
  dpc_operatorWallet :: string

record prepare_record =
  ppr_quoteId :: string
  ppr_payer :: string
  ppr_platformRecipientWallet :: string
  ppr_challengeId :: json
  ppr_externalId :: string
  ppr_signedTransactionBase64 :: string
  ppr_recentBlockhash :: string
  ppr_challengeExpiresAt :: jnum

text \<open>What the fence reads of a request: the origin of its URL, its \<open>authorization\<close> header and its
  \<open>payment_attempt_id\<close> parameter.\<close>

record fenced_request =
  fq_url :: string
  fq_origin :: string
  fq_authorization :: "string option"
  fq_attemptId :: "string option"

type_synonym active_attempts = "(string \<times> payment_context) list"

record ('w, 'response) fence_services =
  fn_attempts :: "'w \<Rightarrow> active_attempts"
  fn_set :: "active_attempts \<Rightarrow> 'w \<Rightarrow> 'w"
  fn_fetch :: "fenced_request \<Rightarrow> ('w, 'response) proc"
  fn_prepare :: "payment_context \<Rightarrow> prepare_record \<Rightarrow> ('w, unit) proc"
  fn_now :: "('w, int) proc"

definition prepare_from_credential ::
    "mpp_lib \<Rightarrow> (jnum \<Rightarrow> string) \<Rightarrow> int \<Rightarrow> payment_context \<Rightarrow> string \<Rightarrow> prepare_record outcome" where
  "prepare_from_credential mpp num_text now context authorization =
     rbind (of_opt (Err ''malformed credential'') (ml_credential mpp authorization)) (\<lambda>credential.
     let payload = mcr_payload credential; challenge = mcr_challenge credential;
         request = mc_request challenge; details = prop_of request ''methodDetails'';
         expiresAt = challenge_expiry mpp challenge in
     rbind (of_opt (Err ''Pay.sh credential does not contain a signed Solana transaction'')
       (if prop_of payload ''type'' = JStr ''transaction'' then as_str (prop_of payload ''transaction'') else None)) (\<lambda>transaction.
     rbind (validatePayShChallenge mpp num_text now challenge (dpc_resource context)
       (Some (dpc_operatorWallet context)) (Some (dpc_signerAddress context))) (\<lambda>_.
     case (prop_of request ''externalId'', prop_of details ''recentBlockhash'') of
       (JStr externalId, JStr recentBlockhash) \<Rightarrow>
         require (is_safe_integer expiresAt) (Err ''Pay.sh credential is missing durable reconciliation metadata'')
           (Inr \<lparr> ppr_quoteId = psr_quoteId (dpc_resource context), ppr_payer = dpc_signerAddress context,
              ppr_platformRecipientWallet = dpc_operatorWallet context, ppr_challengeId = mc_id challenge,
              ppr_externalId = externalId, ppr_signedTransactionBase64 = transaction,
              ppr_recentBlockhash = recentBlockhash, ppr_challengeExpiresAt = expiresAt \<rparr>)
     | _ \<Rightarrow> Inl (Err ''Pay.sh credential is missing durable reconciliation metadata''))))"

definition fencedFetch ::
    "mpp_lib \<Rightarrow> (jnum \<Rightarrow> string) \<Rightarrow> string \<Rightarrow> ('w, 'response) fence_services \<Rightarrow> fenced_request \<Rightarrow> ('w, 'response) proc" where
  "fencedFetch mpp num_text gatewayOrigin d request =
     (if fq_origin request \<noteq> gatewayOrigin then fn_fetch d request
      else if \<not> truthy (fq_authorization request)
         \<or> \<not> truthy (ml_extractPaymentScheme mpp (the (fq_authorization request)))
      then fn_fetch d request
      else pbind (pcatch
          (pbind (pget (fn_attempts d)) (\<lambda>attempts.
           case (if truthy (fq_attemptId request) then map_of attempts (the (fq_attemptId request)) else None) of
             None \<Rightarrow> praise (Err ''Pay.sh paid transport has no active durable research payment fence'')
           | Some context \<Rightarrow>
               if Some (dpc_attemptId context) \<noteq> fq_attemptId request
               then praise (Err ''Pay.sh paid transport attempt id does not match its durable fence'')
               else pbind (fn_now d) (\<lambda>now.
                 pbind (plift (prepare_from_credential mpp num_text now context (the (fq_authorization request)))) (\<lambda>r.
                   fn_prepare d context r))))
          (\<lambda>_. praise PayShPaymentNotSentErr)) (\<lambda>_. fn_fetch d request))"

definition withAttempt ::
    "('w, 'response) fence_services \<Rightarrow> payment_context \<Rightarrow> ('w, 'a) proc \<Rightarrow> ('w, 'a) proc" where
  "withAttempt d context action =
     (if \<not> re_hex64 (dpc_attemptId context)
      then praise (Err ''research payment attempt id must be 32 bytes of lowercase hex'')
      else pbind (pget (fn_attempts d)) (\<lambda>attempts.
        if map_of attempts (dpc_attemptId context) \<noteq> None
        then praise (Err ''research payment attempt is already active in this process'')
        else pbind (pmod (\<lambda>w. fn_set d (AList.update (dpc_attemptId context) context (fn_attempts d w)) w)) (\<lambda>_.
          pfinally action (pmod (\<lambda>w. fn_set d (AList.delete (dpc_attemptId context) (fn_attempts d w)) w)))))"

section \<open>The log of a job\<close>

datatype job_event =
    JobPlan
  | JobRandom
  | JobVerify string pay_sh_resource
  | JobBegin string string
  | JobPay string string pay_sh_resource
  | JobDelay int
  | JobComplete
  | JobFail string
  | JobHold string

record job_env =
  jv_plan :: "job_event list \<Rightarrow> job_event \<Rightarrow> research_job_plan outcome"
  jv_string :: "job_event list \<Rightarrow> job_event \<Rightarrow> string outcome"
  jv_unit :: "job_event list \<Rightarrow> job_event \<Rightarrow> unit outcome"
  jv_bool :: "job_event list \<Rightarrow> job_event \<Rightarrow> bool outcome"

definition logged_job :: "job_env \<Rightarrow> job_event list research_services" where
  "logged_job env =
     \<lparr> rsv_plan = ask (jv_plan env) JobPlan, rsv_random = ask (jv_string env) JobRandom,
       rsv_verify = (\<lambda>u r. ask (jv_unit env) (JobVerify u r)), rsv_begin = (\<lambda>q a. ask (jv_unit env) (JobBegin q a)),
       rsv_pay = (\<lambda>u a r. ask (jv_bool env) (JobPay u a r)), rsv_delay = (\<lambda>t. ask (jv_unit env) (JobDelay t)),
       rsv_complete = ask (jv_unit env) JobComplete, rsv_fail = (\<lambda>m. ask (jv_unit env) (JobFail m)),
       rsv_hold = (\<lambda>m. ask (jv_unit env) (JobHold m)) \<rparr>"

lemma logged_job_sel:
  "rsv_plan (logged_job env) = ask (jv_plan env) JobPlan"
  "rsv_random (logged_job env) = ask (jv_string env) JobRandom"
  "rsv_verify (logged_job env) u r = ask (jv_unit env) (JobVerify u r)"
  "rsv_begin (logged_job env) q a = ask (jv_unit env) (JobBegin q a)"
  "rsv_pay (logged_job env) u a r = ask (jv_bool env) (JobPay u a r)"
  "rsv_delay (logged_job env) t = ask (jv_unit env) (JobDelay t)"
  "rsv_complete (logged_job env) = ask (jv_unit env) JobComplete"
  "rsv_fail (logged_job env) m = ask (jv_unit env) (JobFail m)"
  "rsv_hold (logged_job env) m = ask (jv_unit env) (JobHold m)"
  by (simp_all add: logged_job_def)

text \<open>\<open>paid_settled\<close>: after every paid request of the log an accepted plan was loaded in which its
  quote is no longer pending. \<open>current\<close>: the plan is accepted and was loaded from the ledger.\<close>

definition current_plan :: "(research_job_plan \<Rightarrow> unit outcome) \<Rightarrow> job_env \<Rightarrow> job_event list \<Rightarrow> research_job_plan \<Rightarrow> bool" where
  "current_plan check env h plan \<longleftrightarrow> answered (jv_plan env) h JobPlan plan \<and> check plan = Inr ()"

definition settled_after ::
    "(research_job_plan \<Rightarrow> unit outcome) \<Rightarrow> job_env \<Rightarrow> job_event list \<Rightarrow> job_event list \<Rightarrow> pay_sh_resource \<Rightarrow> bool" where
  "settled_after check env pre post resource \<longleftrightarrow>
     (\<exists>p1 p2 plan. post = p1 @ JobPlan # p2 \<and> jv_plan env (pre @ p1) JobPlan = Inr plan \<and> check plan = Inr ()
        \<and> \<not> pending_quote resource plan)"

definition paid_settled :: "(research_job_plan \<Rightarrow> unit outcome) \<Rightarrow> job_env \<Rightarrow> job_event list \<Rightarrow> bool" where
  "paid_settled check env h \<longleftrightarrow>
     (\<forall>pre u a r post. h = pre @ JobPay u a r # post \<longrightarrow> settled_after check env (pre @ [JobPay u a r]) post r)"

fun job_ok :: "(research_job_plan \<Rightarrow> unit outcome) \<Rightarrow> job_env \<Rightarrow> job_event list \<Rightarrow> job_event \<Rightarrow> bool" where
  "job_ok check env pre (JobPay u a r) \<longleftrightarrow>
     (\<exists>pre'. pre = pre' @ [JobVerify u r, JobBegin (psr_quoteId r) a]
        \<and> jv_unit env pre' (JobVerify u r) = Inr ()
        \<and> jv_unit env (pre' @ [JobVerify u r]) (JobBegin (psr_quoteId r) a) = Inr ())
     \<and> (\<exists>plan. current_plan check env pre plan \<and> r \<in> set (rjp_resources plan)) \<and> paid_settled check env pre"
| "job_ok check env pre JobComplete \<longleftrightarrow>
     (\<exists>plan. current_plan check env pre plan \<and> rjp_resources plan = []) \<and> paid_settled check env pre"
| "job_ok check env pre _ \<longleftrightarrow> True"

abbreviation job_log where
  "job_log check env \<equiv> log_inv (job_ok check env)"

fun is_pay :: "job_event \<Rightarrow> bool" where
  "is_pay (JobPay u a r) = True"
| "is_pay _ = False"

lemma settled_after_append: "settled_after check env pre post r \<Longrightarrow> settled_after check env pre (post @ ext) r"
  unfolding settled_after_def by (metis append_Cons append_assoc)

lemma paid_settled_Nil [simp]: "paid_settled check env []"
  by (simp add: paid_settled_def)

lemma paid_settled_snoc:
  assumes "paid_settled check env h" "\<not> is_pay ev"
  shows "paid_settled check env (h @ [ev])"
  unfolding paid_settled_def
proof (intro allI impI)
  fix pre u a r post assume e: "h @ [ev] = pre @ JobPay u a r # post"
  then obtain post' where "h = pre @ JobPay u a r # post'" "post = post' @ [ev]"
    using assms(2) by (cases post rule: rev_cases) auto
  with assms(1) show "settled_after check env (pre @ [JobPay u a r]) post r"
    by (auto simp: paid_settled_def intro: settled_after_append)
qed

lemma paid_settled_pay:
  assumes "paid_settled check env h" "jv_plan env (h @ [JobPay u a r]) JobPlan = Inr plan" "check plan = Inr ()"
    and "\<not> pending_quote r plan"
  shows "paid_settled check env (h @ [JobPay u a r, JobPlan])"
  unfolding paid_settled_def
proof (intro allI impI)
  fix pre u' a' r' post assume e: "h @ [JobPay u a r, JobPlan] = pre @ JobPay u' a' r' # post"
  show "settled_after check env (pre @ [JobPay u' a' r']) post r'"
  proof (cases "pre = h")
    case True
    with e have "post = [] @ JobPlan # []" "u' = u" "a' = a" "r' = r" by auto
    with True assms(2-4) show ?thesis unfolding settled_after_def
      by (intro exI [of _ "[]"] exI [of _ "[]"] exI [of _ plan]) simp
  next
    case False
    with e obtain post' where "h = pre @ JobPay u' a' r' # post'" "post = post' @ [JobPay u a r, JobPlan]"
      by (cases post rule: rev_cases) (auto simp: append_eq_append_conv2 Cons_eq_append_conv append_eq_Cons_conv)
    with assms(1) show ?thesis by (auto simp: paid_settled_def intro: settled_after_append)
  qed
qed

lemma current_plan_append: "current_plan check env h p \<Longrightarrow> current_plan check env (h @ ext) p"
  unfolding current_plan_def by (blast intro: answered_append)

abbreviation delivered where
  "delivered check env plan h \<equiv> job_log check env h \<and> paid_settled check env h \<and> current_plan check env h plan"

lemma wp_load_plan:
  assumes "job_log check env h"
  shows "wp (load_plan check (logged_job env))
    (\<lambda>plan h'. h' = h @ [JobPlan] \<and> jv_plan env h JobPlan = Inr plan \<and> check plan = Inr ())
    (\<lambda>_ h'. h' = h @ [JobPlan]) h"
  unfolding load_plan_def logged_job_sel by (intro wp_intros) auto

lemma wp_pay_and_confirm:
  assumes "job_log check env h" "paid_settled check env h" "current_plan check env h plan" "r \<in> set (rjp_resources plan)"
    and "h = pre @ [JobVerify u r]" "jv_unit env pre (JobVerify u r) = Inr ()"
  shows "wp (pay_and_confirm check (logged_job env) u a r) (delivered check env) (\<lambda>_. job_log check env) h"
proof -
  let ?hb = "h @ [JobBegin (psr_quoteId r) a]" let ?hp = "?hb @ [JobPay u a r]"
  have s: "paid_settled check env ?hb"
    using assms(2) by (intro paid_settled_snoc) auto
  have pay: "job_log check env ?hp" if "jv_unit env h (JobBegin (psr_quoteId r) a) = Inr ()"
  proof -
    have "job_ok check env ?hb (JobPay u a r)"
      using that s assms current_plan_append [OF assms(3)] by auto
    with assms(1) show ?thesis by (simp del: append_assoc)
  qed
  have done': "delivered check env p (?hp @ [JobPlan])"
    if "job_log check env ?hp" "jv_plan env ?hp JobPlan = Inr p" "check p = Inr ()" "\<not> pending_quote r p" for p
    using that paid_settled_pay [OF s that(2-4)] by (auto simp: current_plan_def intro: answered_last simp del: append_assoc) simp
  show ?thesis
    unfolding pay_and_confirm_def pay_request_def reloadPlanAfterPayment_def logged_job_sel
    by (intro wp_intros wp_mono [OF wp_load_plan]) (use assms(1) pay done' in \<open>auto simp del: append_assoc\<close>)
qed

lemma wp_deliver:
  assumes "job_log check env h" "paid_settled check env h" "current_plan check env h plan" "r \<in> set (rjp_resources plan)"
  shows "wp (deliver check (logged_job env) u a r ds) (delivered check env) (\<lambda>_. job_log check env) h"
  using assms
proof (induction ds arbitrary: h)
  case Nil
  then show ?case
    by (subst deliver.simps, unfold logged_job_sel, intro wp_intros wp_pay_and_confirm)
      (auto simp: wp_simps intro: paid_settled_snoc current_plan_append)
next
  case (Cons t ds)
  show ?case
    by (subst deliver.simps, unfold logged_job_sel list.case, intro wp_intros wp_pay_and_confirm Cons.IH)
      (use Cons.prems in \<open>auto intro!: paid_settled_snoc current_plan_append simp del: append_assoc\<close>)
qed

lemma wp_run_resources:
  assumes "job_log check env h" "paid_settled check env h" "current_plan check env h plan"
  shows "wp (run_resources with_query check options (logged_job env) fuel plan)
    (\<lambda>_ h'. job_log check env h' \<and> paid_settled check env h' \<and> (\<exists>plan'. current_plan check env h' plan' \<and> rjp_resources plan' = []))
    (\<lambda>_. job_log check env) h"
  using assms
proof (induction fuel arbitrary: h plan)
  case (Suc fuel)
  show ?case
  proof (cases "rjp_resources plan")
    case Nil
    with Suc.prems show ?thesis by (auto simp: wp_simps)
  next
    case (Cons r rs)
    then have r: "r \<in> set (rjp_resources plan)" by simp
    show ?thesis
      unfolding run_resources.simps Cons list.case logged_job_sel
      by (intro wp_intros wp_mono [OF wp_deliver [OF _ _ _ r]] Suc.IH)
        (use Suc.prems in \<open>auto intro: paid_settled_snoc current_plan_append\<close>)
  qed
qed (simp add: wp_simps)

lemma wp_job:
  "wp (runResearchJob with_query check options (logged_job env) fuel) (\<lambda>_. job_log check env) (\<lambda>_. job_log check env) []"
proof -
  have persist: "wp (persist_failure (logged_job env) e) (\<lambda>_. job_log check env) (\<lambda>_. job_log check env) h"
    if "job_log check env h" for e h
    unfolding persist_failure_def logged_job_sel by (intro wp_intros) (use that in auto)
  show ?thesis
    unfolding runResearchJob_def logged_job_sel
    by (intro wp_intros wp_mono [OF wp_load_plan] wp_mono [OF wp_run_resources] persist)
      (auto simp: current_plan_def answered_def paid_settled_snoc [of _ _ "[]", simplified] intro!: exI)
qed

section \<open>Properties\<close>

text \<open>C13: A job pays for a resource only right after its challenge was verified and the ledger
  acknowledged that exact attempt, only for a resource of a plan it loaded and accepted, and never
  again before a plan was loaded in which the quote of every earlier payment is settled; it completes
  only on an accepted plan with nothing pending, after the same check.\<close>

theorem research_job_pays_once:
  assumes "runResearchJob with_query (assertPlan sha256 num_text options) options (logged_job env) fuel [] = (r, hist)"
    and "hist = pre @ ev # post"
  shows "case ev of
      JobPay u a res \<Rightarrow>
        (\<exists>pre'. pre = pre' @ [JobVerify u res, JobBegin (psr_quoteId res) a]
           \<and> jv_unit env pre' (JobVerify u res) = Inr ()
           \<and> jv_unit env (pre' @ [JobVerify u res]) (JobBegin (psr_quoteId res) a) = Inr ())
        \<and> (\<exists>plan. answered (jv_plan env) pre JobPlan plan \<and> assertPlan sha256 num_text options plan = Inr ()
             \<and> res \<in> set (rjp_resources plan))
        \<and> paid_settled (assertPlan sha256 num_text options) env pre
    | JobComplete \<Rightarrow>
        (\<exists>plan. answered (jv_plan env) pre JobPlan plan \<and> assertPlan sha256 num_text options plan = Inr ()
           \<and> rjp_resources plan = [])
        \<and> paid_settled (assertPlan sha256 num_text options) env pre
    | _ \<Rightarrow> True"
proof -
  have "job_log (assertPlan sha256 num_text options) env hist"
    using wp_job [of with_query "assertPlan sha256 num_text options" options env fuel] assms(1)
    by (cases r) (auto simp: wp_def)
  with assms(2) have "job_ok (assertPlan sha256 num_text options) env pre ev"
    by (auto dest: log_invD)
  then show ?thesis by (cases ev) (auto simp: current_plan_def)
qed

text \<open>The loop over resources ends: when the ledger's later plans name no quote an earlier one did not,
  one round more than the first plan has quotes is never used up. \<open>answers\<close>: no answer of a service is
  itself the value that stands for exhausted rounds.\<close>

abbreviation plan_quotes :: "research_job_plan \<Rightarrow> string set" where
  "plan_quotes plan \<equiv> psr_quoteId ` set (rjp_resources plan)"

definition plans_shrink :: "job_env \<Rightarrow> bool" where
  "plans_shrink env \<longleftrightarrow> (\<forall>h ext p q. jv_plan env h JobPlan = Inr p \<longrightarrow> jv_plan env (h @ ext) JobPlan = Inr q
     \<longrightarrow> plan_quotes q \<subseteq> plan_quotes p)"

definition answers :: "(research_job_plan \<Rightarrow> unit outcome) \<Rightarrow> job_env \<Rightarrow> bool" where
  "answers check env \<longleftrightarrow> (\<forall>h ev. jv_plan env h ev \<noteq> Inl OutOfFuel \<and> jv_string env h ev \<noteq> Inl OutOfFuel
     \<and> jv_unit env h ev \<noteq> Inl OutOfFuel \<and> jv_bool env h ev \<noteq> Inl OutOfFuel) \<and> (\<forall>p. check p \<noteq> Inl OutOfFuel)"

abbreviation fresh_plan where
  "fresh_plan env r h p h' \<equiv> (\<exists>ext. h' = h @ ext @ [JobPlan] \<and> jv_plan env (h @ ext) JobPlan = Inr p) \<and> \<not> pending_quote r p"

lemma wp_confirm_fresh:
  assumes "answers check env"
  shows "wp (pay_and_confirm check (logged_job env) u a r) (fresh_plan env r h) (\<lambda>e _. e \<noteq> OutOfFuel) h"
  unfolding pay_and_confirm_def pay_request_def reloadPlanAfterPayment_def load_plan_def logged_job_sel
  by (intro wp_intros) (use assms in \<open>auto simp: answers_def\<close>)

lemma wp_deliver_fresh:
  assumes "answers check env"
  shows "wp (deliver check (logged_job env) u a r ds) (fresh_plan env r h) (\<lambda>e _. e \<noteq> OutOfFuel) h"
proof (induction ds arbitrary: h)
  case Nil
  show ?case
    by (subst deliver.simps, unfold logged_job_sel, intro wp_intros wp_mono [OF wp_confirm_fresh [OF assms]])
      (use assms in \<open>auto simp: answers_def wp_simps\<close>)
next
  case (Cons t ds)
  show ?case
    by (subst deliver.simps, unfold logged_job_sel list.case,
        intro wp_intros wp_mono [OF wp_confirm_fresh [OF assms]] wp_mono [OF Cons.IH])
      (use assms in \<open>auto simp: answers_def\<close>)
qed

lemma run_resources_enough:
  assumes "answers check env" "plans_shrink env"
  shows "jv_plan env past JobPlan = Inr plan \<Longrightarrow> card (plan_quotes plan) < fuel \<Longrightarrow>
    wp (run_resources with_query check options (logged_job env) fuel plan) (\<lambda>_ _. True) (\<lambda>e _. e \<noteq> OutOfFuel) (past @ ext)"
proof (induction fuel arbitrary: past ext plan)
  case (Suc fuel)
  show ?case
  proof (cases "rjp_resources plan")
    case Nil
    then show ?thesis by (simp add: wp_simps)
  next
    case (Cons r rs)
    have step: "wp (run_resources with_query check options (logged_job env) fuel p) (\<lambda>_ _. True) (\<lambda>e _. e \<noteq> OutOfFuel) h'"
      if "fresh_plan env r ((past @ ext) @ [JobRandom]) p h'" for p h'
    proof -
      from that obtain more where more: "h' = (past @ ext @ JobRandom # more) @ [JobPlan]"
        "jv_plan env (past @ ext @ JobRandom # more) JobPlan = Inr p" and gone: "\<not> pending_quote r p" by auto
      have "plan_quotes p \<subseteq> plan_quotes plan"
        using assms(2) Suc.prems(1) more(2) unfolding plans_shrink_def by blast
      moreover have "psr_quoteId r \<in> plan_quotes plan - plan_quotes p"
        using gone Cons by (auto simp: pending_quote_def)
      ultimately have "card (plan_quotes p) < card (plan_quotes plan)" by (intro psubset_card_mono) auto
      with Suc.prems(2) Suc.IH [OF more(2), of "[JobPlan]"] more(1) show ?thesis by simp
    qed
    show ?thesis
      unfolding run_resources.simps Cons list.case logged_job_sel
      by (intro wp_intros wp_mono [OF wp_deliver_fresh [OF assms(1)]] step)
        (use assms(1) in \<open>auto simp: answers_def of_opt_def split: option.splits\<close>)
  qed
qed simp

lemma research_job_ends:
  assumes "answers check env" "plans_shrink env" "\<And>p. jv_plan env [] JobPlan = Inr p \<Longrightarrow> card (plan_quotes p) < fuel"
  shows "fst (runResearchJob with_query check options (logged_job env) fuel []) \<noteq> Inl OutOfFuel"
proof -
  have persist: "wp (persist_failure (logged_job env) e) (\<lambda>_ _. True) (\<lambda>e _. e \<noteq> OutOfFuel) h" if "e \<noteq> OutOfFuel" for e h
    unfolding persist_failure_def logged_job_sel by (intro wp_intros) (use that in auto)
  have "wp (runResearchJob with_query check options (logged_job env) fuel) (\<lambda>_ _. True) (\<lambda>e _. e \<noteq> OutOfFuel) []"
    unfolding runResearchJob_def load_plan_def logged_job_sel
    by (intro wp_intros wp_mono [OF run_resources_enough [OF assms(1,2), where past = "[]"]] persist)
      (use assms in \<open>auto simp: answers_def\<close>)
  then show ?thesis by (auto simp: wp_def split: prod.splits sum.splits)
qed

definition demo_options :: run_options where
  "demo_options = \<lparr> rop_jobId = ''job'', rop_signerAddress = ''kms'', rop_payShGatewayBase = ''g'', rop_retryDelays = [500] \<rparr>"

definition demo_job_env :: job_env where
  "demo_job_env = \<lparr> jv_plan = (\<lambda>_ _. Inr demo_plan), jv_string = (\<lambda>_ _. Inr ''a''), jv_unit = (\<lambda>_ _. Inr ()),
     jv_bool = (\<lambda>_ _. Inr True) \<rparr>"

lemma demo_assertPlan: "assertPlan (\<lambda>_. ''hash'') (\<lambda>_. ''1'') demo_options demo_plan = Inr ()"
proof -
  have "bigint_of ''9'' = Some 9" "bigint_of ''5'' = Some 5"
    "str_includes (''research_job_id='' @ encode_uri ''job'') ''/p?research_job_id=job''" by code_simp+
  then show ?thesis
    unfolding assertPlan_def demo_plan_accepted
    by (simp add: demo_options_def demo_plan_def demo_resource_def starts_with_def)
qed

lemma demo_job_run:
  "runResearchJob (\<lambda>u a. Some (u @ a)) (assertPlan (\<lambda>_. ''hash'') (\<lambda>_. ''1'') demo_options) demo_options
     (logged_job demo_job_env) 1 [] =
   (Inl AmbiguousPayShPaymentErr,
    [JobPlan, JobRandom, JobVerify ''g/p?research_job_id=joba'' demo_resource, JobBegin ''q'' ''a'']
      @ JobPay ''g/p?research_job_id=joba'' ''a'' demo_resource
      # [JobPlan, JobHold (take 1000 (js_message AmbiguousPayShPaymentErr))])"
proof -
  have r: "rjp_resources demo_plan = [demo_resource]" "psr_quoteId demo_resource = ''q''"
    "psr_resourcePath demo_resource = ''/p?research_job_id=job''" "rop_payShGatewayBase demo_options = ''g''"
    by (simp_all add: demo_plan_def demo_resource_def demo_options_def)
  show ?thesis
    by (simp add: runResearchJob_def load_plan_def logged_job_sel demo_job_env_def pcatch_def pbind_def ask_def plift_def
        demo_assertPlan pret_def r deliver.simps [of _ _ _ _ _ "rop_retryDelays demo_options"] pay_and_confirm_def pay_request_def
        reloadPlanAfterPayment_def pending_quote_def praise_def persist_failure_def)
qed

theorem research_job_pays_once_witness:
  "\<exists>plan. answered (\<lambda>_ _. Inr demo_plan)
       [JobPlan, JobRandom, JobVerify ''g/p?research_job_id=joba'' demo_resource, JobBegin ''q'' ''a''] JobPlan plan
     \<and> assertPlan (\<lambda>_. ''hash'') (\<lambda>_. ''1'') demo_options plan = Inr () \<and> demo_resource \<in> set (rjp_resources plan)"
  using research_job_pays_once [OF demo_job_run refl] by (auto simp: demo_job_env_def)

text \<open>The fence over a registry of active attempts and a log.\<close>

datatype fence_event = FnNow | FnPrepare payment_context prepare_record | FnFetch fenced_request

record 'response fence_env =
  fnv_now :: "fence_event list \<Rightarrow> fence_event \<Rightarrow> int outcome"
  fnv_unit :: "fence_event list \<Rightarrow> fence_event \<Rightarrow> unit outcome"
  fnv_response :: "fence_event list \<Rightarrow> fence_event \<Rightarrow> 'response outcome"

definition ask_beside :: "('e list \<Rightarrow> 'e \<Rightarrow> 'r outcome) \<Rightarrow> 'e \<Rightarrow> ('s \<times> 'e list, 'r) proc" where
  "ask_beside env ev w = (env (snd w) ev, (fst w, snd w @ [ev]))"

lemma wp_ask_beside [wp_simps]:
  "wp (ask_beside env ev) Q E =
     (\<lambda>w. case env (snd w) ev of Inl e \<Rightarrow> E e (fst w, snd w @ [ev]) | Inr r \<Rightarrow> Q r (fst w, snd w @ [ev]))"
  by (rule ext) (simp add: wp_def ask_beside_def split: sum.splits)

definition logged_fence ::
    "'response fence_env \<Rightarrow> (active_attempts \<times> fence_event list, 'response) fence_services" where
  "logged_fence env =
     \<lparr> fn_attempts = fst, fn_set = (\<lambda>s w. (s, snd w)), fn_fetch = (\<lambda>rq. ask_beside (fnv_response env) (FnFetch rq)),
       fn_prepare = (\<lambda>c r. ask_beside (fnv_unit env) (FnPrepare c r)), fn_now = ask_beside (fnv_now env) FnNow \<rparr>"

text \<open>What the ledger is told of a credential: its own transaction and challenge, under the attempt's
  quote and signer, where the challenge asks for the resource's amount, to be split between its owner
  and the platform, and has not expired.\<close>

definition records_payment ::
    "mpp_lib \<Rightarrow> (jnum \<Rightarrow> string) \<Rightarrow> int \<Rightarrow> payment_context \<Rightarrow> string \<Rightarrow> prepare_record \<Rightarrow> bool" where
  "records_payment mpp num_text now context auth r \<longleftrightarrow>
     (\<exists>credential item amount owner platform.
        ml_credential mpp auth = Some credential
      \<and> (let resource = dpc_resource context; challenge = mcr_challenge credential; request = mc_request challenge;
            details = prop_of request ''methodDetails'' in
          prop_of (mcr_payload credential) ''transaction'' = JStr (ppr_signedTransactionBase64 r)
        \<and> ppr_challengeId r = mc_id challenge \<and> prop_of request ''externalId'' = JStr (ppr_externalId r)
        \<and> prop_of details ''recentBlockhash'' = JStr (ppr_recentBlockhash r)
        \<and> ppr_challengeExpiresAt r = challenge_expiry mpp challenge \<and> \<not> jle (ppr_challengeExpiresAt r) (Num now)
        \<and> ppr_quoteId r = psr_quoteId resource \<and> ppr_payer r = dpc_signerAddress context
        \<and> prop_of request ''amount'' = JStr (psr_amountAtomic resource)
        \<and> prop_of request ''currency'' \<in> {JStr ''USDC'', JStr (psr_asset resource)}
        \<and> (dpc_operatorWallet context \<noteq> [] \<longrightarrow> prop_of request ''recipient'' = JStr (dpc_operatorWallet context))
        \<and> (dpc_signerAddress context \<noteq> [] \<longrightarrow> prop_of details ''feePayerKey'' = JStr (dpc_signerAddress context))
        \<and> challenge_external_ok resource num_text (prop_of request ''externalId'')
        \<and> prop_of details ''splits'' = JArr [item] \<and> prop_of item ''recipient'' = JStr (psr_recipientWallet resource)
        \<and> prop_of item ''amount'' = JStr (psr_ownerAmountAtomic resource)
        \<and> bigint_of (psr_amountAtomic resource) = Some amount \<and> bigint_of (psr_ownerAmountAtomic resource) = Some owner
        \<and> bigint_of (psr_platformAmountAtomic resource) = Some platform \<and> amount = owner + platform))"

lemma arr_or_empty_single: "arr_or_empty v = [x] \<Longrightarrow> v = JArr [x]"
  by (cases v) (simp_all add: arr_or_empty_def)

lemma validated_challenge_split:
  assumes "validatePayShChallenge mpp num_text now challenge resource operatorWallet feePayerKey = Inr ()"
  obtains item amount owner platform where
    "prop_of (prop_of (mc_request challenge) ''methodDetails'') ''splits'' = JArr [item]" "owner_split resource item"
    "bigint_of (psr_amountAtomic resource) = Some amount" "bigint_of (psr_ownerAmountAtomic resource) = Some owner"
    "bigint_of (psr_platformAmountAtomic resource) = Some platform" "amount = owner + platform"
proof -
  let ?splits = "arr_or_empty (prop_of (prop_of (mc_request challenge) ''methodDetails'') ''splits'')"
  have "length ?splits = 1" and ex: "list_ex (owner_split resource) ?splits"
    using assms by (simp_all add: validatePayShChallenge_def Let_def split: if_splits)
  then obtain item where item: "?splits = [item]" by (auto simp: length_Suc_conv)
  with ex have own: "owner_split resource item" by simp
  from assms item own that arr_or_empty_single [OF item] show ?thesis
    by (auto simp: validatePayShChallenge_def Let_def owner_split_def elem_def of_opt_def rbind_Inr_iff
        split: if_splits option.splits)
qed

lemma prepared_record_sound:
  assumes "prepare_from_credential mpp num_text now context auth = Inr r"
  shows "records_payment mpp num_text now context auth r"
proof -
  obtain credential where c: "ml_credential mpp auth = Some credential"
    using assms by (auto simp: prepare_from_credential_def of_opt_def split: option.splits)
  have v: "validatePayShChallenge mpp num_text now (mcr_challenge credential) (dpc_resource context)
      (Some (dpc_operatorWallet context)) (Some (dpc_signerAddress context)) = Inr ()"
    using assms c by (auto simp: prepare_from_credential_def of_opt_def Let_def rbind_Inr_iff split: option.splits)
  from v obtain item amount owner platform where split:
    "prop_of (prop_of (mc_request (mcr_challenge credential)) ''methodDetails'') ''splits'' = JArr [item]"
    "owner_split (dpc_resource context) item"
    "bigint_of (psr_amountAtomic (dpc_resource context)) = Some amount"
    "bigint_of (psr_ownerAmountAtomic (dpc_resource context)) = Some owner"
    "bigint_of (psr_platformAmountAtomic (dpc_resource context)) = Some platform" "amount = owner + platform"
    by (rule validated_challenge_split)
  have "prop_of (mcr_payload credential) ''transaction'' = JStr (ppr_signedTransactionBase64 r)"
    using assms c by (cases "prop_of (mcr_payload credential) ''transaction''")
      (auto simp: prepare_from_credential_def of_opt_def Let_def rbind_Inr_iff
        split: option.splits if_splits json.splits)
  moreover have "ppr_challengeId r = mc_id (mcr_challenge credential)"
      "prop_of (mc_request (mcr_challenge credential)) ''externalId'' = JStr (ppr_externalId r)"
      "prop_of (prop_of (mc_request (mcr_challenge credential)) ''methodDetails'') ''recentBlockhash'' = JStr (ppr_recentBlockhash r)"
      "ppr_challengeExpiresAt r = challenge_expiry mpp (mcr_challenge credential)"
      "ppr_quoteId r = psr_quoteId (dpc_resource context)" "ppr_payer r = dpc_signerAddress context"
    using assms c by (auto simp: prepare_from_credential_def of_opt_def Let_def rbind_Inr_iff
        split: option.splits if_splits json.splits)
  ultimately show ?thesis
    unfolding records_payment_def using v c split
    by (auto simp: validatePayShChallenge_def Let_def owner_split_def truthy_def split: if_splits)
qed

text \<open>C14: The transport fence sends a request with a payment credential to the Pay.sh gateway only
  right after the ledger acknowledged, for the active attempt the request names, the exact signed
  transaction the credential carries, whose challenge asks for exactly the amounts and recipients of
  that attempt's resource; a refused credential sends nothing and is reported as not sent.\<close>

theorem paid_transport_is_durable_first:
  assumes "fencedFetch mpp num_text gateway (logged_fence env) request (attempts, hist) = (r, (attempts', hist'))"
    and "fq_origin request = gateway" "fq_authorization request = Some auth" "auth \<noteq> []"
    and "truthy (ml_extractPaymentScheme mpp auth)"
  shows "attempts' = attempts \<and>
    ((\<exists>i context now rec. fq_attemptId request = Some i \<and> map_of attempts i = Some context \<and> dpc_attemptId context = i
       \<and> fnv_now env hist FnNow = Inr now \<and> prepare_from_credential mpp num_text now context auth = Inr rec
       \<and> records_payment mpp num_text now context auth rec
       \<and> fnv_unit env (hist @ [FnNow]) (FnPrepare context rec) = Inr ()
       \<and> hist' = hist @ [FnNow, FnPrepare context rec, FnFetch request])
     \<or> (r = Inl PayShPaymentNotSentErr
         \<and> (\<exists>context rec. hist' \<in> {hist, hist @ [FnNow], hist @ [FnNow, FnPrepare context rec]})))"
proof -
  have c: "truthy (Some auth)" using assms(4) by (simp add: truthy_def)
  show ?thesis
    using assms(1) prepared_record_sound [of mpp num_text _ _ auth] unfolding fencedFetch_def logged_fence_def
    by (simp add: assms(2,3,5) c pbind_def pcatch_def pget_def praise_def plift_def ask_beside_def
        split: if_splits option.splits sum.splits prod.splits)
      (auto simp: truthy_iff)
qed

definition demo_fence_challenge :: mpp_challenge where
  "demo_fence_challenge = \<lparr> mc_id = JStr ''c'', mc_method = ''solana'', mc_intent = ''charge'',
     mc_request = JObj [(''amount'', JStr ''5''), (''currency'', JStr ''USDC''), (''recipient'', JStr ''op''),
       (''externalId'', JStr ''human-document-krw-7#a''),
       (''methodDetails'', JObj [(''network'', JStr ''devnet''), (''feePayer'', JBool True), (''feePayerKey'', JStr ''kms''),
          (''recentBlockhash'', JStr (replicate 32 (CHR ''h''))),
          (''splits'', JArr [JObj [(''recipient'', JStr ''o''), (''amount'', JStr ''4'')]])])],
     mc_expires = Some ''soon'' \<rparr>"

definition demo_fence_mpp :: mpp_lib where
  "demo_fence_mpp = demo_mpp\<lparr> ml_credential := (\<lambda>_. Some \<lparr> mcr_challenge = demo_fence_challenge,
       mcr_payload = JObj [(''type'', JStr ''transaction''), (''transaction'', JStr ''AAAA'')] \<rparr>) \<rparr>"

definition demo_context :: payment_context where
  "demo_context = \<lparr> dpc_jobId = ''job'', dpc_attemptId = ''i'', dpc_resource = demo_resource, dpc_signerAddress = ''kms'',
     dpc_operatorWallet = ''op'' \<rparr>"

definition demo_record :: prepare_record where
  "demo_record = \<lparr> ppr_quoteId = ''q'', ppr_payer = ''kms'', ppr_platformRecipientWallet = ''op'', ppr_challengeId = JStr ''c'',
     ppr_externalId = ''human-document-krw-7#a'', ppr_signedTransactionBase64 = ''AAAA'',
     ppr_recentBlockhash = replicate 32 (CHR ''h''), ppr_challengeExpiresAt = Num 1500 \<rparr>"

definition demo_fenced_request :: fenced_request where
  "demo_fenced_request = \<lparr> fq_url = ''u'', fq_origin = ''g'', fq_authorization = Some ''x'', fq_attemptId = Some ''i'' \<rparr>"

lemma demo_fence_record: "prepare_from_credential demo_fence_mpp (\<lambda>_. ''7'') 1000 demo_context ''x'' = Inr demo_record"
proof -
  have n: "bigint_of ''4'' = Some 4" "bigint_of ''5'' = Some 5" "bigint_of ''1'' = Some 1" by code_simp+
  have d: "resource_devnet demo_resource" by (simp add: resource_devnet_def demo_resource_def)
  have e: "is_safe_integer (Num 1500)" "\<not> jle (Num 1500) (Num 1000)"
    by (simp_all add: is_safe_integer_def Num_def max_safe_integer_def)
  show ?thesis
    by (simp add: prepare_from_credential_def demo_fence_mpp_def demo_mpp_def demo_fence_challenge_def demo_context_def
        validatePayShChallenge_def challenge_expiry_def truthy_def n d e Let_def arr_or_empty_def json_or_def)
      (simp add: demo_resource_def n owner_split_def elem_def challenge_external_ok_def starts_with_def demo_record_def
          max_safe_integer_def)
qed

theorem paid_transport_is_durable_first_witness:
  "\<exists>rec. prepare_from_credential demo_fence_mpp (\<lambda>_. ''7'') 1000 demo_context ''x'' = Inr rec
     \<and> snd (snd (fencedFetch demo_fence_mpp (\<lambda>_. ''7'') ''g''
          (logged_fence \<lparr> fnv_now = (\<lambda>_ _. Inr 1000), fnv_unit = (\<lambda>_ _. Inr ()), fnv_response = (\<lambda>_ _. Inr ()) \<rparr>)
          demo_fenced_request ([(''i'', demo_context)], [])))
       = [FnNow, FnPrepare demo_context rec, FnFetch demo_fenced_request]"
proof -
  let ?env = "\<lparr> fnv_now = (\<lambda>_ _. Inr 1000), fnv_unit = (\<lambda>_ _. Inr ()), fnv_response = (\<lambda>_ _. Inr ()) \<rparr>"
  have run: "fencedFetch demo_fence_mpp (\<lambda>_. ''7'') ''g'' (logged_fence ?env) demo_fenced_request ([(''i'', demo_context)], [])
      = (Inr (), ([(''i'', demo_context)], [FnNow, FnPrepare demo_context demo_record, FnFetch demo_fenced_request]))"
    by (simp add: fencedFetch_def logged_fence_def demo_fenced_request_def pbind_def pcatch_def pget_def plift_def ask_beside_def
        truthy_def demo_fence_record) (simp add: demo_fence_mpp_def demo_mpp_def demo_context_def)
  have s: "fq_origin demo_fenced_request = ''g''" "fq_authorization demo_fenced_request = Some ''x''"
      "fq_attemptId demo_fenced_request = Some ''i''" "truthy (ml_extractPaymentScheme demo_fence_mpp ''x'')"
    by (simp_all add: demo_fenced_request_def demo_fence_mpp_def demo_mpp_def truthy_def)
  show ?thesis
    using paid_transport_is_durable_first [OF run s(1,2) _ s(4)] by (auto simp: run s(3))
qed

end
